(* ===== verification/Py_Prelude.thy ===== *)
theory Py_Prelude
  imports Complex_Main "HOL-Library.AList"
begin

text \<open>
  Shared vocabulary of the development: the Python values the backend passes around
  (JSON-like data, \<open>pyval\<close>), the string methods and coercions the code applies to
  them (\<^verbatim>\<open>str(x or "").strip().lower()\<close>, \<^verbatim>\<open>int(x)\<close>, \<^verbatim>\<open>bool(x)\<close>, \<^verbatim>\<open>d.get(k)\<close>),
  dictionaries as insertion-ordered association lists, exceptions as the left side of a sum,
  and two contracts used by several components: an idempotent normaliser
  (\<open>token_normalizer\<close>) and a transition system with an invariant (\<open>invariant_system\<close>).

  Bounds of the value model: a Python string is a list of code points below 256 (type
  \<open>string\<close>), on which \<open>strip\<close> and \<open>lower\<close> are Python's; numbers inside \<open>pyval\<close> are
  integers; dictionary keys are strings, as in parsed JSON. Clock readings and delays
  (Python floats) are exact rationals where a component uses them.
\<close>

section \<open>Strings\<close>

text \<open>\<^verbatim>\<open>str.isspace\<close> on the first 256 code points.\<close>

definition is_space :: "char \<Rightarrow> bool" where
  "is_space c = (let n = (of_char c :: nat) in
     (9 \<le> n \<and> n \<le> 13) \<or> (28 \<le> n \<and> n \<le> 32) \<or> n = 133 \<or> n = 160)"

definition strip :: "string \<Rightarrow> string" where
  "strip s = rev (dropWhile is_space (rev (dropWhile is_space s)))"

definition lower_char :: "char \<Rightarrow> char" where
  "lower_char c = (let n = (of_char c :: nat) in
     if (65 \<le> n \<and> n \<le> 90) \<or> (192 \<le> n \<and> n \<le> 222 \<and> n \<noteq> 215)
     then char_of (n + 32) else c)"

definition lower :: "string \<Rightarrow> string" where
  "lower s = map lower_char s"

text \<open>\<^verbatim>\<open>str.upper\<close> on ASCII letters (the code only upper-cases HTTP method names).\<close>

definition upper_char :: "char \<Rightarrow> char" where
  "upper_char c = (let n = (of_char c :: nat) in
     if 97 \<le> n \<and> n \<le> 122 then char_of (n - 32) else c)"

definition upper :: "string \<Rightarrow> string" where
  "upper s = map upper_char s"

definition startswith :: "string \<Rightarrow> string \<Rightarrow> bool" where
  "startswith s p = (take (length p) s = p)"

definition endswith :: "string \<Rightarrow> string \<Rightarrow> bool" where
  "endswith s p = (length p \<le> length s \<and> drop (length s - length p) s = p)"

definition replace_char :: "char \<Rightarrow> char \<Rightarrow> string \<Rightarrow> string" where
  "replace_char a b s = map (\<lambda>c. if c = a then b else c) s"

fun join :: "string \<Rightarrow> string list \<Rightarrow> string" where
  "join sep [] = []"
| "join sep [s] = s"
| "join sep (s # t # ts) = s @ sep @ join sep (t # ts)"

text \<open>\<^verbatim>\<open>s or d\<close> on strings.\<close>

definition sor :: "string \<Rightarrow> string \<Rightarrow> string" where
  "sor s d = (if s = [] then d else s)"

text \<open>\<^verbatim>\<open>s or None\<close> on strings.\<close>

definition snone :: "string \<Rightarrow> string option" where
  "snone s = (if s = [] then None else Some s)"

section \<open>Values\<close>

datatype pyval =
    PNone
  | PBool bool
  | PInt int
  | PStr string
  | PList "pyval list"
  | PDict "(string \<times> pyval) list"

type_synonym pydict = "(string \<times> pyval) list"

fun truthy :: "pyval \<Rightarrow> bool" where
  "truthy PNone = False"
| "truthy (PBool b) = b"
| "truthy (PInt i) = (i \<noteq> 0)"
| "truthy (PStr s) = (s \<noteq> [])"
| "truthy (PList xs) = (xs \<noteq> [])"
| "truthy (PDict d) = (d \<noteq> [])"

text \<open>\<^verbatim>\<open>a or b\<close>.\<close>

definition por :: "pyval \<Rightarrow> pyval \<Rightarrow> pyval" where
  "por a b = (if truthy a then a else b)"

subsection \<open>\<^verbatim>\<open>str()\<close> and \<^verbatim>\<open>repr()\<close>\<close>

fun nat_str :: "nat \<Rightarrow> string" where
  "nat_str n = (if n < 10 then [char_of (48 + n)] else nat_str (n div 10) @ [char_of (48 + n mod 10)])"

declare nat_str.simps [simp del]

definition int_str :: "int \<Rightarrow> string" where
  "int_str i = (if i < 0 then CHR ''-'' # nat_str (nat (- i)) else nat_str (nat i))"

definition hex_digit :: "nat \<Rightarrow> char" where
  "hex_digit n = (if n < 10 then char_of (48 + n) else char_of (87 + n))"

definition repr_char :: "char \<Rightarrow> char \<Rightarrow> string" where
  "repr_char q c = (let n = (of_char c :: nat) in
     if c = q \<or> n = 92 then [CHR 0x5C, c]
     else if n = 10 then [CHR 0x5C, CHR ''n'']
     else if n = 13 then [CHR 0x5C, CHR ''r'']
     else if n = 9 then [CHR 0x5C, CHR ''t'']
     else if n < 32 \<or> (127 \<le> n \<and> n \<le> 160) \<or> n = 173
       then [CHR 0x5C, CHR ''x'', hex_digit (n div 16), hex_digit (n mod 16)]
     else [c])"

definition repr_str :: "string \<Rightarrow> string" where
  "repr_str s = (let q = (if CHR 0x27 \<in> set s \<and> CHR 0x22 \<notin> set s then CHR 0x22 else CHR 0x27)
     in [q] @ concat (map (repr_char q) s) @ [q])"

fun py_repr :: "pyval \<Rightarrow> string"
  and py_repr_list :: "pyval list \<Rightarrow> string list"
  and py_repr_items :: "(string \<times> pyval) list \<Rightarrow> string list" where
  "py_repr PNone = ''None''"
| "py_repr (PBool b) = (if b then ''True'' else ''False'')"
| "py_repr (PInt i) = int_str i"
| "py_repr (PStr s) = repr_str s"
| "py_repr (PList vs) = ''['' @ join '', '' (py_repr_list vs) @ '']''"
| "py_repr (PDict d) = ''{'' @ join '', '' (py_repr_items d) @ ''}''"
| "py_repr_list [] = []"
| "py_repr_list (v # vs) = py_repr v # py_repr_list vs"
| "py_repr_items [] = []"
| "py_repr_items ((k, v) # d) = (repr_str k @ '': '' @ py_repr v) # py_repr_items d"

fun py_str :: "pyval \<Rightarrow> string" where
  "py_str (PStr s) = s"
| "py_str v = py_repr v"

text \<open>\<^verbatim>\<open>str(x or "").strip()\<close> and \<^verbatim>\<open>str(x or "").strip().lower()\<close>, the two
  coercions nearly every entry point of the backend starts with.\<close>

definition text_of :: "pyval \<Rightarrow> string" where
  "text_of v = strip (py_str (por v (PStr [])))"

definition token_of :: "pyval \<Rightarrow> string" where
  "token_of v = lower (text_of v)"

text \<open>\<^verbatim>\<open>str(x or default).strip() or default\<close>.\<close>

definition text_default :: "pyval \<Rightarrow> string \<Rightarrow> string" where
  "text_default v d = sor (strip (py_str (por v (PStr d)))) d"

subsection \<open>\<^verbatim>\<open>json.dumps\<close>\<close>

text \<open>With the default separators; the first argument is \<^verbatim>\<open>ensure_ascii\<close>, the second \<^verbatim>\<open>sort_keys\<close>.\<close>

definition json_char :: "bool \<Rightarrow> char \<Rightarrow> string" where
  "json_char asc c = (let n = (of_char c :: nat) in
     if n = 34 \<or> n = 92 then [CHR 0x5C, c]
     else if n = 10 then [CHR 0x5C, CHR ''n'']
     else if n = 13 then [CHR 0x5C, CHR ''r'']
     else if n = 9 then [CHR 0x5C, CHR ''t'']
     else if n = 8 then [CHR 0x5C, CHR ''b'']
     else if n = 12 then [CHR 0x5C, CHR ''f'']
     else if n < 32 \<or> (asc \<and> 128 \<le> n)
       then [CHR 0x5C, CHR ''u'', CHR ''0'', CHR ''0'', hex_digit (n div 16), hex_digit (n mod 16)]
     else [c])"

definition json_str :: "bool \<Rightarrow> string \<Rightarrow> string" where
  "json_str asc s = [CHR 0x22] @ concat (map (json_char asc) s) @ [CHR 0x22]"

fun str_le :: "string \<Rightarrow> string \<Rightarrow> bool" where
  "str_le [] t = True"
| "str_le (c # s) [] = False"
| "str_le (c # s) (d # t) =
     ((of_char c :: nat) < of_char d \<or> (c = d \<and> str_le s t))"

fun insert_key :: "string \<times> 'v \<Rightarrow> (string \<times> 'v) list \<Rightarrow> (string \<times> 'v) list" where
  "insert_key p [] = [p]"
| "insert_key p (q # d) = (if str_le (fst p) (fst q) then p # q # d else q # insert_key p d)"

fun json_dumps :: "bool \<Rightarrow> bool \<Rightarrow> pyval \<Rightarrow> string"
  and json_list :: "bool \<Rightarrow> bool \<Rightarrow> pyval list \<Rightarrow> string list"
  and json_items :: "bool \<Rightarrow> bool \<Rightarrow> (string \<times> pyval) list \<Rightarrow> (string \<times> string) list" where
  "json_dumps asc srt PNone = ''null''"
| "json_dumps asc srt (PBool b) = (if b then ''true'' else ''false'')"
| "json_dumps asc srt (PInt i) = int_str i"
| "json_dumps asc srt (PStr s) = json_str asc s"
| "json_dumps asc srt (PList vs) = ''['' @ join '', '' (json_list asc srt vs) @ '']''"
| "json_dumps asc srt (PDict d) =
     ''{'' @ join '', '' (map (\<lambda>(k, t). json_str asc k @ '': '' @ t)
        (if srt then foldr insert_key (json_items asc srt d) [] else json_items asc srt d)) @ ''}''"
| "json_list asc srt [] = []"
| "json_list asc srt (v # vs) = json_dumps asc srt v # json_list asc srt vs"
| "json_items asc srt [] = []"
| "json_items asc srt ((k, v) # d) = (k, json_dumps asc srt v) # json_items asc srt d"

text \<open>The length of the UTF-8 encoding.\<close>

definition utf8_len :: "string \<Rightarrow> int" where
  "utf8_len s = sum_list (map (\<lambda>c. if (of_char c :: nat) < 128 then 1 else 2) s)"

subsection \<open>\<^verbatim>\<open>int()\<close>\<close>

definition is_digit :: "char \<Rightarrow> bool" where
  "is_digit c = (let n = (of_char c :: nat) in 48 \<le> n \<and> n \<le> 57)"

fun parse_digits :: "int \<Rightarrow> bool \<Rightarrow> string \<Rightarrow> int option" where
  "parse_digits acc prev [] = (if prev then Some acc else None)"
| "parse_digits acc prev (c # cs) =
     (if is_digit c then parse_digits (acc * 10 + (int (of_char c) - 48)) True cs
      else if c = CHR ''_'' \<and> prev then parse_digits acc False cs
      else None)"

definition parse_int :: "string \<Rightarrow> int option" where
  "parse_int s = (case strip s of
       [] \<Rightarrow> None
     | c # cs \<Rightarrow> if c = CHR ''-'' then map_option uminus (parse_digits 0 False cs)
                else if c = CHR ''+'' then parse_digits 0 False cs
                else parse_digits 0 False (c # cs))"

text \<open>\<open>None\<close> is \<^verbatim>\<open>TypeError\<close> or \<^verbatim>\<open>ValueError\<close>.\<close>

fun py_int :: "pyval \<Rightarrow> int option" where
  "py_int (PBool b) = Some (if b then 1 else 0)"
| "py_int (PInt i) = Some i"
| "py_int (PStr s) = parse_int s"
| "py_int _ = None"

subsection \<open>Dictionaries\<close>

text \<open>\<^verbatim>\<open>d.get(k)\<close>, \<^verbatim>\<open>d.get(k, default)\<close>, \<^verbatim>\<open>d[k] = v\<close> (in place when the key is
  there, appended otherwise), \<^verbatim>\<open>d.pop(k, None)\<close>, \<^verbatim>\<open>{**a, **b}\<close>.\<close>

definition dget :: "pydict \<Rightarrow> string \<Rightarrow> pyval" where
  "dget d k = (case map_of d k of None \<Rightarrow> PNone | Some v \<Rightarrow> v)"

definition dget_default :: "pydict \<Rightarrow> string \<Rightarrow> pyval \<Rightarrow> pyval" where
  "dget_default d k v0 = (case map_of d k of None \<Rightarrow> v0 | Some v \<Rightarrow> v)"

abbreviation dset :: "string \<Rightarrow> 'v \<Rightarrow> (string \<times> 'v) list \<Rightarrow> (string \<times> 'v) list" where
  "dset \<equiv> AList.update"

abbreviation dpop :: "string \<Rightarrow> (string \<times> 'v) list \<Rightarrow> (string \<times> 'v) list" where
  "dpop \<equiv> AList.delete"

definition dmerge :: "(string \<times> 'v) list \<Rightarrow> (string \<times> 'v) list \<Rightarrow> (string \<times> 'v) list" where
  "dmerge a b = fold (\<lambda>(k, v) d. dset k v d) b a"

text \<open>\<^verbatim>\<open>x if isinstance(x, dict) else {}\<close>, the same for lists, and an optional string as a value.\<close>

fun as_dict :: "pyval \<Rightarrow> pydict" where
  "as_dict (PDict d) = d"
| "as_dict _ = []"

fun as_list :: "pyval \<Rightarrow> pyval list" where
  "as_list (PList xs) = xs"
| "as_list _ = []"

fun is_dict :: "pyval \<Rightarrow> bool" where
  "is_dict (PDict d) = True"
| "is_dict _ = False"

definition opt_str :: "string option \<Rightarrow> pyval" where
  "opt_str o' = (case o' of None \<Rightarrow> PNone | Some s \<Rightarrow> PStr s)"

section \<open>Results\<close>

fun rbind :: "'e + 'a \<Rightarrow> ('a \<Rightarrow> 'e + 'b) \<Rightarrow> 'e + 'b" where
  "rbind (Inl e) f = Inl e"
| "rbind (Inr x) f = f x"

definition of_option :: "'e \<Rightarrow> 'a option \<Rightarrow> 'e + 'a" where
  "of_option e m = (case m of None \<Rightarrow> Inl e | Some x \<Rightarrow> Inr x)"

section \<open>Shared lemmas\<close>

named_theorems str_simps \<open>normal forms of the string coercions\<close>
named_theorems dict_simps \<open>reading a dictionary after it was changed\<close>
named_theorems res_simps \<open>unfolding sequenced results\<close>

subsection \<open>Strings\<close>

lemma is_space_lower_char [simp]: "is_space (lower_char c) = is_space c"
  by (simp add: is_space_def lower_char_def Let_def)

lemma lower_char_idem [simp]: "lower_char (lower_char c) = lower_char c"
  by (simp add: lower_char_def Let_def)

lemma lower_idem [simp]: "lower (lower s) = lower s"
  by (simp add: lower_def)

lemma lower_eq_Nil [simp]: "lower s = [] \<longleftrightarrow> s = []"
  by (simp add: lower_def)

lemma length_lower [simp]: "length (lower s) = length s"
  by (simp add: lower_def)

lemma dropWhile_lower: "dropWhile is_space (map lower_char s) = map lower_char (dropWhile is_space s)"
  by (simp add: dropWhile_map comp_def)

lemma strip_lower [str_simps]: "strip (lower s) = lower (strip s)"
  by (simp add: strip_def lower_def dropWhile_lower rev_map)

lemma rstrip_Cons: "\<not> P x \<Longrightarrow> dropWhile P (rev (x # xs)) = dropWhile P (rev xs) @ [x]"
  by (simp add: dropWhile_append dropWhile_eq_Nil_conv)

lemma strip_cases:
  obtains (blank) "dropWhile is_space s = []" "strip s = []"
  | (solid) x xs where "dropWhile is_space s = x # xs" "\<not> is_space x"
      "strip s = x # rev (dropWhile is_space (rev xs))"
proof (cases "dropWhile is_space s")
  case Nil
  then have "strip s = []" by (simp only: strip_def rev.simps dropWhile.simps)
  with Nil show ?thesis by (rule blank)
next
  case (Cons x xs)
  then have nsp: "\<not> is_space x" by (simp add: dropWhile_eq_Cons_conv)
  have "strip s = x # rev (dropWhile is_space (rev xs))"
    unfolding strip_def Cons rstrip_Cons [of is_space, OF nsp] by simp
  with Cons nsp show ?thesis by (rule solid)
qed

lemma strip_hd: "strip s \<noteq> [] \<Longrightarrow> \<not> is_space (hd (strip s))"
  by (cases s rule: strip_cases) auto

lemma strip_last: "strip s \<noteq> [] \<Longrightarrow> \<not> is_space (last (strip s))"
  unfolding strip_def by (metis hd_dropWhile last_rev rev_is_Nil_conv)

lemma dropWhile_hd: "xs \<noteq> [] \<Longrightarrow> \<not> P (hd xs) \<Longrightarrow> dropWhile P xs = xs"
  by (cases xs) auto

lemma strip_idem [simp]: "strip (strip s) = strip s"
proof (cases "strip s = []")
  case True
  then show ?thesis by (simp add: strip_def [of "[]"])
next
  case False
  then have "dropWhile is_space (strip s) = strip s"
    by (simp add: dropWhile_hd strip_hd)
  moreover have "dropWhile is_space (rev (strip s)) = rev (strip s)"
    using False by (simp add: dropWhile_hd hd_rev strip_last)
  ultimately show ?thesis by (simp add: strip_def [of "strip s"])
qed

lemma strip_id: "s \<noteq> [] \<Longrightarrow> \<not> is_space (hd s) \<Longrightarrow> \<not> is_space (last s) \<Longrightarrow> strip s = s"
  unfolding strip_def by (simp add: dropWhile_hd hd_rev)

lemma strip_Nil [simp]: "strip [] = []"
  by (simp add: strip_def)

lemma sor_Nil [simp]: "sor [] d = d"
  by (simp add: sor_def)

lemma sor_eq_Nil [simp]: "sor s d = [] \<longleftrightarrow> s = [] \<and> d = []"
  by (simp add: sor_def)

lemma text_of_PStr [str_simps]: "text_of (PStr s) = strip s"
  by (simp add: text_of_def por_def)

lemma text_of_PNone [simp]: "text_of PNone = []"
  by (simp add: text_of_def por_def)

lemma token_of_PStr [str_simps]: "token_of (PStr s) = lower (strip s)"
  by (simp add: token_of_def text_of_PStr)

lemma token_of_PNone [simp]: "token_of PNone = []"
  by (simp add: token_of_def lower_def)

lemma strip_text_of [simp]: "strip (text_of v) = text_of v"
  by (simp add: text_of_def)

lemma strip_token_of [simp]: "strip (token_of v) = token_of v"
  by (simp add: token_of_def strip_lower)

lemma lower_token_of [simp]: "lower (token_of v) = token_of v"
  by (simp add: token_of_def)

lemma token_of_token [simp]: "token_of (PStr (token_of v)) = token_of v"
  by (simp add: token_of_PStr)

lemma text_of_text [simp]: "text_of (PStr (text_of v)) = text_of v"
  by (simp add: text_of_PStr)

lemma startswith_append [simp]: "startswith (p @ s) p"
  by (simp add: startswith_def)

lemma startswith_iff: "startswith s p \<longleftrightarrow> (\<exists>r. s = p @ r)"
  by (metis append_eq_conv_conj startswith_def)

lemma endswith_iff: "endswith s p \<longleftrightarrow> (\<exists>r. s = r @ p)"
  unfolding endswith_def
  by (metis append_take_drop_id diff_add_inverse2 drop_append drop_all diff_self_eq_0 drop0
      le_add2 length_append append_Nil order_refl)

text \<open>\<^verbatim>\<open>str()\<close> of integers is injective: reading the decimal digits back gives the number.\<close>

definition digits_value :: "string \<Rightarrow> nat" where
  "digits_value = foldl (\<lambda>a c. a * 10 + (of_char c - 48)) 0"

lemma nat_str_value: "digits_value (nat_str n) = n"
proof (induction n rule: nat_str.induct)
  case (1 n)
  show ?case
  proof (cases "n < 10")
    case True
    then show ?thesis by (simp add: nat_str.simps [of n] digits_value_def)
  next
    case False
    then have "digits_value (nat_str (n div 10)) = n div 10" using 1 by simp
    then show ?thesis using False
      by (simp add: nat_str.simps [of n] digits_value_def)
  qed
qed

lemma nat_str_no_sign: "CHR ''-'' \<notin> set (nat_str n)"
proof (induction n rule: nat_str.induct)
  case (1 n)
  have digit: "char_of (48 + k) \<noteq> CHR ''-''" if "k < 10" for k :: nat
  proof
    assume "char_of (48 + k) = CHR ''-''"
    then have "(of_char (char_of (48 + k)) :: nat) = of_char (CHR ''-'')" by simp
    then show False using that by simp
  qed
  show ?case
    using 1 digit [of n] digit [of "n mod 10"]
    by (cases "n < 10") (auto simp: nat_str.simps [of n])
qed

lemma int_str_inject: "int_str i = int_str j \<longleftrightarrow> i = j"
proof
  assume "int_str i = int_str j"
  moreover have "nat_str (nat k) \<noteq> CHR ''-'' # s" for k s
    using nat_str_no_sign [of "nat k"] by auto
  ultimately have "(i < 0 \<longleftrightarrow> j < 0) \<and> nat_str (nat \<bar>i\<bar>) = nat_str (nat \<bar>j\<bar>)"
    unfolding int_str_def by (smt (verit) list.inject)
  then have "(i < 0 \<longleftrightarrow> j < 0) \<and> nat \<bar>i\<bar> = nat \<bar>j\<bar>"
    by (metis nat_str_value)
  then show "i = j" by linarith
qed simp

subsection \<open>Dictionaries\<close>

lemma dget_dset [dict_simps]: "dget (dset k v d) k' = (if k' = k then v else dget d k')"
  by (simp add: dget_def update_conv)

lemma dget_dpop [dict_simps]: "dget (dpop k d) k' = (if k' = k then PNone else dget d k')"
  by (simp add: dget_def delete_conv)

lemma dget_Nil [simp]: "dget [] k = PNone"
  by (simp add: dget_def)

lemma dget_Cons [dict_simps]: "dget ((k, v) # d) k' = (if k' = k then v else dget d k')"
  by (simp add: dget_def)

lemma map_of_dset [dict_simps]: "map_of (dset k v d) k' = (if k' = k then Some v else map_of d k')"
  by (simp add: update_conv)

lemma map_of_dpop [dict_simps]: "map_of (dpop k d) k' = (if k' = k then None else map_of d k')"
  by (simp add: delete_conv)

lemma dmerge_Nil [simp]: "dmerge a [] = a"
  by (simp add: dmerge_def)

lemma dmerge_Cons [simp]: "dmerge a ((k, v) # b) = dmerge (dset k v a) b"
  by (simp add: dmerge_def)

lemma map_of_dmerge:
  "distinct (map fst b) \<Longrightarrow> map_of (dmerge a b) k = (case map_of b k of Some v \<Rightarrow> Some v | None \<Rightarrow> map_of a k)"
proof (induction b arbitrary: a)
  case Nil
  then show ?case by simp
next
  case (Cons p b)
  obtain k' v' where p: "p = (k', v')" by (cases p)
  with Cons show ?case
    by (auto simp: map_of_dset split: option.splits)
      (metis map_of_SomeD fst_conv image_eqI option.discI weak_map_of_SomeI)+
qed

lemma distinct_dset [simp]: "distinct (map fst d) \<Longrightarrow> distinct (map fst (dset k v d))"
  by (rule distinct_update)

lemma distinct_dpop [simp]: "distinct (map fst d) \<Longrightarrow> distinct (map fst (dpop k d))"
  by (rule distinct_delete)

lemma distinct_dmerge: "distinct (map fst a) \<Longrightarrow> distinct (map fst (dmerge a b))"
  by (induction b arbitrary: a) auto

lemma dset_new: "k \<notin> fst ` set d \<Longrightarrow> dset k v d = d @ [(k, v)]"
  by (induction d) auto

subsection \<open>Results\<close>

lemma rbind_Inr_iff [res_simps]: "rbind m f = Inr y \<longleftrightarrow> (\<exists>x. m = Inr x \<and> f x = Inr y)"
  by (cases m) auto

lemma of_option_Inr_iff [res_simps]: "of_option e m = Inr x \<longleftrightarrow> m = Some x"
  by (simp add: of_option_def split: option.split)

lemma of_option_Inl_iff [res_simps]: "of_option e m = Inl e' \<longleftrightarrow> m = None \<and> e' = e"
  by (auto simp: of_option_def split: option.split)

subsection \<open>Counting\<close>

lemma length_filter_dset_le:
  "length (filter P (dset k v d)) \<le> Suc (length (filter P d))"
  by (induction d) auto

lemma length_filter_mono: "(\<And>x. x \<in> set xs \<Longrightarrow> P x \<Longrightarrow> Q x) \<Longrightarrow> length (filter P xs) \<le> length (filter Q xs)"
  by (induction xs) (auto simp: le_SucI)

section \<open>Shared contracts\<close>

text \<open>A normaliser maps every value into a set of canonical tokens and leaves the canonical
  tokens alone. Re-reading a stored token is then harmless.\<close>

locale token_normalizer =
  fixes norm :: "pyval \<Rightarrow> string"
    and canon :: "string set"
  assumes norm_canon: "norm v \<in> canon"
    and norm_fix: "t \<in> canon \<Longrightarrow> norm (PStr t) = t"
begin

lemma norm_idem: "norm (PStr (norm v)) = norm v"
  by (simp add: norm_canon norm_fix)

lemma norm_range: "range norm = canon"
proof
  show "range norm \<subseteq> canon" by (auto simp: norm_canon)
  show "canon \<subseteq> range norm" by (metis norm_fix rangeI subsetI)
qed

end

text \<open>Runs of a labelled step relation.\<close>

inductive trace :: "('s \<Rightarrow> 'a \<Rightarrow> 's \<Rightarrow> bool) \<Rightarrow> 's \<Rightarrow> 'a list \<Rightarrow> 's \<Rightarrow> bool" for step where
  trace_Nil: "trace step s [] s"
| trace_snoc: "trace step s as s' \<Longrightarrow> step s' a s'' \<Longrightarrow> trace step s (as @ [a]) s''"

lemma trace_invariant:
  assumes "trace step s as s'" and "I s" and "\<And>s a s'. I s \<Longrightarrow> step s a s' \<Longrightarrow> I s'"
  shows "I s'"
  using assms(1,2) by (induction rule: trace.induct) (auto intro: assms(3))

lemma trace_one: "step s a s' \<Longrightarrow> trace step s [a] s'"
  using trace_snoc [OF trace_Nil] by fastforce

text \<open>A transition system whose steps keep an invariant keeps it along every run.\<close>

locale invariant_system =
  fixes step :: "'s \<Rightarrow> 'e \<Rightarrow> 's"
    and inv :: "'s \<Rightarrow> bool"
  assumes step_inv: "inv s \<Longrightarrow> inv (step s e)"
begin

lemma run_inv: "inv s \<Longrightarrow> inv (foldl step s es)"
  by (induction es arbitrary: s) (auto simp: step_inv)

lemma every_state_inv: "inv s \<Longrightarrow> n \<le> length es \<Longrightarrow> inv (foldl step s (take n es))"
  by (rule run_inv)

end

end
