(* ===== verification/Authority.thy ===== *)
theory Authority
  imports Py_Prelude
begin

text \<open>
  Who may do what inside a turn: \<^verbatim>\<open>server_modules/authority_mandate_service.py\<close> (the
  owner-only floor under tool calls, tiers and their inheritance) and
  \<^verbatim>\<open>server_modules/mention_gating_service.py\<close> (whether an inbound group message is
  skipped because nobody addressed the agent).

  Every argument the Python code takes as \<^verbatim>\<open>object\<close> or \<^verbatim>\<open>Any\<close> is a \<open>pyval\<close> here, so the
  coercions at the top of each function are part of the model. A Python set of kinds is a
  \<open>PList\<close>: the code only intersects it.
\<close>

section \<open>Tiers\<close>

definition TIER_OWNER :: string where "TIER_OWNER = ''owner''"
definition TIER_AUDIENCE :: string where "TIER_AUDIENCE = ''audience''"
definition TIER_SYSTEM :: string where "TIER_SYSTEM = ''system''"

definition VALID_TIERS :: "string list" where
  "VALID_TIERS = [TIER_OWNER, TIER_AUDIENCE, TIER_SYSTEM]"

definition derive_tier_from_sender_class :: "pyval \<Rightarrow> string" where
  "derive_tier_from_sender_class sender_class =
     (if token_of sender_class = TIER_OWNER then TIER_OWNER else TIER_AUDIENCE)"

definition derive_tier_from_owner_flag :: "pyval \<Rightarrow> string" where
  "derive_tier_from_owner_flag is_owner = (if truthy is_owner then TIER_OWNER else TIER_AUDIENCE)"

definition normalize_tier :: "pyval \<Rightarrow> string" where
  "normalize_tier v = (let token = token_of v in
     if token \<in> set VALID_TIERS then token else TIER_AUDIENCE)"

definition inherit_tier :: "pyval \<Rightarrow> string" where
  "inherit_tier parent_tier = normalize_tier parent_tier"

text \<open>The tier carried by the \<open>n\<close>-th piece of work spawned, each from the one before
  (a run that schedules a wake-up that delegates \<dots>).\<close>

fun spawned_tier :: "nat \<Rightarrow> pyval \<Rightarrow> string" where
  "spawned_tier 0 t = normalize_tier t"
| "spawned_tier (Suc n) t = inherit_tier (PStr (spawned_tier n t))"

section \<open>The owner-only floor\<close>

definition OWNER_ONLY_TOOL_PREFIXES :: "string list" where
  "OWNER_ONLY_TOOL_PREFIXES = [''fleet__'', ''goal__'']"

definition OWNER_ONLY_CONNECTOR_IDS :: "string list" where
  "OWNER_ONLY_CONNECTOR_IDS = [''fleet'', ''goal'']"

definition OWNER_ONLY_TOOL_NAMES :: "string list" where
  "OWNER_ONLY_TOOL_NAMES = [''empyralis_configure_agent'']"

definition is_owner_only_tool :: "pyval \<Rightarrow> pyval \<Rightarrow> pyval \<Rightarrow> bool" where
  "is_owner_only_tool tool_name connector_id action_id =
     (let name = token_of tool_name; connector = token_of connector_id in
      if name \<noteq> [] \<and> name \<in> set OWNER_ONLY_TOOL_NAMES then True
      else if name \<noteq> [] \<and> list_ex (startswith name) OWNER_ONLY_TOOL_PREFIXES then True
      else if connector \<noteq> [] \<and> connector \<in> set OWNER_ONLY_CONNECTOR_IDS then True
      else False)"

definition is_tool_call_allowed :: "pyval \<Rightarrow> pyval \<Rightarrow> pyval \<Rightarrow> pyval \<Rightarrow> bool" where
  "is_tool_call_allowed tier tool_name connector_id action_id =
     (if normalize_tier tier = TIER_OWNER then True
      else \<not> is_owner_only_tool tool_name connector_id action_id)"

lemmas tier_defs = TIER_OWNER_def TIER_AUDIENCE_def TIER_SYSTEM_def VALID_TIERS_def
lemmas owner_only_defs = OWNER_ONLY_TOOL_PREFIXES_def OWNER_ONLY_CONNECTOR_IDS_def
  OWNER_ONLY_TOOL_NAMES_def

section \<open>Mention gating\<close>

definition IMPLICIT_MENTION_KIND_REPLY_TO_AGENT :: string where
  "IMPLICIT_MENTION_KIND_REPLY_TO_AGENT = ''reply_to_agent''"

definition KNOWN_IMPLICIT_MENTION_KINDS :: "string list" where
  "KNOWN_IMPLICIT_MENTION_KINDS = [IMPLICIT_MENTION_KIND_REPLY_TO_AGENT]"

datatype mention_error = NotIterable

text \<open>Iterating a value: a list's elements, a string's characters, a dictionary's keys;
  anything else raises \<^verbatim>\<open>TypeError\<close>.\<close>

fun py_iter :: "pyval \<Rightarrow> mention_error + pyval list" where
  "py_iter (PList xs) = Inr xs"
| "py_iter (PStr s) = Inr (map (\<lambda>c. PStr [c]) s)"
| "py_iter (PDict d) = Inr (map (\<lambda>p. PStr (fst p)) d)"
| "py_iter _ = Inl NotIterable"

record mention_decision =
  should_skip :: bool
  effective_was_mentioned :: bool

definition resolve_inbound_mention_decision ::
    "pydict \<Rightarrow> pydict \<Rightarrow> mention_error + mention_decision" where
  "resolve_inbound_mention_decision facts policy =
     (if \<not> truthy (dget policy ''is_group'')
      then Inr \<lparr>should_skip = False, effective_was_mentioned = True\<rparr>
      else
        let require_mention = truthy (dget policy ''require_mention'');
            can_detect_mention = truthy (dget_default facts ''can_detect_mention'' (PBool True));
            was_mentioned = truthy (dget facts ''was_mentioned'');
            allowed_implicit_raw = dget policy ''allowed_implicit_mention_kinds''
        in rbind (if allowed_implicit_raw \<noteq> PNone
                  then map_sum id (map py_str) (py_iter allowed_implicit_raw)
                  else Inr KNOWN_IMPLICIT_MENTION_KINDS)
             (\<lambda>allowed_implicit_kinds.
           rbind (map_sum id (map py_str) (py_iter (por (dget facts ''implicit_mention_kinds'') (PList []))))
             (\<lambda>implicit_kinds.
                let implicit_mention = list_ex (\<lambda>k. k \<in> set allowed_implicit_kinds) implicit_kinds;
                    effective = (was_mentioned \<or> implicit_mention)
                in Inr \<lparr>should_skip = (require_mention \<and> can_detect_mention \<and> \<not> effective),
                        effective_was_mentioned = effective\<rparr>)))"

definition mention_facts_from_message :: "pydict \<Rightarrow> pydict" where
  "mention_facts_from_message message =
     [(''can_detect_mention'', PBool True),
      (''was_mentioned'', PBool (truthy (dget message ''is_mentioned''))),
      (''implicit_mention_kinds'',
         PList (if truthy (dget message ''is_reply_to_sage'')
                then [PStr IMPLICIT_MENTION_KIND_REPLY_TO_AGENT] else []))]"

section \<open>Lemmas\<close>

text \<open>\<^const>\<open>normalize_tier\<close> is a normaliser onto the three valid tiers, so a tier read back
  from storage any number of times is the tier first recorded.\<close>

interpretation tiers: token_normalizer normalize_tier "set VALID_TIERS"
proof unfold_locales
  show "normalize_tier v \<in> set VALID_TIERS" for v
    by (simp add: normalize_tier_def Let_def VALID_TIERS_def)
next
  fix t assume "t \<in> set VALID_TIERS"
  moreover have "token_of (PStr x) = x" if "x \<in> {''owner'', ''audience'', ''system''}" for x
    using that by (auto simp: token_of_PStr) code_simp+
  ultimately show "normalize_tier (PStr t) = t"
    by (simp add: normalize_tier_def Let_def tier_defs)
qed

lemma normalize_tier_owner_iff: "normalize_tier v = TIER_OWNER \<longleftrightarrow> token_of v = TIER_OWNER"
  by (auto simp: normalize_tier_def Let_def tier_defs)

lemma spawned_tier_const: "spawned_tier n t = normalize_tier t"
  by (induction n) (simp_all add: inherit_tier_def tiers.norm_idem)

lemma is_owner_only_tool_iff:
  "is_owner_only_tool tool conn act \<longleftrightarrow>
     token_of tool = ''empyralis_configure_agent'' \<or>
     (\<exists>r. token_of tool = ''fleet__'' @ r) \<or> (\<exists>r. token_of tool = ''goal__'' @ r) \<or>
     token_of conn = ''fleet'' \<or> token_of conn = ''goal''"
  by (auto simp: is_owner_only_tool_def Let_def owner_only_defs startswith_iff)

lemma py_iter_reply: "map_sum id (map py_str) (py_iter (PList [PStr s])) = Inr [s]"
  by simp

lemma mention_decision_of_message:
  assumes "dget policy ''allowed_implicit_mention_kinds'' = PNone"
  shows "resolve_inbound_mention_decision (mention_facts_from_message message) policy =
    (let addressed = truthy (dget message ''is_mentioned'') \<or> truthy (dget message ''is_reply_to_sage'');
         is_group = truthy (dget policy ''is_group'')
     in Inr \<lparr>should_skip = (is_group \<and> truthy (dget policy ''require_mention'') \<and> \<not> addressed),
             effective_was_mentioned = (\<not> is_group \<or> addressed)\<rparr>)"
  using assms
  by (simp add: resolve_inbound_mention_decision_def mention_facts_from_message_def Let_def
      dget_default_def dget_Cons por_def KNOWN_IMPLICIT_MENTION_KINDS_def)

section \<open>Properties\<close>

text \<open>The mandate rule, completely: a tool call is allowed exactly when the turn's tier
  reads (after trimming and lower-casing) as owner, or the call is not machine
  administration, i.e. its name is not \<^verbatim>\<open>empyralis_configure_agent\<close>, does not begin with
  \<^verbatim>\<open>fleet__\<close> or \<^verbatim>\<open>goal__\<close>, and its connector is neither \<^verbatim>\<open>fleet\<close> nor \<^verbatim>\<open>goal\<close>.
  Whatever else is passed as a tier never reaches the owner branch.\<close>

theorem tool_call_allowed_iff:
  "is_tool_call_allowed tier tool conn act \<longleftrightarrow>
     token_of tier = ''owner'' \<or>
     (token_of tool \<noteq> ''empyralis_configure_agent'' \<and>
      \<not> startswith (token_of tool) ''fleet__'' \<and> \<not> startswith (token_of tool) ''goal__'' \<and>
      token_of conn \<notin> {''fleet'', ''goal''})"
  using normalize_tier_owner_iff [of tier]
  by (auto simp: is_tool_call_allowed_def is_owner_only_tool_iff startswith_iff TIER_OWNER_def)

text \<open>No privilege escalation by spawning: however long the chain of runs, wake-ups and
  delegations, work started from a turn may call exactly the tools that turn may call.\<close>

theorem spawned_work_keeps_mandate:
  "is_tool_call_allowed (PStr (spawned_tier n tier)) tool conn act =
   is_tool_call_allowed tier tool conn act"
  by (simp add: is_tool_call_allowed_def spawned_tier_const tiers.norm_idem)

text \<open>Mention gating never reads message content: two messages that agree on the two
  platform facts \<^verbatim>\<open>is_mentioned\<close> and \<^verbatim>\<open>is_reply_to_sage\<close> get the same decision under every
  policy, whatever their text, sender or other fields.\<close>

theorem mention_gate_ignores_content:
  assumes "truthy (dget m1 ''is_mentioned'') = truthy (dget m2 ''is_mentioned'')"
    and "truthy (dget m1 ''is_reply_to_sage'') = truthy (dget m2 ''is_reply_to_sage'')"
  shows "resolve_inbound_mention_decision (mention_facts_from_message m1) policy =
         resolve_inbound_mention_decision (mention_facts_from_message m2) policy"
  using assms by (simp add: mention_facts_from_message_def)

theorem mention_gate_ignores_content_witness:
  "resolve_inbound_mention_decision
     (mention_facts_from_message [(''text'', PStr ''@sage hi''), (''is_mentioned'', PBool False)])
     [(''is_group'', PBool True), (''require_mention'', PBool True)] =
   resolve_inbound_mention_decision
     (mention_facts_from_message [(''text'', PStr ''lunch?'')])
     [(''is_group'', PBool True), (''require_mention'', PBool True)]"
  by (rule mention_gate_ignores_content) (simp_all add: dget_Cons)

text \<open>With the default implicit kinds, a message is skipped exactly when it is in a group,
  the owner asked for mentions, and it neither mentions the agent nor replies to it; a direct
  message always counts as addressed.\<close>

theorem mention_gate_formula:
  assumes "dget policy ''allowed_implicit_mention_kinds'' = PNone"
  shows "\<exists>d. resolve_inbound_mention_decision (mention_facts_from_message message) policy = Inr d \<and>
     should_skip d = (truthy (dget policy ''is_group'') \<and> truthy (dget policy ''require_mention'') \<and>
       \<not> truthy (dget message ''is_mentioned'') \<and> \<not> truthy (dget message ''is_reply_to_sage'')) \<and>
     effective_was_mentioned d = (\<not> truthy (dget policy ''is_group'') \<or>
       truthy (dget message ''is_mentioned'') \<or> truthy (dget message ''is_reply_to_sage''))"
  unfolding mention_decision_of_message [OF assms] by (simp add: Let_def)

theorem mention_gate_formula_witness:
  "\<exists>d. resolve_inbound_mention_decision (mention_facts_from_message [(''is_reply_to_sage'', PBool True)])
         [(''is_group'', PBool True), (''require_mention'', PBool True)] = Inr d \<and> \<not> should_skip d"
  using mention_gate_formula [of "[(''is_group'', PBool True), (''require_mention'', PBool True)]"
      "[(''is_reply_to_sage'', PBool True)]"]
  by (auto simp: dget_Cons)

end
