(* ===== verification/Capability_Registry.thy ===== *)
theory Capability_Registry
  imports Py_Prelude
begin

text \<open>
  The capability contracts of \<^verbatim>\<open>server_modules/capability_registry.py\<close>: the registry table
  (65 contracts, in five definitions of fifteen contracts each, in source order), the alias
  and workflow tables, and the functions that turn a workflow node, a tool variant or a stored
  policy into the id of a contract. The kill switch consulted by \<^verbatim>\<open>resolve_capability\<close> is
  \<^verbatim>\<open>safe_mode_service.is_capability_disabled\<close>, an argument here.
\<close>

section \<open>Contracts\<close>

record capability_contract =
  capability_id :: string
  display_name :: string
  risk_level :: string
  requires_approval :: bool
  reversible :: bool
  required_os_permissions :: "string list"
  allowed_environments :: "string list"
  artifact_outputs :: "string list"

definition contract ::
    "string \<Rightarrow> string \<Rightarrow> string \<Rightarrow> bool \<Rightarrow> bool \<Rightarrow> string list \<Rightarrow> string list \<Rightarrow> string list
     \<Rightarrow> capability_contract" where
  "contract cid name risk approval undoable perms envs outs =
     \<lparr>capability_id = cid, display_name = name, risk_level = risk, requires_approval = approval,
      reversible = undoable, required_os_permissions = perms, allowed_environments = envs,
      artifact_outputs = outs\<rparr>"

definition capability_registry_1 :: "(string \<times> capability_contract) list" where
  "capability_registry_1 =
    [(''workflow.trigger.manual'', contract ''workflow.trigger.manual'' ''Manual Workflow Trigger''
        ''low'' False True []
        [''hosted'', ''local_companion''] []),
     (''workflow.trigger.schedule'', contract ''workflow.trigger.schedule'' ''Scheduled Workflow Trigger''
        ''low'' False True []
        [''hosted'', ''local_companion''] []),
     (''workflow.trigger.webhook'', contract ''workflow.trigger.webhook'' ''Webhook Workflow Trigger''
        ''low'' False True []
        [''hosted'', ''local_companion''] []),
     (''workflow.trigger.connector_event'', contract ''workflow.trigger.connector_event'' ''Connector Workflow Trigger''
        ''low'' False True []
        [''hosted'', ''local_companion''] []),
     (''workflow.trigger.workflow'', contract ''workflow.trigger.workflow'' ''Workflow-to-Workflow Trigger''
        ''low'' False True []
        [''hosted'', ''local_companion''] []),
     (''workflow.trigger.file_watch'', contract ''workflow.trigger.file_watch'' ''File Watch Trigger''
        ''medium'' True True [''filesystem'']
        [''local_companion''] []),
     (''workflow.agent.execute'', contract ''workflow.agent.execute'' ''Workflow Agent Step''
        ''low'' False True []
        [''hosted'', ''local_companion''] [''text/plain'', ''application/json'']),
     (''workflow.decision.if_else'', contract ''workflow.decision.if_else'' ''Conditional Decision''
        ''low'' False True []
        [''hosted'', ''local_companion''] [''application/json'']),
     (''workflow.decision.classifier'', contract ''workflow.decision.classifier'' ''Classifier Decision''
        ''low'' False True []
        [''hosted'', ''local_companion''] [''application/json'']),
     (''workflow.decision.field_router'', contract ''workflow.decision.field_router'' ''Field Router Decision''
        ''low'' False True []
        [''hosted'', ''local_companion''] [''application/json'']),
     (''workflow.human.approval'', contract ''workflow.human.approval'' ''Human Approval Checkpoint''
        ''low'' False True []
        [''hosted'', ''local_companion''] [''application/json'']),
     (''workflow.human.review'', contract ''workflow.human.review'' ''Human Review Checkpoint''
        ''low'' False True []
        [''hosted'', ''local_companion''] [''application/json'']),
     (''workflow.human.wait_for_reply'', contract ''workflow.human.wait_for_reply'' ''Wait For Reply Checkpoint''
        ''low'' False True []
        [''hosted'', ''local_companion''] [''application/json'']),
     (''workflow.data.transform'', contract ''workflow.data.transform'' ''Transform Data''
        ''low'' False True []
        [''hosted'', ''local_companion''] [''application/json'']),
     (''workflow.data.compose'', contract ''workflow.data.compose'' ''Compose Data''
        ''low'' False True []
        [''hosted'', ''local_companion''] [''application/json''])]"

definition capability_registry_2 :: "(string \<times> capability_contract) list" where
  "capability_registry_2 =
    [(''workflow.data.validate'', contract ''workflow.data.validate'' ''Validate Data''
        ''low'' False True []
        [''hosted'', ''local_companion''] [''application/json'']),
     (''workflow.subflow.call_workflow'', contract ''workflow.subflow.call_workflow'' ''Call Subflow''
        ''low'' False True []
        [''hosted'', ''local_companion''] [''application/json'']),
     (''workflow.loop.for_each'', contract ''workflow.loop.for_each'' ''For Each Loop''
        ''low'' False True []
        [''hosted'', ''local_companion''] [''application/json'']),
     (''workflow.loop.while'', contract ''workflow.loop.while'' ''While Loop''
        ''low'' False True []
        [''hosted'', ''local_companion''] [''application/json'']),
     (''workflow.loop.repeat'', contract ''workflow.loop.repeat'' ''Repeat Loop''
        ''low'' False True []
        [''hosted'', ''local_companion''] [''application/json'']),
     (''screenshot.capture'', contract ''screenshot.capture'' ''Capture Screenshot''
        ''medium'' True True [''screen_recording'']
        [''local_companion'', ''cloud_computer''] [''image/png'']),
     (''computer_control.ocr'', contract ''computer_control.ocr'' ''Read Screen Text''
        ''critical'' True True [''screen_recording'']
        [''local_companion''] [''text/plain'']),
     (''computer_control.move'', contract ''computer_control.move'' ''Move Mouse''
        ''critical'' True True [''accessibility'']
        [''local_companion''] []),
     (''computer_control.click'', contract ''computer_control.click'' ''Click Screen''
        ''critical'' True True [''accessibility'']
        [''local_companion''] []),
     (''computer_control.type'', contract ''computer_control.type'' ''Type Into App''
        ''critical'' True True [''accessibility'']
        [''local_companion''] []),
     (''computer_control.clipboard_read'', contract ''computer_control.clipboard_read'' ''Read Clipboard''
        ''critical'' True True [''clipboard'']
        [''local_companion''] [''text/plain'']),
     (''computer_control.clipboard_write'', contract ''computer_control.clipboard_write'' ''Write Clipboard''
        ''critical'' True True [''clipboard'']
        [''local_companion''] []),
     (''computer_control.launch_app'', contract ''computer_control.launch_app'' ''Launch Application''
        ''critical'' True True [''accessibility'']
        [''local_companion''] []),
     (''computer_control.notify'', contract ''computer_control.notify'' ''Show Notification''
        ''critical'' True True [''notifications'']
        [''local_companion''] []),
     (''computer_control.list_apps'', contract ''computer_control.list_apps'' ''List Running Apps''
        ''critical'' True True [''accessibility'']
        [''local_companion''] [''application/json''])]"

definition capability_registry_3 :: "(string \<times> capability_contract) list" where
  "capability_registry_3 =
    [(''computer_control.applescript'', contract ''computer_control.applescript'' ''Run AppleScript''
        ''critical'' True False [''automation'']
        [''local_companion''] [''text/plain'']),
     (''computer_control.speak'', contract ''computer_control.speak'' ''Speak Text''
        ''critical'' True True [''audio_output'']
        [''local_companion''] []),
     (''browser_automation.interactive'', contract ''browser_automation.interactive'' ''Interactive Browser Automation''
        ''medium'' False True []
        [''local_companion'', ''hosted''] [''text/html'', ''image/png'', ''application/json'']),
     (''shell.execute'', contract ''shell.execute'' ''Execute Shell Command''
        ''critical'' True False [''filesystem'', ''process_execution'']
        [''local_companion''] [''text/plain'', ''application/json'']),
     (''filesystem.write'', contract ''filesystem.write'' ''Write File''
        ''medium'' True True [''filesystem'']
        [''local_companion''] [''text/plain'']),
     (''filesystem.read'', contract ''filesystem.read'' ''Read File''
        ''medium'' True True [''filesystem'']
        [''local_companion''] [''text/plain'']),
     (''filesystem.read_write'', contract ''filesystem.read_write'' ''Read Or Write Files''
        ''medium'' True True [''filesystem'']
        [''local_companion''] [''text/plain'']),
     (''http_request'', contract ''http_request'' ''HTTP Request''
        ''medium'' True True [''network'']
        [''hosted'', ''local_companion''] [''application/json'', ''text/plain'']),
     (''connector.action.read'', contract ''connector.action.read'' ''Read Connector Data''
        ''low'' False True []
        [''hosted'', ''local_companion''] [''application/json'', ''text/plain'']),
     (''connector.action.write'', contract ''connector.action.write'' ''Write Connector Data''
        ''medium'' True True []
        [''hosted'', ''local_companion''] [''application/json'', ''text/plain'']),
     (''connector.action.execute'', contract ''connector.action.execute'' ''Execute Connector Action''
        ''medium'' True True []
        [''hosted'', ''local_companion''] [''application/json'', ''text/plain'']),
     (''send_message'', contract ''send_message'' ''Send Message''
        ''medium'' True True []
        [''hosted'', ''local_companion''] [''application/json'']),
     (''draft_email'', contract ''draft_email'' ''Draft Email''
        ''medium'' True True []
        [''hosted'', ''local_companion''] [''application/json'']),
     (''create_calendar_event'', contract ''create_calendar_event'' ''Create Calendar Event''
        ''medium'' True True []
        [''hosted'', ''local_companion''] [''application/json'']),
     (''spreadsheet_read'', contract ''spreadsheet_read'' ''Read Spreadsheet''
        ''low'' False True []
        [''hosted'', ''local_companion''] [''application/json'', ''text/plain''])]"

definition capability_registry_4 :: "(string \<times> capability_contract) list" where
  "capability_registry_4 =
    [(''spreadsheet_create'', contract ''spreadsheet_create'' ''Create Spreadsheet''
        ''medium'' True True []
        [''hosted'', ''local_companion''] [''application/json'']),
     (''spreadsheet_update'', contract ''spreadsheet_update'' ''Update Spreadsheet''
        ''medium'' True True []
        [''hosted'', ''local_companion''] [''application/json'']),
     (''spreadsheet_append'', contract ''spreadsheet_append'' ''Append Spreadsheet''
        ''medium'' True True []
        [''hosted'', ''local_companion''] [''application/json'']),
     (''document_create'', contract ''document_create'' ''Create Document''
        ''medium'' True True []
        [''hosted'', ''local_companion''] [''application/json'']),
     (''document_update'', contract ''document_update'' ''Update Document''
        ''medium'' True True []
        [''hosted'', ''local_companion''] [''application/json'']),
     (''presentation_create'', contract ''presentation_create'' ''Create Presentation''
        ''medium'' True True []
        [''hosted'', ''local_companion''] [''application/json'']),
     (''presentation_update'', contract ''presentation_update'' ''Update Presentation''
        ''medium'' True True []
        [''hosted'', ''local_companion''] [''application/json'']),
     (''issue_write'', contract ''issue_write'' ''Write Issue Tracker''
        ''medium'' True True []
        [''hosted'', ''local_companion''] [''application/json'']),
     (''pr_write'', contract ''pr_write'' ''Write Pull Request''
        ''medium'' True True []
        [''hosted'', ''local_companion''] [''application/json'']),
     (''repo_write'', contract ''repo_write'' ''Write Repository''
        ''medium'' True True []
        [''hosted'', ''local_companion''] [''application/json'']),
     (''notion_write'', contract ''notion_write'' ''Write Notion''
        ''medium'' True True []
        [''hosted'', ''local_companion''] [''application/json'']),
     (''storage_write'', contract ''storage_write'' ''Write External Storage''
        ''medium'' True True []
        [''hosted'', ''local_companion''] [''application/json'']),
     (''external_research'', contract ''external_research'' ''External Research''
        ''low'' False True [''network'']
        [''hosted'', ''local_companion''] [''application/json'', ''text/plain'']),
     (''publish_content'', contract ''publish_content'' ''Publish Content''
        ''medium'' True True []
        [''hosted'', ''local_companion''] [''application/json'']),
     (''code.execute_reviewed'', contract ''code.execute_reviewed'' ''Reviewed Code Execution''
        ''critical'' True False [''filesystem'', ''process_execution'']
        [''local_companion''] [''text/plain'', ''application/json''])]"

definition capability_registry_5 :: "(string \<times> capability_contract) list" where
  "capability_registry_5 =
    [(''image_generation'', contract ''image_generation'' ''Generate Image''
        ''medium'' False True []
        [''hosted'', ''local_companion''] [''image/png'']),
     (''video_generation'', contract ''video_generation'' ''Generate Video''
        ''medium'' False True []
        [''hosted'', ''local_companion''] [''video/mp4'']),
     (''text_to_speech'', contract ''text_to_speech'' ''Text To Speech''
        ''low'' False True []
        [''hosted'', ''local_companion''] [''audio/mpeg'']),
     (''speech_to_text'', contract ''speech_to_text'' ''Speech To Text''
        ''low'' False True []
        [''hosted'', ''local_companion''] [''text/plain'']),
     (''computer_control'', contract ''computer_control'' ''Computer Control''
        ''critical'' True True [''accessibility'', ''screen_recording'', ''clipboard'']
        [''local_companion''] [''image/png'', ''text/plain'', ''application/json''])]"

definition CAPABILITY_REGISTRY :: "(string \<times> capability_contract) list" where
  "CAPABILITY_REGISTRY = capability_registry_1 @ capability_registry_2 @ capability_registry_3 @
     capability_registry_4 @ capability_registry_5"

section \<open>Aliases and workflow tables\<close>

definition capability_aliases :: "(string \<times> string) list" where
  "capability_aliases =
    [(''read_write_files'', ''filesystem.read_write''),
     (''capture_screenshot'', ''screenshot.capture''),
     (''browser_automation'', ''browser_automation.interactive''),
     (''execute_shell_command'', ''shell.execute''),
     (''browser.interactive'', ''browser_automation.interactive'')]"

definition workflow_node_capability_ids :: "(string \<times> string) list" where
  "workflow_node_capability_ids =
    [(''trigger:manual'', ''workflow.trigger.manual''),
     (''trigger:schedule'', ''workflow.trigger.schedule''),
     (''trigger:webhook'', ''workflow.trigger.webhook''),
     (''trigger:connector_event'', ''workflow.trigger.connector_event''),
     (''trigger:workflow'', ''workflow.trigger.workflow''),
     (''trigger:file_watch'', ''workflow.trigger.file_watch''),
     (''agent:'', ''workflow.agent.execute''),
     (''decision:if_else'', ''workflow.decision.if_else''),
     (''decision:classifier'', ''workflow.decision.classifier''),
     (''decision:field_router'', ''workflow.decision.field_router''),
     (''human:approval'', ''workflow.human.approval''),
     (''human:review'', ''workflow.human.review''),
     (''human:wait_for_reply'', ''workflow.human.wait_for_reply''),
     (''data:transform'', ''workflow.data.transform''),
     (''data:compose'', ''workflow.data.compose''),
     (''data:validate'', ''workflow.data.validate''),
     (''subflow:call_workflow'', ''workflow.subflow.call_workflow''),
     (''loop:for_each'', ''workflow.loop.for_each''),
     (''loop:while'', ''workflow.loop.while''),
     (''loop:repeat'', ''workflow.loop.repeat'')]"

definition connector_action_capability_map :: "(string \<times> string) list" where
  "connector_action_capability_map =
    [(''send_email'', ''send_message''),
     (''send_message'', ''send_message''),
     (''send_embed'', ''send_message''),
     (''send_dm'', ''send_message''),
     (''delete_message'', ''send_message''),
     (''post_reply'', ''send_message''),
     (''publish_reply'', ''send_message''),
     (''send_media'', ''send_message''),
     (''update_message'', ''send_message''),
     (''upload_file'', ''send_message''),
     (''create_issue'', ''issue_write''),
     (''comment_on_issue'', ''issue_write''),
     (''update_issue'', ''issue_write''),
     (''add_comment'', ''issue_write''),
     (''create_pull_request'', ''pr_write''),
     (''create_or_update_file'', ''repo_write''),
     (''create_page'', ''notion_write''),
     (''update_page'', ''notion_write''),
     (''append_blocks'', ''notion_write''),
     (''create_database_item'', ''notion_write''),
     (''draft_email'', ''draft_email''),
     (''create_calendar_event'', ''create_calendar_event''),
     (''create_doc'', ''document_create''),
     (''create_document'', ''document_create''),
     (''create_sheet'', ''spreadsheet_create''),
     (''create_spreadsheet'', ''spreadsheet_create''),
     (''upload_drive_file'', ''filesystem.read_write''),
     (''http_request'', ''http_request''),
     (''signed_webhook'', ''http_request''),
     (''delete'', ''storage_write''),
     (''move'', ''storage_write''),
     (''delete_object'', ''storage_write''),
     (''create_bucket'', ''storage_write''),
     (''publish_content'', ''publish_content''),
     (''external_research'', ''external_research'')]"

definition read_only_connector_actions :: "string list" where
  "read_only_connector_actions =
    [''fetch_emails'',
     ''list_calendar_events'',
     ''list_drive_files'',
     ''list_channels'',
     ''get_history'',
     ''list_guilds'',
     ''list_members'',
     ''get_message_history'',
     ''list_repos'',
     ''get_repo'',
     ''list_issues'',
     ''list_pull_requests'',
     ''get_file_content'',
     ''list_buckets'',
     ''list_objects'',
     ''download_file'',
     ''get_presigned_url'',
     ''list_folder'',
     ''search'',
     ''get_page'',
     ''query_database'',
     ''list_teams'',
     ''list_projects'',
     ''get_issue'',
     ''list_commits'']"

section \<open>Resolution\<close>

definition normalize_token :: "pyval \<Rightarrow> string" where
  "normalize_token v = replace_char CHR '' '' CHR ''_'' (token_of v)"

definition canonical_capability_id :: "pyval \<Rightarrow> string" where
  "canonical_capability_id cid =
     (let token = token_of cid in
      if token = [] then []
      else case map_of capability_aliases token of Some t \<Rightarrow> t | None \<Rightarrow> token)"

definition document_capability_id :: "pydict \<Rightarrow> string" where
  "document_capability_id cfg =
     (let operation = normalize_token (por (dget cfg ''operation'') (por (dget cfg ''mode'') (PStr ''create'')));
          file_path = token_of (por (dget cfg ''file_path'') (dget cfg ''path''));
          updating = operation \<in> {''update'', ''edit'', ''append''}
      in if endswith file_path ''.pptx''
         then (if updating then ''presentation_update'' else ''presentation_create'')
         else (if updating then ''document_update'' else ''document_create''))"

definition spreadsheet_capability_id :: "pydict \<Rightarrow> string" where
  "spreadsheet_capability_id cfg =
     (let operation = normalize_token (por (dget cfg ''operation'') (por (dget cfg ''mode'') (PStr ''read'')))
      in if operation = ''append'' then ''spreadsheet_append''
         else if operation \<in> {''update'', ''edit''} then ''spreadsheet_update''
         else if operation \<in> {''create'', ''new''} then ''spreadsheet_create''
         else ''spreadsheet_read'')"

definition connector_action_capability_id :: "pydict \<Rightarrow> string" where
  "connector_action_capability_id cfg =
     (let action_id = normalize_token (dget cfg ''action_id'');
          connector_id = normalize_token (dget cfg ''connector'')
      in case map_of connector_action_capability_map action_id of
           Some c \<Rightarrow> c
         | None \<Rightarrow>
             if connector_id = ''custom_api'' \<and> action_id \<in> {''http_request'', ''signed_webhook''}
               then ''http_request''
             else if action_id \<in> set read_only_connector_actions then ''connector.action.read''
             else if action_id \<noteq> [] then ''connector.action.write''
             else ''connector.action.execute'')"

definition workflow_tool_capability_id :: "pyval \<Rightarrow> pydict \<Rightarrow> string" where
  "workflow_tool_capability_id variant cfg =
     (let clean_variant = normalize_token variant in
      if clean_variant = ''browser'' then ''browser_automation.interactive''
      else if clean_variant = ''file'' then ''filesystem.read_write''
      else if clean_variant = ''shell'' then ''shell.execute''
      else if clean_variant = ''code'' then ''code.execute_reviewed''
      else if clean_variant = ''http'' then ''http_request''
      else if clean_variant = ''document'' then document_capability_id cfg
      else if clean_variant = ''spreadsheet'' then spreadsheet_capability_id cfg
      else if clean_variant = ''connector_action'' then connector_action_capability_id cfg
      else ''connector.action.execute'')"

definition workflow_node_capability_id :: "pyval \<Rightarrow> pyval \<Rightarrow> pydict \<Rightarrow> pydict \<Rightarrow> string" where
  "workflow_node_capability_id node_type variant cfg policy =
     (let existing = normalize_token (dget policy ''capability_id'');
          resolved = canonical_capability_id (PStr existing)
      in if existing \<noteq> [] \<and> resolved \<in> set (map fst CAPABILITY_REGISTRY) then resolved
         else
           let clean_type = normalize_token node_type; clean_variant = normalize_token variant
           in if clean_type = ''tool'' then workflow_tool_capability_id (PStr clean_variant) cfg
              else case map_of workflow_node_capability_ids (clean_type @ '':'' @ clean_variant) of
                     Some t \<Rightarrow> t
                   | None \<Rightarrow>
                       (case map_of workflow_node_capability_ids (clean_type @ '':'') of
                          Some t \<Rightarrow> t
                        | None \<Rightarrow> ''connector.action.execute''))"

definition resolve_capability ::
    "(string \<Rightarrow> bool) \<Rightarrow> pyval \<Rightarrow> bool \<Rightarrow> capability_contract option" where
  "resolve_capability is_capability_disabled cid enforce_kill_switch =
     (let canonical = canonical_capability_id cid in
      if canonical = [] then None
      else case map_of CAPABILITY_REGISTRY canonical of
             None \<Rightarrow> None
           | Some c \<Rightarrow> if enforce_kill_switch \<and> is_capability_disabled canonical then None else Some c)"

section \<open>Lemmas\<close>

lemmas registry_parts = CAPABILITY_REGISTRY_def capability_registry_1_def capability_registry_2_def
  capability_registry_3_def capability_registry_4_def capability_registry_5_def

definition tool_capability_ids :: "string list" where
  "tool_capability_ids =
     [''browser_automation.interactive'', ''filesystem.read_write'', ''shell.execute'',
      ''code.execute_reviewed'', ''http_request'', ''presentation_update'', ''presentation_create'',
      ''document_update'', ''document_create'', ''spreadsheet_append'', ''spreadsheet_update'',
      ''spreadsheet_create'', ''spreadsheet_read'', ''connector.action.read'',
      ''connector.action.write'', ''connector.action.execute'']
     @ map snd connector_action_capability_map"

abbreviation registered :: "string \<Rightarrow> bool" where
  "registered cid \<equiv> cid \<in> set (map fst CAPABILITY_REGISTRY)"

lemma map_of_snd: "map_of xs k = Some v \<Longrightarrow> v \<in> set (map snd xs)"
  by (force dest: map_of_SomeD)

lemma tool_capability_ids_registered: "list_all registered tool_capability_ids"
  by code_simp

lemma node_capability_ids_registered: "list_all registered (map snd workflow_node_capability_ids)"
  by code_simp

lemma registry_sound:
  "list_all (\<lambda>(k, c). capability_id c = k \<and>
     (risk_level c \<in> {''high'', ''critical''} \<longrightarrow> requires_approval c) \<and>
     risk_level c \<in> {''low'', ''medium'', ''high'', ''critical''} \<and> allowed_environments c \<noteq> [])
   CAPABILITY_REGISTRY"
  by code_simp

lemma connector_action_capability_range: "connector_action_capability_id cfg \<in> set tool_capability_ids"
proof (cases "map_of connector_action_capability_map (normalize_token (dget cfg ''action_id''))")
  case None
  then show ?thesis
    by (simp add: connector_action_capability_id_def Let_def tool_capability_ids_def)
next
  case (Some c)
  then show ?thesis
    using map_of_snd [OF Some] by (simp add: connector_action_capability_id_def Let_def tool_capability_ids_def)
qed

lemma workflow_tool_capability_range: "workflow_tool_capability_id v cfg \<in> set tool_capability_ids"
proof -
  have doc: "document_capability_id cfg \<in> set tool_capability_ids"
    by (simp add: document_capability_id_def Let_def tool_capability_ids_def)
  have sheet: "spreadsheet_capability_id cfg \<in> set tool_capability_ids"
    by (simp add: spreadsheet_capability_id_def Let_def tool_capability_ids_def)
  show ?thesis
    using doc sheet connector_action_capability_range [of cfg]
    by (simp add: workflow_tool_capability_id_def Let_def) (simp add: tool_capability_ids_def)
qed

lemma workflow_tool_registered: "registered (workflow_tool_capability_id v cfg)"
  using workflow_tool_capability_range tool_capability_ids_registered by (metis list_all_iff)

lemma workflow_node_table_registered:
  "map_of workflow_node_capability_ids k = Some t \<Longrightarrow> registered t"
  using node_capability_ids_registered map_of_snd by (metis list_all_iff)

lemma connector_execute_registered: "registered ''connector.action.execute''"
  using tool_capability_ids_registered by (simp add: tool_capability_ids_def)

lemma registry_member:
  assumes "map_of CAPABILITY_REGISTRY k = Some c"
  shows "capability_id c = k" and "risk_level c \<in> {''high'', ''critical''} \<Longrightarrow> requires_approval c"
  using map_of_SomeD [OF assms] registry_sound by (auto simp: list_all_iff)

lemma registered_lookup: "registered k \<longleftrightarrow> (\<exists>c. map_of CAPABILITY_REGISTRY k = Some c)"
  by (metis (no_types, lifting) map_of_eq_None_iff not_None_eq set_map)

section \<open>Properties\<close>

text \<open>No workflow step is without a contract: whatever node type, variant, configuration and
  stored policy a workflow names, the id computed for it is a key of the registry.\<close>

theorem workflow_node_has_contract:
  "\<exists>c. map_of CAPABILITY_REGISTRY (workflow_node_capability_id node_type variant cfg policy) = Some c"
  using workflow_tool_registered [of "PStr (normalize_token variant)" cfg] workflow_node_table_registered
    connector_execute_registered
  by (simp add: workflow_node_capability_id_def Let_def split: option.split flip: registered_lookup)

text \<open>Every contract that can be resolved is filed under its own canonical id, and a contract
  of high or critical risk always asks for approval.\<close>

theorem resolved_contract_sound:
  assumes "resolve_capability disabled cid enforce = Some c"
  shows "capability_id c = canonical_capability_id cid \<and>
    (risk_level c = ''high'' \<or> risk_level c = ''critical'' \<longrightarrow> requires_approval c)"
  using assms registry_member
  by (auto simp: resolve_capability_def Let_def split: if_splits option.splits)

theorem resolved_contract_sound_witness:
  "\<exists>c. resolve_capability (\<lambda>_. False) (PStr '' Execute_Shell_Command'') True = Some c \<and>
       capability_id c = ''shell.execute'' \<and> (risk_level c = ''high'' \<longrightarrow> requires_approval c)"
proof -
  have canon: "canonical_capability_id (PStr '' Execute_Shell_Command'') = ''shell.execute''"
    by code_simp
  have "registered ''shell.execute''" by code_simp
  then obtain c where "map_of CAPABILITY_REGISTRY ''shell.execute'' = Some c"
    unfolding registered_lookup by blast
  then have r: "resolve_capability (\<lambda>_. False) (PStr '' Execute_Shell_Command'') True = Some c"
    by (simp add: resolve_capability_def canon)
  show ?thesis using resolved_contract_sound [OF r] r canon by auto
qed

end
