(* ===== verification/Access_Policy.thy ===== *)
theory Access_Policy
  imports Capability_Registry
begin

text \<open>
  Runtime access modes and hardware approvals:
  \<^verbatim>\<open>server_modules/execution_mode_policy.py\<close> (execution modes, the access mode each gives,
  which modes a runtime target offers) and
  \<^verbatim>\<open>server_modules/hardware_access_policy_service.py\<close> (which actions on an Agent Computer
  must be approved first). \<^verbatim>\<open>re.sub(r"\s+", " ", _)\<close> is \<open>collapse_ws\<close>; \<^verbatim>\<open>in\<close> on strings
  is \<open>contains\<close>.
\<close>

section \<open>Execution modes\<close>

definition GUARDED_RUNTIME_ACCESS_MODE :: string where "GUARDED_RUNTIME_ACCESS_MODE = ''default_guarded''"
definition FULL_RUNTIME_ACCESS_MODE :: string where "FULL_RUNTIME_ACCESS_MODE = ''full_access''"
definition CUSTOM_RUNTIME_ACCESS_MODE :: string where "CUSTOM_RUNTIME_ACCESS_MODE = ''custom''"

definition SUPPORTED_EXECUTION_MODES :: "string list" where
  "SUPPORTED_EXECUTION_MODES = [''default'', ''approval_mode'', ''autopilot'', ''custom'', ''full_access'']"

definition RUNTIME_TARGET_MODE_MATRIX :: "(string \<times> string list) list" where
  "RUNTIME_TARGET_MODE_MATRIX =
    [(''cloud_default'', [''default'', ''approval_mode'']),
     (''sage_cloud_computer'', [''default'', ''approval_mode'', ''autopilot'', ''custom'', ''full_access'']),
     (''empyralis_cloud_computer'', [''default'', ''approval_mode'', ''autopilot'', ''custom'', ''full_access'']),
     (''local_companion'', [''default'', ''approval_mode'', ''autopilot'', ''custom'', ''full_access'']),
     (''user_device_gateway'', [''default'', ''approval_mode'', ''autopilot'', ''custom'', ''full_access'']),
     (''self_host_runtime'', [''default'', ''approval_mode'', ''autopilot'', ''custom'', ''full_access'']),
     (''self_hosted_node'', [''default'', ''approval_mode'', ''autopilot'', ''custom'', ''full_access''])]"

record mode_definition =
  label :: string
  mode_description :: string
  destructive_actions_require_approval :: bool
  external_send_requires_approval :: bool
  dangerous_shell_requires_approval :: bool
  runtime_access_mode :: string
  session_grant_allowed :: bool
  requires_explicit_selection :: bool
  requires_owner_approval :: bool
  setup_warning :: "string option"

definition MODE_DEFINITIONS :: "(string \<times> mode_definition) list" where
  "MODE_DEFINITIONS =
    [(''default'',
      \<lparr>label = ''Default'',
       mode_description = ''This agent can use obvious low-risk tools and asks before risky actions.'',
       destructive_actions_require_approval = True, external_send_requires_approval = True,
       dangerous_shell_requires_approval = True, runtime_access_mode = GUARDED_RUNTIME_ACCESS_MODE,
       session_grant_allowed = False, requires_explicit_selection = False,
       requires_owner_approval = False, setup_warning = None\<rparr>),
     (''approval_mode'',
      \<lparr>label = ''Approvals'',
       mode_description = ''This agent asks before tools that touch private data, external channels, or execution surfaces.'',
       destructive_actions_require_approval = True, external_send_requires_approval = True,
       dangerous_shell_requires_approval = True, runtime_access_mode = GUARDED_RUNTIME_ACCESS_MODE,
       session_grant_allowed = True, requires_explicit_selection = True,
       requires_owner_approval = False, setup_warning = None\<rparr>),
     (''autopilot'',
      \<lparr>label = ''Autopilot'',
       mode_description = ''This agent can continue a task in an isolated or policy-scoped runtime, with destructive actions still gated.'',
       destructive_actions_require_approval = True, external_send_requires_approval = True,
       dangerous_shell_requires_approval = True, runtime_access_mode = GUARDED_RUNTIME_ACCESS_MODE,
       session_grant_allowed = True, requires_explicit_selection = True,
       requires_owner_approval = False, setup_warning = None\<rparr>),
     (''custom'',
      \<lparr>label = ''Custom'',
       mode_description = ''Choose what this agent can access, what always asks first, and what is blocked.'',
       destructive_actions_require_approval = True, external_send_requires_approval = True,
       dangerous_shell_requires_approval = True, runtime_access_mode = CUSTOM_RUNTIME_ACCESS_MODE,
       session_grant_allowed = True, requires_explicit_selection = True,
       requires_owner_approval = True, setup_warning = None\<rparr>),
     (''full_access'',
      \<lparr>label = ''Full Access'',
       mode_description = ''For a dedicated Agent Computer. This agent can read, write, delete, run commands, use browser data, and access secrets without per-action approval prompts.'',
       destructive_actions_require_approval = False, external_send_requires_approval = False,
       dangerous_shell_requires_approval = False, runtime_access_mode = FULL_RUNTIME_ACCESS_MODE,
       session_grant_allowed = True, requires_explicit_selection = True,
       requires_owner_approval = True,
       setup_warning = Some ''Full Access lets this agent run commands, read, write, delete files, and access secrets, browser data, tokens, SSH keys, and connected accounts on this Agent Computer; dedicated hardware is recommended.''\<rparr>)]"

definition EXECUTION_MODE_ACCESS_MODE :: "(string \<times> string) list" where
  "EXECUTION_MODE_ACCESS_MODE =
     map (\<lambda>(mode_id, d). (mode_id, sor (runtime_access_mode d) GUARDED_RUNTIME_ACCESS_MODE)) MODE_DEFINITIONS"

text \<open>\<^verbatim>\<open>.strip().lower().replace("-", "_").replace(" ", "_")\<close>.\<close>

definition mode_token :: "pyval \<Rightarrow> string" where
  "mode_token v = replace_char CHR '' '' CHR ''_'' (replace_char CHR ''-'' CHR ''_'' (token_of v))"

definition runtime_access_mode_for_execution_mode :: "pyval \<Rightarrow> string" where
  "runtime_access_mode_for_execution_mode execution_mode =
     (let token = mode_token execution_mode in
      if token = FULL_RUNTIME_ACCESS_MODE then FULL_RUNTIME_ACCESS_MODE
      else if token = CUSTOM_RUNTIME_ACCESS_MODE then CUSTOM_RUNTIME_ACCESS_MODE
      else case map_of EXECUTION_MODE_ACCESS_MODE token of
             Some m \<Rightarrow> m | None \<Rightarrow> GUARDED_RUNTIME_ACCESS_MODE)"

definition normalize_runtime_access_mode :: "pyval \<Rightarrow> pyval \<Rightarrow> string" where
  "normalize_runtime_access_mode v execution_mode =
     (let token = mode_token v in
      if token = FULL_RUNTIME_ACCESS_MODE then FULL_RUNTIME_ACCESS_MODE
      else if token = CUSTOM_RUNTIME_ACCESS_MODE then CUSTOM_RUNTIME_ACCESS_MODE
      else if token \<in> {GUARDED_RUNTIME_ACCESS_MODE, ''guarded'', ''default'', ''approval_mode'', ''autopilot''}
        then GUARDED_RUNTIME_ACCESS_MODE
      else runtime_access_mode_for_execution_mode execution_mode)"

definition public_runtime_access_label :: "pyval \<Rightarrow> string" where
  "public_runtime_access_label v =
     (let mode = normalize_runtime_access_mode v PNone in
      if mode = FULL_RUNTIME_ACCESS_MODE then ''Full Access''
      else if mode = CUSTOM_RUNTIME_ACCESS_MODE then ''Custom'' else ''Default'')"

definition runtime_access_setup_warning :: "pyval \<Rightarrow> string option" where
  "runtime_access_setup_warning v =
     (let mode = normalize_runtime_access_mode v PNone in
      if mode = FULL_RUNTIME_ACCESS_MODE
      then (case map_of MODE_DEFINITIONS ''full_access'' of
              Some d \<Rightarrow> (case setup_warning d of Some w \<Rightarrow> snone (strip w) | None \<Rightarrow> None)
            | None \<Rightarrow> None)
      else None)"

record mode_contract =
  contract_mode_id :: string
  contract_definition :: mode_definition
  available :: bool
  runtime_target_id :: string

definition mode_contract_for_target :: "pyval \<Rightarrow> mode_contract list" where
  "mode_contract_for_target target_id =
     (let target = text_of target_id;
          allowed = (case map_of RUNTIME_TARGET_MODE_MATRIX target of
                       Some ms \<Rightarrow> ms | None \<Rightarrow> [''default'', ''approval_mode'']);
          entry = (\<lambda>mode_id d.
            let d' = (if mode_id = ''autopilot'' \<and> target = ''local_companion''
                      then d\<lparr>requires_owner_approval := True,
                             mode_description := ''This agent can continue a task on the paired physical computer only after explicit owner approval.''\<rparr>
                      else d)
            in \<lparr>contract_mode_id = mode_id, contract_definition = d',
                available = (mode_id \<in> set allowed), runtime_target_id = target\<rparr>)
      in List.map_filter (\<lambda>mode_id. map_option (entry mode_id) (map_of MODE_DEFINITIONS mode_id))
           SUPPORTED_EXECUTION_MODES)"

section \<open>Hardware approvals\<close>

fun contains :: "string \<Rightarrow> string \<Rightarrow> bool" where
  "contains p [] = (p = [])"
| "contains p (c # s) = (startswith (c # s) p \<or> contains p s)"

function collapse_ws :: "string \<Rightarrow> string" where
  "collapse_ws [] = []"
| "collapse_ws (c # s) =
     (if is_space c then CHR '' '' # collapse_ws (dropWhile is_space s) else c # collapse_ws s)"
  by pat_completeness auto
termination
  by (relation "measure length") (auto simp: length_dropWhile_le le_imp_less_Suc)

text \<open>\<^verbatim>\<open>.replace("__", ".")\<close>: left to right, without overlaps.\<close>

fun dunder_to_dot :: "string \<Rightarrow> string" where
  "dunder_to_dot (a # b # s) =
     (if a = CHR ''_'' \<and> b = CHR ''_'' then CHR ''.'' # dunder_to_dot s else a # dunder_to_dot (b # s))"
| "dunder_to_dot s = s"

definition HW_CAPABILITY_ALIASES :: "(string \<times> string) list" where
  "HW_CAPABILITY_ALIASES =
    [(''browser'', ''browser_automation.interactive''),
     (''browser.open'', ''browser_automation.interactive''),
     (''browser.navigate'', ''browser_automation.interactive''),
     (''browser.interactive'', ''browser_automation.interactive''),
     (''browser__open'', ''browser_automation.interactive''),
     (''browser__navigate'', ''browser_automation.interactive''),
     (''file'', ''filesystem.read_write''), (''file.read'', ''filesystem.read''),
     (''file.write'', ''filesystem.write''), (''file.list'', ''filesystem.read''),
     (''file__read'', ''filesystem.read''), (''file__write'', ''filesystem.write''),
     (''file__list'', ''filesystem.read''), (''filesystem'', ''filesystem.read_write''),
     (''screenshot'', ''screenshot.capture''), (''screenshot.capture'', ''screenshot.capture''),
     (''screenshot__capture'', ''screenshot.capture''), (''shell'', ''shell.execute''),
     (''shell.exec'', ''shell.execute''), (''shell.execute'', ''shell.execute''),
     (''shell__exec'', ''shell.execute''), (''shell__execute'', ''shell.execute''),
     (''run'', ''shell.execute''), (''run.command'', ''shell.execute''),
     (''run__command'', ''shell.execute''), (''command'', ''shell.execute'')]"

definition DEFAULT_GUARDED_APPROVAL_CAPABILITIES :: "string list" where
  "DEFAULT_GUARDED_APPROVAL_CAPABILITIES =
    [''computer_control.click'', ''computer_control.type'', ''computer_control.key'',
     ''computer_control.move'', ''computer_control.clipboard_read'',
     ''computer_control.clipboard_write'', ''computer_control.launch'',
     ''computer_control.launch_app'', ''computer_control.applescript'',
     ''computer_control.notify'', ''computer_control.speak'', ''connector.action.write'',
     ''connector.action.execute'', ''send_message'', ''payment.charge'', ''payment.refund'',
     ''payment.transfer'']"

definition DESTRUCTIVE_SHELL_MARKERS :: "string list" where
  "DESTRUCTIVE_SHELL_MARKERS =
    [''rm -rf'', ''rm -r '', ''rm -f '', ''sudo rm'', ''del /f'', ''del /q'', ''rmdir /s'',
     ''format '', ''mkfs'', ''diskutil erase'', ''shred '', ''dd if='', ''chmod -r'', ''chown -r'']"

definition normalize_hardware_capability_id :: "pyval \<Rightarrow> pyval \<Rightarrow> string" where
  "normalize_hardware_capability_id action_id capability =
     (let candidate = sor (text_of capability) (text_of action_id) in
      if candidate = [] then []
      else let lowered = replace_char CHR '' '' CHR ''_'' (lower candidate);
               resolved = (case map_of HW_CAPABILITY_ALIASES lowered of
                             Some t \<Rightarrow> Some t
                           | None \<Rightarrow> map_of HW_CAPABILITY_ALIASES (dunder_to_dot lowered))
           in canonical_capability_id (PStr (case resolved of Some t \<Rightarrow> t | None \<Rightarrow> lowered)))"

record access_metadata =
  meta_runtime_access_mode :: string
  meta_execution_mode :: string
  permission_mode :: string
  approval_mode :: string
  empyralis_action_approvals_enabled :: bool

definition runtime_access_metadata :: "pyval \<Rightarrow> pyval \<Rightarrow> access_metadata" where
  "runtime_access_metadata access_mode execution_mode =
     (let mode = normalize_runtime_access_mode access_mode execution_mode;
          defaults = (if mode = FULL_RUNTIME_ACCESS_MODE then (''full_access'', ''no_empyralis_action_approvals'')
                      else if mode = CUSTOM_RUNTIME_ACCESS_MODE then (''custom'', ''custom_policy_guarded'')
                      else (''default'', ''default_guarded''))
      in \<lparr>meta_runtime_access_mode = mode, meta_execution_mode = sor (text_of execution_mode) (fst defaults),
          permission_mode = mode, approval_mode = snd defaults,
          empyralis_action_approvals_enabled = (mode \<noteq> FULL_RUNTIME_ACCESS_MODE)\<rparr>)"

definition compact_command_text :: "pyval \<Rightarrow> string" where
  "compact_command_text v = collapse_ws (token_of v)"

definition shell_command_requires_guarded_approval :: "pyval \<Rightarrow> bool" where
  "shell_command_requires_guarded_approval command =
     (let compact = compact_command_text command in
      if compact = [] then False else list_ex (\<lambda>marker. contains marker compact) DESTRUCTIVE_SHELL_MARKERS)"

definition file_action_requires_guarded_approval :: "string \<Rightarrow> pydict \<Rightarrow> bool" where
  "file_action_requires_guarded_approval action_id arguments =
     (let mode = dunder_to_dot (token_of (por (dget arguments ''mode'')
                    (por (dget arguments ''operation'') (PStr action_id)))) in
      if contains ''delete'' mode \<or> mode \<in> {''remove'', ''unlink'', ''trash''} then True
      else if contains ''write'' mode \<or> contains ''append'' mode \<or> action_id \<in> {''file.write'', ''file__write''}
        then True
      else False)"

definition action_requests_external_send :: "string \<Rightarrow> string \<Rightarrow> pydict \<Rightarrow> bool" where
  "action_requests_external_send action_id capability arguments =
     (let tokens = join '' '' [token_of (PStr action_id), token_of (PStr capability),
                     token_of (dget arguments ''action''), token_of (dget arguments ''operation''),
                     token_of (dget arguments ''tool'')]
      in list_ex (\<lambda>marker. contains marker tokens)
           [''send'', ''post'', ''reply'', ''publish'', ''purchase'', ''payment'', ''charge'',
            ''refund'', ''transfer''])"

text \<open>The command of one entry of a batch: the entry itself or its \<^verbatim>\<open>command\<close> field.\<close>

fun batch_entry_command :: "pyval \<Rightarrow> pyval" where
  "batch_entry_command (PStr s) = PStr s"
| "batch_entry_command (PDict d) = dget d ''command''"
| "batch_entry_command _ = PNone"

definition shell_action_requires_approval :: "pydict \<Rightarrow> bool" where
  "shell_action_requires_approval arguments =
     (if shell_command_requires_guarded_approval (por (dget arguments ''command'') (dget arguments ''script''))
      then True
      else (case dget arguments ''commands'' of
              PList raw_commands \<Rightarrow>
                list_ex (\<lambda>entry. shell_command_requires_guarded_approval (batch_entry_command entry)) raw_commands
            | _ \<Rightarrow> False))"

definition default_guarded_action_requires_approval ::
    "pyval \<Rightarrow> pyval \<Rightarrow> pydict \<Rightarrow> pyval \<Rightarrow> bool" where
  "default_guarded_action_requires_approval capability action_id arguments virtual_action =
     (let normalized_action = dunder_to_dot (token_of action_id);
          normalized_capability = canonical_capability_id capability
      in if normalized_capability = ''shell.execute'' then shell_action_requires_approval arguments
         else if normalized_capability = ''filesystem.read'' then False
         else if normalized_capability = ''filesystem.write'' then True
         else if normalized_capability = ''filesystem.read_write''
           then file_action_requires_guarded_approval normalized_action arguments
         else if normalized_capability = ''screenshot.capture'' then False
         else if normalized_capability = ''browser_automation.interactive''
           then dunder_to_dot (token_of (por (dget arguments ''action'')
                  (por virtual_action (PStr normalized_action))))
                \<in> {''click'', ''type'', ''fill'', ''download'', ''download_file'', ''execute_js''}
         else if startswith normalized_capability ''computer_control.'' then True
         else if normalized_capability \<in> set DEFAULT_GUARDED_APPROVAL_CAPABILITIES then True
         else if action_requests_external_send normalized_action normalized_capability arguments then True
         else (case (if normalized_capability \<noteq> []
                     then resolve_capability (\<lambda>_. False) (PStr normalized_capability) False else None) of
                 None \<Rightarrow> True
               | Some c \<Rightarrow> requires_approval c \<or> lower (strip (risk_level c)) \<in> {''high'', ''critical''}))"

definition hardware_action_requires_software_approval ::
    "pyval \<Rightarrow> pyval \<Rightarrow> pyval \<Rightarrow> pydict \<Rightarrow> pyval \<Rightarrow> pyval \<Rightarrow> bool" where
  "hardware_action_requires_software_approval access_mode capability action_id arguments
       require_approval virtual_action =
     (if normalize_runtime_access_mode access_mode PNone = FULL_RUNTIME_ACCESS_MODE then False
      else if require_approval \<noteq> PNone then truthy require_approval
      else default_guarded_action_requires_approval capability action_id arguments virtual_action)"

section \<open>Lemmas\<close>

lemmas access_mode_defs = GUARDED_RUNTIME_ACCESS_MODE_def FULL_RUNTIME_ACCESS_MODE_def
  CUSTOM_RUNTIME_ACCESS_MODE_def

lemma contains_iff: "contains p s \<longleftrightarrow> (\<exists>a b. s = a @ p @ b)"
proof (induction s)
  case Nil
  then show ?case by auto
next
  case IH: (Cons c s)
  show ?case
  proof
    assume "contains p (c # s)"
    then consider "startswith (c # s) p" | "contains p s" by auto
    then show "\<exists>a b. c # s = a @ p @ b"
    proof cases
      case 1
      then show ?thesis by (auto simp: startswith_iff intro: exI [of _ "[]"])
    next
      case 2
      then obtain a b where "s = a @ p @ b" using IH by blast
      then have "c # s = (c # a) @ p @ b" by simp
      then show ?thesis by blast
    qed
  next
    assume "\<exists>a b. c # s = a @ p @ b"
    then obtain a b where ab: "c # s = a @ p @ b" by blast
    show "contains p (c # s)"
    proof (cases a)
      case Nil
      with ab have "startswith (c # s) p" by (auto simp: startswith_iff)
      then show ?thesis by simp
    next
      case (Cons _ a')
      with ab have "s = a' @ p @ b" by simp
      with IH show ?thesis by auto
    qed
  qed
qed

lemma EXECUTION_MODE_ACCESS_MODE_eval:
  "EXECUTION_MODE_ACCESS_MODE =
     [(''default'', ''default_guarded''), (''approval_mode'', ''default_guarded''),
      (''autopilot'', ''default_guarded''), (''custom'', ''custom''), (''full_access'', ''full_access'')]"
  by (simp add: EXECUTION_MODE_ACCESS_MODE_def MODE_DEFINITIONS_def access_mode_defs sor_def)

lemma access_mode_for_execution_mode_eq:
  "runtime_access_mode_for_execution_mode e =
     (if mode_token e = ''full_access'' then ''full_access''
      else if mode_token e = ''custom'' then ''custom'' else ''default_guarded'')"
  by (simp add: runtime_access_mode_for_execution_mode_def EXECUTION_MODE_ACCESS_MODE_eval Let_def
      access_mode_defs)

lemma mode_token_fix: "t \<in> {''default_guarded'', ''custom'', ''full_access''} \<Longrightarrow> mode_token (PStr t) = t"
  by (auto simp: mode_token_def token_of_PStr) code_simp+

text \<open>With no execution mode to fall back on, the access mode is a normaliser onto three modes.\<close>

interpretation access_modes: token_normalizer "\<lambda>v. normalize_runtime_access_mode v PNone"
  "{''default_guarded'', ''custom'', ''full_access''}"
proof unfold_locales
  have "mode_token PNone = []" by (simp add: mode_token_def replace_char_def)
  then show "normalize_runtime_access_mode v PNone \<in> {''default_guarded'', ''custom'', ''full_access''}" for v
    by (simp add: normalize_runtime_access_mode_def Let_def access_mode_defs access_mode_for_execution_mode_eq)
next
  fix t assume "t \<in> {''default_guarded'', ''custom'', ''full_access''}"
  then show "normalize_runtime_access_mode (PStr t) PNone = t"
    using mode_token_fix [of t] by (auto simp: normalize_runtime_access_mode_def Let_def access_mode_defs)
qed

text \<open>Every command a shell action submits: the single one and the batch.\<close>

definition submitted_commands :: "pydict \<Rightarrow> pyval list" where
  "submitted_commands arguments =
     por (dget arguments ''command'') (dget arguments ''script'')
     # (case dget arguments ''commands'' of PList raw \<Rightarrow> map batch_entry_command raw | _ \<Rightarrow> [])"

lemma compact_nonempty: "contains m [] \<Longrightarrow> m \<in> set DESTRUCTIVE_SHELL_MARKERS \<Longrightarrow> False"
  by (auto simp: DESTRUCTIVE_SHELL_MARKERS_def)

lemma shell_command_requires_iff:
  "shell_command_requires_guarded_approval c \<longleftrightarrow>
     (\<exists>m \<in> set DESTRUCTIVE_SHELL_MARKERS. contains m (compact_command_text c))"
  using compact_nonempty
  by (auto simp: shell_command_requires_guarded_approval_def Let_def list_ex_iff)

lemma shell_action_requires_iff:
  "shell_action_requires_approval arguments \<longleftrightarrow>
     (\<exists>c \<in> set (submitted_commands arguments). \<exists>m \<in> set DESTRUCTIVE_SHELL_MARKERS.
        contains m (compact_command_text c))"
  by (auto simp: shell_action_requires_approval_def submitted_commands_def list_ex_iff
      shell_command_requires_iff split: pyval.splits)

lemma unregistered_not_special:
  assumes "\<not> registered k"
  shows "k \<notin> {''shell.execute'', ''filesystem.read'', ''filesystem.write'', ''filesystem.read_write'',
    ''screenshot.capture'', ''browser_automation.interactive''}"
proof -
  have "list_all registered [''shell.execute'', ''filesystem.read'', ''filesystem.write'',
    ''filesystem.read_write'', ''screenshot.capture'', ''browser_automation.interactive'']"
    by code_simp
  with assms show ?thesis by auto
qed

lemma canonical_idem:
  "canonical_capability_id (PStr (canonical_capability_id c)) = canonical_capability_id c"
proof (cases "map_of capability_aliases (token_of c)")
  case None
  moreover have "token_of (PStr []) = []" by (simp add: token_of_PStr lower_def)
  ultimately show ?thesis by (auto simp: canonical_capability_id_def Let_def)
next
  case (Some t)
  have "\<forall>t \<in> set (map snd capability_aliases). canonical_capability_id (PStr t) = t"
    by code_simp
  then have t: "canonical_capability_id (PStr t) = t"
    using map_of_snd [OF Some] by (rule bspec)
  have "token_of c \<noteq> []" using Some by (auto simp: capability_aliases_def)
  then have "canonical_capability_id c = t"
    using Some by (simp add: canonical_capability_id_def [of c] Let_def)
  with t show ?thesis by simp
qed

lemma resolve_unregistered:
  "\<not> registered (canonical_capability_id c) \<Longrightarrow>
   resolve_capability d (PStr (canonical_capability_id c)) e = None"
  by (simp add: resolve_capability_def canonical_idem Let_def map_of_eq_None_iff [THEN iffD2])

section \<open>Properties\<close>

text \<open>Full access is never inferred: the resolved access mode is full access exactly when the
  stored mode says so, or when the stored mode is unrecognised and the execution mode says so.\<close>

theorem full_access_only_when_selected:
  "normalize_runtime_access_mode v e = ''full_access'' \<longleftrightarrow>
     mode_token v = ''full_access'' \<or>
     (mode_token v \<notin> {''custom'', ''default_guarded'', ''guarded'', ''default'', ''approval_mode'', ''autopilot''} \<and>
      mode_token e = ''full_access'')"
  by (auto simp: normalize_runtime_access_mode_def Let_def access_mode_defs access_mode_for_execution_mode_eq)

text \<open>Outside full access and without an explicit override, a shell action needs approval
  exactly when some command it submits, the single command (or script) or any entry of the
  batch, contains a destructive marker after whitespace and case are normalised.\<close>

theorem guarded_shell_approval_iff:
  assumes "normalize_runtime_access_mode mode PNone \<noteq> ''full_access''"
    and "canonical_capability_id capability = ''shell.execute''"
  shows "hardware_action_requires_software_approval mode capability act arguments PNone virt \<longleftrightarrow>
    (\<exists>c \<in> set (submitted_commands arguments). \<exists>m \<in> set DESTRUCTIVE_SHELL_MARKERS.
       \<exists>a b. compact_command_text c = a @ m @ b)"
  using assms
  by (simp add: hardware_action_requires_software_approval_def access_mode_defs Let_def
      default_guarded_action_requires_approval_def shell_action_requires_iff contains_iff)

theorem guarded_shell_approval_iff_witness:
  "hardware_action_requires_software_approval (PStr ''guarded'') (PStr ''shell.execute'') (PStr ''shell__exec'')
     [(''commands'', PList [PStr ''ls'', PDict [(''command'', PStr ''sudo   RM -rf /'')]])] PNone PNone"
proof -
  let ?args = "[(''commands'', PList [PStr ''ls'', PDict [(''command'', PStr ''sudo   RM -rf /'')]])]"
  have h1: "normalize_runtime_access_mode (PStr ''guarded'') PNone \<noteq> ''full_access''" by code_simp
  have h2: "canonical_capability_id (PStr ''shell.execute'') = ''shell.execute''" by code_simp
  have "PStr ''sudo   RM -rf /'' \<in> set (submitted_commands ?args)"
    by (simp add: submitted_commands_def dget_Cons)
  moreover have "compact_command_text (PStr ''sudo   RM -rf /'') = ''sudo '' @ ''rm -rf'' @ '' /''" by code_simp
  moreover have "''rm -rf'' \<in> set DESTRUCTIVE_SHELL_MARKERS" by (simp add: DESTRUCTIVE_SHELL_MARKERS_def)
  ultimately show ?thesis
    unfolding guarded_shell_approval_iff [OF h1 h2] by blast
qed

text \<open>Fail closed: outside full access and without an override, an action on a capability the
  registry does not know always needs approval, whatever its arguments.\<close>

theorem unknown_capability_needs_approval:
  assumes "normalize_runtime_access_mode mode PNone \<noteq> ''full_access''"
    and "map_of CAPABILITY_REGISTRY (canonical_capability_id capability) = None"
  shows "hardware_action_requires_software_approval mode capability act arguments PNone virt"
proof -
  have nr: "\<not> registered (canonical_capability_id capability)"
    using assms(2) by (simp add: map_of_eq_None_iff)
  show ?thesis
    using assms(1) unregistered_not_special [OF nr] resolve_unregistered [OF nr]
    by (simp add: hardware_action_requires_software_approval_def access_mode_defs Let_def
        default_guarded_action_requires_approval_def)
qed

theorem unknown_capability_needs_approval_witness:
  "hardware_action_requires_software_approval (PStr ''custom'') (PStr ''disk.wipe'') (PStr ''wipe'') [] PNone PNone"
  by (rule unknown_capability_needs_approval) code_simp+

text \<open>The guard on destructive shell commands compares literal markers, so it sees
  \<^verbatim>\<open>rm -rf /\<close> but not the same command with its flags in the other order, \<^verbatim>\<open>rm -fr /\<close>, nor the
  long option: both run in guarded mode without any approval.\<close>

theorem reordered_rm_flags_escape_guard:
  "shell_command_requires_guarded_approval (PStr ''rm -rf /'') \<and>
   \<not> hardware_action_requires_software_approval (PStr ''default_guarded'') (PStr ''shell.execute'')
       (PStr ''shell.execute'') [(''command'', PStr ''rm -fr /'')] PNone PNone \<and>
   \<not> hardware_action_requires_software_approval (PStr ''default_guarded'') (PStr ''shell.execute'')
       (PStr ''shell.execute'') [(''command'', PStr ''rm --recursive --force /'')] PNone PNone"
  by code_simp

text \<open>Full access is offered only on dedicated runtime targets: the contract list of a target
  always has the five modes in order, and full access is available in it exactly for the six
  dedicated targets, never for the shared cloud or an unknown target.\<close>

theorem full_access_offered_only_on_dedicated_targets:
  "map contract_mode_id (mode_contract_for_target t) = SUPPORTED_EXECUTION_MODES \<and>
   ((\<exists>c \<in> set (mode_contract_for_target t). contract_mode_id c = ''full_access'' \<and> available c) \<longleftrightarrow>
    text_of t \<in> {''sage_cloud_computer'', ''empyralis_cloud_computer'', ''local_companion'',
      ''user_device_gateway'', ''self_host_runtime'', ''self_hosted_node''})"
  by (simp add: mode_contract_for_target_def Let_def SUPPORTED_EXECUTION_MODES_def MODE_DEFINITIONS_def
      RUNTIME_TARGET_MODE_MATRIX_def map_filter_simps)

end
