(* ===== verification/Resilience.thy ===== *)
theory Resilience
  imports Py_Prelude
begin

text \<open>
  \<^verbatim>\<open>server_modules/downstream_resilience_service.py\<close>: a per-name circuit breaker and the retry
  loop around a downstream call, with its HTTP wrapper.

  The wrapped operation is the list of its outcomes, one per call (\<open>Ok\<close> a result, \<open>Fail\<close> the
  exception it raises), so that the number of calls made is the number of outcomes consumed;
  a shorter list than the number of attempts is completed by \<open>Fail\<close> of a default exception.
  The two clock readings the code takes (\<^verbatim>\<open>now()\<close> at entry and after the last failure) are
  arguments. Delays and clock readings are exact rationals. The sleeps are recorded in order.
\<close>

section \<open>Policies and circuits\<close>

record retry_policy =
  attempts :: int
  initial_delay_seconds :: rat
  backoff_multiplier :: rat
  max_delay_seconds :: rat

record circuit_policy =
  failure_threshold :: int
  reset_after_seconds :: rat

record circuit_state =
  failures :: int
  opened_at :: "rat option"

definition default_retry_policy :: retry_policy where
  "default_retry_policy = \<lparr>attempts = 3, initial_delay_seconds = 1/20, backoff_multiplier = 2,
     max_delay_seconds = 2\<rparr>"

definition default_circuit_policy :: circuit_policy where
  "default_circuit_policy = \<lparr>failure_threshold = 3, reset_after_seconds = 30\<rparr>"

definition fresh_circuit :: circuit_state where
  "fresh_circuit = \<lparr>failures = 0, opened_at = None\<rparr>"

type_synonym circuits = "(string \<times> circuit_state) list"

definition circuit_name :: "pyval \<Rightarrow> string" where
  "circuit_name name = text_default name ''downstream''"

definition circuit_of :: "circuits \<Rightarrow> string \<Rightarrow> circuit_state" where
  "circuit_of cs n = (case map_of cs n of Some c \<Rightarrow> c | None \<Rightarrow> fresh_circuit)"

definition reset_circuits_for_tests :: "circuits \<Rightarrow> circuits" where
  "reset_circuits_for_tests cs = []"

text \<open>\<^verbatim>\<open>int(x or 1)\<close> and \<^verbatim>\<open>float(x or d)\<close> on numbers.\<close>

definition int_or :: "int \<Rightarrow> int \<Rightarrow> int" where "int_or x d = (if x = 0 then d else x)"
definition rat_or :: "rat \<Rightarrow> rat \<Rightarrow> rat" where "rat_or x d = (if x = 0 then d else x)"

section \<open>The retry loop\<close>

datatype ('e, 'r) outcome = Ok 'r | Fail 'e

datatype ('e, 'r) call_result = Returned 'r | Raised 'e | CircuitOpen string

text \<open>One pass of \<^verbatim>\<open>for index in range(attempts)\<close>, with \<open>left\<close> attempts to go: the result of the
  loop (a value, or the last error), the outcomes consumed, and the sleeps.\<close>

fun retry_loop :: "retry_policy \<Rightarrow> 'e \<Rightarrow> nat \<Rightarrow> rat \<Rightarrow> ('e, 'r) outcome list \<Rightarrow>
    ('e, 'r) outcome \<times> nat \<times> rat list" where
  "retry_loop rp d 0 delay outs = (Fail d, 0, [])"
| "retry_loop rp d (Suc left) delay outs =
     (case (case outs of [] \<Rightarrow> Fail d | o' # _ \<Rightarrow> o') of
        Ok r \<Rightarrow> (Ok r, 1, [])
      | Fail e \<Rightarrow>
          if left = 0 then (Fail e, 1, [])
          else if 0 < delay then
            (let (res, n, zs) = retry_loop rp d left (delay * max (rat_or (backoff_multiplier rp) 1) 1) (tl outs)
             in (res, Suc n, min delay (max (rat_or (max_delay_seconds rp) delay) 0) # zs))
          else
            (let (res, n, zs) = retry_loop rp d left delay (tl outs) in (res, Suc n, zs)))"

record ('e, 'r) call_effect =
  result :: "('e, 'r) call_result"
  circuits_after :: circuits
  calls_made :: nat
  sleeps :: "rat list"

definition call_with_retries ::
    "retry_policy \<Rightarrow> circuit_policy \<Rightarrow> circuits \<Rightarrow> pyval \<Rightarrow> 'e \<Rightarrow> rat \<Rightarrow> rat \<Rightarrow>
     ('e, 'r) outcome list \<Rightarrow> ('e, 'r) call_effect" where
  "call_with_retries rp cp cs name dflt now_start now_end outs =
     (let n = circuit_name name; state = circuit_of cs n in
      if (case opened_at state of Some t \<Rightarrow> now_start - t < reset_after_seconds cp | None \<Rightarrow> False)
      then \<lparr>result = CircuitOpen n, circuits_after = dset n state cs, calls_made = 0, sleeps = []\<rparr>
      else
        let state1 = (if opened_at state = None then state else fresh_circuit);
            k = nat (max (int_or (attempts rp) 1) 1);
            delay = max (rat_or (initial_delay_seconds rp) 0) 0;
            (res, made, zs) = retry_loop rp dflt k delay outs
        in (case res of
              Ok r \<Rightarrow> \<lparr>result = Returned r, circuits_after = dset n fresh_circuit cs,
                       calls_made = made, sleeps = zs\<rparr>
            | Fail e \<Rightarrow>
                let f = failures state1 + 1;
                    opened = (if max (int_or (failure_threshold cp) 1) 1 \<le> f then Some now_end else opened_at state1)
                in \<lparr>result = Raised e, circuits_after = dset n \<lparr>failures = f, opened_at = opened\<rparr> cs,
                    calls_made = made, sleeps = zs\<rparr>))"

section \<open>HTTP wrapper\<close>

definition RETRYABLE_HTTP_STATUSES :: "int list" where
  "RETRYABLE_HTTP_STATUSES = [408, 425, 429, 500, 502, 503, 504]"

definition is_retryable_http_status :: "pyval \<Rightarrow> bool" where
  "is_retryable_http_status status =
     (case py_int status of None \<Rightarrow> False | Some i \<Rightarrow> i \<in> set RETRYABLE_HTTP_STATUSES)"

text \<open>\<^verbatim>\<open>int(float(s))\<close> is the argument \<open>parse_float_int\<close>: \<open>None\<close> where \<^verbatim>\<open>float\<close> or \<^verbatim>\<open>int\<close> raises.\<close>

definition retry_after_seconds_from_headers :: "(string \<Rightarrow> int option) \<Rightarrow> pyval \<Rightarrow> int option" where
  "retry_after_seconds_from_headers parse_float_int headers =
     (case headers of
        PDict hs \<Rightarrow>
          (let v = (case find (\<lambda>p. lower (strip (fst p)) = ''retry-after'') hs of
                      Some p \<Rightarrow> snd p | None \<Rightarrow> PNone)
           in map_option (\<lambda>s. max s 0) (parse_float_int (text_of v)))
      | _ \<Rightarrow> None)"

datatype 'e http_error = Retryable pydict | Downstream 'e

text \<open>The inner \<^verbatim>\<open>_operation\<close>: a retryable response becomes an exception (after honouring its
  \<^verbatim>\<open>Retry-After\<close>), any other response is the result.\<close>

definition http_operation ::
    "('e, pydict) outcome \<Rightarrow> ('e http_error, pydict) outcome" where
  "http_operation out =
     (case out of
        Fail e \<Rightarrow> Fail (Downstream e)
      | Ok response \<Rightarrow>
          if is_retryable_http_status (dget response ''status'') then Fail (Retryable response) else Ok response)"

definition retry_after_sleep :: "(string \<Rightarrow> int option) \<Rightarrow> retry_policy \<Rightarrow> pydict \<Rightarrow> rat list" where
  "retry_after_sleep parse_float_int rp response =
     (case retry_after_seconds_from_headers parse_float_int (dget response ''headers'') of
        Some s \<Rightarrow> if 0 < s then [min (of_int s) (max_delay_seconds rp)] else []
      | None \<Rightarrow> [])"

text \<open>A raised \<^verbatim>\<open>RetryableDownstreamResponse\<close> is turned back into the last retryable response;
  every other exception leaves the wrapper.\<close>

definition call_http_json_with_retries ::
    "retry_policy \<Rightarrow> circuit_policy \<Rightarrow> circuits \<Rightarrow> pyval \<Rightarrow> 'e \<Rightarrow> rat \<Rightarrow> rat \<Rightarrow>
     (string \<Rightarrow> int option) \<Rightarrow> ('e, pydict) outcome list \<Rightarrow>
     ('e, pydict) call_result \<times> circuits \<times> nat \<times> rat list" where
  "call_http_json_with_retries rp cp cs name dflt now_start now_end parse_float_int outs =
     (let eff = call_with_retries rp cp cs name (Downstream dflt) now_start now_end (map http_operation outs)
      in ((case result eff of
             Returned r \<Rightarrow> Returned r
           | Raised (Retryable response) \<Rightarrow> Returned response
           | Raised (Downstream e) \<Rightarrow> Raised e
           | CircuitOpen n \<Rightarrow> CircuitOpen n),
          circuits_after eff, calls_made eff,
          concat (map (\<lambda>out. case out of
                         Ok response \<Rightarrow>
                           if is_retryable_http_status (dget response ''status'')
                           then retry_after_sleep parse_float_int rp response else []
                       | Fail e \<Rightarrow> []) (take (calls_made eff) outs))))"

section \<open>The breaker as a transition system\<close>

record ('e, 'r) call_event =
  ev_name :: pyval
  ev_start :: rat
  ev_end :: rat
  ev_outcomes :: "('e, 'r) outcome list"

definition breaker_step ::
    "retry_policy \<Rightarrow> circuit_policy \<Rightarrow> 'e \<Rightarrow> circuits \<Rightarrow> ('e, 'r) call_event \<Rightarrow> circuits" where
  "breaker_step rp cp d cs ev =
     circuits_after (call_with_retries rp cp cs (ev_name ev) d (ev_start ev) (ev_end ev) (ev_outcomes ev))"

definition threshold :: "circuit_policy \<Rightarrow> int" where
  "threshold cp = max (int_or (failure_threshold cp) 1) 1"

definition max_attempts :: "retry_policy \<Rightarrow> nat" where
  "max_attempts rp = nat (max (int_or (attempts rp) 1) 1)"

text \<open>A circuit is open exactly when its failure count has reached the threshold.\<close>

definition circuit_ok :: "circuit_policy \<Rightarrow> circuit_state \<Rightarrow> bool" where
  "circuit_ok cp c = (0 \<le> failures c \<and> (opened_at c = None \<longleftrightarrow> failures c < threshold cp))"

definition circuits_ok :: "circuit_policy \<Rightarrow> circuits \<Rightarrow> bool" where
  "circuits_ok cp cs = (\<forall>n. circuit_ok cp (circuit_of cs n))"

definition is_open :: "circuit_policy \<Rightarrow> circuits \<Rightarrow> pyval \<Rightarrow> rat \<Rightarrow> bool" where
  "is_open cp cs name t =
     (case opened_at (circuit_of cs (circuit_name name)) of
        Some t0 \<Rightarrow> t - t0 < reset_after_seconds cp | None \<Rightarrow> False)"

section \<open>Lemmas\<close>

lemma threshold_pos [simp]: "0 < threshold cp" "1 \<le> threshold cp"
  by (simp_all add: threshold_def)

lemma max_attempts_pos [simp]: "0 < max_attempts rp"
  by (simp add: max_attempts_def)

lemma circuit_of_dset: "circuit_of (dset n c cs) m = (if m = n then c else circuit_of cs m)"
  by (simp add: circuit_of_def map_of_dset)

fun outcome_at :: "'e \<Rightarrow> ('e, 'r) outcome list \<Rightarrow> nat \<Rightarrow> ('e, 'r) outcome" where
  "outcome_at d [] i = Fail d"
| "outcome_at d (x # xs) 0 = x"
| "outcome_at d (x # xs) (Suc i) = outcome_at d xs i"

lemma outcome_at_0: "outcome_at d outs 0 = (case outs of [] \<Rightarrow> Fail d | x # _ \<Rightarrow> x)"
  by (cases outs) auto

lemma outcome_at_Suc: "outcome_at d outs (Suc i) = outcome_at d (tl outs) i"
  by (cases outs) auto

definition next_delay :: "retry_policy \<Rightarrow> rat \<Rightarrow> rat" where
  "next_delay rp delay = (if 0 < delay then delay * max (rat_or (backoff_multiplier rp) 1) 1 else delay)"

definition attempt_sleep :: "retry_policy \<Rightarrow> rat \<Rightarrow> rat list" where
  "attempt_sleep rp delay = (if 0 < delay then [min delay (max (rat_or (max_delay_seconds rp) delay) 0)] else [])"

lemma retry_loop_1: "retry_loop rp d (Suc 0) delay outs = (outcome_at d outs 0, 1, [])"
  by (cases outs) (auto split: outcome.split)

lemma retry_loop_Ok: "outcome_at d outs 0 = Ok r \<Longrightarrow> retry_loop rp d (Suc k) delay outs = (Ok r, 1, [])"
  by (cases outs) auto

lemma retry_loop_Fail:
  assumes "outcome_at d outs 0 = Fail e"
    and "retry_loop rp d (Suc k) (next_delay rp delay) (tl outs) = (res, n, zs)"
  shows "retry_loop rp d (Suc (Suc k)) delay outs = (res, Suc n, attempt_sleep rp delay @ zs)"
  unfolding retry_loop.simps(2) [of rp d "Suc k" delay outs] outcome_at_0 [symmetric] assms(1)
  using assms(2) by (simp add: next_delay_def attempt_sleep_def Let_def split: if_splits)

declare retry_loop.simps(2) [simp del]

text \<open>The loop makes \<open>n\<close> calls, at least one and at most \<open>k\<close>; every call but the last fails; it
  stops early only on success.\<close>

lemma retry_loop_spec:
  assumes "retry_loop rp d (Suc k) delay outs = (res, n, zs)"
  shows "0 < n \<and> n \<le> Suc k \<and> res = outcome_at d outs (n - 1) \<and>
    (\<forall>i < n - 1. \<exists>e. outcome_at d outs i = Fail e) \<and>
    (n < Suc k \<longrightarrow> (\<exists>r. res = Ok r)) \<and> length zs \<le> n - 1"
  using assms
proof (induction k arbitrary: delay outs res n zs)
  case 0
  then show ?case by (auto simp: retry_loop_1)
next
  case (Suc k)
  show ?case
  proof (cases "outcome_at d outs 0")
    case (Ok r)
    have "res = Ok r \<and> n = 1 \<and> zs = []" using Suc.prems retry_loop_Ok [OF Ok] by simp
    with Ok show ?thesis by simp
  next
    case (Fail e)
    obtain n' zs' res' where rec: "retry_loop rp d (Suc k) (next_delay rp delay) (tl outs) = (res', n', zs')"
      by (metis prod_cases3)
    with Suc.prems retry_loop_Fail [OF Fail rec] have n: "n = Suc n'" and r: "res' = res"
      and zs: "length zs \<le> Suc (length zs')"
      by (auto simp: attempt_sleep_def)
    note rec = rec [unfolded r]
    note IH = Suc.IH [OF rec]
    have "\<forall>i < n'. \<exists>e. outcome_at d outs i = Fail e"
    proof (intro allI impI)
      fix i assume i: "i < n'"
      show "\<exists>e. outcome_at d outs i = Fail e"
        using i Fail IH by (cases i) (auto simp: outcome_at_Suc)
    qed
    moreover have "res = outcome_at d outs n'"
      using IH by (cases n') (auto simp: outcome_at_Suc)
    ultimately show ?thesis using IH n zs by auto
  qed
qed

lemma retry_loop_sleeps:
  assumes "retry_loop rp d k delay outs = (res, n, zs)" and "0 < max_delay_seconds rp"
  shows "\<forall>z \<in> set zs. 0 \<le> z \<and> z \<le> max_delay_seconds rp"
  using assms(1)
proof (induction k arbitrary: delay outs res n zs)
  case 0
  then show ?case by simp
next
  case (Suc k)
  note IH = Suc.IH and prems = Suc.prems
  show ?case
  proof (cases k)
    case 0
    with prems show ?thesis by (auto simp: retry_loop_1)
  next
    case (Suc k')
    show ?thesis
    proof (cases "outcome_at d outs 0")
      case (Ok r)
      then show ?thesis using prems retry_loop_Ok [OF Ok] by auto
    next
      case (Fail e)
      obtain n' zs' res' where rec: "retry_loop rp d k (next_delay rp delay) (tl outs) = (res', n', zs')"
        by (metis prod_cases3)
      then have "zs = attempt_sleep rp delay @ zs'"
        using prems retry_loop_Fail [OF Fail, of rp k' delay] Suc by auto
      moreover have "\<forall>z \<in> set (attempt_sleep rp delay). 0 \<le> z \<and> z \<le> max_delay_seconds rp"
        using assms(2) by (auto simp: attempt_sleep_def rat_or_def)
      ultimately show ?thesis using IH [OF rec] by auto
    qed
  qed
qed

lemma call_with_retries_open:
  assumes "is_open cp cs name t0"
  shows "call_with_retries rp cp cs name d t0 t1 outs =
    \<lparr>result = CircuitOpen (circuit_name name),
     circuits_after = dset (circuit_name name) (circuit_of cs (circuit_name name)) cs,
     calls_made = 0, sleeps = []\<rparr>"
  using assms by (simp add: call_with_retries_def is_open_def Let_def)

lemma call_with_retries_closed:
  assumes "\<not> is_open cp cs name t0"
    and "retry_loop rp d (max_attempts rp) (max (rat_or (initial_delay_seconds rp) 0) 0) outs = (res, n, zs)"
  shows "call_with_retries rp cp cs name d t0 t1 outs =
    (let nm = circuit_name name; c = circuit_of cs nm;
         c1 = (if opened_at c = None then c else fresh_circuit) in
     case res of
       Ok r \<Rightarrow> \<lparr>result = Returned r, circuits_after = dset nm fresh_circuit cs, calls_made = n, sleeps = zs\<rparr>
     | Fail e \<Rightarrow> \<lparr>result = Raised e, circuits_after = dset nm
          \<lparr>failures = failures c1 + 1,
           opened_at = (if threshold cp \<le> failures c1 + 1 then Some t1 else opened_at c1)\<rparr> cs,
         calls_made = n, sleeps = zs\<rparr>)"
  using assms by (simp add: call_with_retries_def is_open_def max_attempts_def threshold_def Let_def
      split: outcome.split)

lemma circuit_of_step_other:
  "m \<noteq> circuit_name (ev_name ev) \<Longrightarrow> circuit_of (breaker_step rp cp d cs ev) m = circuit_of cs m"
  by (cases "is_open cp cs (ev_name ev) (ev_start ev)";
      cases "retry_loop rp d (max_attempts rp) (max (rat_or (initial_delay_seconds rp) 0) 0) (ev_outcomes ev)")
    (auto simp: breaker_step_def call_with_retries_open call_with_retries_closed Let_def circuit_of_dset
      split: outcome.split)

lemma circuit_ok_fresh [simp]: "circuit_ok cp fresh_circuit"
  by (simp add: circuit_ok_def fresh_circuit_def)

lemma circuit_of_step_same:
  assumes "circuit_ok cp (circuit_of cs (circuit_name (ev_name ev)))"
  shows "circuit_ok cp (circuit_of (breaker_step rp cp d cs ev) (circuit_name (ev_name ev)))"
  using assms
  by (cases "is_open cp cs (ev_name ev) (ev_start ev)";
      cases "retry_loop rp d (max_attempts rp) (max (rat_or (initial_delay_seconds rp) 0) 0) (ev_outcomes ev)")
    (auto simp: breaker_step_def call_with_retries_open call_with_retries_closed Let_def circuit_of_dset
      circuit_ok_def fresh_circuit_def split: outcome.split)

interpretation breaker: invariant_system "breaker_step rp cp d" "circuits_ok cp" for rp cp d
proof unfold_locales
  fix cs and ev :: "('a, 'b) call_event"
  assume "circuits_ok cp cs"
  then show "circuits_ok cp (breaker_step rp cp d cs ev)"
    by (metis circuit_of_step_other circuit_of_step_same circuits_ok_def)
qed

lemma retry_loop_attempts:
  assumes "retry_loop rp d (max_attempts rp) delay outs = (res, n, zs)"
  shows "0 < n \<and> n \<le> max_attempts rp \<and> res = outcome_at d outs (n - 1) \<and>
    (\<forall>i < n - 1. \<exists>e. outcome_at d outs i = Fail e) \<and>
    (n < max_attempts rp \<longrightarrow> (\<exists>r. res = Ok r)) \<and> length zs \<le> n - 1"
proof -
  have k: "Suc (max_attempts rp - 1) = max_attempts rp" by simp
  show ?thesis using retry_loop_spec [of rp d "max_attempts rp - 1", unfolded k, OF assms] .
qed

lemma all_fail_outcome: "\<forall>x \<in> set outs. \<exists>e. x = Fail e \<Longrightarrow> \<exists>e. outcome_at d outs i = Fail e"
  by (induction d outs i rule: outcome_at.induct) auto

text \<open>One failing invocation of a closed circuit adds one failure and opens it at the threshold.\<close>

lemma breaker_step_failing:
  assumes closed: "opened_at (circuit_of cs (circuit_name (ev_name ev))) = None"
    and fails: "\<forall>x \<in> set (ev_outcomes ev). \<exists>e. x = Fail e"
  shows "circuit_of (breaker_step rp cp d cs ev) (circuit_name (ev_name ev)) =
    (let f = failures (circuit_of cs (circuit_name (ev_name ev))) + 1 in
     \<lparr>failures = f, opened_at = (if threshold cp \<le> f then Some (ev_end ev) else None)\<rparr>)"
proof -
  obtain res n zs where loop: "retry_loop rp d (max_attempts rp)
      (max (rat_or (initial_delay_seconds rp) 0) 0) (ev_outcomes ev) = (res, n, zs)"
    by (metis prod_cases3)
  obtain e where res: "res = Fail e"
    using retry_loop_attempts [OF loop] all_fail_outcome [OF fails] by metis
  have no: "\<not> is_open cp cs (ev_name ev) (ev_start ev)" using closed by (simp add: is_open_def)
  show ?thesis
    unfolding breaker_step_def call_with_retries_closed [OF no loop]
    using closed by (simp add: res Let_def circuit_of_dset)
qed

section \<open>Properties\<close>

text \<open>The retry contract of a closed circuit: the operation is called at least once and at most
  \<open>attempts\<close> times; every call before the last one failed; a returned value is the last call's
  value, and an exception is raised only after all attempts, and is the last one's.\<close>

theorem call_with_retries_contract:
  assumes "\<not> is_open cp cs name t0"
  shows "\<exists>n. calls_made (call_with_retries rp cp cs name d t0 t1 outs) = n \<and> 0 < n \<and> n \<le> max_attempts rp \<and>
    (\<forall>i < n - 1. \<exists>e. outcome_at d outs i = Fail e) \<and>
    (case result (call_with_retries rp cp cs name d t0 t1 outs) of
       Returned r \<Rightarrow> outcome_at d outs (n - 1) = Ok r
     | Raised e \<Rightarrow> n = max_attempts rp \<and> outcome_at d outs (n - 1) = Fail e
     | CircuitOpen _ \<Rightarrow> False)"
proof -
  obtain res n zs where loop: "retry_loop rp d (max_attempts rp)
      (max (rat_or (initial_delay_seconds rp) 0) 0) outs = (res, n, zs)"
    by (metis prod_cases3)
  have eff: "calls_made (call_with_retries rp cp cs name d t0 t1 outs) = n \<and>
      result (call_with_retries rp cp cs name d t0 t1 outs) =
        (case res of Ok r \<Rightarrow> Returned r | Fail e \<Rightarrow> Raised e)"
    by (simp add: call_with_retries_closed [OF assms loop] Let_def split: outcome.split)
  show ?thesis
    using retry_loop_attempts [OF loop] by (auto simp: eff split: outcome.split)
qed

theorem call_with_retries_contract_witness:
  "\<exists>n. calls_made (call_with_retries default_retry_policy default_circuit_policy [] (PStr ''stripe'')
          (0::int) 5 6 [Fail 1, Ok ''charged'']) = n \<and> 0 < n \<and> n \<le> max_attempts default_retry_policy"
  using call_with_retries_contract [of default_circuit_policy "[]" "PStr ''stripe''" 5
      default_retry_policy "0::int" 6 "[Fail 1, Ok ''charged'']"]
  by (auto simp: is_open_def circuit_of_def fresh_circuit_def)

text \<open>An open circuit protects the downstream service: within the reset period the operation is
  not called, nothing sleeps, the caller gets the circuit-open error, and no circuit changes.\<close>

theorem open_circuit_rejects_without_calling:
  assumes "opened_at (circuit_of cs (circuit_name name)) = Some since"
    and "t0 - since < reset_after_seconds cp"
  shows "let eff = call_with_retries rp cp cs name d t0 t1 outs in
    result eff = CircuitOpen (circuit_name name) \<and> calls_made eff = 0 \<and> sleeps eff = [] \<and>
    (\<forall>n. circuit_of (circuits_after eff) n = circuit_of cs n)"
proof -
  have "is_open cp cs name t0" using assms by (simp add: is_open_def)
  then show ?thesis by (simp add: call_with_retries_open Let_def circuit_of_dset)
qed

theorem open_circuit_rejects_without_calling_witness:
  "let eff = call_with_retries default_retry_policy default_circuit_policy
       [(''stripe'', \<lparr>failures = 3, opened_at = Some 100\<rparr>)] (PStr ''stripe'') (0::int) 120 120 [Ok ()]
   in result eff = CircuitOpen (circuit_name (PStr ''stripe'')) \<and> calls_made eff = 0"
proof -
  have n: "circuit_name (PStr ''stripe'') = ''stripe''" by code_simp
  show ?thesis
    using open_circuit_rejects_without_calling [of "[(''stripe'', \<lparr>failures = 3, opened_at = Some 100\<rparr>)]"
        "PStr ''stripe''" 100 120 default_circuit_policy default_retry_policy "0::int" 120 "[Ok ()]"]
    by (simp add: n circuit_of_def default_circuit_policy_def Let_def)
qed


text \<open>The breaker trips at the threshold and not before: after \<open>m\<close> failed invocations of a fresh
  circuit, \<open>m\<close> at most the threshold, it counts \<open>m\<close> failures and is open only if \<open>m\<close> is the
  threshold; every other circuit is as it was.\<close>

theorem breaker_trips_exactly_at_threshold:
  assumes "\<forall>ev \<in> set evs. circuit_name (ev_name ev) = n \<and> (\<forall>x \<in> set (ev_outcomes ev). \<exists>e. x = Fail e)"
    and "circuit_of cs n = fresh_circuit" and "int (length evs) \<le> threshold cp"
  shows "let c = circuit_of (foldl (breaker_step rp cp d) cs evs) n in
    failures c = int (length evs) \<and> (opened_at c \<noteq> None \<longleftrightarrow> int (length evs) = threshold cp) \<and>
    (\<forall>m. m \<noteq> n \<longrightarrow> circuit_of (foldl (breaker_step rp cp d) cs evs) m = circuit_of cs m)"
  using assms
proof (induction evs rule: rev_induct)
  case Nil
  then show ?case by (simp add: fresh_circuit_def Let_def) (metis threshold_pos(1) less_irrefl)
next
  case (snoc ev evs)
  let ?cs = "foldl (breaker_step rp cp d) cs evs"
  from snoc have IH: "failures (circuit_of ?cs n) = int (length evs)" "opened_at (circuit_of ?cs n) = None"
    "\<forall>m. m \<noteq> n \<longrightarrow> circuit_of ?cs m = circuit_of cs m"
    by (auto simp: Let_def)
  have n: "circuit_name (ev_name ev) = n" and f: "\<forall>x \<in> set (ev_outcomes ev). \<exists>e. x = Fail e"
    using snoc.prems by auto
  have step: "circuit_of (breaker_step rp cp d ?cs ev) n =
      \<lparr>failures = int (length evs) + 1,
       opened_at = (if threshold cp \<le> int (length evs) + 1 then Some (ev_end ev) else None)\<rparr>"
    using breaker_step_failing [of ?cs ev rp cp d] n f IH by (simp add: Let_def)
  show ?case
    using step IH(3) snoc.prems(3) circuit_of_step_other [of _ ev rp cp d ?cs] n
    by (auto simp: Let_def)
qed

theorem breaker_trips_exactly_at_threshold_witness:
  "opened_at (circuit_of (foldl (breaker_step default_retry_policy default_circuit_policy (0::int)) []
     (replicate 3 \<lparr>ev_name = PStr ''stripe'', ev_start = 1, ev_end = 2, ev_outcomes = [Fail 7 :: (int, unit) outcome]\<rparr>))
     (circuit_name (PStr ''stripe''))) \<noteq> None"
proof -
  let ?ev = "\<lparr>ev_name = PStr ''stripe'', ev_start = 1, ev_end = 2, ev_outcomes = [Fail 7 :: (int, unit) outcome]\<rparr>"
  have "threshold default_circuit_policy = 3"
    by (simp add: threshold_def default_circuit_policy_def int_or_def)
  then show ?thesis
    using breaker_trips_exactly_at_threshold [of "replicate 3 ?ev" "circuit_name (PStr ''stripe'')" "[]"
        default_circuit_policy default_retry_policy "0::int"]
    by (simp add: circuit_of_def Let_def)
qed

text \<open>Bounded waiting: under a policy with a positive maximum delay, the sleeps between attempts
  are each between 0 and that maximum, there are fewer of them than attempts, and so the total time
  slept is at most \<open>attempts - 1\<close> times the maximum.\<close>

theorem retry_sleep_bounded:
  assumes "0 < max_delay_seconds rp"
  shows "let zs = sleeps (call_with_retries rp cp cs name d t0 t1 outs) in
    (\<forall>z \<in> set zs. 0 \<le> z \<and> z \<le> max_delay_seconds rp) \<and> length zs < max_attempts rp \<and>
    sum_list zs \<le> of_nat (max_attempts rp - 1) * max_delay_seconds rp"
proof -
  let ?zs = "sleeps (call_with_retries rp cp cs name d t0 t1 outs)"
  have bound: "(\<forall>z \<in> set ?zs. 0 \<le> z \<and> z \<le> max_delay_seconds rp) \<and> length ?zs \<le> max_attempts rp - 1"
  proof (cases "is_open cp cs name t0")
    case True
    then show ?thesis by (simp add: call_with_retries_open)
  next
    case False
    obtain res n zs where loop: "retry_loop rp d (max_attempts rp)
        (max (rat_or (initial_delay_seconds rp) 0) 0) outs = (res, n, zs)"
      by (metis prod_cases3)
    have "?zs = zs" by (simp add: call_with_retries_closed [OF False loop] Let_def split: outcome.split)
    then show ?thesis
      using retry_loop_sleeps [OF loop assms] retry_loop_attempts [OF loop] by auto
  qed
  have "sum_list ?zs \<le> of_nat (length ?zs) * max_delay_seconds rp"
    using bound sum_list_mono [of ?zs id "\<lambda>_. max_delay_seconds rp"] by (simp add: sum_list_triv)
  also have "\<dots> \<le> of_nat (max_attempts rp - 1) * max_delay_seconds rp"
    using bound assms by (intro mult_right_mono) auto
  finally have total: "sum_list ?zs \<le> of_nat (max_attempts rp - 1) * max_delay_seconds rp" .
  have "length ?zs < max_attempts rp" using bound max_attempts_pos [of rp] by linarith
  with bound total show ?thesis unfolding Let_def by blast
qed

theorem retry_sleep_bounded_witness:
  "sum_list (sleeps (call_with_retries default_retry_policy default_circuit_policy [] (PStr ''x'') (0::int) 0 0
     [Fail 1, Fail 2, Fail 3 :: (int, unit) outcome])) \<le> 4"
  using retry_sleep_bounded [of default_retry_policy default_circuit_policy "[]" "PStr ''x''" "0::int" 0 0
      "[Fail 1, Fail 2, Fail 3 :: (int, unit) outcome]"]
  by (simp add: default_retry_policy_def max_attempts_def int_or_def Let_def)

text \<open>The HTTP wrapper never raises for a retryable status: if the circuit is closed and every
  call gets some response, the caller gets a response, namely the first one whose status is not
  retryable, or the last attempt's response when all attempts were retryable.\<close>

theorem http_wrapper_returns_response:
  assumes "\<not> is_open cp cs name t0" and "max_attempts rp \<le> length responses"
  shows "\<exists>n cs' zs. 0 < n \<and> n \<le> max_attempts rp \<and>
    call_http_json_with_retries rp cp cs name d t0 t1 pf (map Ok responses) =
      (Returned (responses ! (n - 1)), cs', n, zs) \<and>
    (\<forall>i < n - 1. is_retryable_http_status (dget (responses ! i) ''status'')) \<and>
    (n < max_attempts rp \<longrightarrow> \<not> is_retryable_http_status (dget (responses ! (n - 1)) ''status''))"
proof -
  let ?outs = "map http_operation (map Ok responses :: ('a, pydict) outcome list)"
  have at: "outcome_at (Downstream d) ?outs i =
      (if is_retryable_http_status (dget (responses ! i) ''status'') then Fail (Retryable (responses ! i))
       else Ok (responses ! i))" if "i < length responses" for i
    using that
  proof (induction responses arbitrary: i)
    case Nil
    then show ?case by simp
  next
    case (Cons r rs)
    then show ?case by (cases i) (auto simp: http_operation_def)
  qed
  obtain res n zs where loop: "retry_loop rp (Downstream d) (max_attempts rp)
      (max (rat_or (initial_delay_seconds rp) 0) 0) ?outs = (res, n, zs)"
    by (metis prod_cases3)
  note spec = retry_loop_attempts [OF loop]
  have n: "n - 1 < length responses" using spec assms(2) by linarith
  have early: "is_retryable_http_status (dget (responses ! i) ''status'')" if i: "i < n - 1" for i
  proof -
    have "\<exists>e. outcome_at (Downstream d) ?outs i = Fail e" using spec i by blast
    then show ?thesis using at [of i] i n by (auto split: if_splits)
  qed
  have res: "res = (if is_retryable_http_status (dget (responses ! (n - 1)) ''status'')
      then Fail (Retryable (responses ! (n - 1))) else Ok (responses ! (n - 1)))"
    using spec at [OF n] by simp
  have last: "\<not> is_retryable_http_status (dget (responses ! (n - 1)) ''status'')" if "n < max_attempts rp"
    using spec that res by (auto split: if_splits)
  have "\<exists>cs' zs. call_http_json_with_retries rp cp cs name d t0 t1 pf (map Ok responses) =
      (Returned (responses ! (n - 1)), cs', n, zs)"
    unfolding call_http_json_with_retries_def call_with_retries_closed [OF assms(1) loop] Let_def res
    by simp
  then show ?thesis using spec early last by blast
qed

theorem http_wrapper_returns_response_witness:
  "\<exists>n cs' zs. call_http_json_with_retries default_retry_policy default_circuit_policy [] (PStr ''api'') (0::int) 0 0
     (\<lambda>_. None) (map Ok (replicate 3 [(''status'', PInt 503)])) = (Returned [(''status'', PInt 503)], cs', n, zs)"
proof -
  have c: "\<not> is_open default_circuit_policy [] (PStr ''api'') 0"
    by (simp add: is_open_def circuit_of_def fresh_circuit_def)
  have m: "max_attempts default_retry_policy \<le> length (replicate 3 [(''status'', PInt 503)])"
    by (simp add: max_attempts_def default_retry_policy_def int_or_def)
  obtain n cs' zs where n: "0 < n" "n \<le> max_attempts default_retry_policy"
    and eq: "call_http_json_with_retries default_retry_policy default_circuit_policy [] (PStr ''api'') (0::int) 0 0
      (\<lambda>_. None) (map Ok (replicate 3 [(''status'', PInt 503)])) =
      (Returned (replicate 3 [(''status'', PInt 503)] ! (n - 1)), cs', n, zs)"
    using http_wrapper_returns_response [OF c m, of "0::int" 0 "\<lambda>_. None"] by blast
  have "n - 1 < 3" using n m unfolding length_replicate by linarith
  then have "replicate 3 [(''status'', PInt 503)] ! (n - 1) = [(''status'', PInt 503)]"
    by (rule nth_replicate)
  with eq show ?thesis by (auto simp only:)
qed

end
