(* ===== verification/Lane_Queue.thy ===== *)
theory Lane_Queue
  imports Py_Prelude "HOL-Library.Multiset"
begin

text \<open>
  The in-process work queue, \<^verbatim>\<open>server_modules/runtime_lane_queue.py\<close>: four lanes with their own
  concurrency, a total concurrency, a round-robin dispatcher thread, worker threads, draining
  shutdown, and a checkpoint in the \<^verbatim>\<open>local_app_state\<close> table
  (\<^verbatim>\<open>server_modules/runtime_state_store.py\<close>).

  The Python code shares item objects between the pending deques, the active dictionaries, the
  recent deque and the index by id, and mutates them in place. The model keeps that aliasing: items
  live in a heap (a list, a reference is an index) and the containers hold references.

  Every method body runs under the one lock, so an operation is an atomic function on the state; the
  interleavings of the threads are the runs of the step relation \<open>lane_step\<close>. The clock
  (\<open>now\<close>), the random part of an id (\<open>uuid\<close>) and the outcome of a database write (\<open>io\<close>: \<open>None\<close> is
  success, \<open>Some msg\<close> the exception's text) are arguments. The type \<open>'w\<close> is that of the callables.
  Values written to the checkpoint are JSON data, which \<^verbatim>\<open>json.loads(json.dumps(v))\<close> returns as
  they were.
\<close>

section \<open>Lanes\<close>

datatype lane = Main | Cron | Subagent | System

fun lane_token :: "lane \<Rightarrow> string" where
  "lane_token Main = ''main''"
| "lane_token Cron = ''cron''"
| "lane_token Subagent = ''subagent''"
| "lane_token System = ''system''"

definition LANE_ORDER :: "lane list" where
  "LANE_ORDER = [Main, Cron, Subagent, System]"

definition DEFAULT_LANE_CONCURRENCY :: "lane \<Rightarrow> int" where
  "DEFAULT_LANE_CONCURRENCY = (\<lambda>l. case l of Main \<Rightarrow> 1 | Cron \<Rightarrow> 1 | Subagent \<Rightarrow> 1 | System \<Rightarrow> 1)"

definition DEFAULT_MAX_TOTAL_CONCURRENCY :: int where "DEFAULT_MAX_TOTAL_CONCURRENCY = 4"
definition DEFAULT_RECENT_ITEMS_LIMIT :: int where "DEFAULT_RECENT_ITEMS_LIMIT = 16"
definition DEFAULT_CHECKPOINT_KEY :: string where "DEFAULT_CHECKPOINT_KEY = ''runtime_lane_queue.v1''"

datatype queue_error = UnsupportedLane | NotCallable | ShuttingDown

definition coerce_lane :: "pyval \<Rightarrow> queue_error + lane" where
  "coerce_lane value =
     of_option UnsupportedLane (find (\<lambda>l. lane_token l = token_of value) LANE_ORDER)"

definition coerce_metadata :: "pyval \<Rightarrow> pydict" where
  "coerce_metadata value = as_dict value"

section \<open>Items\<close>

record 'w lane_item =
  item_id :: string
  item_lane :: lane
  label :: string
  work :: 'w
  metadata :: pydict
  status :: string
  enqueued_at :: string
  started_at :: "string option"
  finished_at :: "string option"
  run_id :: "string option"
  summary :: "string option"
  error :: "string option"
  work_result :: "pyval option"

definition to_snapshot :: "'w lane_item \<Rightarrow> pydict" where
  "to_snapshot it =
     [(''id'', PStr (item_id it)),
      (''lane'', PStr (lane_token (item_lane it))),
      (''label'', PStr (label it)),
      (''status'', PStr (status it)),
      (''enqueued_at'', PStr (enqueued_at it)),
      (''started_at'', opt_str (started_at it)),
      (''finished_at'', opt_str (finished_at it)),
      (''run_id'', opt_str (run_id it)),
      (''summary'', opt_str (summary it)),
      (''error'', opt_str (error it)),
      (''metadata'', PDict (metadata it))]"

section \<open>The key-value table of the state database\<close>

type_synonym app_state = "(string \<times> pyval \<times> string) list"

definition get_local_app_state :: "app_state \<Rightarrow> string \<Rightarrow> pyval" where
  "get_local_app_state table state_key =
     (let token = strip state_key in
      if token = [] then PNone
      else case map_of table token of
             None \<Rightarrow> PNone
           | Some (v, ts) \<Rightarrow>
               PDict [(''state_key'', PStr token), (''value'', v), (''updated_at'', opt_str (snone (strip ts)))])"

definition put_local_app_state :: "app_state \<Rightarrow> string \<Rightarrow> pyval \<Rightarrow> string \<Rightarrow> string + app_state" where
  "put_local_app_state table state_key v now =
     (let token = strip state_key in
      if token = [] then Inl ''state_key is required.''
      else Inr (dset token (v, now) table))"

section \<open>The queue\<close>

record 'w lane_queue =
  lane_concurrency :: "lane \<Rightarrow> int"
  max_total_concurrency :: int
  recent_items_limit :: int
  pending :: "lane \<Rightarrow> nat list"
  active :: "lane \<Rightarrow> (string \<times> nat) list"
  recent :: "nat list"
  items :: "(string \<times> nat) list"
  heap :: "'w lane_item list"
  started :: bool
  accepting :: bool
  draining :: bool
  shut_down :: bool
  lane_cursor :: nat
  checkpoint_enabled :: bool
  checkpoint_key :: string
  last_checkpoint_error :: "string option"
  app_state_table :: app_state

definition total_active :: "'w lane_queue \<Rightarrow> nat" where
  "total_active q = sum_list (map (\<lambda>l. length (active q l)) LANE_ORDER)"

definition has_pending :: "'w lane_queue \<Rightarrow> bool" where
  "has_pending q = list_ex (\<lambda>l. pending q l \<noteq> []) LANE_ORDER"

definition has_active :: "'w lane_queue \<Rightarrow> bool" where
  "has_active q = list_ex (\<lambda>l. active q l \<noteq> []) LANE_ORDER"

definition has_run_id :: "'w lane_item \<Rightarrow> bool" where
  "has_run_id it = (case run_id it of None \<Rightarrow> False | Some s \<Rightarrow> s \<noteq> [])"

definition lane_refs :: "'w lane_queue \<Rightarrow> lane \<Rightarrow> nat list" where
  "lane_refs q l = map snd (active q l) @ pending q l"

definition checkpoint_items :: "'w lane_queue \<Rightarrow> pyval list" where
  "checkpoint_items q =
     concat (map (\<lambda>l. map (\<lambda>r. PDict (to_snapshot (heap q ! r)))
                        (filter (\<lambda>r. has_run_id (heap q ! r)) (lane_refs q l))) LANE_ORDER)"

definition persist_checkpoint :: "string option \<Rightarrow> string \<Rightarrow> 'w lane_queue \<Rightarrow> 'w lane_queue" where
  "persist_checkpoint io now q =
     (if \<not> checkpoint_enabled q then q
      else case io of
             Some msg \<Rightarrow> q\<lparr>last_checkpoint_error := Some msg\<rparr>
           | None \<Rightarrow>
               (case put_local_app_state (app_state_table q) (checkpoint_key q)
                       (PDict [(''items'', PList (checkpoint_items q)), (''persisted_at'', PStr now)]) now of
                  Inl msg \<Rightarrow> q\<lparr>last_checkpoint_error := Some msg\<rparr>
                | Inr table \<Rightarrow> q\<lparr>app_state_table := table, last_checkpoint_error := None\<rparr>))"

subsection \<open>Admission\<close>

text \<open>\<open>callable_work\<close> is \<open>None\<close> for an object that is not callable. The dispatcher is started before
  the accepting flag is read, so a refused call may still start it.\<close>

definition enqueue ::
    "string \<Rightarrow> string \<Rightarrow> string option \<Rightarrow> 'w lane_queue \<Rightarrow> pyval \<Rightarrow> pyval \<Rightarrow> 'w option \<Rightarrow> pyval \<Rightarrow>
     'w lane_queue \<times> (queue_error + nat)" where
  "enqueue uuid now io q lane lbl callable_work md =
     (case callable_work of
        None \<Rightarrow> (q, Inl NotCallable)
      | Some w \<Rightarrow>
          (case coerce_lane lane of
             Inl e \<Rightarrow> (q, Inl e)
           | Inr l \<Rightarrow>
               let resolved_metadata = coerce_metadata md;
                   item = \<lparr>item_id = ''lane_'' @ uuid, item_lane = l, label = sor (text_of lbl) ''Queued work'',
                     work = w, metadata = resolved_metadata, status = ''queued'', enqueued_at = now,
                     started_at = None, finished_at = None,
                     run_id = snone (text_of (dget resolved_metadata ''run_id'')),
                     summary = None, error = None, work_result = None\<rparr>;
                   q1 = q\<lparr>started := True\<rparr>;
                   r = length (heap q1)
               in if \<not> accepting q1 then (q1, Inl ShuttingDown)
                  else (persist_checkpoint io now
                          (q1\<lparr>heap := heap q1 @ [item],
                              pending := (pending q1)(l := pending q1 l @ [r]),
                              items := dset (item_id item) r (items q1)\<rparr>),
                        Inr r)))"

subsection \<open>Dispatch\<close>

definition lane_at :: "nat \<Rightarrow> lane" where
  "lane_at i = LANE_ORDER ! (i mod length LANE_ORDER)"

text \<open>The \<^verbatim>\<open>for offset in range(len(LANE_ORDER))\<close> loop up to its first dispatchable lane.\<close>

fun scan_lanes :: "'w lane_queue \<Rightarrow> nat list \<Rightarrow> (nat \<times> lane \<times> nat \<times> nat list) option" where
  "scan_lanes q [] = None"
| "scan_lanes q (offset # offsets) =
     (let l = lane_at (lane_cursor q + offset) in
      if lane_concurrency q l \<le> int (length (active q l)) then scan_lanes q offsets
      else case pending q l of
             [] \<Rightarrow> scan_lanes q offsets
           | r # rest \<Rightarrow> Some (offset, l, r, rest))"

definition next_dispatchable_item ::
    "string option \<Rightarrow> string \<Rightarrow> 'w lane_queue \<Rightarrow> (lane \<times> nat) option \<times> 'w lane_queue" where
  "next_dispatchable_item io now q =
     (if max_total_concurrency q \<le> int (total_active q) then (None, q)
      else case scan_lanes q [0..<length LANE_ORDER] of
             None \<Rightarrow> (None, q)
           | Some (offset, l, r, rest) \<Rightarrow>
               let item = (heap q ! r)\<lparr>status := ''running'', started_at := Some now\<rparr>;
                   q1 = q\<lparr>pending := (pending q)(l := rest),
                          heap := (heap q)[r := item],
                          active := (active q)(l := dset (item_id item) r (active q l))\<rparr>;
                   q2 = persist_checkpoint io now q1
               in (Some (l, r), q2\<lparr>lane_cursor := (lane_cursor q + offset + 1) mod length LANE_ORDER\<rparr>))"

datatype tick = Stopped | Waiting | Dispatched lane nat

text \<open>One pass of the dispatcher's inner loop: it stops, waits on the condition, or hands an item to
  a worker thread.\<close>

definition dispatch_tick :: "string option \<Rightarrow> string \<Rightarrow> 'w lane_queue \<Rightarrow> tick \<times> 'w lane_queue" where
  "dispatch_tick io now q =
     (if shut_down q then (Stopped, q)
      else case next_dispatchable_item io now q of
             (Some (l, r), q') \<Rightarrow> (Dispatched l r, q')
           | (None, q') \<Rightarrow>
               if draining q' \<and> \<not> has_pending q' \<and> \<not> has_active q' then (Stopped, q'\<lparr>shut_down := True\<rparr>)
               else (Waiting, q'))"

subsection \<open>Completion\<close>

definition opt_text :: "string option \<Rightarrow> string" where
  "opt_text m = strip (case m of None \<Rightarrow> [] | Some s \<Rightarrow> s)"

definition text_or_keep :: "string option \<Rightarrow> string option \<Rightarrow> string option" where
  "text_or_keep new old = (if opt_text new = [] then old else Some (opt_text new))"

definition finish_item ::
    "string option \<Rightarrow> string \<Rightarrow> 'w lane_queue \<Rightarrow> string \<Rightarrow> string \<Rightarrow> pyval option \<Rightarrow> string option \<Rightarrow>
     string option \<Rightarrow> string option \<Rightarrow> 'w lane_queue" where
  "finish_item io now q id' st res rid smry err =
     (case map_of (items q) id' of
        None \<Rightarrow> q
      | Some r \<Rightarrow>
          let item = heap q ! r; l = item_lane item;
              item' = item\<lparr>status := st, finished_at := Some now, work_result := res,
                run_id := text_or_keep rid (run_id item),
                summary := text_or_keep smry (summary item),
                error := text_or_keep err (error item)\<rparr>
          in persist_checkpoint io now
               (q\<lparr>active := (active q)(l := dpop id' (active q l)),
                  heap := (heap q)[r := item'],
                  recent := take (nat (recent_items_limit q)) (r # recent q)\<rparr>))"

text \<open>What calling \<^verbatim>\<open>item.work()\<close> does: it returns, raises an \<^verbatim>\<open>Exception\<close>, or the thread dies
  of another \<^verbatim>\<open>BaseException\<close>, which nothing catches.\<close>

datatype work_outcome = WReturned pyval | WRaised string | WAborted

definition run_item ::
    "string option \<Rightarrow> string \<Rightarrow> 'w lane_queue \<Rightarrow> string \<Rightarrow> work_outcome \<Rightarrow> 'w lane_queue" where
  "run_item io now q id' out =
     (case map_of (items q) id' of
        None \<Rightarrow> q
      | Some r \<Rightarrow>
          (case out of
             WReturned v \<Rightarrow>
               (let payload = (case v of PDict d \<Rightarrow> d | _ \<Rightarrow> [(''value'', v)]) in
                finish_item io now q id' (text_default (dget payload ''status'') ''completed'')
                  (Some (PDict payload)) (snone (text_of (dget payload ''run_id'')))
                  (snone (text_of (dget payload ''summary''))) None)
           | WRaised msg \<Rightarrow>
               finish_item io now q id' ''failed'' None None (Some (''Lane work failed: '' @ msg)) (Some msg)
           | WAborted \<Rightarrow> q))"

subsection \<open>Configuration and shutdown\<close>

definition set_lane_concurrency :: "'w lane_queue \<Rightarrow> pyval \<Rightarrow> int \<Rightarrow> 'w lane_queue \<times> (queue_error + unit)" where
  "set_lane_concurrency q lane v =
     (case coerce_lane lane of
        Inl e \<Rightarrow> (q, Inl e)
      | Inr l \<Rightarrow> (q\<lparr>lane_concurrency := (lane_concurrency q)(l := max 1 (if v = 0 then 1 else v))\<rparr>, Inr ()))"

text \<open>\<^verbatim>\<open>shutdown\<close> releases the lock while it waits, so it is two atomic parts; between them the
  condition \<^verbatim>\<open>(pending or active) and before the deadline\<close> held at every check.\<close>

definition begin_shutdown :: "'w lane_queue \<Rightarrow> 'w lane_queue" where
  "begin_shutdown q = q\<lparr>accepting := False, draining := True\<rparr>"

definition end_shutdown :: "string option \<Rightarrow> string \<Rightarrow> 'w lane_queue \<Rightarrow> 'w lane_queue" where
  "end_shutdown io now q = persist_checkpoint io now (q\<lparr>shut_down := True\<rparr>)"

definition shutdown_waits :: "'w lane_queue \<Rightarrow> bool \<Rightarrow> bool \<Rightarrow> bool" where
  "shutdown_waits q wait' expired = (wait' \<and> (has_pending q \<or> has_active q) \<and> \<not> expired)"

subsection \<open>Construction and restore\<close>

text \<open>\<^verbatim>\<open>list(x or [])\<close> on checkpoint data.\<close>

fun py_list :: "pyval \<Rightarrow> string + pyval list" where
  "py_list PNone = Inr []"
| "py_list (PBool b) = (if b then Inl ''object is not iterable'' else Inr [])"
| "py_list (PInt i) = (if i \<noteq> 0 then Inl ''object is not iterable'' else Inr [])"
| "py_list (PStr s) = Inr (map (\<lambda>c. PStr [c]) s)"
| "py_list (PList xs) = Inr xs"
| "py_list (PDict d) = Inr (map (\<lambda>p. PStr (fst p)) d)"

text \<open>One round of the restore loop. \<open>factory payload\<close> is \<open>None\<close> when the factory raises or returns
  something that is not callable.\<close>

definition restore_item ::
    "(nat \<Rightarrow> string) \<Rightarrow> string \<Rightarrow> (pydict \<Rightarrow> 'w option) \<Rightarrow> pyval \<Rightarrow> 'w lane_queue \<Rightarrow> 'w lane_queue" where
  "restore_item uuid now factory raw_item q =
     (let payload = as_dict raw_item; rid = text_of (dget payload ''run_id'') in
      if rid = [] then q
      else case coerce_lane (dget payload ''lane'') of
             Inl _ \<Rightarrow> q
           | Inr l \<Rightarrow>
               (case factory payload of
                  None \<Rightarrow> q
                | Some w \<Rightarrow>
                    let r = length (heap q);
                        item = \<lparr>item_id = strip (py_str (por (dget payload ''id'') (PStr (''lane_'' @ uuid r)))),
                          item_lane = l,
                          label = text_default (dget payload ''label'') ''Restored queued work'',
                          work = w, metadata = coerce_metadata (dget payload ''metadata''),
                          status = ''queued'',
                          enqueued_at = text_default (dget payload ''enqueued_at'') now,
                          started_at = None, finished_at = None, run_id = Some rid,
                          summary = snone (text_of (dget payload ''summary'')),
                          error = None, work_result = None\<rparr>
                    in q\<lparr>heap := heap q @ [item],
                         pending := (pending q)(l := pending q l @ [r]),
                         items := dset (item_id item) r (items q)\<rparr>))"

definition stored_items :: "app_state \<Rightarrow> string \<Rightarrow> string + pyval list" where
  "stored_items table key = py_list (dget (as_dict (dget (as_dict (get_local_app_state table key)) ''value'')) ''items'')"

definition restore_checkpoint ::
    "(nat \<Rightarrow> string) \<Rightarrow> string \<Rightarrow> string option \<Rightarrow> (pydict \<Rightarrow> 'w option) option \<Rightarrow> 'w lane_queue \<Rightarrow> 'w lane_queue" where
  "restore_checkpoint uuid now io factory q =
     (case factory of
        None \<Rightarrow> q
      | Some f \<Rightarrow>
          if \<not> checkpoint_enabled q then q
          else case io of
                 Some msg \<Rightarrow> q\<lparr>last_checkpoint_error := Some msg\<rparr>
               | None \<Rightarrow>
                   (case stored_items (app_state_table q) (checkpoint_key q) of
                      Inl msg \<Rightarrow> q\<lparr>last_checkpoint_error := Some msg\<rparr>
                    | Inr raws \<Rightarrow> fold (restore_item uuid now f) raws (q\<lparr>last_checkpoint_error := None\<rparr>)))"

fun resolve_concurrency :: "(string \<times> int) list \<Rightarrow> (lane \<Rightarrow> int) \<Rightarrow> queue_error + (lane \<Rightarrow> int)" where
  "resolve_concurrency [] c = Inr c"
| "resolve_concurrency ((key, v) # kvs) c =
     rbind (coerce_lane (PStr key)) (\<lambda>l. resolve_concurrency kvs (c(l := max 1 (if v = 0 then 1 else v))))"

definition empty_queue :: "(lane \<Rightarrow> int) \<Rightarrow> int \<Rightarrow> int \<Rightarrow> bool \<Rightarrow> pyval \<Rightarrow> app_state \<Rightarrow> 'w lane_queue" where
  "empty_queue conc max_total recent_limit enabled key table =
     \<lparr>lane_concurrency = conc,
      max_total_concurrency = max 1 (if max_total = 0 then DEFAULT_MAX_TOTAL_CONCURRENCY else max_total),
      recent_items_limit = max 4 (if recent_limit = 0 then DEFAULT_RECENT_ITEMS_LIMIT else recent_limit),
      pending = (\<lambda>l. []), active = (\<lambda>l. []), recent = [], items = [], heap = [],
      started = False, accepting = True, draining = False, shut_down = False, lane_cursor = 0,
      checkpoint_enabled = enabled, checkpoint_key = text_default key DEFAULT_CHECKPOINT_KEY,
      last_checkpoint_error = None, app_state_table = table\<rparr>"

definition new_queue ::
    "(nat \<Rightarrow> string) \<Rightarrow> string \<Rightarrow> string option \<Rightarrow> (string \<times> int) list \<Rightarrow> int \<Rightarrow> int \<Rightarrow> bool \<Rightarrow> pyval \<Rightarrow>
     (pydict \<Rightarrow> 'w option) option \<Rightarrow> app_state \<Rightarrow> queue_error + 'w lane_queue" where
  "new_queue uuid now io conc max_total recent_limit enabled key factory table =
     rbind (resolve_concurrency conc DEFAULT_LANE_CONCURRENCY)
       (\<lambda>c. Inr (restore_checkpoint uuid now io factory (empty_queue c max_total recent_limit enabled key table)))"

subsection \<open>Snapshot\<close>

definition lane_snapshot :: "'w lane_queue \<Rightarrow> lane \<Rightarrow> pyval" where
  "lane_snapshot q l =
     PDict [(''concurrency'', PInt (lane_concurrency q l)),
       (''pending_count'', PInt (int (length (pending q l)))),
       (''active_count'', PInt (int (length (active q l)))),
       (''pending'', PList (map (\<lambda>r. PDict (to_snapshot (heap q ! r))) (take 4 (pending q l)))),
       (''active'', PList (map (\<lambda>p. PDict (to_snapshot (heap q ! snd p))) (take 4 (active q l))))]"

definition snapshot :: "'w lane_queue \<Rightarrow> pydict" where
  "snapshot q =
     [(''accepting_new_work'', PBool (accepting q)),
      (''draining'', PBool (draining q)),
      (''running'', PBool (started q \<and> \<not> shut_down q)),
      (''max_total_concurrency'', PInt (max_total_concurrency q)),
      (''pending_count'', PInt (int (sum_list (map (\<lambda>l. length (pending q l)) LANE_ORDER)))),
      (''active_count'', PInt (int (total_active q))),
      (''checkpoint'', PDict [(''enabled'', PBool (checkpoint_enabled q)),
         (''key'', if checkpoint_enabled q then PStr (checkpoint_key q) else PNone),
         (''last_error'', opt_str (last_checkpoint_error q))]),
      (''lanes'', PDict (map (\<lambda>l. (lane_token l, lane_snapshot q l)) LANE_ORDER)),
      (''recent'', PList (map (\<lambda>r. PDict (to_snapshot (heap q ! r))) (take 6 (recent q))))]"

section \<open>Threads as steps\<close>

text \<open>\<open>workers\<close> are the ids of the worker threads that have not returned.\<close>

record 'w lane_sys =
  queue :: "'w lane_queue"
  workers :: "string list"

datatype lane_act = Admit lane nat | Start lane nat | Finish lane nat | Silent

definition uuid_ok :: "string \<Rightarrow> bool" where
  "uuid_ok u = (length u = 12 \<and> list_all (\<lambda>c. c \<in> set ''0123456789abcdef'') u)"

text \<open>The rule \<open>admit\<close> asks for a fresh id, which \<^verbatim>\<open>uuid4\<close> provides.\<close>

inductive lane_step :: "'w lane_sys \<Rightarrow> lane_act \<Rightarrow> 'w lane_sys \<Rightarrow> bool" where
  admit: "uuid_ok uuid \<Longrightarrow> ''lane_'' @ uuid \<notin> fst ` set (items (queue s)) \<Longrightarrow>
    enqueue uuid now io (queue s) lane lbl w md = (q', Inr r) \<Longrightarrow>
    lane_step s (Admit (item_lane (heap q' ! r)) r) (s\<lparr>queue := q'\<rparr>)"
| refuse: "enqueue uuid now io (queue s) lane lbl w md = (q', Inl e) \<Longrightarrow>
    lane_step s Silent (s\<lparr>queue := q'\<rparr>)"
| dispatch: "started (queue s) \<Longrightarrow> dispatch_tick io now (queue s) = (Dispatched l r, q') \<Longrightarrow>
    lane_step s (Start l r) (s\<lparr>queue := q', workers := item_id (heap q' ! r) # workers s\<rparr>)"
| idle: "started (queue s) \<Longrightarrow> dispatch_tick io now (queue s) = (t, q') \<Longrightarrow> t = Stopped \<or> t = Waiting \<Longrightarrow>
    lane_step s Silent (s\<lparr>queue := q'\<rparr>)"
| finish: "i \<in> set (workers s) \<Longrightarrow> map_of (items (queue s)) i = Some r \<Longrightarrow> out \<noteq> WAborted \<Longrightarrow>
    lane_step s (Finish (item_lane (heap (queue s) ! r)) r)
      (s\<lparr>queue := run_item io now (queue s) i out, workers := remove1 i (workers s)\<rparr>)"
| abort: "i \<in> set (workers s) \<Longrightarrow>
    lane_step s Silent (s\<lparr>queue := run_item io now (queue s) i WAborted, workers := remove1 i (workers s)\<rparr>)"
| configure: "set_lane_concurrency (queue s) lane v = (q', res) \<Longrightarrow> lane_step s Silent (s\<lparr>queue := q'\<rparr>)"
| drain: "lane_step s Silent (s\<lparr>queue := begin_shutdown (queue s)\<rparr>)"
| close: "\<not> shutdown_waits (queue s) wait' expired \<Longrightarrow>
    lane_step s Silent (s\<lparr>queue := end_shutdown io now (queue s)\<rparr>)"

section \<open>The contract: FIFO lanes\<close>

text \<open>The items admitted to, started from and finished in a lane along a run.\<close>

fun admitted_in :: "lane \<Rightarrow> lane_act \<Rightarrow> nat list" where
  "admitted_in l (Admit l' r) = (if l' = l then [r] else [])"
| "admitted_in l _ = []"

fun started_in :: "lane \<Rightarrow> lane_act \<Rightarrow> nat list" where
  "started_in l (Start l' r) = (if l' = l then [r] else [])"
| "started_in l _ = []"

fun finished_in :: "lane \<Rightarrow> lane_act \<Rightarrow> nat list" where
  "finished_in l (Finish l' r) = (if l' = l then [r] else [])"
| "finished_in l _ = []"

text \<open>What the queue promises, independently of how it is stored: a waiting line and a bag of running
  items per lane; an admitted item joins the end of its line, a started one leaves the front of it,
  a finished one was running.\<close>

locale fifo_lanes =
  fixes step :: "'s \<Rightarrow> lane_act \<Rightarrow> 's \<Rightarrow> bool"
    and pend :: "'s \<Rightarrow> lane \<Rightarrow> nat list"
    and run :: "'s \<Rightarrow> lane \<Rightarrow> nat list"
    and inv :: "'s \<Rightarrow> bool"
  assumes inv_step: "inv s \<Longrightarrow> step s a s' \<Longrightarrow> inv s'"
    and admit_law: "inv s \<Longrightarrow> step s (Admit l r) s' \<Longrightarrow>
      pend s' = (pend s)(l := pend s l @ [r]) \<and> run s' = run s"
    and start_law: "inv s \<Longrightarrow> step s (Start l r) s' \<Longrightarrow>
      (\<exists>rest. pend s l = r # rest \<and> pend s' = (pend s)(l := rest)) \<and> run s' = (run s)(l := run s l @ [r])"
    and finish_law: "inv s \<Longrightarrow> step s (Finish l r) s' \<Longrightarrow>
      pend s' = pend s \<and> r \<in> set (run s l) \<and> run s' = (run s)(l := remove1 r (run s l))"
    and silent_law: "inv s \<Longrightarrow> step s Silent s' \<Longrightarrow> pend s' = pend s \<and> run s' = run s"
begin

lemma inv_trace: "trace step s as s' \<Longrightarrow> inv s \<Longrightarrow> inv s'"
  using trace_invariant [of step s as s' inv] inv_step by blast

lemma step_fifo:
  assumes "inv s" and "step s a s'"
  shows "pend s l @ admitted_in l a = started_in l a @ pend s' l"
proof (cases a)
  case (Admit l' r)
  then show ?thesis using admit_law [of s l' r s'] assms by simp
next
  case (Start l' r)
  then show ?thesis using start_law [of s l' r s'] assms by auto
next
  case (Finish l' r)
  then show ?thesis using finish_law [of s l' r s'] assms by simp
next
  case Silent
  then show ?thesis using silent_law [of s s'] assms by simp
qed

lemma step_conserves:
  assumes "inv s" and "step s a s'"
  shows "mset (run s l) + mset (started_in l a) = mset (run s' l) + mset (finished_in l a)"
proof (cases a)
  case (Admit l' r)
  then show ?thesis using admit_law [of s l' r s'] assms by simp
next
  case (Start l' r)
  then show ?thesis using start_law [of s l' r s'] assms by auto
next
  case (Finish l' r)
  then show ?thesis using finish_law [of s l' r s'] assms by auto
next
  case Silent
  then show ?thesis using silent_law [of s s'] assms by simp
qed

lemma fifo_order:
  assumes "trace step s as s'" and "inv s"
  shows "pend s l @ concat (map (admitted_in l) as) = concat (map (started_in l) as) @ pend s' l"
  using assms
proof (induction rule: trace.induct)
  case (trace_Nil s)
  then show ?case by simp
next
  case (trace_snoc s as s' a s'')
  have "inv s'" using trace_snoc inv_trace by blast
  then have step: "pend s' l @ admitted_in l a = started_in l a @ pend s'' l"
    using trace_snoc by (blast intro: step_fifo)
  have "pend s l @ concat (map (admitted_in l) (as @ [a])) =
      (concat (map (started_in l) as) @ pend s' l) @ admitted_in l a"
    using trace_snoc by (simp del: append_assoc add: append_assoc [symmetric])
  also have "\<dots> = concat (map (started_in l) as) @ started_in l a @ pend s'' l"
    by (simp add: step)
  finally show ?case by simp
qed

lemma conservation:
  assumes "trace step s as s'" and "inv s"
  shows "mset (run s l) + mset (concat (map (started_in l) as)) =
    mset (run s' l) + mset (concat (map (finished_in l) as))"
  using assms
proof (induction rule: trace.induct)
  case (trace_Nil s)
  then show ?case by simp
next
  case (trace_snoc s as s' a s'')
  have "inv s'" using trace_snoc inv_trace by blast
  then have "mset (run s' l) + mset (started_in l a) = mset (run s'' l) + mset (finished_in l a)"
    using trace_snoc by (blast intro: step_conserves)
  moreover have "mset (run s l) + mset (concat (map (started_in l) as)) =
      mset (run s' l) + mset (concat (map (finished_in l) as))"
    using trace_snoc by blast
  ultimately show ?case
    unfolding map_append concat_append mset_append by (simp add: add.assoc [symmetric])
qed

end

section \<open>Well-formed queues\<close>

definition item_ok :: "'w lane_item \<Rightarrow> bool" where
  "item_ok it = (strip (item_id it) = item_id it \<and> item_id it \<noteq> [] \<and> strip (label it) = label it \<and> label it \<noteq> [] \<and>
     (case run_id it of None \<Rightarrow> True | Some s \<Rightarrow> s \<noteq> [] \<and> strip s = s))"

definition refs_ok :: "'w lane_queue \<Rightarrow> bool" where
  "refs_ok q = (\<forall>l. distinct (lane_refs q l) \<and>
     (\<forall>r \<in> set (pending q l). r < length (heap q) \<and> item_lane (heap q ! r) = l) \<and>
     (\<forall>p \<in> set (active q l). snd p < length (heap q) \<and> item_lane (heap q ! snd p) = l \<and>
        item_id (heap q ! snd p) = fst p))"

definition index_ok :: "'w lane_queue \<Rightarrow> bool" where
  "index_ok q = (distinct (map item_id (heap q)) \<and>
     (\<forall>i r. map_of (items q) i = Some r \<longleftrightarrow> r < length (heap q) \<and> item_id (heap q ! r) = i))"

definition lane_wf :: "'w lane_queue \<Rightarrow> bool" where
  "lane_wf q = (refs_ok q \<and> index_ok q \<and> (\<forall>it \<in> set (heap q). item_ok it) \<and>
     int (total_active q) \<le> max_total_concurrency q \<and> lane_cursor q < length LANE_ORDER)"

lemma persist_frame [simp]:
  "pending (persist_checkpoint io now q) = pending q"
  "active (persist_checkpoint io now q) = active q"
  "heap (persist_checkpoint io now q) = heap q"
  "items (persist_checkpoint io now q) = items q"
  "recent (persist_checkpoint io now q) = recent q"
  "lane_concurrency (persist_checkpoint io now q) = lane_concurrency q"
  "max_total_concurrency (persist_checkpoint io now q) = max_total_concurrency q"
  "recent_items_limit (persist_checkpoint io now q) = recent_items_limit q"
  "lane_cursor (persist_checkpoint io now q) = lane_cursor q"
  "accepting (persist_checkpoint io now q) = accepting q"
  "draining (persist_checkpoint io now q) = draining q"
  "shut_down (persist_checkpoint io now q) = shut_down q"
  "started (persist_checkpoint io now q) = started q"
  "checkpoint_enabled (persist_checkpoint io now q) = checkpoint_enabled q"
  "checkpoint_key (persist_checkpoint io now q) = checkpoint_key q"
  by (simp_all add: persist_checkpoint_def split: option.split sum.split)

text \<open>What the invariant reads of a queue.\<close>

lemma lane_wf_cong:
  assumes "pending q' = pending q" "active q' = active q" "heap q' = heap q" "items q' = items q"
    "max_total_concurrency q' = max_total_concurrency q" "lane_cursor q' = lane_cursor q"
  shows "lane_wf q' = lane_wf q"
  by (simp add: lane_wf_def refs_ok_def index_ok_def lane_refs_def total_active_def assms)

lemma lane_wf_persist [simp]: "lane_wf (persist_checkpoint io now q) = lane_wf q"
  by (rule lane_wf_cong) simp_all

lemma LANE_ORDER_UNIV: "set LANE_ORDER = UNIV"
proof -
  have "l \<in> set LANE_ORDER" for l by (cases l) (auto simp: LANE_ORDER_def)
  then show ?thesis by auto
qed

lemma has_pending_iff: "has_pending q \<longleftrightarrow> (\<exists>l. pending q l \<noteq> [])"
  by (simp add: has_pending_def list_ex_iff LANE_ORDER_UNIV)

lemma has_active_iff: "has_active q \<longleftrightarrow> (\<exists>l. active q l \<noteq> [])"
  by (simp add: has_active_def list_ex_iff LANE_ORDER_UNIV)

lemma total_active_upd:
  "total_active (q\<lparr>active := (active q)(l := xs)\<rparr>) + length (active q l) = total_active q + length xs"
  by (cases l) (simp_all add: total_active_def LANE_ORDER_def)

lemma strip_lane_id: "uuid_ok u \<Longrightarrow> strip (''lane_'' @ u) = ''lane_'' @ u"
proof (rule strip_id)
  assume u: "uuid_ok u"
  then have ne: "u \<noteq> []" unfolding uuid_ok_def by (metis list.size(3) zero_neq_numeral)
  from u have "last u \<in> set ''0123456789abcdef''"
    unfolding uuid_ok_def list_all_iff using last_in_set [OF ne] by blast
  moreover have "\<forall>c \<in> set ''0123456789abcdef''. \<not> is_space c" by code_simp
  ultimately have "\<not> is_space (last u)" by blast
  with ne show "\<not> is_space (last (''lane_'' @ u))" by simp
  have "\<not> is_space (CHR ''l'')" by code_simp
  then show "\<not> is_space (hd (''lane_'' @ u))" by simp
qed simp

subsection \<open>Admission\<close>

definition fresh_item :: "string \<Rightarrow> string \<Rightarrow> lane \<Rightarrow> pyval \<Rightarrow> 'w \<Rightarrow> pyval \<Rightarrow> 'w lane_item" where
  "fresh_item uuid now l lbl w md =
     \<lparr>item_id = ''lane_'' @ uuid, item_lane = l, label = sor (text_of lbl) ''Queued work'',
      work = w, metadata = coerce_metadata md, status = ''queued'', enqueued_at = now,
      started_at = None, finished_at = None, run_id = snone (text_of (dget (coerce_metadata md) ''run_id'')),
      summary = None, error = None, work_result = None\<rparr>"

definition add_item :: "'w lane_item \<Rightarrow> 'w lane_queue \<Rightarrow> 'w lane_queue" where
  "add_item it q = q\<lparr>heap := heap q @ [it],
     pending := (pending q)(item_lane it := pending q (item_lane it) @ [length (heap q)]),
     items := dset (item_id it) (length (heap q)) (items q)\<rparr>"

lemma enqueue_Inr:
  assumes "enqueue uuid now io q lane lbl w md = (q', Inr r)"
  obtains l w' where "w = Some w'" "coerce_lane lane = Inr l" "accepting q" "r = length (heap q)"
    "q' = persist_checkpoint io now (add_item (fresh_item uuid now l lbl w' md) (q\<lparr>started := True\<rparr>))"
  using assms by (auto simp: enqueue_def add_item_def fresh_item_def Let_def
      split: option.splits sum.splits if_splits)

lemma enqueue_Inl: "enqueue uuid now io q lane lbl w md = (q', Inl e) \<Longrightarrow> q' = q \<or> q' = q\<lparr>started := True\<rparr>"
  by (auto simp: enqueue_def Let_def split: option.splits sum.splits if_splits)

lemma fresh_item_ok: "uuid_ok uuid \<Longrightarrow> item_ok (fresh_item uuid now l lbl w md)"
proof -
  assume u: "uuid_ok uuid"
  have "strip ''Queued work'' = ''Queued work''" by code_simp
  then have "strip (sor (text_of lbl) ''Queued work'') = sor (text_of lbl) ''Queued work''"
    by (simp add: sor_def)
  with strip_lane_id [OF u] show ?thesis by (simp add: item_ok_def fresh_item_def snone_def)
qed

lemma refs_okD:
  assumes "refs_ok q"
  shows "distinct (lane_refs q l)"
    and "r \<in> set (pending q l) \<Longrightarrow> r < length (heap q) \<and> item_lane (heap q ! r) = l"
    and "p \<in> set (active q l) \<Longrightarrow>
      snd p < length (heap q) \<and> item_lane (heap q ! snd p) = l \<and> item_id (heap q ! snd p) = fst p"
    and "r \<in> set (lane_refs q l) \<Longrightarrow> r < length (heap q)"
  using assms by (auto simp: refs_ok_def lane_refs_def)

lemma refs_okI:
  assumes "\<And>l. distinct (lane_refs q l)"
    and "\<And>l r. r \<in> set (pending q l) \<Longrightarrow> r < length (heap q) \<and> item_lane (heap q ! r) = l"
    and "\<And>l p. p \<in> set (active q l) \<Longrightarrow>
      snd p < length (heap q) \<and> item_lane (heap q ! snd p) = l \<and> item_id (heap q ! snd p) = fst p"
  shows "refs_ok q"
  using assms by (simp add: refs_ok_def)

lemma index_ok_inj:
  assumes "index_ok q" "r < length (heap q)" "r' < length (heap q)" "item_id (heap q ! r) = item_id (heap q ! r')"
  shows "r = r'"
proof -
  have "map_of (items q) (item_id (heap q ! r)) = Some r" "map_of (items q) (item_id (heap q ! r)) = Some r'"
    using assms by (simp_all add: index_ok_def)
  then show ?thesis by simp
qed

lemma refs_ok_add:
  assumes "refs_ok q" shows "refs_ok (add_item it q)"
proof (rule refs_okI)
  fix l
  have "lane_refs (add_item it q) l = lane_refs q l @ (if l = item_lane it then [length (heap q)] else [])"
    by (simp add: lane_refs_def add_item_def)
  then show "distinct (lane_refs (add_item it q) l)"
    using refs_okD(1) [OF assms, of l] refs_okD(4) [OF assms, of _ l] by auto
next
  fix l r assume "r \<in> set (pending (add_item it q) l)"
  then have "r \<in> set (pending q l) \<or> (l = item_lane it \<and> r = length (heap q))"
    by (auto simp: add_item_def split: if_splits)
  then show "r < length (heap (add_item it q)) \<and> item_lane (heap (add_item it q) ! r) = l"
    using refs_okD(2) [OF assms, of r l] by (auto simp: add_item_def nth_append)
next
  fix l p assume "p \<in> set (active (add_item it q) l)"
  then show "snd p < length (heap (add_item it q)) \<and> item_lane (heap (add_item it q) ! snd p) = l \<and>
      item_id (heap (add_item it q) ! snd p) = fst p"
    using refs_okD(3) [OF assms, of p l] by (auto simp: add_item_def nth_append)
qed

lemma index_ok_new:
  assumes "index_ok q" and "i \<notin> fst ` set (items q)"
  shows "i \<notin> item_id ` set (heap q)"
  using assms unfolding index_ok_def
  by (metis (no_types, lifting) image_iff in_set_conv_nth map_of_eq_None_iff option.distinct(1))

lemma index_ok_add:
  assumes "index_ok q" and "item_id it \<notin> fst ` set (items q)"
  shows "index_ok (add_item it q)"
proof -
  have new: "item_id it \<notin> item_id ` set (heap q)" using assms by (rule index_ok_new)
  have "map_of (items (add_item it q)) i = Some r \<longleftrightarrow>
      r < length (heap (add_item it q)) \<and> item_id (heap (add_item it q) ! r) = i" for i r
  proof (cases "r < length (heap q)")
    case True
    then have "item_id (heap q ! r) \<noteq> item_id it" using new by (metis image_eqI nth_mem)
    with True assms(1) show ?thesis
      by (auto simp: add_item_def map_of_dset nth_append index_ok_def)
  next
    case False
    then have "map_of (items q) i \<noteq> Some r" using assms(1) by (simp add: index_ok_def)
    with False show ?thesis
      by (auto simp: add_item_def map_of_dset nth_append less_Suc_eq)
  qed
  with new assms(1) show ?thesis by (simp add: index_ok_def add_item_def)
qed

lemma lane_wf_add:
  assumes "lane_wf q" and "item_ok it" and "item_id it \<notin> fst ` set (items q)"
  shows "lane_wf (add_item it q)"
proof -
  have "refs_ok (add_item it q)" "index_ok (add_item it q)"
    using assms by (auto simp: lane_wf_def intro: refs_ok_add index_ok_add)
  moreover have "heap (add_item it q) = heap q @ [it]" "total_active (add_item it q) = total_active q"
    "max_total_concurrency (add_item it q) = max_total_concurrency q" "lane_cursor (add_item it q) = lane_cursor q"
    by (simp_all add: add_item_def total_active_def)
  ultimately show ?thesis using assms(1,2) by (auto simp: lane_wf_def)
qed

subsection \<open>Dispatch\<close>

definition lane_ready :: "'w lane_queue \<Rightarrow> lane \<Rightarrow> bool" where
  "lane_ready q l = (int (length (active q l)) < lane_concurrency q l \<and> pending q l \<noteq> [])"

definition start_item :: "string \<Rightarrow> lane \<Rightarrow> nat \<Rightarrow> 'w lane_queue \<Rightarrow> 'w lane_queue" where
  "start_item now l r q = q\<lparr>pending := (pending q)(l := tl (pending q l)),
     heap := (heap q)[r := (heap q ! r)\<lparr>status := ''running'', started_at := Some now\<rparr>],
     active := (active q)(l := dset (item_id (heap q ! r)) r (active q l))\<rparr>"

lemma scan_lanes_find:
  "scan_lanes q offsets = map_option (\<lambda>offset. let l = lane_at (lane_cursor q + offset) in
      (offset, l, hd (pending q l), tl (pending q l)))
    (find (\<lambda>offset. lane_ready q (lane_at (lane_cursor q + offset))) offsets)"
  by (induction offsets) (auto simp: lane_ready_def Let_def split: list.split)

lemma scan_lanes_Some:
  assumes "scan_lanes q [0..<n] = Some (offset, l, r, rest)"
  shows "offset < n \<and> l = lane_at (lane_cursor q + offset) \<and> lane_ready q l \<and> pending q l = r # rest \<and>
    (\<forall>k < offset. \<not> lane_ready q (lane_at (lane_cursor q + k)))"
  using assms unfolding scan_lanes_find
  by (auto simp: find_Some_iff Let_def lane_ready_def)

lemma scan_lanes_None:
  "scan_lanes q [0..<n] = None \<longleftrightarrow> (\<forall>k < n. \<not> lane_ready q (lane_at (lane_cursor q + k)))"
  unfolding scan_lanes_find by (auto simp: find_None_iff)

lemma next_item_Some:
  assumes "next_dispatchable_item io now q = (Some (l, r), q')"
  obtains offset where "offset < length LANE_ORDER" "l = lane_at (lane_cursor q + offset)"
    "int (total_active q) < max_total_concurrency q" "lane_ready q l" "pending q l = r # tl (pending q l)"
    "\<forall>k < offset. \<not> lane_ready q (lane_at (lane_cursor q + k))"
    "q' = (persist_checkpoint io now (start_item now l r q))
       \<lparr>lane_cursor := (lane_cursor q + offset + 1) mod length LANE_ORDER\<rparr>"
proof -
  from assms obtain offset rest where scan: "scan_lanes q [0..<length LANE_ORDER] = Some (offset, l, r, rest)"
    and tot: "int (total_active q) < max_total_concurrency q"
    and q': "q' = (persist_checkpoint io now (q\<lparr>pending := (pending q)(l := rest),
        heap := (heap q)[r := (heap q ! r)\<lparr>status := ''running'', started_at := Some now\<rparr>],
        active := (active q)(l := dset (item_id (heap q ! r)) r (active q l))\<rparr>))
       \<lparr>lane_cursor := (lane_cursor q + offset + 1) mod length LANE_ORDER\<rparr>"
    by (auto simp: next_dispatchable_item_def Let_def split: if_splits option.splits)
  note S = scan_lanes_Some [OF scan]
  then have rest: "pending q l = r # tl (pending q l)" "rest = tl (pending q l)" by (metis list.sel(3))+
  show thesis
    using S tot q' rest(1) by (intro that [of offset]) (auto simp: start_item_def rest(2))
qed

lemma tick_Dispatched:
  "dispatch_tick io now q = (Dispatched l r, q') \<longleftrightarrow>
    \<not> shut_down q \<and> next_dispatchable_item io now q = (Some (l, r), q')"
  by (auto simp: dispatch_tick_def split: option.splits prod.splits if_splits)

lemma next_item_None: "next_dispatchable_item io now q = (None, q') \<Longrightarrow> q' = q"
  by (auto simp: next_dispatchable_item_def Let_def split: if_splits option.splits)

lemma tick_not_Dispatched:
  "dispatch_tick io now q = (t, q') \<Longrightarrow> t = Stopped \<or> t = Waiting \<Longrightarrow> q' = q \<or> q' = q\<lparr>shut_down := True\<rparr>"
  by (auto simp: dispatch_tick_def dest: next_item_None split: option.splits prod.splits if_splits)

lemma start_active:
  assumes "lane_wf q" and "pending q l = r # rest"
  shows "active (start_item now l r q) = (active q)(l := active q l @ [(item_id (heap q ! r), r)])"
    and "r < length (heap q)" and "item_lane (heap q ! r) = l"
    and "item_id (heap q ! r) \<notin> fst ` set (active q l')"
proof -
  have ok: "refs_ok q" "index_ok q" using assms(1) by (simp_all add: lane_wf_def)
  show r: "r < length (heap q)" and lane: "item_lane (heap q ! r) = l"
    using refs_okD(2) [OF ok(1), of r l] assms(2) by simp_all
  have new: "item_id (heap q ! r) \<noteq> fst p" if "p \<in> set (active q l'')" for p l''
  proof
    assume eq: "item_id (heap q ! r) = fst p"
    note P = refs_okD(3) [OF ok(1) that]
    then have "snd p = r" using index_ok_inj [OF ok(2) r, of "snd p"] eq by simp
    moreover from this P lane have "l'' = l" by simp
    ultimately have "r \<in> snd ` set (active q l)" using that by (metis image_eqI)
    then show False using refs_okD(1) [OF ok(1), of l] assms(2) by (simp add: lane_refs_def)
  qed
  then show "item_id (heap q ! r) \<notin> fst ` set (active q l')" by blast
  have "item_id (heap q ! r) \<notin> fst ` set (active q l)" using new by blast
  then show "active (start_item now l r q) = (active q)(l := active q l @ [(item_id (heap q ! r), r)])"
    by (simp add: start_item_def dset_new)
qed

lemma nth_upd_eq: "f it = f (h ! r) \<Longrightarrow> f (h[r := it] ! r') = f (h ! r')"
  by (cases "r < length h"; cases "r' = r") (simp_all add: list_update_beyond)

lemma heap_frame:
  "item_id ((h[r := (h ! r)\<lparr>status := st, started_at := x\<rparr>]) ! r') = item_id (h ! r')"
  "item_lane ((h[r := (h ! r)\<lparr>status := st, started_at := x\<rparr>]) ! r') = item_lane (h ! r')"
  by (simp_all add: nth_upd_eq)

lemma map_item_id_upd: "item_id it = item_id (h ! r) \<Longrightarrow> map item_id (h[r := it]) = map item_id h"
  by (metis list_update_id map_update)

lemma lane_wf_start:
  assumes wf: "lane_wf q" and pend: "pending q l = r # rest"
    and tot: "int (total_active q) < max_total_concurrency q"
  shows "lane_wf (start_item now l r q)"
proof -
  note A = start_active [OF wf pend]
  let ?q = "start_item now l r q"
  let ?it = "(heap q ! r)\<lparr>status := ''running'', started_at := Some now\<rparr>"
  have h: "heap ?q = (heap q)[r := ?it]" and p: "pending ?q = (pending q)(l := rest)"
    and i: "items ?q = items q"
    by (simp_all add: start_item_def pend)
  have ok: "refs_ok q" "index_ok q" "\<forall>it \<in> set (heap q). item_ok it" using wf by (simp_all add: lane_wf_def)
  have "mset (lane_refs ?q l') = mset (lane_refs q l')" for l'
    by (simp add: lane_refs_def A(1) p pend)
  then have "distinct (lane_refs ?q l') = distinct (lane_refs q l')" for l'
    by (rule mset_eq_imp_distinct_iff)
  moreover have "r' < length (heap q) \<and> item_lane (heap q ! r') = l'" if "r' \<in> set (pending ?q l')" for r' l'
    using refs_okD(2) [OF ok(1), of r' l'] that by (auto simp: p pend split: if_splits)
  moreover have "snd p < length (heap q) \<and> item_lane (heap q ! snd p) = l' \<and> item_id (heap q ! snd p) = fst p"
    if "p \<in> set (active ?q l')" for p l'
    using refs_okD(3) [OF ok(1), of p l'] that A(2,3) by (auto simp: A(1) split: if_splits)
  ultimately have refs: "refs_ok ?q"
    using refs_okD(1) [OF ok(1)] by (intro refs_okI) (auto simp: h heap_frame)
  have "index_ok ?q"
    using ok(2) by (simp add: index_ok_def h i heap_frame map_item_id_upd)
  moreover have "item_ok ?it" using ok(3) A(2) by (simp add: item_ok_def)
  then have "\<forall>it \<in> set (heap ?q). item_ok it"
    using ok(3) by (auto simp: h dest!: set_update_subset_insert [THEN subsetD])
  moreover have "total_active ?q = Suc (total_active q)"
    using total_active_upd [of q l "active q l @ [(item_id (heap q ! r), r)]"]
    by (simp add: total_active_def A(1))
  ultimately show ?thesis
    using refs tot wf by (simp add: lane_wf_def) (simp add: start_item_def)
qed

subsection \<open>Completion\<close>

definition complete_item :: "string \<Rightarrow> nat \<Rightarrow> 'w lane_item \<Rightarrow> 'w lane_queue \<Rightarrow> 'w lane_queue" where
  "complete_item i r it q = q\<lparr>active := (active q)(item_lane it := dpop i (active q (item_lane it))),
     heap := (heap q)[r := it], recent := take (nat (recent_items_limit q)) (r # recent q)\<rparr>"

lemma finish_item_Some:
  assumes "map_of (items q) i = Some r" and "item_ok (heap q ! r)"
  obtains it where "finish_item io now q i st res rid smry err = persist_checkpoint io now (complete_item i r it q)"
    "item_id it = item_id (heap q ! r)" "item_lane it = item_lane (heap q ! r)" "item_ok it"
    "status it = st" "finished_at it = Some now"
proof -
  let ?it = "(heap q ! r)\<lparr>status := st, finished_at := Some now, work_result := res,
    run_id := text_or_keep rid (run_id (heap q ! r)), summary := text_or_keep smry (summary (heap q ! r)),
    error := text_or_keep err (error (heap q ! r))\<rparr>"
  have "item_ok ?it" using assms(2) by (auto simp: item_ok_def text_or_keep_def opt_text_def)
  moreover have "finish_item io now q i st res rid smry err = persist_checkpoint io now (complete_item i r ?it q)"
    using assms(1) by (simp add: finish_item_def complete_item_def Let_def)
  ultimately show thesis by (intro that [of ?it]) simp_all
qed

lemma run_item_finish:
  assumes "map_of (items q) i = Some r" and "out \<noteq> WAborted"
  obtains st res rid smry err where "run_item io now q i out = finish_item io now q i st res rid smry err"
proof (cases out)
  case (WReturned v)
  with assms(1) show thesis by (intro that) (simp add: run_item_def Let_def)
next
  case (WRaised msg)
  with assms(1) show thesis by (intro that) (simp add: run_item_def)
qed (use assms(2) in simp)

lemma run_item_aborted: "run_item io now q i WAborted = q"
  by (simp add: run_item_def split: option.split)

lemma index_ok_items: "index_ok q \<Longrightarrow> map_of (items q) i = Some r \<longleftrightarrow> r < length (heap q) \<and> item_id (heap q ! r) = i"
  by (simp add: index_ok_def)

lemma distinct_remove1_append: "distinct (xs @ ys) \<Longrightarrow> distinct (remove1 r xs @ ys)"
  using set_remove1_subset [of r xs] by auto

lemma dpop_active:
  assumes "lane_wf q" and "map_of (items q) i = Some r"
  shows "map snd (dpop i (active q l)) = remove1 r (map snd (active q l))"
proof -
  have ok: "refs_ok q" "index_ok q" using assms(1) by (simp_all add: lane_wf_def)
  have r: "r < length (heap q)" "item_id (heap q ! r) = i" using assms(2) index_ok_items [OF ok(2)] by simp_all
  have key: "fst p = i \<longleftrightarrow> snd p = r" if "p \<in> set (active q l)" for p
  proof -
    note P = refs_okD(3) [OF ok(1) that]
    then have "item_id (heap q ! r) = item_id (heap q ! snd p) \<Longrightarrow> r = snd p"
      using index_ok_inj [OF ok(2) r(1)] by blast
    with P r(2) show ?thesis by metis
  qed
  have "map snd (dpop i (active q l)) = map snd (filter (\<lambda>p. snd p \<noteq> r) (active q l))"
  proof -
    have "dpop i (active q l) = filter (\<lambda>p. snd p \<noteq> r) (active q l)"
      unfolding AList.delete_eq case_prod_beta
      by (rule filter_cong) (metis key)+
    then show ?thesis by simp
  qed
  also have "\<dots> = removeAll r (map snd (active q l))"
    unfolding removeAll_filter_not_eq filter_map comp_def by metis
  also have "\<dots> = remove1 r (map snd (active q l))"
    using refs_okD(1) [OF ok(1), of l] by (simp add: lane_refs_def distinct_remove1_removeAll)
  finally show ?thesis .
qed

lemma lane_wf_complete:
  assumes wf: "lane_wf q" and idx: "map_of (items q) i = Some r"
    and it: "item_id it = item_id (heap q ! r)" "item_lane it = item_lane (heap q ! r)" "item_ok it"
  shows "lane_wf (complete_item i r it q)"
proof -
  let ?q = "complete_item i r it q"
  have ok: "refs_ok q" "index_ok q" "\<forall>it \<in> set (heap q). item_ok it" using wf by (simp_all add: lane_wf_def)
  have sub: "set (active ?q l) \<subseteq> set (active q l)" for l
    by (auto simp: complete_item_def AList.delete_eq)
  have h: "heap ?q = (heap q)[r := it]" by (simp add: complete_item_def)
  note frame = nth_upd_eq [of item_id, OF it(1)] nth_upd_eq [of item_lane, OF it(2)]
  have refs: "refs_ok ?q"
  proof (rule refs_okI)
    fix l
    have "lane_refs ?q l = (if l = item_lane it then remove1 r (map snd (active q l)) else map snd (active q l)) @ pending q l"
      using dpop_active [OF wf idx, of "item_lane it"] by (simp add: lane_refs_def complete_item_def)
    then show "distinct (lane_refs ?q l)"
      using refs_okD(1) [OF ok(1), of l] by (simp only: lane_refs_def distinct_remove1_append split: if_split) simp
  next
    fix l r' assume "r' \<in> set (pending ?q l)"
    then show "r' < length (heap ?q) \<and> item_lane (heap ?q ! r') = l"
      using refs_okD(2) [OF ok(1), of r' l] by (simp add: h frame) (simp add: complete_item_def)
  next
    fix l p assume "p \<in> set (active ?q l)"
    then show "snd p < length (heap ?q) \<and> item_lane (heap ?q ! snd p) = l \<and> item_id (heap ?q ! snd p) = fst p"
      using refs_okD(3) [OF ok(1), of p l] sub [of l] by (auto simp: h frame)
  qed
  have index: "index_ok ?q"
    using ok(2) by (simp add: index_ok_def h frame map_item_id_upd it(1)) (simp add: complete_item_def)
  have items: "\<forall>it \<in> set (heap ?q). item_ok it"
    using ok(3) it(3) by (auto simp: h dest!: set_update_subset_insert [THEN subsetD])
  have "length (dpop i (active q (item_lane it))) \<le> length (active q (item_lane it))"
    by (simp add: AList.delete_eq)
  then have "total_active ?q \<le> total_active q"
    using total_active_upd [of q "item_lane it" "dpop i (active q (item_lane it))"]
    by (simp add: total_active_def complete_item_def)
  with refs index items wf show ?thesis
    by (simp add: lane_wf_def) (simp add: complete_item_def)
qed

section \<open>The checkpoint follows the state\<close>

text \<open>What a restart would read is what the queue holds.\<close>

definition saved :: "'w lane_queue \<Rightarrow> bool" where
  "saved q = (stored_items (app_state_table q) (checkpoint_key q) = Inr (checkpoint_items q))"

definition checkpoint_current :: "'w lane_queue \<Rightarrow> bool" where
  "checkpoint_current q = (strip (checkpoint_key q) = checkpoint_key q \<and> checkpoint_key q \<noteq> [] \<and>
     (checkpoint_enabled q \<longrightarrow> last_checkpoint_error q = None \<longrightarrow> saved q))"

lemma stored_items_put:
  assumes "strip key = key" "key \<noteq> []"
  shows "put_local_app_state table key v now = Inr (dset key (v, now) table)"
    and "stored_items (dset key (v, now) table) key = py_list (dget (as_dict v) ''items'')"
  using assms
  by (simp_all add: put_local_app_state_def stored_items_def get_local_app_state_def Let_def map_of_dset dget_Cons)

lemma checkpoint_items_persist [simp]: "checkpoint_items (persist_checkpoint io now q) = checkpoint_items q"
  by (simp add: checkpoint_items_def lane_refs_def)

lemma persist_saves:
  assumes "checkpoint_enabled q" "strip (checkpoint_key q) = checkpoint_key q" "checkpoint_key q \<noteq> []"
  shows "saved (persist_checkpoint None now q)" "last_checkpoint_error (persist_checkpoint None now q) = None"
proof -
  have "app_state_table (persist_checkpoint None now q) =
      dset (checkpoint_key q) (PDict [(''items'', PList (checkpoint_items q)), (''persisted_at'', PStr now)], now)
        (app_state_table q)"
    using assms by (simp add: persist_checkpoint_def stored_items_put)
  then show "saved (persist_checkpoint None now q)"
    using assms by (simp add: saved_def stored_items_put dget_Cons)
  show "last_checkpoint_error (persist_checkpoint None now q) = None"
    using assms by (simp add: persist_checkpoint_def stored_items_put)
qed

lemma checkpoint_current_persist:
  assumes "strip (checkpoint_key q) = checkpoint_key q" "checkpoint_key q \<noteq> []"
  shows "checkpoint_current (persist_checkpoint io now q)"
proof (cases "checkpoint_enabled q \<and> io = None")
  case True
  then show ?thesis using persist_saves [of q now] assms by (simp add: checkpoint_current_def)
next
  case False
  then show ?thesis
    using assms by (auto simp: checkpoint_current_def persist_checkpoint_def split: option.splits)
qed

lemma checkpoint_current_cong:
  assumes "checkpoint_key q' = checkpoint_key q" "checkpoint_enabled q' = checkpoint_enabled q"
    "last_checkpoint_error q' = last_checkpoint_error q" "app_state_table q' = app_state_table q"
    "pending q' = pending q" "active q' = active q" "heap q' = heap q"
  shows "checkpoint_current q' = checkpoint_current q"
  by (simp add: checkpoint_current_def saved_def checkpoint_items_def lane_refs_def assms)

section \<open>Every step keeps the invariant and obeys the contract\<close>

definition limits_ok :: "'w lane_queue \<Rightarrow> bool" where
  "limits_ok q = (1 \<le> max_total_concurrency q \<and> (\<forall>l. 1 \<le> lane_concurrency q l))"

definition lane_inv :: "'w lane_sys \<Rightarrow> bool" where
  "lane_inv s = (lane_wf (queue s) \<and> limits_ok (queue s) \<and> checkpoint_current (queue s) \<and> distinct (workers s) \<and>
     (\<forall>i \<in> set (workers s). \<exists>l. i \<in> fst ` set (active (queue s) l)))"

definition waiting :: "'w lane_sys \<Rightarrow> lane \<Rightarrow> nat list" where
  "waiting s = pending (queue s)"

definition running :: "'w lane_sys \<Rightarrow> lane \<Rightarrow> nat list" where
  "running s l = map snd (active (queue s) l)"

lemma silent_inv:
  assumes "lane_inv s"
    and "pending q' = pending (queue s)" "active q' = active (queue s)" "heap q' = heap (queue s)"
      "items q' = items (queue s)" "max_total_concurrency q' = max_total_concurrency (queue s)"
      "lane_cursor q' = lane_cursor (queue s)"
    and "limits_ok q'" and "checkpoint_current q'"
  shows "lane_inv (s\<lparr>queue := q'\<rparr>)"
  using assms lane_wf_cong [of q' "queue s"] by (simp add: lane_inv_def)

lemma admit_step:
  fixes s :: "'w lane_sys"
  assumes inv: "lane_inv s" and u: "uuid_ok uuid" "''lane_'' @ uuid \<notin> fst ` set (items (queue s))"
    and enq: "enqueue uuid now io (queue s) lane lbl w md = (q', Inr r)"
  shows "lane_inv (s\<lparr>queue := q'\<rparr>) \<and>
    pending q' = (pending (queue s))(item_lane (heap q' ! r) := pending (queue s) (item_lane (heap q' ! r)) @ [r]) \<and>
    active q' = active (queue s)"
  using enq
proof (rule enqueue_Inr)
  fix l and w' :: 'w
  let ?q = "(queue s)\<lparr>started := True\<rparr>" and ?it = "fresh_item uuid now l lbl w' md"
  assume r: "r = length (heap (queue s))" and q': "q' = persist_checkpoint io now (add_item ?it ?q)"
  have id': "item_id ?it = ''lane_'' @ uuid" by (simp add: fresh_item_def)
  have "lane_wf ?q" using inv lane_wf_cong [of ?q "queue s"] by (simp add: lane_inv_def)
  then have "lane_wf (add_item ?it ?q)"
    using u(2) fresh_item_ok [OF u(1)] by (intro lane_wf_add) (simp_all add: id')
  moreover have "checkpoint_current q'"
    unfolding q' using inv
    by (intro checkpoint_current_persist) (simp_all add: lane_inv_def checkpoint_current_def add_item_def)
  moreover have "limits_ok q'" using inv by (simp add: q' lane_inv_def limits_ok_def add_item_def)
  ultimately show ?thesis
    using inv by (simp add: q' r lane_inv_def) (simp add: add_item_def)
qed

lemma start_step:
  fixes s :: "'w lane_sys"
  assumes inv: "lane_inv s" and nxt: "next_dispatchable_item io now (queue s) = (Some (l, r), q')"
  shows "lane_inv (s\<lparr>queue := q', workers := item_id (heap q' ! r) # workers s\<rparr>)"
    and "pending (queue s) l = r # pending q' l" and "pending q' = (pending (queue s))(l := pending q' l)"
    and "map snd (active q' l') = ((\<lambda>l. map snd (active (queue s) l))(l := map snd (active (queue s) l) @ [r])) l'"
proof -
  let ?q = "queue s"
  have wf: "lane_wf ?q" and cp: "strip (checkpoint_key ?q) = checkpoint_key ?q" "checkpoint_key ?q \<noteq> []"
    using inv by (simp_all add: lane_inv_def checkpoint_current_def)
  obtain offset where tot: "int (total_active ?q) < max_total_concurrency ?q"
    and pend: "pending ?q l = r # tl (pending ?q l)"
    and off: "q' = (persist_checkpoint io now (start_item now l r ?q))
      \<lparr>lane_cursor := (lane_cursor ?q + offset + 1) mod length LANE_ORDER\<rparr>"
    using nxt by (rule next_item_Some)
  define c where "c = (lane_cursor ?q + offset + 1) mod length LANE_ORDER"
  have c: "c < length LANE_ORDER" by (simp add: c_def LANE_ORDER_def)
  have q': "q' = (persist_checkpoint io now (start_item now l r ?q))\<lparr>lane_cursor := c\<rparr>"
    using off by (simp add: c_def)
  note A = start_active [OF wf pend]
  let ?p = "persist_checkpoint io now (start_item now l r ?q)"
  have wfp: "lane_wf ?p" using lane_wf_start [OF wf pend tot] by simp
  have "lane_wf q'"
    using wfp c unfolding q' lane_wf_def refs_ok_def index_ok_def lane_refs_def total_active_def by simp
  moreover have "checkpoint_current ?p"
    using cp by (intro checkpoint_current_persist) (simp_all add: start_item_def)
  then have "checkpoint_current q'" using checkpoint_current_cong [of q' ?p] by (simp add: q')
  moreover have id': "item_id (heap q' ! r) = item_id (heap ?q ! r)"
    by (simp add: q') (simp add: start_item_def heap_frame)
  moreover have act: "active q' = (active ?q)(l := active ?q l @ [(item_id (heap ?q ! r), r)])"
    by (simp add: q' A(1))
  moreover have "item_id (heap ?q ! r) \<notin> set (workers s)"
    using inv A(4) unfolding lane_inv_def by blast
  moreover have "limits_ok q'" using inv by (simp add: q' lane_inv_def limits_ok_def start_item_def)
  ultimately show "lane_inv (s\<lparr>queue := q', workers := item_id (heap q' ! r) # workers s\<rparr>)"
    using inv by (auto simp: lane_inv_def) (metis image_eqI)
  show "pending ?q l = r # pending q' l" "pending q' = (pending ?q)(l := pending q' l)"
    using pend by (simp_all add: q') (simp_all add: start_item_def)
  show "map snd (active q' l') = ((\<lambda>l. map snd (active ?q l))(l := map snd (active ?q l) @ [r])) l'"
    by (simp add: act)
qed

lemma finish_step:
  fixes s :: "'w lane_sys" and io :: "string option" and now :: string
  assumes inv: "lane_inv s" and i: "i \<in> set (workers s)" and idx: "map_of (items (queue s)) i = Some r"
    and out: "out \<noteq> WAborted"
  defines "q' \<equiv> run_item io now (queue s) i out" and "l \<equiv> item_lane (heap (queue s) ! r)"
  shows "lane_inv (s\<lparr>queue := q', workers := remove1 i (workers s)\<rparr>)"
    and "pending q' = pending (queue s)" and "r \<in> set (map snd (active (queue s) l))"
    and "map snd (active q' l') = ((\<lambda>l. map snd (active (queue s) l))(l := remove1 r (map snd (active (queue s) l)))) l'"
proof -
  let ?q = "queue s"
  have wf: "lane_wf ?q" and cp: "strip (checkpoint_key ?q) = checkpoint_key ?q" "checkpoint_key ?q \<noteq> []"
    using inv by (simp_all add: lane_inv_def checkpoint_current_def)
  then have ok: "refs_ok ?q" "index_ok ?q" by (simp_all add: lane_wf_def)
  have r: "r < length (heap ?q)" "item_id (heap ?q ! r) = i" using idx index_ok_items [OF ok(2)] by simp_all
  have "item_ok (heap ?q ! r)" using wf r(1) by (simp add: lane_wf_def)
  then obtain it where q': "q' = persist_checkpoint io now (complete_item i r it ?q)"
    and it: "item_id it = item_id (heap ?q ! r)" "item_lane it = l" "item_ok it"
    unfolding q'_def l_def using run_item_finish [OF idx out] finish_item_Some [OF idx] by metis
  have act: "active q' = (active ?q)(l := dpop i (active ?q l))"
    by (simp add: q') (simp add: complete_item_def it(2))
  obtain l'' p where p: "p \<in> set (active ?q l'')" "fst p = i"
    using inv i unfolding lane_inv_def by (metis imageE)
  note P = refs_okD(3) [OF ok(1) p(1)]
  with p(2) r have "snd p = r" using index_ok_inj [OF ok(2), of "snd p" r] by simp
  moreover from this P have "l'' = l" by (simp add: l_def)
  ultimately show "r \<in> set (map snd (active ?q l))" using p(1) by force
  have "lane_wf q'" using lane_wf_complete [OF wf idx it(1) _ it(3)] it(2) by (simp add: q' l_def)
  moreover have "checkpoint_current q'"
    unfolding q' using cp by (intro checkpoint_current_persist) (simp_all add: complete_item_def)
  moreover have "\<exists>l. j \<in> fst ` set (active q' l)" if "j \<in> set (remove1 i (workers s))" for j
  proof -
    have "j \<noteq> i" "j \<in> set (workers s)" using that inv by (auto simp: lane_inv_def)
    then obtain l1 where "j \<in> fst ` set (active ?q l1)" using inv unfolding lane_inv_def by blast
    with \<open>j \<noteq> i\<close> have "j \<in> fst ` set (active q' l1)" by (auto simp: act AList.delete_eq)
    then show ?thesis by blast
  qed
  moreover have "limits_ok q'" using inv by (simp add: q' lane_inv_def limits_ok_def complete_item_def)
  ultimately show "lane_inv (s\<lparr>queue := q', workers := remove1 i (workers s)\<rparr>)"
    using inv by (auto simp: lane_inv_def)
  show "pending q' = pending ?q" by (simp add: q') (simp add: complete_item_def)
  show "map snd (active q' l') = ((\<lambda>l. map snd (active ?q l))(l := remove1 r (map snd (active ?q l)))) l'"
    using dpop_active [OF wf idx, of l] by (simp add: act)
qed

lemma set_lane_concurrency_cases:
  assumes "set_lane_concurrency q lane v = (q', res)"
  obtains "q' = q" | l where "q' = q\<lparr>lane_concurrency := (lane_concurrency q)(l := max 1 (if v = 0 then 1 else v))\<rparr>"
  using assms by (auto simp: set_lane_concurrency_def split: sum.splits)

lemma end_shutdown_current:
  assumes "checkpoint_current q" shows "checkpoint_current (end_shutdown io now q)"
  unfolding end_shutdown_def using assms
  by (intro checkpoint_current_persist) (simp_all add: checkpoint_current_def)

lemma flags_inv:
  assumes "lane_inv s"
    and "q' = queue s \<or> q' = (queue s)\<lparr>started := True\<rparr> \<or> q' = (queue s)\<lparr>shut_down := True\<rparr> \<or>
      q' = (queue s)\<lparr>accepting := False, draining := True\<rparr>"
  shows "lane_inv (s\<lparr>queue := q'\<rparr>) \<and> pending q' = pending (queue s) \<and> active q' = active (queue s)"
proof -
  have same: "pending q' = pending (queue s)" "active q' = active (queue s)" "heap q' = heap (queue s)"
    "items q' = items (queue s)" "max_total_concurrency q' = max_total_concurrency (queue s)"
    "lane_cursor q' = lane_cursor (queue s)" "lane_concurrency q' = lane_concurrency (queue s)"
    "checkpoint_key q' = checkpoint_key (queue s)" "checkpoint_enabled q' = checkpoint_enabled (queue s)"
    "last_checkpoint_error q' = last_checkpoint_error (queue s)" "app_state_table q' = app_state_table (queue s)"
    using assms(2) by auto
  have "limits_ok q'" using assms(1) by (simp add: lane_inv_def limits_ok_def same)
  moreover have "checkpoint_current q'"
    using assms(1) checkpoint_current_cong [of q' "queue s"] by (simp add: lane_inv_def same)
  ultimately show ?thesis using silent_inv [OF assms(1) same(1-6)] same by simp
qed

lemma silent_step:
  assumes "lane_inv s" and "lane_step s Silent s'"
  shows "lane_inv s' \<and> pending (queue s') = pending (queue s) \<and> active (queue s') = active (queue s)"
  using assms(2)
proof (cases rule: lane_step.cases)
  case (refuse uuid now io lane lbl w md q' e)
  then show ?thesis using enqueue_Inl [OF refuse(2)] flags_inv [OF assms(1), of q'] by auto
next
  case (idle io now t q')
  then show ?thesis using tick_not_Dispatched [OF idle(3,4)] flags_inv [OF assms(1), of q'] by auto
next
  case (abort i io now)
  have "set (remove1 i (workers s)) \<subseteq> set (workers s)" by (rule set_remove1_subset)
  with abort assms(1) show ?thesis
    unfolding lane_inv_def by (simp add: run_item_aborted subset_iff)
next
  case (configure lane v q' res)
  from configure(2) show ?thesis
  proof (cases rule: set_lane_concurrency_cases)
    case 1
    with configure assms(1) show ?thesis by simp
  next
    case (2 l)
    have "checkpoint_current q'"
      using assms(1) checkpoint_current_cong [of q' "queue s"] by (simp add: 2 lane_inv_def)
    moreover have "limits_ok q'" using assms(1) by (simp add: lane_inv_def limits_ok_def 2)
    ultimately have "lane_inv (s\<lparr>queue := q'\<rparr>)"
      by (intro silent_inv [OF assms(1)]) (simp_all add: 2)
    with configure show ?thesis by (simp add: 2)
  qed
next
  case drain
  then show ?thesis using flags_inv [OF assms(1), of "begin_shutdown (queue s)"] by (simp add: begin_shutdown_def)
next
  case (close wait' expired io now)
  let ?q = "end_shutdown io now (queue s)"
  have same: "pending ?q = pending (queue s)" "active ?q = active (queue s)" "heap ?q = heap (queue s)"
    "items ?q = items (queue s)" "max_total_concurrency ?q = max_total_concurrency (queue s)"
    "lane_cursor ?q = lane_cursor (queue s)" "lane_concurrency ?q = lane_concurrency (queue s)"
    by (simp_all add: end_shutdown_def)
  have "checkpoint_current ?q" using assms(1) by (simp add: lane_inv_def end_shutdown_current)
  moreover have "limits_ok ?q" using assms(1) by (simp add: lane_inv_def limits_ok_def same)
  ultimately have "lane_inv (s\<lparr>queue := ?q\<rparr>)" using silent_inv [OF assms(1) same(1-6)] by simp
  with close show ?thesis by (simp add: same)
qed

inductive_cases StartE: "lane_step s (Start l r) s'"

lemma lane_inv_step:
  assumes "lane_inv s" and "lane_step s a s'"
  shows "lane_inv s'"
  using assms(2)
proof (cases rule: lane_step.cases)
  case (admit uuid now io lane lbl w md q' r)
  with admit_step [OF assms(1) admit(3,4,5)] show ?thesis by simp
next
  case (dispatch io now l r q')
  from dispatch(4) have "next_dispatchable_item io now (queue s) = (Some (l, r), q')"
    by (simp add: tick_Dispatched)
  from start_step(1) [OF assms(1) this] dispatch(2) show ?thesis by simp
next
  case (finish i r out io now)
  from finish_step(1) [OF assms(1) finish(3,4,5)] finish(2) show ?thesis by simp
qed (use silent_step [OF assms(1)] assms(2) in blast)+

lemma Start_next:
  assumes "lane_step s (Start l r) s'"
  shows "\<not> shut_down (queue s) \<and> (\<exists>io now. next_dispatchable_item io now (queue s) = (Some (l, r), queue s'))"
  using assms by (rule StartE) (auto simp: tick_Dispatched)

interpretation lanes: fifo_lanes lane_step waiting running lane_inv
proof unfold_locales
  fix s s' :: "'a lane_sys" and l r
  assume inv: "lane_inv s"
  {
    assume "lane_step s (Admit l r) s'"
    then show "waiting s' = (waiting s)(l := waiting s l @ [r]) \<and> running s' = running s"
    proof (cases rule: lane_step.cases)
      case (admit uuid now io lane lbl w md q')
      with admit_step [OF inv admit(3,4,5)] show ?thesis
        by (simp add: waiting_def running_def fun_eq_iff)
    qed
  next
    assume "lane_step s (Start l r) s'"
    then obtain io now where nxt: "next_dispatchable_item io now (queue s) = (Some (l, r), queue s')"
      using Start_next by blast
    note S = start_step(2-) [OF inv nxt]
    show "(\<exists>rest. waiting s l = r # rest \<and> waiting s' = (waiting s)(l := rest)) \<and>
        running s' = (running s)(l := running s l @ [r])"
      using S unfolding waiting_def running_def fun_eq_iff by metis
  next
    assume "lane_step s (Finish l r) s'"
    then show "waiting s' = waiting s \<and> r \<in> set (running s l) \<and>
        running s' = (running s)(l := remove1 r (running s l))"
    proof (cases rule: lane_step.cases)
      case (finish i out io now)
      note F = finish_step(2-) [OF inv finish(3,4,5)]
      show ?thesis using F unfolding waiting_def running_def finish fun_eq_iff by simp
    qed
  next
    assume "lane_step s Silent s'"
    with silent_step [OF inv] show "waiting s' = waiting s \<and> running s' = running s"
      by (simp add: waiting_def running_def fun_eq_iff)
  }
qed (rule lane_inv_step)

section \<open>Start-up\<close>

abbreviation boot :: "'w lane_queue \<Rightarrow> 'w lane_sys" where
  "boot q \<equiv> \<lparr>queue = q, workers = []\<rparr>"

lemma resolve_concurrency_pos:
  "resolve_concurrency kvs c = Inr c' \<Longrightarrow> (\<forall>l. 1 \<le> c l) \<Longrightarrow> 1 \<le> c' l"
  by (induction kvs c rule: resolve_concurrency.induct) (auto simp: rbind_Inr_iff)

lemma default_concurrency_pos: "1 \<le> DEFAULT_LANE_CONCURRENCY l"
  by (simp add: DEFAULT_LANE_CONCURRENCY_def split: lane.split)

lemma text_default_ok: "strip d = d \<Longrightarrow> d \<noteq> [] \<Longrightarrow> strip (text_default v d) = text_default v d \<and> text_default v d \<noteq> []"
  by (simp add: text_default_def sor_def)

lemma checkpoint_key_ok: "strip DEFAULT_CHECKPOINT_KEY = DEFAULT_CHECKPOINT_KEY \<and> DEFAULT_CHECKPOINT_KEY \<noteq> []"
  by code_simp

lemma empty_queue_inv:
  assumes "\<forall>l. 1 \<le> conc l"
  shows "lane_inv (boot (empty_queue conc max_total recent_limit enabled key []))"
proof -
  have "stored_items [] k = Inr []" for k
    by (simp add: stored_items_def get_local_app_state_def Let_def)
  moreover have "strip (text_default key DEFAULT_CHECKPOINT_KEY) = text_default key DEFAULT_CHECKPOINT_KEY \<and>
      text_default key DEFAULT_CHECKPOINT_KEY \<noteq> []"
    using checkpoint_key_ok by (intro text_default_ok) simp_all
  ultimately show ?thesis
    using assms by (simp add: lane_inv_def lane_wf_def refs_ok_def index_ok_def limits_ok_def checkpoint_current_def
        empty_queue_def lane_refs_def total_active_def saved_def checkpoint_items_def LANE_ORDER_def)
qed

lemma new_queue_inv:
  assumes "new_queue uuid now io conc max_total recent_limit enabled key factory [] = Inr q"
  shows "lane_inv (boot q)" "pending q l = []" "active q l = []" "accepting q"
    "max_total_concurrency q = max 1 (if max_total = 0 then DEFAULT_MAX_TOTAL_CONCURRENCY else max_total)"
proof -
  obtain c where c: "resolve_concurrency conc DEFAULT_LANE_CONCURRENCY = Inr c"
    and q: "q = restore_checkpoint uuid now io factory (empty_queue c max_total recent_limit enabled key [])"
    using assms by (auto simp: new_queue_def rbind_Inr_iff)
  let ?e = "empty_queue c max_total recent_limit enabled key [] :: 'a lane_queue"
  have inv: "lane_inv (boot ?e)"
    using resolve_concurrency_pos [OF c] default_concurrency_pos by (intro empty_queue_inv) blast
  have "stored_items [] k = Inr []" for k
    by (simp add: stored_items_def get_local_app_state_def Let_def)
  then have "q = ?e \<or> (\<exists>msg. q = ?e\<lparr>last_checkpoint_error := Some msg\<rparr>)"
    unfolding q by (auto simp: restore_checkpoint_def empty_queue_def split: option.split)
  then show "lane_inv (boot q)" "pending q l = []" "active q l = []" "accepting q"
    "max_total_concurrency q = max 1 (if max_total = 0 then DEFAULT_MAX_TOTAL_CONCURRENCY else max_total)"
    using inv
    by (auto simp: lane_inv_def lane_wf_def refs_ok_def index_ok_def limits_ok_def checkpoint_current_def
        lane_refs_def total_active_def saved_def empty_queue_def)
qed

lemma max_total_step:
  assumes "lane_step s a s'"
  shows "max_total_concurrency (queue s') = max_total_concurrency (queue s)"
  using assms
proof (cases rule: lane_step.cases)
  case (admit uuid now io lane lbl w md q' r)
  from admit(5) show ?thesis by (rule enqueue_Inr) (simp add: admit add_item_def)
next
  case (dispatch io now l r q')
  then have "next_dispatchable_item io now (queue s) = (Some (l, r), q')" by (simp add: tick_Dispatched)
  then show ?thesis by (rule next_item_Some) (simp add: dispatch start_item_def)
next
  case (finish i r out io now)
  then show ?thesis
    by (auto simp: run_item_def finish_item_def Let_def split: work_outcome.split)
qed (auto dest!: enqueue_Inl tick_not_Dispatched simp: run_item_aborted begin_shutdown_def end_shutdown_def
     elim!: set_lane_concurrency_cases)

lemma max_total_trace:
  "trace lane_step s as s' \<Longrightarrow> max_total_concurrency (queue s') = max_total_concurrency (queue s)"
  by (induction rule: trace.induct) (simp_all add: max_total_step)

lemma workers_bounded:
  assumes "lane_inv s" shows "length (workers s) \<le> total_active (queue s)"
proof -
  let ?ids = "concat (map (\<lambda>l. map fst (active (queue s) l)) LANE_ORDER)"
  have "set (workers s) \<subseteq> set ?ids"
    using assms by (fastforce simp: lane_inv_def LANE_ORDER_UNIV)
  then have "card (set (workers s)) \<le> length ?ids"
    by (meson card_length card_mono finite_set le_trans)
  moreover have "length ?ids = total_active (queue s)"
    by (simp add: total_active_def LANE_ORDER_def)
  moreover have "card (set (workers s)) = length (workers s)"
    using assms by (simp add: lane_inv_def distinct_card)
  ultimately show ?thesis by simp
qed

section \<open>Round robin\<close>

definition lane_index :: "lane \<Rightarrow> nat" where
  "lane_index l = (case l of Main \<Rightarrow> 0 | Cron \<Rightarrow> 1 | Subagent \<Rightarrow> 2 | System \<Rightarrow> 3)"

text \<open>How many lanes the next scan looks at before \<open>l\<close>.\<close>

definition lane_distance :: "'w lane_queue \<Rightarrow> lane \<Rightarrow> nat" where
  "lane_distance q l = (lane_index l + length LANE_ORDER - lane_cursor q) mod length LANE_ORDER"

lemma lane_distance_less: "lane_distance q l < length LANE_ORDER"
  by (simp add: lane_distance_def LANE_ORDER_def)

lemma lane_cursor_cases:
  assumes "c < length LANE_ORDER" obtains "c = 0" | "c = 1" | "c = 2" | "c = 3"
  using assms by (auto simp: LANE_ORDER_def less_Suc_eq)

lemma lane_at_distance:
  assumes "lane_cursor q < length LANE_ORDER"
  shows "lane_at (lane_cursor q + lane_distance q l) = l"
  using assms by (cases rule: lane_cursor_cases; cases l)
    (simp_all add: lane_at_def lane_distance_def lane_index_def LANE_ORDER_def)

lemma lane_at_surj:
  fixes q :: "'w lane_queue"
  assumes "lane_cursor q < length LANE_ORDER"
  shows "(\<forall>k < length LANE_ORDER. \<not> P (lane_at (lane_cursor q + k))) \<longleftrightarrow> (\<forall>l. \<not> P l)"
  using lane_at_distance [OF assms] lane_distance_less by metis

lemma distance_after:
  assumes "c < length LANE_ORDER" and "offset < (lane_index l + length LANE_ORDER - c) mod length LANE_ORDER"
  shows "(lane_index l + length LANE_ORDER - (c + offset + 1) mod length LANE_ORDER) mod length LANE_ORDER <
    (lane_index l + length LANE_ORDER - c) mod length LANE_ORDER"
proof -
  have "(lane_index l + length LANE_ORDER - c) mod length LANE_ORDER < 4" by (simp add: LANE_ORDER_def)
  with assms(2) have "offset < 4" by linarith
  then have "offset = 0 \<or> offset = 1 \<or> offset = 2 \<or> offset = 3" by auto
  with assms show ?thesis
    by (cases rule: lane_cursor_cases; cases l) (auto simp: lane_index_def LANE_ORDER_def)
qed

lemma dispatch_moves_cursor:
  assumes "next_dispatchable_item io now q = (Some (l', r), q')" and "lane_cursor q < length LANE_ORDER"
    and "lane_ready q l" and "l' \<noteq> l"
  shows "lane_distance q' l < lane_distance q l"
  using assms(1)
proof (rule next_item_Some)
  fix offset
  assume l': "l' = lane_at (lane_cursor q + offset)"
    and skip: "\<forall>k < offset. \<not> lane_ready q (lane_at (lane_cursor q + k))"
    and q': "q' = (persist_checkpoint io now (start_item now l' r q))
      \<lparr>lane_cursor := (lane_cursor q + offset + 1) mod length LANE_ORDER\<rparr>"
  have "offset \<le> lane_distance q l"
    using skip assms(3) lane_at_distance [OF assms(2), of l] by (metis not_le)
  moreover have "offset \<noteq> lane_distance q l"
    using l' assms(4) lane_at_distance [OF assms(2), of l] by metis
  ultimately show ?thesis
    using distance_after [OF assms(2), of offset l] by (simp add: lane_distance_def q')
qed

definition is_start :: "lane_act \<Rightarrow> bool" where
  "is_start a = (case a of Start l r \<Rightarrow> True | _ \<Rightarrow> False)"

text \<open>A step after which lane \<open>l\<close> is still waiting for its turn: it has work and capacity, and the
  step did not start an item of it.\<close>

definition passes_over :: "lane \<Rightarrow> 'w lane_sys \<Rightarrow> lane_act \<Rightarrow> 'w lane_sys \<Rightarrow> bool" where
  "passes_over l s a s' = (lane_step s a s' \<and> lane_ready (queue s) l \<and> started_in l a = [])"

lemma persist_cursor_only: "lane_distance (persist_checkpoint io now q) l = lane_distance q l"
  by (simp add: lane_distance_def)

lemma cursor_step:
  assumes "lane_step s a s'" and "\<not> is_start a"
  shows "lane_cursor (queue s') = lane_cursor (queue s)"
  using assms
proof (cases rule: lane_step.cases)
  case (admit uuid now io lane lbl w md q' r)
  from admit(5) show ?thesis by (rule enqueue_Inr) (simp add: admit add_item_def)
next
  case (finish i r out io now)
  then show ?thesis
    by (auto simp: run_item_def finish_item_def Let_def split: work_outcome.split)
qed (auto dest!: enqueue_Inl tick_not_Dispatched simp: run_item_aborted begin_shutdown_def end_shutdown_def is_start_def
     elim!: set_lane_concurrency_cases)

lemma passes_over_step:
  assumes "lane_inv s" and "passes_over l s a s'"
  shows "(if is_start a then 1 else 0) + lane_distance (queue s') l \<le> lane_distance (queue s) l"
proof (cases a)
  case (Start l' r)
  with assms have "lane_step s (Start l' r) s'" "lane_ready (queue s) l" "l' \<noteq> l"
    by (auto simp: passes_over_def split: if_splits)
  moreover from this obtain io now where
    "next_dispatchable_item io now (queue s) = (Some (l', r), queue s')"
    using Start_next by blast
  moreover have "lane_cursor (queue s) < length LANE_ORDER"
    using assms(1) by (simp add: lane_inv_def lane_wf_def)
  ultimately have "lane_distance (queue s') l < lane_distance (queue s) l"
    by (blast intro: dispatch_moves_cursor)
  with Start show ?thesis by (simp add: is_start_def)
qed (use cursor_step [of s a s'] assms(2) in \<open>simp_all add: passes_over_def is_start_def lane_distance_def\<close>)

lemma passes_over_trace:
  assumes "trace (passes_over l) s as s'" and "lane_inv s"
  shows "length (filter is_start as) + lane_distance (queue s') l \<le> lane_distance (queue s) l \<and> lane_inv s'"
  using assms
proof (induction rule: trace.induct)
  case (trace_Nil s)
  then show ?case by simp
next
  case (trace_snoc s as s' a s'')
  then have IH: "length (filter is_start as) + lane_distance (queue s') l \<le> lane_distance (queue s) l" "lane_inv s'"
    by blast+
  have "lane_inv s''" using lane_inv_step [OF IH(2)] trace_snoc(2) by (auto simp: passes_over_def)
  with IH passes_over_step [OF IH(2) trace_snoc(2)] show ?case
    by (auto split: if_splits)
qed

section \<open>Restart\<close>

text \<open>What a restart must bring back of an item.\<close>

definition item_key :: "'w lane_item \<Rightarrow> string \<times> string option \<times> string \<times> pydict" where
  "item_key it = (item_id it, run_id it, label it, metadata it)"

lemma coerce_lane_token: "coerce_lane (PStr (lane_token l)) = Inr l"
proof -
  have "coerce_lane (PStr ''main'') = Inr Main" "coerce_lane (PStr ''cron'') = Inr Cron"
    "coerce_lane (PStr ''subagent'') = Inr Subagent" "coerce_lane (PStr ''system'') = Inr System"
    by code_simp+
  then show ?thesis by (cases l) simp_all
qed

lemma restore_snapshot:
  assumes ok: "item_ok it" "has_run_id it" and f: "f (to_snapshot it) = Some w"
  obtains it' where "restore_item uuid now f (PDict (to_snapshot it)) q = add_item it' q"
    "item_key it' = item_key it" "item_lane it' = item_lane it"
proof -
  obtain rid where rid: "run_id it = Some rid" "rid \<noteq> []" "strip rid = rid"
    using ok by (auto simp: has_run_id_def item_ok_def split: option.splits)
  have get: "dget (to_snapshot it) ''run_id'' = PStr rid"
    "dget (to_snapshot it) ''lane'' = PStr (lane_token (item_lane it))"
    "dget (to_snapshot it) ''id'' = PStr (item_id it)"
    "dget (to_snapshot it) ''label'' = PStr (label it)"
    "dget (to_snapshot it) ''metadata'' = PDict (metadata it)"
    by (simp_all add: to_snapshot_def dget_Cons rid opt_str_def)
  have lbl: "text_default (PStr (label it)) d = label it" for d
    using ok(1) by (simp add: text_default_def por_def item_ok_def sor_def)
  have id': "strip (py_str (por (PStr (item_id it)) d)) = item_id it" for d
    using ok(1) by (simp add: por_def item_ok_def)
  let ?it = "\<lparr>item_id = item_id it, item_lane = item_lane it, label = label it, work = w,
    metadata = metadata it, status = ''queued'',
    enqueued_at = text_default (dget (to_snapshot it) ''enqueued_at'') now,
    started_at = None, finished_at = None, run_id = Some rid,
    summary = snone (text_of (dget (to_snapshot it) ''summary'')), error = None, work_result = None\<rparr>"
  have "restore_item uuid now f (PDict (to_snapshot it)) q = add_item ?it q"
    by (simp add: restore_item_def add_item_def get text_of_PStr rid coerce_lane_token f lbl id' Let_def coerce_metadata_def)
  then show thesis by (rule that) (simp_all add: item_key_def rid)
qed

definition pend_keys :: "'w lane_queue \<Rightarrow> lane \<Rightarrow> (string \<times> string option \<times> string \<times> pydict) list" where
  "pend_keys q l = map (\<lambda>r. item_key (heap q ! r)) (pending q l)"

lemma pend_keys_add:
  assumes "refs_ok q"
  shows "pend_keys (add_item it q) l = pend_keys q l @ (if item_lane it = l then [item_key it] else [])"
proof -
  have "item_key ((heap q @ [it]) ! r) = item_key (heap q ! r)" if "r \<in> set (pending q l)" for r
    using refs_okD(2) [OF assms that] by (simp add: nth_append)
  then show ?thesis by (auto simp: pend_keys_def add_item_def)
qed

lemma restore_fold:
  assumes "\<forall>it \<in> set its. item_ok it \<and> has_run_id it" and "\<forall>p. f p \<noteq> None" and "refs_ok q"
  shows "let q' = fold (restore_item uuid now f) (map (\<lambda>it. PDict (to_snapshot it)) its) q in
    pend_keys q' l = pend_keys q l @ map item_key (filter (\<lambda>it. item_lane it = l) its) \<and> active q' = active q"
  using assms(1,3)
proof (induction its arbitrary: q)
  case Nil
  then show ?case by simp
next
  case (Cons it its)
  obtain w where "f (to_snapshot it) = Some w" using assms(2) by blast
  then obtain it' where it': "restore_item uuid now f (PDict (to_snapshot it)) q = add_item it' q"
    "item_key it' = item_key it" "item_lane it' = item_lane it"
    using restore_snapshot [of it f w] Cons.prems(1) by (metis list.set_intros(1))
  have "refs_ok (add_item it' q)" using Cons.prems(2) by (rule refs_ok_add)
  with Cons have IH: "let q' = fold (restore_item uuid now f) (map (\<lambda>it. PDict (to_snapshot it)) its) (add_item it' q) in
      pend_keys q' l = pend_keys (add_item it' q) l @ map item_key (filter (\<lambda>it. item_lane it = l) its) \<and>
      active q' = active (add_item it' q)"
    by simp
  then show ?case
    using it' pend_keys_add [OF Cons.prems(2), of it' l] by (simp add: Let_def) (simp add: add_item_def)
qed

definition lane_items :: "'w lane_queue \<Rightarrow> lane \<Rightarrow> 'w lane_item list" where
  "lane_items q l = filter has_run_id (map (\<lambda>r. heap q ! r) (lane_refs q l))"

lemma checkpoint_items_lanes:
  "checkpoint_items q = map (\<lambda>it. PDict (to_snapshot it)) (concat (map (lane_items q) LANE_ORDER))"
  by (simp add: checkpoint_items_def lane_items_def map_concat filter_map comp_def)

lemma lane_items_lane: "refs_ok q \<Longrightarrow> it \<in> set (lane_items q l) \<Longrightarrow> item_lane it = l"
  using refs_okD(2,3) [of q] by (fastforce simp: lane_items_def lane_refs_def)

lemma lane_items_filter:
  assumes "refs_ok q"
  shows "filter (\<lambda>it. item_lane it = l) (concat (map (lane_items q) LANE_ORDER)) = lane_items q l"
proof -
  have "filter (\<lambda>it. item_lane it = l) (lane_items q l') = (if l' = l then lane_items q l else [])" for l'
    using lane_items_lane [OF assms, of _ l'] by (auto simp: filter_empty_conv filter_id_conv)
  then show ?thesis by (cases l) (simp_all add: LANE_ORDER_def)
qed

lemma lane_items_ok: "lane_wf q \<Longrightarrow> it \<in> set (lane_items q l) \<Longrightarrow> item_ok it \<and> has_run_id it"
  using refs_okD(4) [of q _ l] by (auto simp: lane_wf_def lane_items_def)

section \<open>Draining\<close>

lemma accepting_step:
  assumes "lane_step s a s'" and "\<not> accepting (queue s)"
  shows "\<not> accepting (queue s') \<and> (\<forall>l. admitted_in l a = [])"
  using assms
proof (cases rule: lane_step.cases)
  case (admit uuid now io lane lbl w md q' r)
  from admit(5) assms(2) show ?thesis by (auto elim: enqueue_Inr)
next
  case (dispatch io now l r q')
  then have "next_dispatchable_item io now (queue s) = (Some (l, r), q')" by (simp add: tick_Dispatched)
  then have "accepting q' = accepting (queue s)" by (rule next_item_Some) (simp add: start_item_def)
  with dispatch assms(2) show ?thesis by simp
next
  case (finish i r out io now)
  then show ?thesis using assms(2)
    by (auto simp: run_item_def finish_item_def Let_def split: work_outcome.split)
qed (auto dest!: enqueue_Inl tick_not_Dispatched simp: run_item_aborted begin_shutdown_def end_shutdown_def
     elim!: set_lane_concurrency_cases)

lemma accepting_trace:
  assumes "trace lane_step s as s'" and "\<not> accepting (queue s)"
  shows "\<not> accepting (queue s') \<and> concat (map (admitted_in l) as) = []"
  using assms by (induction rule: trace.induct) (auto dest: accepting_step)

lemma ready_when_idle:
  assumes "lane_inv s" and "has_pending (queue s)" and "\<not> has_active (queue s)"
  shows "int (total_active (queue s)) < max_total_concurrency (queue s)" and "\<exists>l. lane_ready (queue s) l"
proof -
  have "active (queue s) l = []" for l using assms(3) by (auto simp: has_active_iff)
  moreover obtain l where "pending (queue s) l \<noteq> []" using assms(2) by (auto simp: has_pending_iff)
  moreover have lim: "1 \<le> max_total_concurrency (queue s)" "1 \<le> lane_concurrency (queue s) l" for l
    using assms(1) by (simp_all add: lane_inv_def limits_ok_def)
  ultimately show "int (total_active (queue s)) < max_total_concurrency (queue s)" "\<exists>l. lane_ready (queue s) l"
    using less_le_trans [OF zero_less_one lim(2)]
    by (auto simp: total_active_def LANE_ORDER_def lane_ready_def intro!: exI [of _ l])
qed

lemma next_item_None_iff:
  assumes "lane_cursor q < length LANE_ORDER"
  shows "fst (next_dispatchable_item io now q) = None \<longleftrightarrow>
    max_total_concurrency q \<le> int (total_active q) \<or> (\<forall>l. \<not> lane_ready q l)"
proof -
  have "scan_lanes q [0..<length LANE_ORDER] = None \<longleftrightarrow> (\<forall>l. \<not> lane_ready q l)"
    unfolding scan_lanes_None by (rule lane_at_surj [OF assms])
  then show ?thesis
    by (auto simp: next_dispatchable_item_def Let_def split: option.split)
qed

section \<open>A concrete run\<close>

text \<open>One job admitted to the main lane of a queue with a checkpoint, and started.\<close>

definition example_queue :: "unit lane_queue" where
  "example_queue = empty_queue DEFAULT_LANE_CONCURRENCY 2 0 True PNone []"

definition example_admitted :: "unit lane_queue" where
  "example_admitted = fst (enqueue ''000000000000'' ''t0'' None example_queue (PStr ''main'') (PStr ''job'') (Some ())
     (PDict [(''run_id'', PStr ''run-1'')]))"

definition example_started :: "unit lane_queue" where
  "example_started = snd (next_dispatchable_item None ''t1'' example_admitted)"

lemma example_new: "new_queue uuid now io [] 2 0 True PNone None [] = Inr example_queue"
  by (simp add: new_queue_def restore_checkpoint_def example_queue_def)

lemma example_enqueue:
  "enqueue ''000000000000'' ''t0'' None example_queue (PStr ''main'') (PStr ''job'') (Some ())
     (PDict [(''run_id'', PStr ''run-1'')]) = (example_admitted, Inr 0)"
proof -
  have "coerce_lane (PStr ''main'') = Inr Main" by code_simp
  then show ?thesis
    unfolding example_admitted_def by (simp add: enqueue_def Let_def example_queue_def empty_queue_def)
qed

lemma example_admit_step: "lane_step (boot example_queue) (Admit Main 0) (boot example_admitted)"
proof -
  have u: "uuid_ok ''000000000000''" by code_simp
  have lane: "item_lane (heap example_admitted ! 0) = Main" by code_simp
  have new: "''lane_'' @ ''000000000000'' \<notin> fst ` set (items (queue (boot example_queue)))"
    by (simp add: example_queue_def empty_queue_def)
  have enq: "enqueue ''000000000000'' ''t0'' None (queue (boot example_queue)) (PStr ''main'') (PStr ''job'') (Some ())
     (PDict [(''run_id'', PStr ''run-1'')]) = (example_admitted, Inr 0)"
    by (simp add: example_enqueue)
  from lane_step.admit [OF u new enq] lane show ?thesis by simp
qed

lemma example_start_step:
  "lane_step (boot example_admitted) (Start Main 0) \<lparr>queue = example_started, workers = [''lane_000000000000'']\<rparr>"
proof -
  have "started example_admitted" "\<not> shut_down example_admitted" by code_simp+
  moreover have "fst (next_dispatchable_item None ''t1'' example_admitted) = Some (Main, 0)" by code_simp
  then have "next_dispatchable_item None ''t1'' example_admitted = (Some (Main, 0), example_started)"
    unfolding example_started_def by (metis prod.collapse)
  moreover have "item_id (heap example_started ! 0) = ''lane_000000000000''" by code_simp
  ultimately show ?thesis
    using lane_step.dispatch [of "boot example_admitted" None "''t1''" Main 0 example_started]
    by (simp add: tick_Dispatched)
qed

lemma example_trace:
  "trace lane_step (boot example_queue) [Admit Main 0, Start Main 0]
     \<lparr>queue = example_started, workers = [''lane_000000000000'']\<rparr>"
  using trace_snoc [where step = lane_step, OF trace_one [where step = lane_step, OF example_admit_step] example_start_step]
  by simp

section \<open>Properties\<close>

text \<open>C1. First in, first out, and nothing lost or duplicated, whatever the threads do: along every
  run from start-up, the items admitted to a lane are those started from it, in the same order,
  followed by those still waiting; and the started items are those finished together with those
  running.\<close>

theorem lanes_are_fifo:
  assumes "new_queue uuid now io conc max_total recent_limit enabled key factory [] = Inr q"
    and "trace lane_step (boot q) as s"
  shows "concat (map (admitted_in l) as) = concat (map (started_in l) as) @ pending (queue s) l \<and>
    mset (concat (map (started_in l) as)) =
      mset (map snd (active (queue s) l)) + mset (concat (map (finished_in l) as))"
proof -
  note N = new_queue_inv [OF assms(1)]
  show ?thesis
    using lanes.fifo_order [OF assms(2) N(1), of l] lanes.conservation [OF assms(2) N(1), of l]
    by (simp add: waiting_def running_def N(2,3))
qed

theorem lanes_are_fifo_witness:
  "trace lane_step (boot example_queue) [Admit Main 0, Start Main 0]
     \<lparr>queue = example_started, workers = [''lane_000000000000'']\<rparr> \<and>
   pending example_started Main = [] \<and> mset (map snd (active example_started Main)) = {#0#}"
  using lanes_are_fifo [OF example_new example_trace, of Main] example_trace by simp

text \<open>C32. Bounded parallelism: in every reachable state the running items, and so the live worker
  threads, are at most the configured total, which no operation changes.\<close>

theorem parallelism_bounded:
  assumes "new_queue uuid now io conc max_total recent_limit enabled key factory [] = Inr q"
    and "trace lane_step (boot q) as s"
  shows "length (workers s) \<le> total_active (queue s) \<and>
    int (total_active (queue s)) \<le> max 1 (if max_total = 0 then DEFAULT_MAX_TOTAL_CONCURRENCY else max_total)"
proof -
  note N = new_queue_inv [OF assms(1)]
  have inv: "lane_inv s" using lanes.inv_trace [OF assms(2) N(1)] .
  then have "int (total_active (queue s)) \<le> max_total_concurrency (queue s)"
    by (simp add: lane_inv_def lane_wf_def)
  then show ?thesis
    using workers_bounded [OF inv] max_total_trace [OF assms(2)] N(5) by simp
qed

theorem parallelism_bounded_witness:
  "trace lane_step (boot example_queue) [Admit Main 0, Start Main 0]
     \<lparr>queue = example_started, workers = [''lane_000000000000'']\<rparr> \<and>
   1 \<le> total_active example_started \<and> int (total_active example_started) \<le> 2"
  using parallelism_bounded [OF example_new example_trace] example_trace by simp

text \<open>The dispatcher idles only when it must: it finds no item exactly when the total limit is
  used up or no lane has both waiting work and spare capacity.\<close>

theorem dispatcher_work_conserving:
  assumes "new_queue uuid now io conc max_total recent_limit enabled key factory [] = Inr q"
    and "trace lane_step (boot q) as s"
  shows "fst (next_dispatchable_item io' now' (queue s)) = None \<longleftrightarrow>
    max_total_concurrency (queue s) \<le> int (total_active (queue s)) \<or>
    (\<forall>l. pending (queue s) l = [] \<or> lane_concurrency (queue s) l \<le> int (length (active (queue s) l)))"
proof -
  have "lane_inv s" using lanes.inv_trace [OF assms(2)] new_queue_inv(1) [OF assms(1)] by blast
  then have "lane_cursor (queue s) < length LANE_ORDER" by (simp add: lane_inv_def lane_wf_def)
  from next_item_None_iff [OF this] show ?thesis by (auto simp: lane_ready_def not_le)
qed

theorem dispatcher_work_conserving_witness:
  "fst (next_dispatchable_item None ''t2'' example_started) = None \<longleftrightarrow>
    max_total_concurrency example_started \<le> int (total_active example_started) \<or>
    (\<forall>l. pending example_started l = [] \<or>
      lane_concurrency example_started l \<le> int (length (active example_started l)))"
  using dispatcher_work_conserving [OF example_new example_trace] by simp

text \<open>C31. No lane starves: while a lane has waiting work and spare capacity, at most three items of
  other lanes are started before its turn comes, however enqueues, completions and reconfigurations
  are interleaved.\<close>

theorem bounded_overtaking:
  assumes "new_queue uuid now io conc max_total recent_limit enabled key factory [] = Inr q"
    and "trace lane_step (boot q) bs s" and "trace (passes_over l) s as s'"
  shows "length (filter is_start as) \<le> 3"
proof -
  have "lane_inv s" using lanes.inv_trace [OF assms(2)] new_queue_inv(1) [OF assms(1)] by blast
  from passes_over_trace [OF assms(3) this] have "length (filter is_start as) \<le> lane_distance (queue s) l" by simp
  also have "\<dots> < 4" using lane_distance_less [of "queue s" l] by (simp add: LANE_ORDER_def)
  finally show ?thesis by simp
qed

theorem bounded_overtaking_witness:
  "trace lane_step (boot example_queue) [Admit Main 0] (boot example_admitted) \<and>
   trace (passes_over Main) (boot example_admitted) [Silent] (boot (begin_shutdown example_admitted)) \<and>
   length (filter is_start [Silent]) \<le> 3"
proof -
  have t: "trace lane_step (boot example_queue) [Admit Main 0] (boot example_admitted)"
    by (rule trace_one [where step = lane_step, OF example_admit_step])
  have "pending example_admitted Main = [0]" "active example_admitted Main = []" "lane_concurrency example_admitted Main = 1"
    by code_simp+
  then have p: "passes_over Main (boot example_admitted) Silent (boot (begin_shutdown example_admitted))"
    using lane_step.drain [of "boot example_admitted"] by (simp add: passes_over_def lane_ready_def)
  show ?thesis
    using bounded_overtaking [OF example_new t trace_one [where step = "passes_over Main", OF p]] t trace_one [where step = "passes_over Main", OF p] by simp
qed



text \<open>Draining is safe and cannot get stuck: once the queue has stopped accepting, no item is
  admitted, so what remains of a lane is a suffix of what was waiting; and as long as something
  waits while nothing runs and the queue is not shut down, the dispatcher starts an item.\<close>

theorem drain_progress:
  assumes "new_queue uuid now io conc max_total recent_limit enabled key factory [] = Inr q"
    and "trace lane_step (boot q) bs s" and "\<not> accepting (queue s)" and "trace lane_step s as s'"
  shows "pending (queue s) l = concat (map (started_in l) as) @ pending (queue s') l \<and>
    (has_pending (queue s') \<and> \<not> has_active (queue s') \<and> \<not> shut_down (queue s') \<longrightarrow>
      (\<exists>l' r q'. dispatch_tick io' now' (queue s') = (Dispatched l' r, q')))"
proof -
  have inv: "lane_inv s" using lanes.inv_trace [OF assms(2)] new_queue_inv(1) [OF assms(1)] by blast
  have inv': "lane_inv s'" using lanes.inv_trace [OF assms(4) inv] .
  have "pending (queue s) l = concat (map (started_in l) as) @ pending (queue s') l"
    using lanes.fifo_order [OF assms(4) inv, of l] accepting_trace [OF assms(4,3), of l] by (simp add: waiting_def)
  moreover have "\<exists>l' r q'. dispatch_tick io' now' (queue s') = (Dispatched l' r, q')"
    if "has_pending (queue s')" "\<not> has_active (queue s')" "\<not> shut_down (queue s')"
  proof -
    have "fst (next_dispatchable_item io' now' (queue s')) \<noteq> None"
      using next_item_None_iff [of "queue s'" io' now'] ready_when_idle [OF inv' that(1,2)] inv'
      by (auto simp: lane_inv_def lane_wf_def)
    then obtain l' r where "next_dispatchable_item io' now' (queue s') = (Some (l', r), snd (next_dispatchable_item io' now' (queue s')))"
      by (metis option.exhaust prod.collapse)
    then show ?thesis using that(3) by (metis tick_Dispatched)
  qed
  ultimately show ?thesis by blast
qed

theorem drain_progress_witness:
  "\<exists>l' r q'. dispatch_tick None ''t1'' (begin_shutdown example_admitted) = (Dispatched l' r, q')"
proof -
  let ?s = "boot (begin_shutdown example_admitted)"
  have "lane_step (boot example_admitted) Silent ?s"
    using lane_step.drain [of "boot example_admitted"] by simp
  then have t: "trace lane_step (boot example_queue) ([Admit Main 0] @ [Silent]) ?s"
    by (rule trace_snoc [where step = lane_step, OF trace_one [where step = lane_step, OF example_admit_step]])
  have n: "\<not> accepting (queue ?s)" by (simp add: begin_shutdown_def)
  have "has_pending (begin_shutdown example_admitted)" "\<not> has_active (begin_shutdown example_admitted)"
    "\<not> shut_down (begin_shutdown example_admitted)" by code_simp+
  then show ?thesis
    using drain_progress [OF example_new t n trace_Nil, of Main None "''t1''"] by simp
qed

end
