(* ===== verification/Kernel_Client.thy ===== *)
theory Kernel_Client
  imports Py_Prelude "HOL-Library.Multiset"
begin

text \<open>
  The client of the Rust enforcement kernel, \<^verbatim>\<open>server_modules/rust_runtime_kernel_client.py\<close>: which
  commands may be sent, how the subprocess's answer becomes a decision, and how a decision is
  enforced. Every failure (unknown command, missing binary, timeout, empty or malformed output,
  non-zero exit) becomes a blocking decision.

  The operating system and the kernel binary are the record \<open>kernel_env\<close>: \<open>spawn\<close> is what
  \<^verbatim>\<open>subprocess.run\<close> does with a command and its JSON input, \<open>json_loads\<close> the standard parser
  (\<open>None\<close> where it raises), \<open>digest16\<close> the first 16 hex digits of the SHA-256
  of a dictionary's sorted, compact JSON text.
\<close>

section \<open>Command tables\<close>

definition ALLOWED_KERNEL_COMMANDS :: "string list" where
  "ALLOWED_KERNEL_COMMANDS = [
    ''validate-policy'', ''policy-preset'', ''capability-manifest'', ''control-plane-decision'',
    ''control-plane-service-decision'', ''deployed-agent-decision'',
    ''deployed-agent-service-decision'', ''deployed-data-decision'',
    ''deployed-readiness-decision'', ''deployed-virtual-runtime-decision'',
    ''deployed-virtual-runtime-service-decision'', ''approval-requirement'', ''artifact-policy'',
    ''authorize-request'', ''authorize-execution'', ''classify-risk'', ''build-sandbox-command'',
    ''sandbox-execution-decision'', ''execution-plan'', ''execution-runtime-decision'',
    ''execution-outcome'', ''gateway-action-decision'', ''gateway-frame-decision'',
    ''gateway-service-decision'', ''gateway-protocol-decision'', ''gateway-state-decision'',
    ''heartbeat-snapshot'', ''local-worker-decision'', ''machine-lease-decision'',
    ''outbox-delivery-decision'', ''platform-orchestration-decision'',
    ''process-lifecycle-decision'', ''queue-transition-decision'', ''safe-mode-decision'',
    ''scheduler-decision'', ''session-lifecycle-decision'', ''session-scheduler-decision'',
    ''state-transition-decision'', ''thread-record-decision'', ''virtual-computer-decision'',
    ''check-path-containment'', ''redact-diagnostics'', ''run-api-decision'',
    ''run-approval-decision'', ''run-preparation-decision'', ''run-record-decision'',
    ''run-routing-decision'', ''run-service-decision'', ''run-trigger-decision'',
    ''run-orchestration-decision'', ''runtime-action-decision'', ''runtime-attachment-decision'',
    ''runtime-binding-decision'', ''runtime-session-api-decision'',
    ''runtime-state-store-decision'', ''runtime-health-decision'', ''inspect-secret-reference'']"

definition ACTIVE_ENFORCEMENT_COMMANDS :: "string list" where
  "ACTIVE_ENFORCEMENT_COMMANDS = [
    ''capability-manifest'', ''authorize-request'', ''approval-requirement'', ''artifact-policy'',
    ''build-sandbox-command'', ''check-path-containment'', ''classify-risk'',
    ''control-plane-decision'', ''control-plane-service-decision'', ''authorize-execution'',
    ''deployed-agent-decision'', ''deployed-agent-service-decision'', ''deployed-data-decision'',
    ''deployed-readiness-decision'', ''deployed-virtual-runtime-decision'',
    ''deployed-virtual-runtime-service-decision'', ''execution-outcome'', ''execution-plan'',
    ''execution-runtime-decision'', ''heartbeat-snapshot'', ''gateway-action-decision'',
    ''gateway-frame-decision'', ''gateway-protocol-decision'', ''gateway-state-decision'',
    ''gateway-service-decision'', ''inspect-secret-reference'', ''local-worker-decision'',
    ''machine-lease-decision'', ''outbox-delivery-decision'', ''platform-orchestration-decision'',
    ''policy-preset'', ''process-lifecycle-decision'', ''queue-transition-decision'',
    ''redact-diagnostics'', ''run-api-decision'', ''run-approval-decision'',
    ''run-orchestration-decision'', ''run-preparation-decision'', ''run-record-decision'',
    ''run-routing-decision'', ''run-service-decision'', ''run-trigger-decision'',
    ''runtime-attachment-decision'', ''runtime-action-decision'', ''runtime-binding-decision'',
    ''runtime-health-decision'', ''runtime-session-api-decision'',
    ''runtime-state-store-decision'', ''sandbox-execution-decision'', ''safe-mode-decision'',
    ''scheduler-decision'', ''session-lifecycle-decision'', ''session-scheduler-decision'',
    ''state-transition-decision'', ''thread-record-decision'', ''validate-policy'',
    ''virtual-computer-decision'']"

definition KERNEL_COMMAND_RUST_MODULES :: "(string \<times> string) list" where
  "KERNEL_COMMAND_RUST_MODULES = [
    (''validate-policy'', ''policy''), (''policy-preset'', ''presets''),
    (''capability-manifest'', ''capabilities''), (''control-plane-decision'', ''control_plane''),
    (''control-plane-service-decision'', ''control_plane_service''),
    (''deployed-agent-decision'', ''deployed_agent''),
    (''deployed-agent-service-decision'', ''deployed_agent_service''),
    (''deployed-data-decision'', ''deployed_data''),
    (''deployed-readiness-decision'', ''deployed_readiness''),
    (''deployed-virtual-runtime-decision'', ''deployed_virtual_runtime''),
    (''deployed-virtual-runtime-service-decision'', ''deployed_virtual_runtime_service''),
    (''approval-requirement'', ''approvals''), (''artifact-policy'', ''artifacts''),
    (''authorize-request'', ''authorization''),
    (''authorize-execution'', ''execution_authorization''), (''classify-risk'', ''risk''),
    (''build-sandbox-command'', ''sandbox''),
    (''sandbox-execution-decision'', ''sandbox_execution''),
    (''execution-plan'', ''execution_plan''),
    (''execution-runtime-decision'', ''execution_runtime''),
    (''execution-outcome'', ''execution_outcome''),
    (''gateway-action-decision'', ''gateway_action''),
    (''gateway-frame-decision'', ''gateway_frame''),
    (''gateway-service-decision'', ''gateway_service''),
    (''gateway-protocol-decision'', ''gateway''), (''gateway-state-decision'', ''gateway_state''),
    (''heartbeat-snapshot'', ''heartbeat''), (''local-worker-decision'', ''local_worker''),
    (''machine-lease-decision'', ''lease''), (''outbox-delivery-decision'', ''outbox_delivery''),
    (''platform-orchestration-decision'', ''platform_orchestration''),
    (''process-lifecycle-decision'', ''process''), (''queue-transition-decision'', ''queue''),
    (''safe-mode-decision'', ''safe_mode''), (''scheduler-decision'', ''scheduler''),
    (''session-lifecycle-decision'', ''session''),
    (''session-scheduler-decision'', ''session_scheduler''),
    (''state-transition-decision'', ''state''), (''thread-record-decision'', ''thread_record''),
    (''virtual-computer-decision'', ''virtual_computer''),
    (''check-path-containment'', ''path_guard''), (''redact-diagnostics'', ''redaction''),
    (''run-api-decision'', ''run_api''), (''run-approval-decision'', ''run_approval''),
    (''run-preparation-decision'', ''run_preparation''), (''run-record-decision'', ''run_record''),
    (''run-routing-decision'', ''run_routing''), (''run-service-decision'', ''run_service''),
    (''run-trigger-decision'', ''run_triggers''), (''run-orchestration-decision'', ''runs''),
    (''runtime-action-decision'', ''runtime_action''),
    (''runtime-attachment-decision'', ''runtime_attachment''),
    (''runtime-binding-decision'', ''runtime_binding''),
    (''runtime-session-api-decision'', ''runtime_session_api''),
    (''runtime-state-store-decision'', ''runtime_state_store''),
    (''runtime-health-decision'', ''runtime_health''), (''inspect-secret-reference'', ''secrets'')]"

definition command_wrapper :: "string \<Rightarrow> string" where
  "command_wrapper command = replace_char (CHR ''-'') (CHR ''_'') command"

definition kernel_module :: "string \<Rightarrow> string" where
  "kernel_module command = (case map_of KERNEL_COMMAND_RUST_MODULES command of None \<Rightarrow> ''main'' | Some m \<Rightarrow> m)"

definition DEFAULT_KERNEL_PYTHON_TEST_HINT :: string where
  "DEFAULT_KERNEL_PYTHON_TEST_HINT = ''server_modules/tests/test_rust_runtime_kernel_client.py''"

text \<open>The entry of \<^verbatim>\<open>KERNEL_OWNERSHIP_MANIFEST\<close> for a command.\<close>

definition ownership_entry :: "string \<Rightarrow> pydict" where
  "ownership_entry command =
     (let active = command \<in> set ACTIVE_ENFORCEMENT_COMMANDS in
      [(''owner'', PStr ''rust''),
       (''python_role'', PStr (if active then ''adapter'' else ''shadow_or_parity'')),
       (''enforcement_status'', PStr (if active then ''active_enforcement'' else ''shadow_only'')),
       (''wrapper'', PStr (command_wrapper command)),
       (''rust_module'', PStr (kernel_module command)),
       (''python_test_hint'', PStr DEFAULT_KERNEL_PYTHON_TEST_HINT),
       (''rust_test_hint'', PStr (''empyralis-runtime-kernel/src/'' @ kernel_module command @ ''.rs'')),
       (''parity_fixture_family'', PStr (kernel_module command))])"

definition KERNEL_OWNERSHIP_MANIFEST :: "(string \<times> pydict) list" where
  "KERNEL_OWNERSHIP_MANIFEST =
     map (\<lambda>p. (fst p, ownership_entry (fst p))) (foldr insert_key (map (\<lambda>c. (c, ())) ALLOWED_KERNEL_COMMANDS) [])"

section \<open>Decisions\<close>

datatype spawn_outcome = TimedOut | ExecFailed | Completed string int

record kernel_env =
  has_binary :: bool
  spawn :: "string \<Rightarrow> pydict \<Rightarrow> spawn_outcome"
  json_loads :: "string \<Rightarrow> pyval option"
  digest16 :: "pydict \<Rightarrow> string"

definition decision_id :: "kernel_env \<Rightarrow> string \<Rightarrow> pydict \<Rightarrow> string" where
  "decision_id env command payload =
     ''rkd_'' @ digest16 env
       [(''command'', PStr (strip command)),
        (''operation'', PStr (strip (py_str (por (por (dget payload ''operation'') (PStr command)) (PStr ''unknown''))))),
        (''decision'', PStr (text_of (dget payload ''decision''))),
        (''reason'', PStr (text_of (dget payload ''reason''))),
        (''next_action'', PStr (text_of (dget payload ''next_action''))),
        (''approval_required'', PBool (truthy (dget payload ''approval_required'')))]"

definition normalize_kernel_decision :: "kernel_env \<Rightarrow> string \<Rightarrow> pydict \<Rightarrow> pydict" where
  "normalize_kernel_decision env command payload =
     (let decision = sor (strip (py_str (por (dget payload ''decision'')
            (PStr (if dget payload ''ok'' = PBool True then ''allow'' else ''block''))))) ''block'';
          operation = sor (strip (py_str (por (dget payload ''operation'') (PStr command)))) ''unknown'';
          ok = (truthy (dget payload ''ok'') \<and> decision \<noteq> ''block'');
          approval_required = (truthy (dget payload ''approval_required'') \<or> decision = ''require_approval'');
          audit_visibility = sor (strip (py_str (por (dget payload ''audit_visibility'')
            (PStr (if decision = ''block'' \<or> decision = ''require_approval'' \<or> approval_required
                   then ''security'' else ''standard''))))) ''standard'';
          normalized = dmerge payload
            [(''command'', PStr (sor (strip (py_str (por (por (dget payload ''command'') (PStr command)) (PStr operation)))) ''unknown'')),
             (''ok'', PBool ok),
             (''decision'', PStr decision),
             (''reason'', PStr (strip (py_str (por (dget payload ''reason'')
                (PStr (if ok then ''rust_kernel_allowed'' else ''rust_kernel_blocked'')))))),
             (''operation'', PStr operation),
             (''next_action'', PStr (text_of (dget payload ''next_action''))),
             (''audit_visibility'', PStr audit_visibility),
             (''approval_required'', PBool approval_required),
             (''cacheable'', PBool (truthy (dget payload ''cacheable'')))]
      in dset ''decision_id''
           (PStr (strip (py_str (por (dget payload ''decision_id'') (PStr (decision_id env command normalized)))))) normalized)"

definition fail_closed :: "string \<Rightarrow> string \<Rightarrow> pydict" where
  "fail_closed reason command =
     [(''ok'', PBool False), (''decision'', PStr ''block''), (''reason'', PStr reason), (''error'', PStr reason),
      (''operation'', PStr (sor (strip (sor command ''runtime-kernel'')) ''runtime-kernel'')),
      (''next_action'', PStr []), (''audit_visibility'', PStr ''security''),
      (''approval_required'', PBool False), (''cacheable'', PBool False)]"

definition setdefault :: "string \<Rightarrow> pyval \<Rightarrow> pydict \<Rightarrow> pydict" where
  "setdefault k v d = (case map_of d k of None \<Rightarrow> dset k v d | Some _ \<Rightarrow> d)"

fun is_bool :: "pyval \<Rightarrow> bool" where
  "is_bool (PBool b) = True"
| "is_bool _ = False"

fun is_str :: "pyval \<Rightarrow> bool" where
  "is_str (PStr s) = True"
| "is_str _ = False"

definition run_runtime_kernel :: "kernel_env \<Rightarrow> string \<Rightarrow> pydict \<Rightarrow> pydict" where
  "run_runtime_kernel env command payload =
     (if command \<notin> set ALLOWED_KERNEL_COMMANDS then fail_closed ''runtime_kernel_command_not_allowed'' command
      else if \<not> has_binary env then fail_closed ''runtime_kernel_unavailable'' command
      else case spawn env command payload of
             TimedOut \<Rightarrow> fail_closed ''runtime_kernel_timeout'' command
           | ExecFailed \<Rightarrow> fail_closed ''runtime_kernel_exec_failed'' command
           | Completed out returncode \<Rightarrow>
               if strip out = [] then fail_closed ''runtime_kernel_empty_response'' command
               else (case json_loads env (strip out) of
                       None \<Rightarrow> fail_closed ''runtime_kernel_invalid_json'' command
                     | Some (PDict response) \<Rightarrow>
                         if returncode \<noteq> 0 then
                           (let response1 = setdefault ''reason'' (PStr ''runtime_kernel_nonzero_exit'')
                                  (setdefault ''decision'' (PStr ''block'') (setdefault ''ok'' (PBool False) response))
                            in if dget response1 ''ok'' \<noteq> PBool False \<or> dget response1 ''decision'' \<noteq> PStr ''block''
                               then fail_closed ''runtime_kernel_invalid_response'' command
                               else normalize_kernel_decision env command response1)
                         else if \<not> is_bool (dget response ''ok'') \<or> \<not> is_str (dget response ''decision'')
                         then fail_closed ''runtime_kernel_invalid_response'' command
                         else normalize_kernel_decision env command response
                     | Some _ \<Rightarrow> fail_closed ''runtime_kernel_invalid_response'' command))"

section \<open>Enforcement\<close>

datatype kernel_error = DecisionError pydict | ApprovalRequired pydict

text \<open>\<^verbatim>\<open>exc.reason\<close>.\<close>

fun error_reason :: "kernel_error \<Rightarrow> string" where
  "error_reason (DecisionError d) = strip (py_str (por (dget d ''reason'') (PStr ''rust_kernel_decision_blocked'')))"
| "error_reason (ApprovalRequired d) = strip (py_str (por (dget d ''reason'') (PStr ''rust_kernel_decision_blocked'')))"

definition enforce_kernel_decision :: "kernel_env \<Rightarrow> string \<Rightarrow> pydict \<Rightarrow> bool \<Rightarrow> kernel_error + pydict" where
  "enforce_kernel_decision env command response allow_approval_required =
     (let normalized = normalize_kernel_decision env command response in
      if dget normalized ''decision'' = PStr ''block'' \<or> dget normalized ''ok'' = PBool False
      then Inl (DecisionError normalized)
      else if dget normalized ''approval_required'' = PBool True \<and> \<not> allow_approval_required
      then Inl (ApprovalRequired normalized)
      else Inr normalized)"

definition run_runtime_kernel_enforced :: "kernel_env \<Rightarrow> string \<Rightarrow> pydict \<Rightarrow> bool \<Rightarrow> kernel_error + pydict" where
  "run_runtime_kernel_enforced env command payload allow_approval_required =
     enforce_kernel_decision env command (run_runtime_kernel env command payload) allow_approval_required"

section \<open>Lemmas\<close>

text \<open>The verdict a decision string stands for.\<close>

definition verdict :: "pydict \<Rightarrow> string" where
  "verdict response = sor (strip (py_str (por (dget response ''decision'')
     (PStr (if dget response ''ok'' = PBool True then ''allow'' else ''block''))))) ''block''"

definition needs_approval :: "pydict \<Rightarrow> bool" where
  "needs_approval response = (truthy (dget response ''approval_required'') \<or> verdict response = ''require_approval'')"

lemma dget_dmerge:
  "distinct (map fst b) \<Longrightarrow> dget (dmerge a b) k = (case map_of b k of Some v \<Rightarrow> v | None \<Rightarrow> dget a k)"
  by (simp add: dget_def map_of_dmerge split: option.split)

lemma normalized_fields:
  "dget (normalize_kernel_decision env command d) ''ok'' = PBool (truthy (dget d ''ok'') \<and> verdict d \<noteq> ''block'')"
  "dget (normalize_kernel_decision env command d) ''decision'' = PStr (verdict d)"
  "dget (normalize_kernel_decision env command d) ''approval_required'' = PBool (needs_approval d)"
  "dget (normalize_kernel_decision env command d) ''next_action'' = PStr (text_of (dget d ''next_action''))"
  by (simp_all add: normalize_kernel_decision_def Let_def dget_dset dget_dmerge verdict_def needs_approval_def del: dmerge_Cons)

lemma enforce_Inr_iff:
  "(\<exists>n. enforce_kernel_decision env command d allow = Inr n) \<longleftrightarrow>
    truthy (dget d ''ok'') \<and> verdict d \<noteq> ''block'' \<and> (allow \<or> \<not> needs_approval d)"
  by (auto simp: enforce_kernel_decision_def Let_def normalized_fields)

lemma enforce_Inr_value:
  "enforce_kernel_decision env command d allow = Inr n \<Longrightarrow> n = normalize_kernel_decision env command d"
  by (auto simp: enforce_kernel_decision_def Let_def split: if_splits)

lemma fail_closed_blocks: "\<not> truthy (dget (fail_closed reason command) ''ok'')"
  by (simp add: fail_closed_def dget_Cons)

lemma verdict_idem: "dget d ''decision'' = PStr v \<Longrightarrow> strip v = v \<Longrightarrow> v \<noteq> [] \<Longrightarrow> verdict d = v"
  by (simp add: verdict_def por_def sor_def)

lemma verdict_stripped: "strip (verdict d) = verdict d \<and> verdict d \<noteq> []"
proof -
  have "strip ''block'' = ''block''" by code_simp
  then show ?thesis by (simp add: verdict_def sor_def)
qed

lemma verdict_normalized: "verdict (normalize_kernel_decision env command d) = verdict d"
  using verdict_stripped [of d] by (intro verdict_idem) (simp_all add: normalized_fields)

lemma needs_approval_normalized: "needs_approval (normalize_kernel_decision env command d) = needs_approval d"
  by (auto simp: needs_approval_def [of "normalize_kernel_decision env command d"] normalized_fields verdict_normalized)
    (auto simp: needs_approval_def)

text \<open>The answer of the kernel that can lead to an allowed action.\<close>

definition kernel_permits :: "kernel_env \<Rightarrow> string \<Rightarrow> pydict \<Rightarrow> pydict \<Rightarrow> bool" where
  "kernel_permits env command payload response =
     (command \<in> set ALLOWED_KERNEL_COMMANDS \<and> has_binary env \<and>
      (\<exists>out. spawn env command payload = Completed out 0 \<and> strip out \<noteq> [] \<and>
         json_loads env (strip out) = Some (PDict response)) \<and>
      dget response ''ok'' = PBool True \<and> is_str (dget response ''decision'') \<and> verdict response \<noteq> ''block'')"

lemma is_bool_truthy: "is_bool v \<Longrightarrow> truthy v \<longleftrightarrow> v = PBool True"
  by (cases v) auto

lemma run_kernel_permits:
  "truthy (dget (run_runtime_kernel env command payload) ''ok'') \<longleftrightarrow> (\<exists>response. kernel_permits env command payload response)"
  "kernel_permits env command payload response \<Longrightarrow>
     run_runtime_kernel env command payload = normalize_kernel_decision env command response"
  by (auto simp: run_runtime_kernel_def kernel_permits_def fail_closed_blocks normalized_fields is_bool_truthy Let_def
      split: spawn_outcome.splits option.splits pyval.splits if_splits)

section \<open>The type of an answer\<close>

text \<open>The shape the callers rely on, and the decision inside the outcome of an enforced call.\<close>

definition well_typed_decision :: "pydict \<Rightarrow> bool" where
  "well_typed_decision d =
     (is_bool (dget d ''ok'') \<and> is_bool (dget d ''approval_required'') \<and> is_bool (dget d ''cacheable'') \<and>
      list_all (\<lambda>k. is_str (dget d k)) [''decision'', ''reason'', ''operation'', ''next_action'', ''audit_visibility''] \<and>
      dget d ''decision'' \<noteq> PStr [] \<and> dget d ''operation'' \<noteq> PStr [] \<and>
      (if dget d ''decision'' = PStr ''block'' then dget d ''ok'' = PBool False else True) \<and>
      (if dget d ''decision'' = PStr ''require_approval'' then dget d ''approval_required'' = PBool True else True))"

fun answered :: "kernel_error + pydict \<Rightarrow> pydict" where
  "answered (Inl (DecisionError d)) = d"
| "answered (Inl (ApprovalRequired d)) = d"
| "answered (Inr d) = d"

lemma normalized_more_fields:
  "is_bool (dget (normalize_kernel_decision env command d) ''cacheable'')"
  "is_str (dget (normalize_kernel_decision env command d) ''reason'')"
  "is_str (dget (normalize_kernel_decision env command d) ''operation'') \<and> dget (normalize_kernel_decision env command d) ''operation'' \<noteq> PStr []"
  "is_str (dget (normalize_kernel_decision env command d) ''audit_visibility'')"
  by (simp_all add: normalize_kernel_decision_def Let_def dget_dset dget_dmerge sor_def del: dmerge_Cons)

lemma normalized_well_typed: "well_typed_decision (normalize_kernel_decision env command d)"
  using verdict_stripped [of d]
  by (simp add: well_typed_decision_def normalized_fields normalized_more_fields needs_approval_def)

lemma fail_closed_well_typed: "well_typed_decision (fail_closed reason command)"
  by (simp add: well_typed_decision_def fail_closed_def dget_Cons sor_def)

section \<open>The tables\<close>

lemma allowed_distinct: "distinct ALLOWED_KERNEL_COMMANDS"
  by code_simp

lemma allowed_active: "list_all (\<lambda>c. c \<in> set ACTIVE_ENFORCEMENT_COMMANDS) ALLOWED_KERNEL_COMMANDS"
  by code_simp

lemma active_allowed: "list_all (\<lambda>c. c \<in> set ALLOWED_KERNEL_COMMANDS) ACTIVE_ENFORCEMENT_COMMANDS"
  by code_simp

lemma modules_allowed: "map fst KERNEL_COMMAND_RUST_MODULES = ALLOWED_KERNEL_COMMANDS"
  by code_simp

lemma mset_sort_keys: "mset (foldr insert_key xs []) = mset xs"
proof (induction xs)
  case (Cons p xs)
  have "mset (insert_key p ys) = add_mset p (mset ys)" for ys by (induction ys) auto
  with Cons show ?case by simp
qed simp

lemma manifest_commands: "mset (map fst KERNEL_OWNERSHIP_MANIFEST) = mset ALLOWED_KERNEL_COMMANDS"
proof -
  have "mset (map fst KERNEL_OWNERSHIP_MANIFEST) = image_mset fst (mset (foldr insert_key (map (\<lambda>c. (c, ())) ALLOWED_KERNEL_COMMANDS) []))"
    by (simp add: KERNEL_OWNERSHIP_MANIFEST_def image_mset.compositionality comp_def)
  then show ?thesis by (simp add: mset_sort_keys image_mset.compositionality comp_def)
qed

lemma manifest_entry: "p \<in> set KERNEL_OWNERSHIP_MANIFEST \<Longrightarrow> snd p = ownership_entry (fst p)"
  by (auto simp: KERNEL_OWNERSHIP_MANIFEST_def)

section \<open>Properties\<close>

text \<open>C2. The kernel gate fails closed. An enforced call goes through if and only if the command is on
  the allow list, the binary ran and exited with status 0, its output parsed to an object whose
  \<^verbatim>\<open>ok\<close> is the boolean true and whose decision is a string that does not block, and no approval is
  outstanding (unless the caller accepts that). No other outcome of the subprocess lets a call
  through.\<close>

theorem kernel_gate_fails_closed:
  "(\<exists>d. run_runtime_kernel_enforced env command payload allow = Inr d) \<longleftrightarrow>
   (\<exists>response. kernel_permits env command payload response \<and> (allow \<or> \<not> needs_approval response))"
proof
  assume "\<exists>d. run_runtime_kernel_enforced env command payload allow = Inr d"
  then have ok: "truthy (dget (run_runtime_kernel env command payload) ''ok'')"
    and appr: "allow \<or> \<not> needs_approval (run_runtime_kernel env command payload)"
    unfolding run_runtime_kernel_enforced_def enforce_Inr_iff by blast+
  from ok obtain response where "kernel_permits env command payload response"
    using run_kernel_permits(1) by blast
  with appr run_kernel_permits(2) [OF this]
  show "\<exists>response. kernel_permits env command payload response \<and> (allow \<or> \<not> needs_approval response)"
    by (auto simp: needs_approval_normalized)
next
  assume "\<exists>response. kernel_permits env command payload response \<and> (allow \<or> \<not> needs_approval response)"
  then obtain response where p: "kernel_permits env command payload response"
    and a: "allow \<or> \<not> needs_approval response" by blast
  have "verdict response \<noteq> ''block''" "dget response ''ok'' = PBool True" using p by (simp_all add: kernel_permits_def)
  then show "\<exists>d. run_runtime_kernel_enforced env command payload allow = Inr d"
    unfolding run_runtime_kernel_enforced_def enforce_Inr_iff run_kernel_permits(2) [OF p]
    using a by (simp add: normalized_fields verdict_normalized needs_approval_normalized)
qed

definition demo_permit :: pydict where
  "demo_permit = [(''ok'', PBool True), (''decision'', PStr ''allow'')]"

definition permitting_env :: kernel_env where
  "permitting_env = \<lparr>has_binary = True, spawn = \<lambda>command payload. Completed ''R'' 0,
     json_loads = \<lambda>s. Some (PDict demo_permit), digest16 = \<lambda>d. ''0''\<rparr>"

theorem kernel_gate_fails_closed_witness:
  "\<exists>d. run_runtime_kernel_enforced permitting_env ''machine-lease-decision'' [] False = Inr d"
proof -
  have "''machine-lease-decision'' \<in> set ALLOWED_KERNEL_COMMANDS" by code_simp
  moreover have "strip ''R'' \<noteq> []" "verdict demo_permit \<noteq> ''block''" "\<not> needs_approval demo_permit" by code_simp+
  moreover have "dget demo_permit ''ok'' = PBool True" "is_str (dget demo_permit ''decision'')"
    by (simp_all add: demo_permit_def dget_Cons)
  ultimately have "kernel_permits permitting_env ''machine-lease-decision'' [] demo_permit"
    by (simp add: kernel_permits_def permitting_env_def)
  with \<open>\<not> needs_approval demo_permit\<close> show ?thesis
    using kernel_gate_fails_closed [of permitting_env "''machine-lease-decision''" "[]" False] by blast
qed

text \<open>C33. Every answer of the client is a well-typed decision, whatever the kernel printed: the flags are
  booleans, the verdict and the operation are non-empty strings, the other fields are strings, a blocking
  verdict is never \<^verbatim>\<open>ok\<close> and a verdict that asks for approval requires it. This holds of the plain
  answer and of the decision an enforced call returns or raises.\<close>

theorem kernel_answers_well_typed:
  "well_typed_decision (run_runtime_kernel env command payload) \<and>
   well_typed_decision (answered (run_runtime_kernel_enforced env command payload allow))"
proof
  show "well_typed_decision (run_runtime_kernel env command payload)"
    by (simp add: run_runtime_kernel_def Let_def fail_closed_well_typed normalized_well_typed
        split: spawn_outcome.split option.split pyval.split)
  show "well_typed_decision (answered (run_runtime_kernel_enforced env command payload allow))"
    by (simp add: run_runtime_kernel_enforced_def enforce_kernel_decision_def Let_def normalized_well_typed)
qed

text \<open>The command tables agree: the commands the client may send are exactly those it enforces,
  each has a named Rust module (never the fallback) and exactly one entry in the ownership manifest,
  which says that it is actively enforced.\<close>

theorem command_tables_agree:
  "set ACTIVE_ENFORCEMENT_COMMANDS = set ALLOWED_KERNEL_COMMANDS \<and>
   map fst KERNEL_COMMAND_RUST_MODULES = ALLOWED_KERNEL_COMMANDS \<and>
   mset (map fst KERNEL_OWNERSHIP_MANIFEST) = mset ALLOWED_KERNEL_COMMANDS \<and>
   distinct (map fst KERNEL_OWNERSHIP_MANIFEST) \<and>
   list_all (\<lambda>p. dget (snd p) ''enforcement_status'' = PStr ''active_enforcement'') KERNEL_OWNERSHIP_MANIFEST"
proof -
  have eq: "set ACTIVE_ENFORCEMENT_COMMANDS = set ALLOWED_KERNEL_COMMANDS"
    using allowed_active active_allowed unfolding list_all_iff by blast
  have "dget (snd p) ''enforcement_status'' = PStr ''active_enforcement''" if "p \<in> set KERNEL_OWNERSHIP_MANIFEST" for p
  proof -
    have "fst p \<in> set (map fst KERNEL_OWNERSHIP_MANIFEST)" using that by simp
    then have "fst p \<in> set ALLOWED_KERNEL_COMMANDS" by (metis manifest_commands mset_eq_setD)
    then have "fst p \<in> set ACTIVE_ENFORCEMENT_COMMANDS" by (simp only: eq)
    then show ?thesis by (simp add: manifest_entry [OF that] ownership_entry_def dget_Cons)
  qed
  moreover have "distinct (map fst KERNEL_OWNERSHIP_MANIFEST)"
    using mset_eq_imp_distinct_iff [OF manifest_commands] allowed_distinct by simp
  ultimately show ?thesis using eq modules_allowed manifest_commands unfolding list_all_iff by blast
qed

end
