(* ===== verification/Quota.thy ===== *)
theory Quota
  imports Py_Prelude
begin

text \<open>
  Rate limiting: the request windows of \<^verbatim>\<open>server_modules/request_window_quota_adapter.py\<close> (a sliding
  window in memory) and \<^verbatim>\<open>server_modules/durable_quota_store.py\<close> (a window row in SQLite), and the
  decisions built on them in \<^verbatim>\<open>server_modules/quota_policy_service.py\<close>.

  Clock readings are exact rationals. \<^verbatim>\<open>round\<close> is Python's rounding of halves to even. One call is
  atomic: the adapter holds its lock, the store an immediate transaction. The table \<^verbatim>\<open>quota_windows\<close>
  is an association list from keys to window start and count; its \<^verbatim>\<open>updated_at\<close> column is never read.
\<close>

section \<open>Rounding\<close>

definition py_round :: "rat \<Rightarrow> int" where
  "py_round r = (let f = \<lfloor>r\<rfloor>; d = r - of_int f in
     if d < 1/2 then f else if 1/2 < d then f + 1 else if even f then f else f + 1)"

definition positive_limit :: "int \<Rightarrow> int" where
  "positive_limit limit = max limit 1"

section \<open>The sliding window in memory\<close>

definition MAX_BUCKETS_BEFORE_DEAD_PRUNE :: nat where "MAX_BUCKETS_BEFORE_DEAD_PRUNE = 1000"
definition DEAD_BUCKET_PRUNE_INTERVAL_SECONDS :: rat where "DEAD_BUCKET_PRUNE_INTERVAL_SECONDS = 60"
definition DEAD_BUCKET_RETENTION_SECONDS :: rat where "DEAD_BUCKET_RETENTION_SECONDS = 120"

record window_state =
  buckets :: "(string \<times> rat list) list"
  last_dead_bucket_prune_at :: rat

record window_result =
  allowed :: bool
  retry_after_seconds :: int
  limit :: int
  observed :: int

definition is_dead :: "rat \<Rightarrow> rat list \<Rightarrow> bool" where
  "is_dead dead_cutoff v = (v = [] \<or> last v < dead_cutoff)"

definition prune_dead_buckets :: "rat \<Rightarrow> window_state \<Rightarrow> window_state" where
  "prune_dead_buckets current st =
     (if MAX_BUCKETS_BEFORE_DEAD_PRUNE < length (buckets st) \<and>
         DEAD_BUCKET_PRUNE_INTERVAL_SECONDS \<le> current - last_dead_bucket_prune_at st
      then st\<lparr>last_dead_bucket_prune_at := current,
              buckets := filter (\<lambda>p. \<not> is_dead (current - DEAD_BUCKET_RETENTION_SECONDS) (snd p)) (buckets st)\<rparr>
      else st)"

definition bucket_of :: "window_state \<Rightarrow> string \<Rightarrow> rat list" where
  "bucket_of st key = (case map_of (buckets st) key of None \<Rightarrow> [] | Some b \<Rightarrow> b)"

definition memory_window :: "window_state \<Rightarrow> string \<Rightarrow> int \<Rightarrow> rat \<Rightarrow> window_state \<times> window_result" where
  "memory_window st key lmt current =
     (let normalized_limit = positive_limit lmt;
          st1 = prune_dead_buckets current st;
          bucket = filter (\<lambda>item. current - 60 \<le> item) (bucket_of st1 key)
      in if normalized_limit \<le> int (length bucket) then
           (st1\<lparr>buckets := dset key bucket (buckets st1)\<rparr>,
            \<lparr>allowed = False, retry_after_seconds = max 1 (py_round (hd bucket + 60 - current)),
             limit = normalized_limit, observed = int (length bucket)\<rparr>)
         else
           (st1\<lparr>buckets := dset key (bucket @ [current]) (buckets st1)\<rparr>,
            \<lparr>allowed = True, retry_after_seconds = 0, limit = normalized_limit,
             observed = int (length bucket) + 1\<rparr>))"

section \<open>The durable window\<close>

type_synonym quota_windows = "(string \<times> rat \<times> int) list"

record durable_decision =
  dur_allowed :: bool
  dur_limit :: int
  dur_observed :: int
  dur_remaining :: int
  dur_retry_after_seconds :: int
  dur_window_seconds :: int

datatype quota_error = KeyRequired | UnknownProfile

definition current_window :: "quota_windows \<Rightarrow> string \<Rightarrow> int \<Rightarrow> rat \<Rightarrow> rat \<times> int" where
  "current_window table key window current =
     (case map_of table key of
        None \<Rightarrow> (current, 0)
      | Some (start, count) \<Rightarrow>
          if of_int window \<le> current - start then (current, 0) else (start, max count 0))"

definition consume_window ::
    "quota_windows \<Rightarrow> string \<Rightarrow> int \<Rightarrow> int \<Rightarrow> rat \<Rightarrow> quota_error + quota_windows \<times> durable_decision" where
  "consume_window table key lmt window_seconds current =
     (let normalized_key = strip key; normalized_limit = positive_limit lmt;
          normalized_window = max window_seconds 1
      in if normalized_key = [] then Inl KeyRequired
         else
           let (window_started_at, obs) = current_window table normalized_key normalized_window current
           in if normalized_limit \<le> obs then
                Inr (table,
                  \<lparr>dur_allowed = False, dur_limit = normalized_limit, dur_observed = obs, dur_remaining = 0,
                   dur_retry_after_seconds = max 1 (py_round (window_started_at + of_int normalized_window - current)),
                   dur_window_seconds = normalized_window\<rparr>)
              else
                Inr (dset normalized_key (window_started_at, obs + 1) table,
                  \<lparr>dur_allowed = True, dur_limit = normalized_limit, dur_observed = obs + 1,
                   dur_remaining = max 0 (normalized_limit - (obs + 1)), dur_retry_after_seconds = 0,
                   dur_window_seconds = normalized_window\<rparr>))"

definition snapshot_window :: "quota_windows \<Rightarrow> string \<Rightarrow> int \<Rightarrow> int \<Rightarrow> rat \<Rightarrow> durable_decision" where
  "snapshot_window table key lmt window_seconds current =
     (let normalized_key = strip key; normalized_limit = positive_limit lmt;
          normalized_window = max window_seconds 1
      in if normalized_key = [] then
           \<lparr>dur_allowed = True, dur_limit = normalized_limit, dur_observed = 0, dur_remaining = normalized_limit,
            dur_retry_after_seconds = 0, dur_window_seconds = normalized_window\<rparr>
         else
           let (obs, retry_after) =
             (case map_of table normalized_key of
                None \<Rightarrow> (0, 0)
              | Some (start, count) \<Rightarrow>
                  if of_int normalized_window \<le> current - start then (0, 0)
                  else (max count 0, max 1 (py_round (start + of_int normalized_window - current))))
           in \<lparr>dur_allowed = (obs < normalized_limit), dur_limit = normalized_limit, dur_observed = obs,
               dur_remaining = max 0 (normalized_limit - obs),
               dur_retry_after_seconds = (if obs < normalized_limit then 0 else retry_after),
               dur_window_seconds = normalized_window\<rparr>)"

section \<open>The adapter\<close>

datatype window_store = InMemory window_state | OnDisk quota_windows

definition evaluate_request_window ::
    "window_store \<Rightarrow> string \<Rightarrow> int \<Rightarrow> rat \<Rightarrow> quota_error + window_store \<times> window_result" where
  "evaluate_request_window store key lmt current =
     (case store of
        OnDisk table \<Rightarrow>
          rbind (consume_window table key (positive_limit lmt) 60 current)
            (\<lambda>(table', d). Inr (OnDisk table', \<lparr>allowed = dur_allowed d, retry_after_seconds = dur_retry_after_seconds d,
               limit = dur_limit d, observed = dur_observed d\<rparr>))
      | InMemory st \<Rightarrow> (case memory_window st key lmt current of (st', r) \<Rightarrow> Inr (InMemory st', r)))"

section \<open>Policy decisions\<close>

record quota_subject =
  sub_deployed_agent_id :: "string option"
  sub_responder_install_id :: "string option"
  sub_thread_id :: "string option"
  sub_session_key :: "string option"
  sub_actor_id :: "string option"
  sub_request_path :: "string option"
  sub_client_ip :: "string option"

record quota_profile =
  profile_name :: string
  surface_kind :: string
  deny_reason :: "string option"

record quota_decision =
  q_allowed :: bool
  q_reason :: "string option"
  q_scope :: "string option"
  q_surface_kind :: string
  q_retry_after :: "int option"
  q_snapshot :: "pydict option"
  q_response_class :: "string option"
  q_http_status :: int
  q_metadata :: pydict

definition PROFILES :: "(string \<times> quota_profile) list" where
  "PROFILES = map (\<lambda>(n, sk, r). (n, \<lparr>profile_name = n, surface_kind = sk, deny_reason = r\<rparr>))
    [(''auth_login'', ''auth_login'', Some ''auth_login_rate_limited''),
     (''auth_public_registration'', ''auth_public'', Some ''auth_public_rate_limited''),
     (''authenticated_api'', ''authenticated_api'', Some ''authenticated_api_rate_limited''),
     (''service_api'', ''service_api'', Some ''service_api_rate_limited''),
     (''control_plane_mutation'', ''control_plane_mutation'', Some ''control_plane_rate_limited''),
     (''auth_csrf_failure'', ''auth_csrf'', Some ''auth_csrf_rate_limited''),
     (''auth_refresh'', ''auth_refresh'', Some ''auth_refresh_rate_limited''),
     (''auth_email_verification'', ''auth_email_verification'', Some ''auth_email_verification_rate_limited''),
     (''model_invocation'', ''model_invocation'', Some ''model_invocation_rate_limited''),
     (''mini_app_bridge'', ''mini_app_bridge'', Some ''mini_app_bridge_rate_limited''),
     (''mini_app_invoke'', ''mini_app_invoke'', Some ''mini_app_invoke_rate_limited''),
     (''deployed_agent_public_turn'', ''deployed_agent_channel'', None),
     (''deployed_agent_internal_transport'', ''deployed_agent_channel'', None)]"

definition DEPLOYED_AGENT_PUBLIC_TURN_PROFILE :: quota_profile where
  "DEPLOYED_AGENT_PUBLIC_TURN_PROFILE =
     \<lparr>profile_name = ''deployed_agent_public_turn'', surface_kind = ''deployed_agent_channel'', deny_reason = None\<rparr>"

definition RESPONSE_CLASS_BY_REASON :: "(string \<times> string) list" where
  "RESPONSE_CLASS_BY_REASON =
    [(''auth_login_rate_limited'', ''http_rate_limited''),
     (''auth_public_rate_limited'', ''http_rate_limited''),
     (''authenticated_api_rate_limited'', ''http_rate_limited''),
     (''service_api_rate_limited'', ''http_rate_limited''),
     (''control_plane_rate_limited'', ''http_rate_limited''),
     (''auth_csrf_rate_limited'', ''http_rate_limited''),
     (''auth_refresh_rate_limited'', ''http_rate_limited''),
     (''auth_email_verification_rate_limited'', ''http_rate_limited''),
     (''model_invocation_rate_limited'', ''http_rate_limited''),
     (''mini_app_bridge_rate_limited'', ''http_rate_limited''),
     (''mini_app_invoke_rate_limited'', ''http_rate_limited''),
     (''deployed_agent_daily_limit_exceeded'', ''upgrade_required''),
     (''thread_busy'', ''thread_busy''),
     (''agent_limit_exceeded'', ''specialist_busy''),
     (''workspace_limit_exceeded'', ''workspace_busy''),
     (''workspace_rate_limited'', ''traffic_surge''),
     (''runtime_cap_exceeded'', ''service_window_exceeded'')]"

definition SCOPE_BY_REASON :: "(string \<times> string) list" where
  "SCOPE_BY_REASON =
    [(''auth_login_rate_limited'', ''auth_login_ip_window''),
     (''auth_public_rate_limited'', ''auth_public_ip_window''),
     (''authenticated_api_rate_limited'', ''authenticated_api_actor_window''),
     (''service_api_rate_limited'', ''service_api_actor_window''),
     (''control_plane_rate_limited'', ''control_plane_identity_window''),
     (''auth_csrf_rate_limited'', ''auth_csrf_failure_ip_window''),
     (''auth_refresh_rate_limited'', ''auth_refresh_ip_window''),
     (''auth_email_verification_rate_limited'', ''auth_email_verification_ip_window''),
     (''model_invocation_rate_limited'', ''model_invocation_actor_window''),
     (''mini_app_bridge_rate_limited'', ''mini_app_bridge_actor_window''),
     (''mini_app_invoke_rate_limited'', ''mini_app_invoke_actor_window''),
     (''deployed_agent_daily_limit_exceeded'', ''deployed_agent_external_user_day''),
     (''thread_busy'', ''conversation_thread''),
     (''agent_limit_exceeded'', ''agent_active_threads''),
     (''workspace_limit_exceeded'', ''workspace_active_threads''),
     (''workspace_rate_limited'', ''workspace_turn_rate''),
     (''runtime_cap_exceeded'', ''runtime_service_window'')]"

definition get_quota_policy_profile :: "pyval \<Rightarrow> quota_error + quota_profile" where
  "get_quota_policy_profile name = of_option UnknownProfile (map_of PROFILES (text_of name))"

definition allow_quota_decision :: "quota_profile \<Rightarrow> pydict \<Rightarrow> quota_decision" where
  "allow_quota_decision profile metadata =
     \<lparr>q_allowed = True, q_reason = None, q_scope = None, q_surface_kind = surface_kind profile, q_retry_after = None,
      q_snapshot = None, q_response_class = None, q_http_status = 200, q_metadata = metadata\<rparr>"

definition deny_quota_decision ::
    "quota_profile \<Rightarrow> pyval \<Rightarrow> int option \<Rightarrow> pydict \<Rightarrow> pydict \<Rightarrow> string option \<Rightarrow> string option \<Rightarrow> int \<Rightarrow> quota_decision" where
  "deny_quota_decision profile rsn retry snapshot metadata scp response_class status =
     (let normalized_reason = sor (text_of rsn)
            (case deny_reason profile of Some r \<Rightarrow> sor r ''rate_limited'' | None \<Rightarrow> ''rate_limited'')
      in \<lparr>q_allowed = False, q_reason = Some normalized_reason,
          q_scope = (case scp of Some (c # cs) \<Rightarrow> Some (c # cs) | _ \<Rightarrow> map_of SCOPE_BY_REASON normalized_reason),
          q_surface_kind = surface_kind profile,
          q_retry_after = (case retry of Some r \<Rightarrow> if r = 0 then None else Some (max r 1) | None \<Rightarrow> None),
          q_snapshot = (if snapshot = [] then None else Some snapshot),
          q_response_class = (case response_class of Some (c # cs) \<Rightarrow> Some (c # cs)
            | _ \<Rightarrow> map_of RESPONSE_CLASS_BY_REASON normalized_reason),
          q_http_status = max (if status = 0 then 429 else status) 400,
          q_metadata = metadata\<rparr>)"

definition window_quota_decision :: "quota_profile \<Rightarrow> quota_subject \<Rightarrow> string \<Rightarrow> int \<Rightarrow> window_result \<Rightarrow> quota_decision" where
  "window_quota_decision profile subject key lmt window =
     (let metadata = [(''quota_key'', opt_str (snone (strip key))), (''window_seconds'', PInt 60),
            (''limit'', PInt (if limit window = 0 then positive_limit lmt else limit window)),
            (''observed'', PInt (observed window)),
            (''request_path'', opt_str (sub_request_path subject)), (''client_ip'', opt_str (sub_client_ip subject)),
            (''actor_id'', opt_str (sub_actor_id subject))]
      in if allowed window then allow_quota_decision profile metadata
         else deny_quota_decision profile
                (PStr (case deny_reason profile of Some r \<Rightarrow> sor r ''rate_limited'' | None \<Rightarrow> ''rate_limited''))
                (Some (if retry_after_seconds window = 0 then 1 else retry_after_seconds window))
                [] metadata None None 429)"

definition evaluate_request_window_quota ::
    "pyval \<Rightarrow> quota_subject \<Rightarrow> window_store \<Rightarrow> string \<Rightarrow> int \<Rightarrow> rat \<Rightarrow> quota_error + window_store \<times> quota_decision" where
  "evaluate_request_window_quota name subject store key lmt current =
     rbind (get_quota_policy_profile name) (\<lambda>profile.
       rbind (evaluate_request_window store key lmt current) (\<lambda>(store', window).
         Inr (store', window_quota_decision profile subject key lmt window)))"

definition channel_turn_metadata :: "quota_subject \<Rightarrow> pydict" where
  "channel_turn_metadata subject =
     [(''deployed_agent_id'', opt_str (sub_deployed_agent_id subject)),
      (''responder_install_id'', opt_str (sub_responder_install_id subject)),
      (''thread_id'', opt_str (sub_thread_id subject)), (''session_key'', opt_str (sub_session_key subject))]"

definition channel_limit_error_decision :: "quota_subject \<Rightarrow> string \<Rightarrow> int \<Rightarrow> pydict \<Rightarrow> quota_decision" where
  "channel_limit_error_decision subject err_reason err_retry err_snapshot =
     deny_quota_decision DEPLOYED_AGENT_PUBLIC_TURN_PROFILE (PStr (sor err_reason ''workspace_limit_exceeded''))
       (Some (if err_retry = 0 then 1 else err_retry)) err_snapshot (channel_turn_metadata subject) None None 429"

definition runtime_cap_quota_decision :: "quota_subject \<Rightarrow> int \<Rightarrow> pydict \<Rightarrow> quota_decision" where
  "runtime_cap_quota_decision subject max_runtime_seconds snapshot =
     deny_quota_decision DEPLOYED_AGENT_PUBLIC_TURN_PROFILE (PStr ''runtime_cap_exceeded'')
       (Some (if max_runtime_seconds \<noteq> 0 then max (min (max_runtime_seconds div 2) 30) 5 else 5))
       snapshot (channel_turn_metadata subject) None None 429"

section \<open>The contract of a window store\<close>

text \<open>What the policy layer relies on, whichever store is in use: a granted request has no retry
  delay, a refused one has a delay of at least a second, and the reported limit is the normalised
  one.\<close>

locale window_provider =
  fixes eval :: "'s \<Rightarrow> string \<Rightarrow> int \<Rightarrow> rat \<Rightarrow> quota_error + 's \<times> window_result"
  assumes granted: "eval s key lmt now = Inr (s', r) \<Longrightarrow> allowed r \<Longrightarrow> retry_after_seconds r = 0"
    and refused: "eval s key lmt now = Inr (s', r) \<Longrightarrow> \<not> allowed r \<Longrightarrow> 1 \<le> retry_after_seconds r"
    and limit_law: "eval s key lmt now = Inr (s', r) \<Longrightarrow> limit r = positive_limit lmt"
begin

lemma decision_of_window:
  assumes "eval s key lmt now = Inr (s', r)"
  shows "let d = window_quota_decision profile subject key lmt r in
    (q_allowed d \<longleftrightarrow> allowed r) \<and>
    (q_allowed d \<longrightarrow> q_http_status d = 200 \<and> q_retry_after d = None \<and> q_reason d = None) \<and>
    (\<not> q_allowed d \<longrightarrow> q_http_status d = 429 \<and> q_retry_after d = Some (retry_after_seconds r)) \<and>
    dget (q_metadata d) ''limit'' = PInt (positive_limit lmt)"
  using refused [OF assms] limit_law [OF assms]
  by (cases "allowed r")
    (auto simp: window_quota_decision_def allow_quota_decision_def deny_quota_decision_def Let_def dget_Cons positive_limit_def)

end

lemma memory_window_result:
  "memory_window st key lmt now = (st', r) \<Longrightarrow>
    (allowed r \<longrightarrow> retry_after_seconds r = 0) \<and> (\<not> allowed r \<longrightarrow> 1 \<le> retry_after_seconds r) \<and> limit r = positive_limit lmt"
  by (auto simp: memory_window_def Let_def split: if_splits)

lemma consume_window_result:
  "consume_window table key lmt w now = Inr (table', d) \<Longrightarrow>
    (dur_allowed d \<longrightarrow> dur_retry_after_seconds d = 0) \<and> (\<not> dur_allowed d \<longrightarrow> 1 \<le> dur_retry_after_seconds d) \<and>
    dur_limit d = positive_limit lmt"
  by (auto simp: consume_window_def Let_def split: if_splits prod.splits)

lemma evaluate_window_result:
  assumes "evaluate_request_window store key lmt now = Inr (store', r)"
  shows "(allowed r \<longrightarrow> retry_after_seconds r = 0) \<and> (\<not> allowed r \<longrightarrow> 1 \<le> retry_after_seconds r) \<and>
    limit r = positive_limit lmt"
proof (cases store)
  case (InMemory st)
  with assms show ?thesis
    by (auto simp: evaluate_request_window_def split: prod.splits dest!: memory_window_result)
next
  case (OnDisk table)
  with assms obtain table' d where "consume_window table key (positive_limit lmt) 60 now = Inr (table', d)"
    and "r = \<lparr>allowed = dur_allowed d, retry_after_seconds = dur_retry_after_seconds d,
      limit = dur_limit d, observed = dur_observed d\<rparr>"
    by (auto simp: evaluate_request_window_def rbind_Inr_iff)
  with consume_window_result [of table key "positive_limit lmt" 60 now table' d] show ?thesis
    by (simp add: positive_limit_def)
qed

interpretation adapter: window_provider evaluate_request_window
  by unfold_locales (use evaluate_window_result in blast)+

section \<open>The sliding window counts exactly\<close>

text \<open>A run of requests, with the granted ones recorded.\<close>

definition window_step ::
    "window_state \<times> (string \<times> rat) list \<Rightarrow> string \<times> int \<times> rat \<Rightarrow> window_state \<times> (string \<times> rat) list" where
  "window_step s e = (case s of (st, acc) \<Rightarrow> case e of (key, lmt, now) \<Rightarrow>
     (case memory_window st key lmt now of (st', r) \<Rightarrow> (st', if allowed r then acc @ [(key, now)] else acc)))"

definition granted_times :: "string \<Rightarrow> (string \<times> rat) list \<Rightarrow> rat list" where
  "granted_times key acc = map snd (filter (\<lambda>p. fst p = key) acc)"

definition window_run :: "(string \<times> int \<times> rat) list \<Rightarrow> window_state \<times> (string \<times> rat) list" where
  "window_run es = foldl window_step (\<lparr>buckets = [], last_dead_bucket_prune_at = 0\<rparr>, []) es"

definition bucket_ok :: "rat \<Rightarrow> rat list \<Rightarrow> rat list \<Rightarrow> bool" where
  "bucket_ok now b a = (sorted b \<and> (\<forall>x \<in> set b. x \<le> now) \<and> (\<forall>x \<in> set a. x \<le> now) \<and>
     filter (\<lambda>x. now - 60 \<le> x) b = filter (\<lambda>x. now - 60 \<le> x) a)"

definition win_inv :: "rat \<Rightarrow> window_state \<Rightarrow> (string \<times> rat) list \<Rightarrow> bool" where
  "win_inv now st acc = (distinct (map fst (buckets st)) \<and> (\<forall>k. bucket_ok now (bucket_of st k) (granted_times k acc)))"

lemma filter_later: "(now :: rat) \<le> now' \<Longrightarrow>
    filter (\<lambda>x. now' - 60 \<le> x) xs = filter (\<lambda>x. now' - 60 \<le> x) (filter (\<lambda>x. now - 60 \<le> x) xs)"
  by (auto simp: filter_filter intro!: filter_cong)

lemma bucket_ok_later:
  assumes "bucket_ok now b a" and "now \<le> now'" shows "bucket_ok now' b a"
  using assms filter_later [OF assms(2), of a] filter_later [OF assms(2), of b]
  by (auto simp: bucket_ok_def)

lemma win_inv_later: "win_inv now st acc \<Longrightarrow> now \<le> now' \<Longrightarrow> win_inv now' st acc"
  unfolding win_inv_def using bucket_ok_later by blast

lemma map_of_filter_distinct:
  assumes "distinct (map fst xs)"
  shows "map_of (filter (\<lambda>p. P (snd p)) xs) k = (case map_of xs k of Some v \<Rightarrow> if P v then Some v else None | None \<Rightarrow> None)"
  using assms
  by (induction xs) (auto split: option.splits simp: map_of_eq_None_iff dest: map_of_SomeD)

lemma sorted_le_last: "sorted xs \<Longrightarrow> x \<in> set xs \<Longrightarrow> x \<le> last xs"
  by (induction xs) auto

lemma dead_bucket_empty:
  assumes "bucket_ok now b a" and "is_dead (now - 120) b"
  shows "bucket_ok now [] a"
proof -
  have "\<not> now - 60 \<le> x" if "x \<in> set b" for x
  proof -
    have "x \<le> last b" using assms(1) that sorted_le_last [of b x] by (auto simp: bucket_ok_def)
    moreover have "last b < now - 120" using assms(2) that by (auto simp: is_dead_def)
    ultimately show ?thesis by linarith
  qed
  then have "filter (\<lambda>x. now - 60 \<le> x) b = []" by (simp add: filter_empty_conv)
  with assms(1) show ?thesis by (simp add: bucket_ok_def)
qed

lemma win_inv_prune:
  assumes "win_inv now st acc" shows "win_inv now (prune_dead_buckets now st) acc"
proof -
  let ?f = "filter (\<lambda>p. \<not> is_dead (now - 120) (snd p)) (buckets st)"
  have d: "distinct (map fst (buckets st))" and ok: "bucket_ok now (bucket_of st k) (granted_times k acc)" for k
    using assms by (simp_all add: win_inv_def)
  have "bucket_ok now (case map_of ?f k of None \<Rightarrow> [] | Some b \<Rightarrow> b) (granted_times k acc)" for k
    using ok [of k] dead_bucket_empty [OF ok [of k]] map_of_filter_distinct [OF d, of "\<lambda>v. \<not> is_dead (now - 120) v" k]
    by (auto simp: bucket_of_def split: option.splits)
  moreover have "distinct (map fst ?f)" using d by (rule distinct_map_filter)
  ultimately show ?thesis
    using assms by (auto simp: prune_dead_buckets_def win_inv_def bucket_of_def DEAD_BUCKET_RETENTION_SECONDS_def)
qed

lemma bucket_of_dset: "bucket_of (st\<lparr>buckets := dset key b (buckets st)\<rparr>) k = (if k = key then b else bucket_of st k)"
  by (simp add: bucket_of_def map_of_dset)

lemma granted_times_snoc: "granted_times k (acc @ [(key, now)]) = granted_times k acc @ (if k = key then [now] else [])"
  by (simp add: granted_times_def)

lemma bucket_ok_filter: "bucket_ok now b a \<Longrightarrow> bucket_ok now (filter (\<lambda>x. now - 60 \<le> x) b) a"
  by (auto simp: bucket_ok_def) (metis sorted_wrt_filter)

lemma bucket_ok_append: "bucket_ok now b a \<Longrightarrow> bucket_ok now (b @ [now]) (a @ [now])"
  by (auto simp: bucket_ok_def sorted_append)

text \<open>The requests of a key granted in the 60 seconds up to \<open>now\<close>.\<close>

definition granted_within :: "string \<Rightarrow> rat \<Rightarrow> (string \<times> rat) list \<Rightarrow> nat" where
  "granted_within key now acc = length (filter (\<lambda>x. now - 60 \<le> x \<and> x \<le> now) (granted_times key acc))"

lemma memory_window_step:
  assumes inv: "win_inv now st acc" and step: "memory_window st key lmt now = (st', r)"
  shows "win_inv now st' (if allowed r then acc @ [(key, now)] else acc) \<and>
    (allowed r \<longleftrightarrow> int (granted_within key now acc) < positive_limit lmt)"
proof -
  let ?st = "prune_dead_buckets now st"
  have inv1: "win_inv now ?st acc" using inv by (rule win_inv_prune)
  then have ok: "bucket_ok now (bucket_of ?st k) (granted_times k acc)" for k by (simp add: win_inv_def)
  define b where "b = filter (\<lambda>x. now - 60 \<le> x) (bucket_of ?st key)"
  have okb: "bucket_ok now b (granted_times key acc)" unfolding b_def using ok by (rule bucket_ok_filter)
  have "b = filter (\<lambda>x. now - 60 \<le> x) (granted_times key acc)"
    using ok [of key] by (simp add: b_def bucket_ok_def)
  moreover have "filter (\<lambda>x. now - 60 \<le> x) (granted_times key acc) =
      filter (\<lambda>x. now - 60 \<le> x \<and> x \<le> now) (granted_times key acc)"
    using ok [of key] by (intro filter_cong) (auto simp: bucket_ok_def)
  ultimately have len: "length b = granted_within key now acc" by (simp add: granted_within_def)
  have st': "st' = ?st\<lparr>buckets := dset key (if allowed r then b @ [now] else b) (buckets ?st)\<rparr>"
    and al: "allowed r \<longleftrightarrow> int (length b) < positive_limit lmt"
    using step by (auto simp: memory_window_def b_def Let_def split: if_splits)
  have "distinct (map fst (buckets st'))" using inv1 by (simp add: st' win_inv_def)
  moreover have "bucket_ok now (bucket_of st' k) (granted_times k (if allowed r then acc @ [(key, now)] else acc))" for k
    using ok [of k] okb bucket_ok_append [OF okb] by (simp add: st' bucket_of_dset granted_times_snoc)
  ultimately show ?thesis using al len by (simp add: win_inv_def)
qed

lemma window_run_inv:
  assumes "sorted (map (\<lambda>e. snd (snd e)) es)" and "\<forall>e \<in> set es. snd (snd e) \<le> now"
  shows "case window_run es of (st, acc) \<Rightarrow> win_inv now st acc"
  using assms
proof (induction es arbitrary: now rule: rev_induct)
  case Nil
  then show ?case by (simp add: window_run_def win_inv_def bucket_of_def bucket_ok_def granted_times_def)
next
  case (snoc e es)
  obtain key lmt t where e: "e = (key, lmt, t)" by (metis prod_cases3)
  obtain st acc where run: "window_run es = (st, acc)" by fastforce
  have t: "t \<le> now" and srt: "sorted (map (\<lambda>e. snd (snd e)) es)" and le: "\<forall>e' \<in> set es. snd (snd e') \<le> t"
    using snoc.prems e by (auto simp: sorted_append)
  have "win_inv t st acc" using snoc.IH [OF srt le] run by simp
  moreover obtain st' r where m: "memory_window st key lmt t = (st', r)" by fastforce
  ultimately have "win_inv t st' (if allowed r then acc @ [(key, t)] else acc)" using memory_window_step by blast
  then have "win_inv now st' (if allowed r then acc @ [(key, t)] else acc)" using t by (rule win_inv_later)
  moreover have "window_run (es @ [e]) = (st', if allowed r then acc @ [(key, t)] else acc)"
    using run m by (simp add: window_run_def e window_step_def)
  ultimately show ?case by simp
qed

lemma granted_le_now:
  assumes "win_inv now st acc" "x \<in> set (granted_times k acc)" shows "x \<le> now"
  using assms unfolding win_inv_def bucket_ok_def by blast

section \<open>Properties\<close>

text \<open>C3. The in-memory limiter is an exact sliding window: after any history of requests at
  non-decreasing times, for any keys and limits and across the pruning of dead buckets, a request
  is granted exactly when fewer than the limit were granted for its key in the last 60 seconds.\<close>

theorem sliding_window_exact:
  assumes "sorted (map (\<lambda>e. snd (snd e)) (es @ [(key, lmt, now)]))"
  shows "case window_run es of (st, acc) \<Rightarrow>
    allowed (snd (memory_window st key lmt now)) \<longleftrightarrow> int (granted_within key now acc) < max lmt 1"
proof -
  have "case window_run es of (st, acc) \<Rightarrow> win_inv now st acc"
    using assms by (intro window_run_inv) (auto simp: sorted_append)
  then show ?thesis
    using memory_window_step by (auto simp: positive_limit_def split: prod.splits) (metis prod.collapse)+
qed

theorem sliding_window_exact_witness:
  "let es = [(''k'', 2, 0), (''k'', 2, 10), (''k'', 2, 20)] in
   (case window_run es of (st, acc) \<Rightarrow>
     acc = [(''k'', 0), (''k'', 10)] \<and>
     (allowed (snd (memory_window st ''k'' 2 61)) \<longleftrightarrow> int (granted_within ''k'' 61 acc) < 2) \<and>
     granted_within ''k'' 61 acc = 1)"
proof -
  let ?es = "[(''k'', 2, 0), (''k'', 2, 10), (''k'', 2, 20)] :: (string \<times> int \<times> rat) list"
  have acc: "snd (window_run ?es) = [(''k'', 0), (''k'', 10)]" by code_simp
  have w: "granted_within ''k'' 61 [(''k'', 0), (''k'', 10)] = 1" by code_simp
  obtain st where run: "window_run ?es = (st, [(''k'', 0), (''k'', 10)])" by (metis acc prod.collapse)
  have "sorted (map (\<lambda>e. snd (snd e)) (?es @ [(''k'', 2, 61)]))" by simp
  from sliding_window_exact [OF this] show ?thesis unfolding Let_def run using w by simp
qed

text \<open>The rate guarantee: if every request for a key is made under a limit of at most \<open>L\<close>, then in
  every interval of 60 seconds at most \<open>L\<close> requests for the key are granted.\<close>

theorem sliding_window_bound:
  assumes "sorted (map (\<lambda>e. snd (snd e)) es)"
    and "\<forall>e \<in> set es. fst e = key \<longrightarrow> max (fst (snd e)) 1 \<le> L"
  shows "0 < L \<longrightarrow> int (granted_within key t (snd (window_run es))) \<le> L"
  using assms
proof (induction es arbitrary: t rule: rev_induct)
  case Nil
  then show ?case by (simp add: window_run_def granted_within_def granted_times_def)
next
  case (snoc e es)
  obtain k lmt now where e: "e = (k, lmt, now)" by (metis prod_cases3)
  obtain st acc where run: "window_run es = (st, acc)" by fastforce
  obtain st' r where m: "memory_window st k lmt now = (st', r)" by fastforce
  have srt: "sorted (map (\<lambda>e. snd (snd e)) es)" and le: "\<forall>e' \<in> set es. snd (snd e') \<le> now"
    using snoc.prems e by (auto simp: sorted_append)
  have inv: "win_inv now st acc" using window_run_inv [OF srt le] run by simp
  have IH: "0 < L \<longrightarrow> int (granted_within key t' acc) \<le> L" for t'
    using snoc.IH [OF srt] snoc.prems(2) run by simp
  have new: "snd (window_run (es @ [e])) = (if allowed r then acc @ [(k, now)] else acc)"
    using run m by (simp add: window_run_def e window_step_def)
  show ?case
  proof (cases "allowed r \<and> k = key \<and> t - 60 \<le> now \<and> now \<le> t")
    case True
    have "int (granted_within key now acc) < L"
      using memory_window_step [OF inv m] True snoc.prems(2) e by (auto simp: positive_limit_def)
    moreover have "length (filter (\<lambda>x. t - 60 \<le> x \<and> x \<le> t) (granted_times key acc)) \<le> granted_within key now acc"
      unfolding granted_within_def using granted_le_now [OF inv, of _ key] True
      by (intro length_filter_mono) (auto dest: order_trans)
    ultimately show ?thesis
      using True by (simp add: new granted_within_def granted_times_snoc)
  next
    case False
    then have "granted_within key t (snd (window_run (es @ [e]))) = granted_within key t acc"
      by (auto simp: new granted_within_def granted_times_snoc)
    with IH show ?thesis by simp
  qed
qed

theorem sliding_window_bound_witness:
  "int (granted_within ''k'' 30 (snd (window_run [(''k'', 2, 0), (''k'', 2, 10), (''k'', 2, 20)]))) \<le> 2"
  using sliding_window_bound [of "[(''k'', 2, 0), (''k'', 2, 10), (''k'', 2, 20)]" "''k''" 2 30] by simp

text \<open>The durable limiter is weaker than the in-memory one: its window starts at the first request,
  so a burst around the end of a window grants more than the limit within 60 seconds. With a limit
  of two, three requests at seconds 59, 60 and 61 are all granted after one at second 0.\<close>

theorem durable_window_admits_burst:
  "let consume = (\<lambda>(table, acc) now. case consume_window table ''k'' 2 60 now of
         Inr (table', d) \<Rightarrow> (table', if dur_allowed d then acc @ [now] else acc) | Inl _ \<Rightarrow> (table, acc))
   in snd (foldl consume ([], []) [0, 59, 60, 61]) = [0, 59, 60, 61]"
  by code_simp

text \<open>Looking does not lie: for a key that is not blank, a snapshot of the durable window says a
  request would be granted exactly when consuming it at that time is granted, and reports the count
  before the request.\<close>

theorem snapshot_predicts_consume:
  assumes "strip key \<noteq> []"
  shows "case consume_window table key lmt window now of Inl e \<Rightarrow> False | Inr (table', d) \<Rightarrow>
    dur_allowed d = dur_allowed (snapshot_window table key lmt window now) \<and>
    dur_observed d = dur_observed (snapshot_window table key lmt window now) + (if dur_allowed d then 1 else 0) \<and>
    (\<not> dur_allowed d \<longrightarrow> table' = table \<and>
      dur_retry_after_seconds d = dur_retry_after_seconds (snapshot_window table key lmt window now))"
  using assms
  by (auto simp: consume_window_def snapshot_window_def current_window_def Let_def positive_limit_def
      split: option.splits prod.splits if_splits)

theorem snapshot_predicts_consume_witness:
  "case consume_window [(''k'', 0, 2)] ''k'' 2 60 30 of Inl e \<Rightarrow> False | Inr (table', d) \<Rightarrow>
    dur_allowed d = dur_allowed (snapshot_window [(''k'', 0, 2)] ''k'' 2 60 30)"
proof -
  have "strip ''k'' \<noteq> []" by code_simp
  from snapshot_predicts_consume [OF this, of "[(''k'', 0, 2)]" 2 60 30] show ?thesis by (auto split: sum.splits)
qed

text \<open>A quota decision reports its window faithfully, whichever store is in use: it is granted with
  status 200 exactly when the window granted the request; otherwise it is a 429 with a retry delay
  of at least a second, and for a profile with a deny reason the reason has a scope and the
  response class \<open>http_rate_limited\<close>.\<close>

theorem quota_decision_faithful:
  assumes "evaluate_request_window_quota name subject store key lmt now = Inr (store', d)"
  shows "\<exists>profile window. get_quota_policy_profile name = Inr profile \<and>
    evaluate_request_window store key lmt now = Inr (store', window) \<and>
    (q_allowed d \<longleftrightarrow> allowed window) \<and> (q_allowed d \<longrightarrow> q_http_status d = 200 \<and> q_retry_after d = None) \<and>
    (\<not> q_allowed d \<longrightarrow> q_http_status d = 429 \<and> q_retry_after d = Some (retry_after_seconds window) \<and>
       1 \<le> retry_after_seconds window \<and>
       (deny_reason profile \<noteq> None \<longrightarrow> q_scope d \<noteq> None \<and> q_response_class d = Some ''http_rate_limited''))"
proof -
  obtain profile window where p: "get_quota_policy_profile name = Inr profile"
    and w: "evaluate_request_window store key lmt now = Inr (store', window)"
    and d: "d = window_quota_decision profile subject key lmt window"
    using assms by (auto simp: evaluate_request_window_quota_def rbind_Inr_iff)
  have "(case p of (n, prof) \<Rightarrow> case deny_reason prof of None \<Rightarrow> True | Some r \<Rightarrow>
      strip r = r \<and> r \<noteq> [] \<and> map_of SCOPE_BY_REASON r \<noteq> None \<and> map_of RESPONSE_CLASS_BY_REASON r = Some ''http_rate_limited'')"
    if "p \<in> set PROFILES" for p
  proof -
    have "list_all (\<lambda>(n, prof). case deny_reason prof of None \<Rightarrow> True | Some r \<Rightarrow>
      strip r = r \<and> r \<noteq> [] \<and> map_of SCOPE_BY_REASON r \<noteq> None \<and> map_of RESPONSE_CLASS_BY_REASON r = Some ''http_rate_limited'') PROFILES"
      by code_simp
    with that show ?thesis unfolding list_all_iff by blast
  qed
  moreover have "(text_of name, profile) \<in> set PROFILES"
    using p by (auto simp: get_quota_policy_profile_def of_option_Inr_iff dest: map_of_SomeD)
  ultimately have tab: "case deny_reason profile of None \<Rightarrow> True | Some r \<Rightarrow>
      strip r = r \<and> r \<noteq> [] \<and> map_of SCOPE_BY_REASON r \<noteq> None \<and> map_of RESPONSE_CLASS_BY_REASON r = Some ''http_rate_limited''"
    by fastforce
  have "\<not> q_allowed d \<Longrightarrow> deny_reason profile \<noteq> None \<Longrightarrow> q_scope d \<noteq> None \<and> q_response_class d = Some ''http_rate_limited''"
    using tab unfolding d window_quota_decision_def deny_quota_decision_def allow_quota_decision_def Let_def
    by (auto simp: text_of_PStr sor_def split: option.splits if_splits)
  with adapter.decision_of_window [OF w, of profile subject] adapter.refused [OF w] p w show ?thesis
    unfolding d [symmetric] Let_def by blast
qed

theorem quota_decision_faithful_witness:
  "\<exists>store' d. evaluate_request_window_quota (PStr ''auth_login'')
      \<lparr>sub_deployed_agent_id = None, sub_responder_install_id = None, sub_thread_id = None, sub_session_key = None,
       sub_actor_id = None, sub_request_path = None, sub_client_ip = None\<rparr> (OnDisk [(''ip'', 0, 5)]) ''ip'' 5 30 = Inr (store', d) \<and>
     q_http_status d = 429"
proof -
  let ?s = "\<lparr>sub_deployed_agent_id = None, sub_responder_install_id = None, sub_thread_id = None, sub_session_key = None,
       sub_actor_id = None, sub_request_path = None, sub_client_ip = None\<rparr>"
  let ?x = "evaluate_request_window_quota (PStr ''auth_login'') ?s (OnDisk [(''ip'', 0, 5)]) ''ip'' 5 30"
  have "\<not> isl ?x \<and> \<not> q_allowed (snd (projr ?x))" by code_simp
  then obtain store' d where x: "?x = Inr (store', d)" and n: "\<not> q_allowed d"
    by (cases ?x) auto
  from quota_decision_faithful [OF x] x n show ?thesis by blast
qed

end
