(* ===== verification/Channel_Leases.thy ===== *)
theory Channel_Leases
  imports Kernel_Client Quota
begin

text \<open>
  Admission of public channel turns, \<^verbatim>\<open>server_modules/channel_concurrency_service.py\<close>: a turn takes a
  lease row in the database and gives it back; limits per conversation thread, per agent, per
  workspace and per minute are checked inside one transaction under an advisory lock.

  The database is the record \<open>channel_db\<close>: the rows of \<^verbatim>\<open>agent_channel_execution_leases\<close> (with their
  unique index on tenant, workspace and thread) and of \<^verbatim>\<open>agent_channel_events\<close>, as far as the queries
  read them. A transaction that raises is rolled back. The process clock (\<open>now_ts\<close>) and the
  database's \<^verbatim>\<open>NOW()\<close> (\<open>db_now\<close>, fixed during a transaction) are different arguments, in seconds;
  \<open>uuid\<close> is the random part of the lease id. String arguments are Python strings, with \<^verbatim>\<open>None\<close> as
  the empty string, which the code makes of it.
\<close>

section \<open>Quota snapshot\<close>

record quota_snapshot =
  max_workspace_active_threads :: int
  max_agent_active_threads :: int
  max_workspace_turns_per_minute :: int
  max_runtime_seconds :: int

definition snapshot_as_dict :: "quota_snapshot \<Rightarrow> pydict" where
  "snapshot_as_dict s =
     [(''max_workspace_active_threads'', PInt (max_workspace_active_threads s)),
      (''max_agent_active_threads'', PInt (max_agent_active_threads s)),
      (''max_workspace_turns_per_minute'', PInt (max_workspace_turns_per_minute s)),
      (''max_runtime_seconds'', PInt (max_runtime_seconds s))]"

definition coerce_int :: "pyval \<Rightarrow> int \<Rightarrow> int \<Rightarrow> int \<Rightarrow> int" where
  "coerce_int v dflt minimum maximum =
     max minimum (min maximum (case py_int v of Some i \<Rightarrow> i | None \<Rightarrow> dflt))"

definition quota_metadata :: "pyval \<Rightarrow> pydict" where
  "quota_metadata owner =
     (let metadata = as_dict (dget (as_dict owner) ''metadata'') in
      dmerge (as_dict (dget metadata ''concurrency'')) (as_dict (dget metadata ''plan_limits'')))"

definition resolve_channel_quota_snapshot :: "pyval \<Rightarrow> pyval \<Rightarrow> quota_snapshot" where
  "resolve_channel_quota_snapshot workspace install =
     (let workspace_meta = quota_metadata workspace; agent_meta = quota_metadata install in
      \<lparr>max_workspace_active_threads =
         coerce_int (por (dget workspace_meta ''max_concurrent_customer_threads'')
           (dget workspace_meta ''max_workspace_active_threads'')) 24 1 1000,
       max_agent_active_threads =
         coerce_int (por (por (dget agent_meta ''max_active_threads'') (dget workspace_meta ''max_concurrent_threads_per_agent''))
           (dget workspace_meta ''max_agent_active_threads'')) 8 1 1000,
       max_workspace_turns_per_minute =
         coerce_int (por (dget workspace_meta ''max_customer_turns_per_minute'')
           (dget workspace_meta ''max_workspace_turns_per_minute'')) 180 1 10000,
       max_runtime_seconds =
         coerce_int (por (por (dget agent_meta ''max_runtime_seconds'') (dget workspace_meta ''max_customer_runtime_seconds''))
           (dget workspace_meta ''max_runtime_seconds'')) 45 5 300\<rparr>)"

section \<open>Errors\<close>

record limit_error =
  err_reason :: string
  err_message :: string
  err_retry_after :: int
  err_snapshot :: quota_snapshot

definition limit_error_of :: "string \<Rightarrow> string \<Rightarrow> int \<Rightarrow> quota_snapshot \<Rightarrow> limit_error" where
  "limit_error_of rsn msg retry snapshot =
     \<lparr>err_reason = sor (strip (sor rsn ''workspace_busy'')) ''workspace_busy'',
      err_message = sor (strip (sor msg ''The system is busy.'')) ''The system is busy.'',
      err_retry_after = max (if retry = 0 then 1 else retry) 1, err_snapshot = snapshot\<rparr>"

definition CHANNEL_REPLY_BY_REASON :: "(string \<times> string) list" where
  "CHANNEL_REPLY_BY_REASON =
    [(''thread_busy'', ''This conversation is still processing the previous message. One moment.''),
     (''agent_limit_exceeded'', ''This Business Agent is helping other customers right now. Please try again in a moment.''),
     (''workspace_limit_exceeded'', ''The workspace is helping other customers right now. Please try again in a moment.''),
     (''workspace_rate_limited'', ''Too many requests right now. Please try again in a moment.''),
     (''runtime_cap_exceeded'', ''The request is taking longer than the current service window allows. Please try again in a moment.'')]"

definition busy_reply :: "string \<Rightarrow> string" where
  "busy_reply rsn = (case map_of CHANNEL_REPLY_BY_REASON rsn of Some t \<Rightarrow> t
     | None \<Rightarrow> ''The system is busy. Please try again in a moment.'')"

definition thread_busy_error :: "quota_snapshot \<Rightarrow> limit_error" where
  "thread_busy_error = limit_error_of ''thread_busy'' (busy_reply ''thread_busy'') 2"

definition agent_limit_error :: "quota_snapshot \<Rightarrow> limit_error" where
  "agent_limit_error = limit_error_of ''agent_limit_exceeded'' (busy_reply ''agent_limit_exceeded'') 5"

definition workspace_limit_error :: "quota_snapshot \<Rightarrow> limit_error" where
  "workspace_limit_error = limit_error_of ''workspace_limit_exceeded'' (busy_reply ''workspace_limit_exceeded'') 5"

definition workspace_rate_limit_error :: "quota_snapshot \<Rightarrow> limit_error" where
  "workspace_rate_limit_error = limit_error_of ''workspace_rate_limited'' (busy_reply ''workspace_rate_limited'') 10"

text \<open>The decision \<^verbatim>\<open>build_limit_result\<close> renders.\<close>

definition limit_result_decision :: "limit_error \<Rightarrow> quota_decision" where
  "limit_result_decision e =
     channel_limit_error_decision
       \<lparr>sub_deployed_agent_id = None, sub_responder_install_id = None, sub_thread_id = None, sub_session_key = None,
        sub_actor_id = None, sub_request_path = None, sub_client_ip = None\<rparr>
       (err_reason e) (err_retry_after e) (snapshot_as_dict (err_snapshot e))"

datatype channel_error = ChannelGateError string | LimitExceeded limit_error | InsertError

section \<open>Database\<close>

record lease_row =
  row_id :: string
  row_tenant :: string
  row_workspace :: string
  row_responder :: "string option"
  row_thread :: string
  row_session_key :: string
  row_channel_key :: string
  row_endpoint_key :: string
  row_metadata :: pydict
  row_acquired_at :: rat
  row_expires_at :: rat

record event_row =
  ev_tenant :: string
  ev_workspace :: string
  ev_direction :: string
  ev_type :: string
  ev_created_at :: rat

record channel_db =
  leases :: "lease_row list"
  events :: "event_row list"

definition in_workspace :: "string \<Rightarrow> string \<Rightarrow> lease_row \<Rightarrow> bool" where
  "in_workspace t w row = (row_tenant row = t \<and> row_workspace row = w)"

definition delete_expired :: "string \<Rightarrow> string \<Rightarrow> rat \<Rightarrow> lease_row list \<Rightarrow> lease_row list" where
  "delete_expired t w db_now rows = filter (\<lambda>row. \<not> (in_workspace t w row \<and> row_expires_at row \<le> db_now)) rows"

definition thread_active :: "string \<Rightarrow> string \<Rightarrow> string \<Rightarrow> rat \<Rightarrow> lease_row list \<Rightarrow> bool" where
  "thread_active t w th db_now rows =
     list_ex (\<lambda>row. in_workspace t w row \<and> row_thread row = th \<and> db_now < row_expires_at row) rows"

definition active_agent_count :: "string \<Rightarrow> string \<Rightarrow> string \<Rightarrow> rat \<Rightarrow> lease_row list \<Rightarrow> nat" where
  "active_agent_count t w agent db_now rows =
     length (filter (\<lambda>row. in_workspace t w row \<and> row_responder row = Some agent \<and> db_now < row_expires_at row) rows)"

definition active_workspace_count :: "string \<Rightarrow> string \<Rightarrow> rat \<Rightarrow> lease_row list \<Rightarrow> nat" where
  "active_workspace_count t w db_now rows =
     length (filter (\<lambda>row. in_workspace t w row \<and> db_now < row_expires_at row) rows)"

definition recent_turn_count :: "string \<Rightarrow> string \<Rightarrow> rat \<Rightarrow> event_row list \<Rightarrow> nat" where
  "recent_turn_count t w db_now rows =
     length (filter (\<lambda>ev. ev_tenant ev = t \<and> ev_workspace ev = w \<and> ev_direction ev = ''inbound'' \<and>
       ev_type ev = ''message'' \<and> db_now - 60 \<le> ev_created_at ev) rows)"

text \<open>The unique index \<^verbatim>\<open>uq_agent_channel_execution_leases_active_thread\<close>, and the primary key.\<close>

definition thread_conflict :: "lease_row \<Rightarrow> lease_row list \<Rightarrow> bool" where
  "thread_conflict row rows =
     list_ex (\<lambda>r. row_tenant r = row_tenant row \<and> row_workspace r = row_workspace row \<and> row_thread r = row_thread row) rows"

definition id_conflict :: "lease_row \<Rightarrow> lease_row list \<Rightarrow> bool" where
  "id_conflict row rows = list_ex (\<lambda>r. row_id r = row_id row) rows"

section \<open>Operations\<close>

record lease_request =
  req_tenant :: string
  req_workspace :: string
  req_responder :: string
  req_thread :: string
  req_session_key :: string
  req_channel_key :: string
  req_endpoint_key :: string
  req_metadata :: pydict

definition lease_payload :: "lease_request \<Rightarrow> string \<Rightarrow> quota_snapshot option \<Rightarrow> pydict" where
  "lease_payload req lease_id snapshot =
     [(''tenant_id'', PStr (strip (req_tenant req))), (''workspace_id'', PStr (strip (req_workspace req))),
      (''lease_id'', PStr (strip lease_id)), (''responder_install_id'', PStr (strip (req_responder req))),
      (''thread_id'', PStr (strip (req_thread req))), (''session_key'', PStr (strip (req_session_key req))),
      (''channel_key'', PStr (lower (strip (req_channel_key req)))),
      (''endpoint_key'', PStr (lower (strip (req_endpoint_key req)))),
      (''quota_snapshot'', PDict (case snapshot of Some s \<Rightarrow> snapshot_as_dict s | None \<Rightarrow> [])),
      (''metadata'', PDict (req_metadata req))]"

definition lease_gate_request :: "string \<Rightarrow> lease_request \<Rightarrow> string \<Rightarrow> quota_snapshot option \<Rightarrow> pydict" where
  "lease_gate_request operation req lease_id snapshot =
     (let payload = lease_payload req lease_id snapshot in
      [(''operation'', PStr operation), (''state_class'', PStr ''channel_execution_leases''),
       (''tenant_id'', PStr (sor (strip (sor (strip (req_tenant req)) ''default'')) ''default'')),
       (''workspace_id'', PStr (strip (req_workspace req))), (''actor_id'', PStr ''system''),
       (''status'', PStr ''active''), (''payload'', PDict payload),
       (''payload_bytes'', PInt (utf8_len (json_dumps False True (PDict payload)))),
       (''workspace_access'', PBool True), (''owner_access'', PBool True)])"

definition enforce_channel_execution_lease_transition ::
    "kernel_env \<Rightarrow> string \<Rightarrow> lease_request \<Rightarrow> string \<Rightarrow> quota_snapshot option \<Rightarrow> channel_error + pydict" where
  "enforce_channel_execution_lease_transition env operation req lease_id snapshot =
     (let decision = run_runtime_kernel env ''runtime-state-store-decision'' (lease_gate_request operation req lease_id snapshot) in
      case enforce_kernel_decision env ''runtime-state-store-decision'' decision False of
        Inl e \<Rightarrow> Inl (ChannelGateError (error_reason e))
      | Inr _ \<Rightarrow>
          if text_of (dget decision ''next_action'') \<noteq> strip operation then Inl (ChannelGateError ''unexpected_next_action'')
          else Inr decision)"

text \<open>The transaction: the checks in the code's order, then the insert.\<close>

definition lease_transaction ::
    "quota_snapshot \<Rightarrow> lease_request \<Rightarrow> string \<Rightarrow> rat \<Rightarrow> rat \<Rightarrow> rat \<Rightarrow> channel_db \<Rightarrow> channel_error + channel_db" where
  "lease_transaction snapshot req lease_id now_ts expires_at db_now db =
     (let t = strip (req_tenant req); w = strip (req_workspace req); th = strip (req_thread req);
          agent = strip (req_responder req); rows = delete_expired t w db_now (leases db);
          row = \<lparr>row_id = lease_id, row_tenant = t, row_workspace = w, row_responder = snone agent, row_thread = th,
            row_session_key = strip (req_session_key req), row_channel_key = lower (strip (req_channel_key req)),
            row_endpoint_key = lower (strip (req_endpoint_key req)), row_metadata = req_metadata req,
            row_acquired_at = now_ts, row_expires_at = expires_at\<rparr>
      in if thread_active t w th db_now rows then Inl (LimitExceeded (thread_busy_error snapshot))
         else if agent \<noteq> [] \<and> max_agent_active_threads snapshot \<le> int (active_agent_count t w agent db_now rows)
         then Inl (LimitExceeded (agent_limit_error snapshot))
         else if max_workspace_active_threads snapshot \<le> int (active_workspace_count t w db_now rows)
         then Inl (LimitExceeded (workspace_limit_error snapshot))
         else if max_workspace_turns_per_minute snapshot \<le> int (recent_turn_count t w db_now (events db))
         then Inl (LimitExceeded (workspace_rate_limit_error snapshot))
         else if thread_conflict row rows then Inl (LimitExceeded (thread_busy_error snapshot))
         else if id_conflict row rows then Inl InsertError
         else Inr (db\<lparr>leases := rows @ [row]\<rparr>))"

record lease_grant =
  grant_lease_id :: string
  grant_snapshot :: quota_snapshot
  grant_expires_at :: rat

definition lease_ttl :: "quota_snapshot \<Rightarrow> int" where
  "lease_ttl snapshot = max (max_runtime_seconds snapshot + 15) 30"

definition acquire_channel_execution_lease ::
    "kernel_env \<Rightarrow> bool \<Rightarrow> string \<Rightarrow> rat \<Rightarrow> rat \<Rightarrow> pyval \<Rightarrow> pyval \<Rightarrow> pyval \<Rightarrow> lease_request \<Rightarrow> channel_db \<Rightarrow>
     channel_error + channel_db \<times> lease_grant" where
  "acquire_channel_execution_lease env conn_ok uuid now_ts db_now workspace fetched install req db =
     (let snapshot = resolve_channel_quota_snapshot (por workspace fetched) install;
          lease_id = ''lease_'' @ uuid;
          expires_at = now_ts + of_int (lease_ttl snapshot)
      in rbind (enforce_channel_execution_lease_transition env ''acquire_channel_execution_lease'' req lease_id (Some snapshot))
           (\<lambda>_. if \<not> conn_ok then Inl (LimitExceeded (workspace_limit_error snapshot))
                else rbind (lease_transaction snapshot req lease_id now_ts expires_at db_now db)
                       (\<lambda>db'. Inr (db', \<lparr>grant_lease_id = lease_id, grant_snapshot = snapshot, grant_expires_at = expires_at\<rparr>))))"

definition bare_request :: "string \<Rightarrow> string \<Rightarrow> lease_request" where
  "bare_request t w = \<lparr>req_tenant = t, req_workspace = w, req_responder = [], req_thread = [], req_session_key = [],
     req_channel_key = [], req_endpoint_key = [], req_metadata = []\<rparr>"

definition release_channel_execution_lease ::
    "kernel_env \<Rightarrow> bool \<Rightarrow> string \<Rightarrow> string \<Rightarrow> string \<Rightarrow> channel_db \<Rightarrow> channel_error + channel_db" where
  "release_channel_execution_lease env conn_ok tenant workspace lease_id db =
     (if strip lease_id = [] then Inr db
      else rbind (enforce_channel_execution_lease_transition env ''release_channel_execution_lease''
                    (bare_request tenant workspace) lease_id None)
             (\<lambda>_. if \<not> conn_ok then Inr db
                  else Inr (db\<lparr>leases := filter (\<lambda>row. \<not> (row_id row = strip lease_id \<and>
                         in_workspace (strip tenant) (strip workspace) row)) (leases db)\<rparr>)))"

section \<open>Invariant\<close>

definition thread_key :: "lease_row \<Rightarrow> string \<times> string \<times> string" where
  "thread_key row = (row_tenant row, row_workspace row, row_thread row)"

definition db_ok :: "channel_db \<Rightarrow> bool" where
  "db_ok db = (distinct (map thread_key (leases db)) \<and> distinct (map row_id (leases db)))"

datatype channel_op =
    Acquire bool string rat rat pyval pyval pyval lease_request
  | Release bool string string string

text \<open>An operation that raises leaves the database as it was.\<close>

definition channel_step :: "kernel_env \<Rightarrow> channel_db \<Rightarrow> channel_op \<Rightarrow> channel_db" where
  "channel_step env db op =
     (case op of
        Acquire conn_ok uuid now_ts db_now workspace fetched install req \<Rightarrow>
          (case acquire_channel_execution_lease env conn_ok uuid now_ts db_now workspace fetched install req db of
             Inl _ \<Rightarrow> db | Inr (db', _) \<Rightarrow> db')
      | Release conn_ok tenant workspace lease_id \<Rightarrow>
          (case release_channel_execution_lease env conn_ok tenant workspace lease_id db of Inl _ \<Rightarrow> db | Inr db' \<Rightarrow> db'))"

lemma transaction_Inr:
  assumes "lease_transaction snapshot req lease_id now_ts expires_at db_now db = Inr db'"
  obtains row where
    "leases db' = delete_expired (strip (req_tenant req)) (strip (req_workspace req)) db_now (leases db) @ [row]"
    "events db' = events db"
    "row_id row = lease_id" "row_tenant row = strip (req_tenant req)" "row_workspace row = strip (req_workspace req)"
    "row_responder row = snone (strip (req_responder req))" "row_thread row = strip (req_thread req)"
    "row_expires_at row = expires_at"
    "\<not> thread_conflict row (delete_expired (strip (req_tenant req)) (strip (req_workspace req)) db_now (leases db))"
    "\<not> id_conflict row (delete_expired (strip (req_tenant req)) (strip (req_workspace req)) db_now (leases db))"
    "int (active_workspace_count (strip (req_tenant req)) (strip (req_workspace req)) db_now
       (delete_expired (strip (req_tenant req)) (strip (req_workspace req)) db_now (leases db))) < max_workspace_active_threads snapshot"
    "strip (req_responder req) \<noteq> [] \<Longrightarrow>
       int (active_agent_count (strip (req_tenant req)) (strip (req_workspace req)) (strip (req_responder req)) db_now
         (delete_expired (strip (req_tenant req)) (strip (req_workspace req)) db_now (leases db))) < max_agent_active_threads snapshot"
    "int (recent_turn_count (strip (req_tenant req)) (strip (req_workspace req)) db_now (events db)) < max_workspace_turns_per_minute snapshot"
  using assms by (auto simp: lease_transaction_def Let_def not_le split: if_splits)

lemma acquire_Inr:
  assumes "acquire_channel_execution_lease env conn_ok uuid now_ts db_now workspace fetched install req db = Inr (db', g)"
  shows "grant_snapshot g = resolve_channel_quota_snapshot (por workspace fetched) install \<and>
    grant_expires_at g = now_ts + of_int (lease_ttl (grant_snapshot g)) \<and> grant_lease_id g = ''lease_'' @ uuid \<and>
    lease_transaction (grant_snapshot g) req (grant_lease_id g) now_ts (grant_expires_at g) db_now db = Inr db'"
  using assms by (auto simp: acquire_channel_execution_lease_def Let_def rbind_Inr_iff split: if_splits)

lemma db_ok_filter: "db_ok db \<Longrightarrow> db_ok (db\<lparr>leases := filter P (leases db)\<rparr>)"
  by (simp add: db_ok_def distinct_map_filter)

lemma acquire_db_ok:
  assumes "db_ok db" and "lease_transaction snapshot req lease_id now_ts expires_at db_now db = Inr db'"
  shows "db_ok db'"
  using assms(2)
proof (rule transaction_Inr)
  fix row
  let ?rows = "delete_expired (strip (req_tenant req)) (strip (req_workspace req)) db_now (leases db)"
  assume l: "leases db' = ?rows @ [row]" and c: "\<not> thread_conflict row ?rows" "\<not> id_conflict row ?rows"
  have "distinct (map thread_key ?rows)" "distinct (map row_id ?rows)"
    using assms(1) by (simp_all add: db_ok_def delete_expired_def distinct_map_filter)
  moreover have "thread_key row \<notin> thread_key ` set ?rows" "row_id row \<notin> row_id ` set ?rows"
    using c by (auto simp: thread_conflict_def id_conflict_def list_ex_iff thread_key_def)
  ultimately show ?thesis by (simp add: db_ok_def l)
qed

lemma channel_step_ok:
  assumes "db_ok db" shows "db_ok (channel_step env db op)"
proof (cases op)
  case (Acquire conn_ok uuid now_ts db_now workspace fetched install req)
  show ?thesis
  proof (cases "acquire_channel_execution_lease env conn_ok uuid now_ts db_now workspace fetched install req db")
    case (Inl e)
    with Acquire assms show ?thesis by (simp add: channel_step_def)
  next
    case (Inr p)
    obtain db' g where p: "p = (db', g)" by (cases p)
    have "db_ok db'" using acquire_Inr [OF Inr [unfolded p]] acquire_db_ok [OF assms] by blast
    with Acquire Inr p show ?thesis by (simp add: channel_step_def)
  qed
next
  case (Release conn_ok tenant workspace lease_id)
  with assms show ?thesis
    by (auto simp: channel_step_def release_channel_execution_lease_def db_ok_filter rbind_Inr_iff
        split: sum.splits if_splits)
qed

interpretation channel: invariant_system "channel_step env" db_ok for env
  by unfold_locales (rule channel_step_ok)

section \<open>A concrete database\<close>

definition demo_kernel :: kernel_env where
  "demo_kernel = \<lparr>has_binary = True, spawn = \<lambda>command payload. Completed ''R'' 0,
     json_loads = \<lambda>s. Some (PDict [(''ok'', PBool True), (''decision'', PStr ''allow''),
       (''next_action'', PStr ''acquire_channel_execution_lease'')]), digest16 = \<lambda>d. ''0''\<rparr>"

definition demo_request :: lease_request where
  "demo_request = \<lparr>req_tenant = ''t'', req_workspace = ''w'', req_responder = ''agent'', req_thread = ''th'',
     req_session_key = ''s'', req_channel_key = ''telegram'', req_endpoint_key = ''e'', req_metadata = []\<rparr>"

definition demo_db :: channel_db where
  "demo_db = \<lparr>leases = [], events = []\<rparr>"

definition demo_acquire :: "channel_error + channel_db \<times> lease_grant" where
  "demo_acquire = acquire_channel_execution_lease demo_kernel True ''0123456789abcdef'' 100 100 PNone PNone PNone demo_request demo_db"

section \<open>Properties\<close>

text \<open>One turn per conversation: whatever acquires and releases are made, by whatever processes
  and with whatever clocks, no two lease rows ever belong to the same thread of a workspace, and
  lease ids are unique.\<close>

theorem one_lease_per_thread:
  "db_ok (foldl (channel_step env) \<lparr>leases = [], events = evs\<rparr> ops)"
  by (rule channel.run_inv) (simp add: db_ok_def)

text \<open>C4. A granted lease respects every limit: afterwards the live leases of the workspace are at most
  its quota, those of the responding agent (if there is one) at most the agent's quota, fewer turns
  than the quota came in during the last minute, the thread had no live lease, and the lease is
  live for at least 30 seconds and longer than the longest allowed run.\<close>

theorem granted_lease_within_limits:
  assumes "acquire_channel_execution_lease env conn_ok uuid now_ts db_now workspace fetched install req db = Inr (db', g)"
  defines "t \<equiv> strip (req_tenant req)" and "w \<equiv> strip (req_workspace req)"
  shows "int (active_workspace_count t w db_now (leases db')) \<le> max_workspace_active_threads (grant_snapshot g) \<and>
    (strip (req_responder req) \<noteq> [] \<longrightarrow>
      int (active_agent_count t w (strip (req_responder req)) db_now (leases db')) \<le> max_agent_active_threads (grant_snapshot g)) \<and>
    int (recent_turn_count t w db_now (events db)) < max_workspace_turns_per_minute (grant_snapshot g) \<and>
    \<not> thread_active t w (strip (req_thread req)) db_now (leases db) \<and>
    now_ts + 30 \<le> grant_expires_at g \<and> now_ts + of_int (max_runtime_seconds (grant_snapshot g)) < grant_expires_at g"
proof -
  note A = acquire_Inr [OF assms(1)]
  then have tr: "lease_transaction (grant_snapshot g) req (grant_lease_id g) now_ts (grant_expires_at g) db_now db = Inr db'" by blast
  let ?rows = "delete_expired t w db_now (leases db)"
  obtain row where l: "leases db' = ?rows @ [row]"
    and ws: "int (active_workspace_count t w db_now ?rows) < max_workspace_active_threads (grant_snapshot g)"
    and ag: "strip (req_responder req) \<noteq> [] \<Longrightarrow>
      int (active_agent_count t w (strip (req_responder req)) db_now ?rows) < max_agent_active_threads (grant_snapshot g)"
    and rt: "int (recent_turn_count t w db_now (events db)) < max_workspace_turns_per_minute (grant_snapshot g)"
    unfolding t_def w_def using tr by (rule transaction_Inr) blast
  have "\<not> thread_active t w (strip (req_thread req)) db_now ?rows"
    using tr by (auto simp: lease_transaction_def Let_def t_def w_def split: if_splits)
  then have th: "\<not> thread_active t w (strip (req_thread req)) db_now (leases db)"
    by (auto simp: thread_active_def delete_expired_def list_ex_iff)
  have "(30 :: rat) \<le> of_int (lease_ttl (grant_snapshot g))" "max_runtime_seconds (grant_snapshot g) < lease_ttl (grant_snapshot g)"
    by (simp_all add: lease_ttl_def max_def)
  then have "now_ts + 30 \<le> grant_expires_at g \<and> now_ts + of_int (max_runtime_seconds (grant_snapshot g)) < grant_expires_at g"
    using A by simp
  with ws ag rt th show ?thesis
    by (auto simp: l active_workspace_count_def active_agent_count_def)
qed

theorem granted_lease_within_limits_witness:
  "\<exists>db' g. acquire_channel_execution_lease demo_kernel True ''0123456789abcdef'' 100 100 PNone PNone PNone demo_request demo_db =
      Inr (db', g) \<and> int (active_workspace_count ''t'' ''w'' 100 (leases db')) \<le> max_workspace_active_threads (grant_snapshot g) \<and>
    130 \<le> grant_expires_at g"
proof -
  have "\<not> isl demo_acquire" by code_simp
  then obtain db' g where a: "acquire_channel_execution_lease demo_kernel True ''0123456789abcdef'' 100 100 PNone PNone PNone
      demo_request demo_db = Inr (db', g)"
    unfolding demo_acquire_def by (metis isl_def prod.collapse sum.exhaust)
  have "strip (req_tenant demo_request) = ''t''" "strip (req_workspace demo_request) = ''w''" by code_simp+
  with granted_lease_within_limits [OF a] a show ?thesis by auto
qed

text \<open>A refusal states a true reason: the thread is
  busy, the agent or the workspace is at its quota, or the minute's turns are used up.\<close>

theorem refusal_reason_true:
  assumes "lease_transaction snapshot req lease_id now_ts expires_at db_now db = Inl (LimitExceeded e)"
  defines "t \<equiv> strip (req_tenant req)" and "w \<equiv> strip (req_workspace req)"
  shows "(e = thread_busy_error snapshot \<and> thread_active t w (strip (req_thread req)) db_now (leases db)) \<or>
    (e = agent_limit_error snapshot \<and>
      max_agent_active_threads snapshot \<le> int (active_agent_count t w (strip (req_responder req)) db_now (leases db))) \<or>
    (e = workspace_limit_error snapshot \<and>
      max_workspace_active_threads snapshot \<le> int (active_workspace_count t w db_now (leases db))) \<or>
    (e = workspace_rate_limit_error snapshot \<and>
      max_workspace_turns_per_minute snapshot \<le> int (recent_turn_count t w db_now (events db)))"
proof -
  let ?rows = "delete_expired t w db_now (leases db)"
  have same: "thread_active t w th db_now ?rows = thread_active t w th db_now (leases db)"
    "active_agent_count t w a db_now ?rows = active_agent_count t w a db_now (leases db)"
    "active_workspace_count t w db_now ?rows = active_workspace_count t w db_now (leases db)" for th a
    by (auto simp: thread_active_def active_agent_count_def active_workspace_count_def delete_expired_def list_ex_iff
        intro!: arg_cong [where f = length] filter_cong)
  have conflict: "thread_active t w (strip (req_thread req)) db_now (leases db)"
    if "thread_conflict row ?rows" "row_tenant row = t" "row_workspace row = w" "row_thread row = strip (req_thread req)" for row
    using that by (fastforce simp: thread_conflict_def thread_active_def list_ex_iff delete_expired_def in_workspace_def)
  show ?thesis
    using assms(1)
    unfolding lease_transaction_def Let_def t_def [symmetric] w_def [symmetric] same
    by (auto split: if_splits dest!: conflict)
qed

theorem refusal_reason_true_witness:
  "let s = resolve_channel_quota_snapshot PNone PNone; db' = fst (projr demo_acquire) in
   lease_transaction s demo_request ''lease_x'' 110 170 110 db' = Inl (LimitExceeded (thread_busy_error s)) \<and>
   thread_active ''t'' ''w'' ''th'' 110 (leases db')"
proof -
  define s where "s = resolve_channel_quota_snapshot PNone PNone"
  define db' where "db' = fst (projr demo_acquire)"
  have "lease_transaction s demo_request ''lease_x'' 110 170 110 db' = Inl (LimitExceeded (thread_busy_error s))"
    unfolding s_def db'_def by code_simp
  moreover have "thread_busy_error s \<noteq> agent_limit_error s" "thread_busy_error s \<noteq> workspace_limit_error s"
    "thread_busy_error s \<noteq> workspace_rate_limit_error s"
    unfolding s_def by code_simp+
  moreover have "strip (req_tenant demo_request) = ''t''" "strip (req_workspace demo_request) = ''w''"
    "strip (req_thread demo_request) = ''th''" by code_simp+
  ultimately show ?thesis
    using refusal_reason_true [of s demo_request "''lease_x''" 110 170 110 db' "thread_busy_error s"]
    unfolding Let_def s_def [symmetric] db'_def [symmetric] by auto
qed

text \<open>Quotas stay in range: whatever the workspace's and the agent's metadata say, the limits are
  between 1 and 1000 threads, 1 and 10000 turns a minute, 5 and 300 seconds; and the refusals carry
  the retry delays and response classes of their reasons.\<close>

theorem quota_snapshot_in_range:
  "let s = resolve_channel_quota_snapshot workspace install in
   max_workspace_active_threads s \<in> {1..1000} \<and> max_agent_active_threads s \<in> {1..1000} \<and>
   max_workspace_turns_per_minute s \<in> {1..10000} \<and> max_runtime_seconds s \<in> {5..300} \<and>
   map (\<lambda>e. (q_response_class (limit_result_decision e), q_retry_after (limit_result_decision e)))
     [thread_busy_error s, agent_limit_error s, workspace_limit_error s, workspace_rate_limit_error s] =
   [(Some ''thread_busy'', Some 2), (Some ''specialist_busy'', Some 5), (Some ''workspace_busy'', Some 5), (Some ''traffic_surge'', Some 10)]"
proof -
  have r: "a \<le> b \<Longrightarrow> coerce_int v d a b \<in> {a..b}" for v d a b
    by (simp add: coerce_int_def)
  have strips: "strip ''thread_busy'' = ''thread_busy''" "strip ''agent_limit_exceeded'' = ''agent_limit_exceeded''"
    "strip ''workspace_limit_exceeded'' = ''workspace_limit_exceeded''" "strip ''workspace_rate_limited'' = ''workspace_rate_limited''"
    by code_simp+
  note defs = limit_result_decision_def channel_limit_error_decision_def deny_quota_decision_def limit_error_of_def
    text_of_PStr sor_def Let_def RESPONSE_CLASS_BY_REASON_def strips
  have "map (\<lambda>e. (q_response_class (limit_result_decision e), q_retry_after (limit_result_decision e)))
     [thread_busy_error s, agent_limit_error s, workspace_limit_error s, workspace_rate_limit_error s] =
   [(Some ''thread_busy'', Some 2), (Some ''specialist_busy'', Some 5), (Some ''workspace_busy'', Some 5), (Some ''traffic_surge'', Some 10)]" for s
    by (simp add: thread_busy_error_def agent_limit_error_def workspace_limit_error_def workspace_rate_limit_error_def defs)
  then show ?thesis
    unfolding resolve_channel_quota_snapshot_def Let_def by (simp del: atLeastAtMost_iff add: r)
qed

end
