(* ===== verification/Rust_Kernel.thy ===== *)
theory Rust_Kernel
  imports Kernel_Client
begin

text \<open>
  The two decision commands of the Rust kernel that the machine-lease service relies on:
  \<^verbatim>\<open>empyralis-runtime-kernel/src/lease.rs\<close> (machine leases) and \<^verbatim>\<open>queue.rs\<close> (queue transitions),
  with the helpers they use from \<^verbatim>\<open>protocol.rs\<close> and \<^verbatim>\<open>policy.rs\<close>. A \<^verbatim>\<open>serde_json::Value\<close> is a
  \<open>pyval\<close>; a \<^verbatim>\<open>u64\<close> is an integer between 0 and \<open>2 ^ 64 - 1\<close>, and the saturating operations
  are written out. \<^verbatim>\<open>Option<String>\<close> is \<open>string option\<close>.
\<close>

section \<open>Helpers\<close>

definition rust_space :: "char \<Rightarrow> bool" where
  "rust_space c = (let n = (of_char c :: nat) in (9 \<le> n \<and> n \<le> 13) \<or> n = 32 \<or> n = 133 \<or> n = 160)"

definition rust_trim :: "string \<Rightarrow> string" where
  "rust_trim s = rev (dropWhile rust_space (rev (dropWhile rust_space s)))"

definition string_field :: "pydict \<Rightarrow> string \<Rightarrow> string option" where
  "string_field input key =
     (case dget input key of PStr s \<Rightarrow> (if rust_trim s = [] then None else Some (rust_trim s)) | _ \<Rightarrow> None)"

definition or_else :: "'a option \<Rightarrow> 'a option \<Rightarrow> 'a option" where
  "or_else a b = (case a of Some x \<Rightarrow> Some x | None \<Rightarrow> b)"

definition opt_string :: "string option \<Rightarrow> string \<Rightarrow> string" where
  "opt_string a d = (case a of Some x \<Rightarrow> x | None \<Rightarrow> d)"

definition as_u64 :: "pyval \<Rightarrow> int option" where
  "as_u64 v = (case v of PInt i \<Rightarrow> if 0 \<le> i \<and> i < 2 ^ 64 then Some i else None | _ \<Rightarrow> None)"

definition u64_field :: "pydict \<Rightarrow> string \<Rightarrow> int \<Rightarrow> int" where
  "u64_field input key d = (case as_u64 (dget input key) of Some i \<Rightarrow> i | None \<Rightarrow> d)"

definition block :: "string \<Rightarrow> pydict" where
  "block reason = [(''ok'', PBool False), (''decision'', PStr ''block''), (''reason'', PStr reason)]"

definition ascii_lower :: "char \<Rightarrow> char" where
  "ascii_lower c = (let n = (of_char c :: nat) in if 65 \<le> n \<and> n \<le> 90 then char_of (n + 32) else c)"

text \<open>\<^verbatim>\<open>split('_')\<close>, empty parts dropped, joined again: runs of separators become one, none at the ends.\<close>

fun squeeze :: "bool \<Rightarrow> string \<Rightarrow> string" where
  "squeeze pend [] = []"
| "squeeze pend (c # cs) =
     (if c = CHR ''_'' then squeeze pend cs
      else (if pend then [CHR ''_''] else []) @ [c] @
        (let rest = takeWhile (\<lambda>d. d \<noteq> CHR ''_'') cs in rest @ squeeze True (drop (length rest) cs)))"

definition token_norm :: "string \<Rightarrow> string" where
  "token_norm s = squeeze False (map (\<lambda>c. if c \<in> set ''- /.'' then CHR ''_'' else c) (map ascii_lower (rust_trim s)))"

definition boolish :: "pydict \<Rightarrow> string \<Rightarrow> bool" where
  "boolish input key =
     (case dget input key of
        PBool b \<Rightarrow> b
      | PStr s \<Rightarrow> token_norm s \<in> set [''1'', ''true'', ''yes'', ''on'', ''enabled'', ''active'', ''force'', ''forced'']
      | PInt i \<Rightarrow> (case as_u64 (PInt i) of Some n \<Rightarrow> 0 < n | None \<Rightarrow> False)
      | _ \<Rightarrow> False)"

section \<open>Machine leases\<close>

definition DEFAULT_LEASE_TTL_SECONDS :: int where "DEFAULT_LEASE_TTL_SECONDS = 900"
definition MIN_LEASE_TTL_SECONDS :: int where "MIN_LEASE_TTL_SECONDS = 30"
definition MAX_LEASE_TTL_SECONDS :: int where "MAX_LEASE_TTL_SECONDS = 3600"

definition lease_operation :: "string \<Rightarrow> string" where
  "lease_operation v =
     (let t = token_norm v in
      if t \<in> set [''acquire'', ''claim'', ''create''] then ''acquire''
      else if t \<in> set [''renew'', ''extend''] then ''renew''
      else if t \<in> set [''release'', ''delete'', ''free''] then ''release''
      else if t \<in> set [''heartbeat'', ''ping'', ''keepalive''] then ''heartbeat''
      else [])"

definition lease_next_action :: "string \<Rightarrow> string \<Rightarrow> string" where
  "lease_next_action operation decision =
     (if decision = ''require_approval'' then ''request_machine_lease_approval''
      else if decision = ''allow'' \<and> operation \<in> set [''acquire'', ''renew''] then ''persist_machine_lease_transition''
      else if decision = ''allow'' \<and> operation = ''release'' then ''release_machine_lease_transition''
      else if decision = ''allow'' \<and> operation = ''heartbeat'' then ''touch_machine_lease''
      else ''deny_machine_lease_transition'')"

definition lease_response ::
    "string \<Rightarrow> string \<Rightarrow> string \<Rightarrow> string option \<Rightarrow> string option \<Rightarrow> string option \<Rightarrow> int \<Rightarrow> bool \<Rightarrow> pydict" where
  "lease_response decision reason operation holder_id current_holder_id lease_id ttl force =
     [(''ok'', PBool (decision \<noteq> ''block'')), (''decision'', PStr decision), (''reason'', PStr reason),
      (''operation'', PStr operation), (''next_action'', PStr (lease_next_action operation decision)),
      (''holder_id'', opt_str holder_id), (''current_holder_id'', opt_str current_holder_id),
      (''lease_id'', opt_str lease_id), (''ttl_seconds'', PInt ttl), (''force'', PBool force),
      (''approval_required'', PBool (decision = ''require_approval'')), (''cacheable'', PBool False),
      (''audit_visibility'', PStr (if decision = ''allow'' then ''standard'' else ''security''))]"

record lease_input =
  in_holder :: "string option"
  in_current_holder :: "string option"
  in_lease :: "string option"
  in_current_lease :: "string option"
  in_active :: int
  in_max :: int
  in_stale :: bool
  in_force :: bool
  in_ttl :: int

definition acquire_decision :: "lease_input \<Rightarrow> pydict" where
  "acquire_decision x =
     (case in_holder x of
        None \<Rightarrow> block ''lease_holder_missing''
      | Some h \<Rightarrow>
          if in_current_holder x = Some h \<and> or_else (in_current_lease x) (in_lease x) \<noteq> None then
            lease_response ''allow'' ''lease_already_held_by_requester'' ''acquire'' (Some h) (in_current_holder x)
              (or_else (in_current_lease x) (in_lease x)) (in_ttl x) False
          else if in_max x \<le> in_active x \<and> \<not> in_stale x \<and> \<not> in_force x then
            lease_response ''block'' ''lease_capacity_exhausted'' ''acquire'' (Some h) (in_current_holder x) (in_lease x) (in_ttl x) False
          else
            lease_response (if in_force x \<and> in_max x \<le> in_active x then ''require_approval'' else ''allow'')
              (if in_stale x then ''stale_lease_may_be_replaced''
               else if in_force x \<and> in_max x \<le> in_active x then ''forced_lease_takeover_requires_approval''
               else ''lease_acquire_allowed'')
              ''acquire'' (Some h) (in_current_holder x) (in_lease x) (in_ttl x) (in_force x))"

definition renew_decision :: "lease_input \<Rightarrow> pydict" where
  "renew_decision x =
     (case in_holder x of
        None \<Rightarrow> block ''lease_holder_missing''
      | Some h \<Rightarrow>
          if in_lease x = None then block ''lease_id_missing''
          else if in_current_lease x \<noteq> None \<and> in_lease x \<noteq> in_current_lease x then
            lease_response ''block'' ''lease_renew_id_mismatch'' ''renew'' (Some h) (in_current_holder x) (in_lease x) (in_ttl x) False
          else if in_current_holder x \<noteq> Some h then
            lease_response ''block'' ''lease_not_held_by_requester'' ''renew'' (Some h) (in_current_holder x) (in_lease x) (in_ttl x) False
          else
            lease_response (if in_stale x then ''require_approval'' else ''allow'')
              (if in_stale x then ''stale_lease_renewal_requires_approval'' else ''lease_renew_allowed'')
              ''renew'' (Some h) (in_current_holder x) (in_lease x) (in_ttl x) False)"

definition lease_release_decision :: "lease_input \<Rightarrow> pydict" where
  "lease_release_decision x =
     (case in_holder x of
        None \<Rightarrow> block ''lease_holder_missing''
      | Some h \<Rightarrow>
          if in_lease x = None then block ''lease_id_missing''
          else if in_current_lease x \<noteq> None \<and> in_lease x \<noteq> in_current_lease x then
            lease_response ''block'' ''lease_release_id_mismatch'' ''release'' (Some h) (in_current_holder x) (in_lease x) 0 False
          else if in_current_holder x \<noteq> Some h \<and> \<not> in_force x then
            lease_response ''block'' ''lease_release_not_owned'' ''release'' (Some h) (in_current_holder x) (in_lease x) 0 False
          else
            lease_response (if in_force x \<and> in_current_holder x \<noteq> Some h then ''require_approval'' else ''allow'')
              (if in_force x \<and> in_current_holder x \<noteq> Some h then ''forced_release_requires_approval''
               else if in_stale x then ''stale_lease_release_allowed'' else ''lease_release_allowed'')
              ''release'' (Some h) (in_current_holder x) (in_lease x) 0 (in_force x))"

definition heartbeat_decision :: "lease_input \<Rightarrow> pydict" where
  "heartbeat_decision x =
     (case in_holder x of
        None \<Rightarrow> block ''lease_holder_missing''
      | Some h \<Rightarrow>
          if in_lease x = None then block ''lease_id_missing''
          else if in_current_lease x \<noteq> None \<and> in_lease x \<noteq> in_current_lease x then
            lease_response ''block'' ''lease_heartbeat_id_mismatch'' ''heartbeat'' (Some h) (in_current_holder x) (in_lease x) 0 False
          else if in_current_holder x \<noteq> Some h then
            lease_response ''block'' ''lease_heartbeat_not_owned'' ''heartbeat'' (Some h) (in_current_holder x) (in_lease x) 0 False
          else
            lease_response (if in_stale x then ''block'' else ''allow'')
              (if in_stale x then ''stale_lease_heartbeat_blocked'' else ''lease_heartbeat_allowed'')
              ''heartbeat'' (Some h) (in_current_holder x) (in_lease x) 0 False)"

text \<open>\<^verbatim>\<open>input.get("lease_ttl_seconds").or_else(...)\<close> takes the second key only when the first is absent.\<close>

definition read_lease_input :: "pydict \<Rightarrow> lease_input" where
  "read_lease_input input =
     \<lparr>in_holder = or_else (string_field input ''holder_id'') (string_field input ''requested_holder_id''),
      in_current_holder = string_field input ''current_holder_id'',
      in_lease = string_field input ''lease_id'',
      in_current_lease = or_else (string_field input ''current_lease_id'') (string_field input ''existing_lease_id''),
      in_active = u64_field input ''active_lease_count'' 0,
      in_max = max (u64_field input ''max_concurrent_leases'' 1) 1,
      in_stale = (boolish input ''stale'' \<or> boolish input ''expired''),
      in_force = boolish input ''force'',
      in_ttl = max MIN_LEASE_TTL_SECONDS (min MAX_LEASE_TTL_SECONDS
        (if map_of input ''lease_ttl_seconds'' \<noteq> None then u64_field input ''lease_ttl_seconds'' DEFAULT_LEASE_TTL_SECONDS
         else u64_field input ''requested_ttl_seconds'' DEFAULT_LEASE_TTL_SECONDS))\<rparr>"

definition machine_lease_decision_command :: "pydict \<Rightarrow> pydict" where
  "machine_lease_decision_command input =
     (let operation = lease_operation (opt_string (or_else (string_field input ''operation'') (string_field input ''action'')) []);
          x = read_lease_input input
      in if operation = [] then block ''lease_operation_missing''
         else if operation = ''acquire'' then acquire_decision x
         else if operation = ''renew'' then renew_decision x
         else if operation = ''release'' then lease_release_decision x
         else if operation = ''heartbeat'' then heartbeat_decision x
         else block ''unknown_lease_operation'')"

section \<open>Queue transitions\<close>

definition queue_operation :: "string \<Rightarrow> string" where
  "queue_operation v =
     (let t = token_norm v in
      if t \<in> set [''enqueue'', ''queue'', ''create''] then ''enqueue''
      else if t \<in> set [''claim'', ''lease'', ''start''] then ''claim''
      else if t \<in> set [''complete'', ''succeed'', ''success''] then ''complete''
      else if t \<in> set [''fail'', ''failure''] then ''fail''
      else if t \<in> set [''retry'', ''requeue''] then ''retry''
      else if t \<in> set [''cancel'', ''abort''] then ''cancel''
      else if t \<in> set [''release'', ''unlock''] then ''release''
      else if t \<in> set [''dead_letter'', ''deadletter'', ''poison''] then ''dead_letter''
      else [])"

definition queue_status :: "string \<Rightarrow> string" where
  "queue_status v =
     (let t = token_norm v in
      if t \<in> set [''queued'', ''queued_local'', ''pending'', ''waiting'', ''waiting_for_input'', ''starting''] then ''queued''
      else if t \<in> set [''claimed'', ''leased'', ''running_local''] then ''claimed''
      else if t \<in> set [''running'', ''active''] then ''running''
      else if t \<in> set [''retry_scheduled'', ''retry'', ''backoff''] then ''retry_scheduled''
      else if t \<in> set [''completed'', ''succeeded'', ''success'', ''done''] then ''completed''
      else if t \<in> set [''failed'', ''error''] then ''failed''
      else if t \<in> set [''cancelled'', ''canceled''] then ''cancelled''
      else ''unknown'')"

definition retry_delay_seconds :: "int \<Rightarrow> int" where
  "retry_delay_seconds attempts = min (30 * 2 ^ nat (min attempts 5)) 960"

definition queue_next_action :: "string \<Rightarrow> string \<Rightarrow> bool \<Rightarrow> string" where
  "queue_next_action operation next_status retryable =
     (if operation = ''enqueue'' then ''enqueue_queue_item''
      else if operation = ''claim'' then ''claim_queue_item''
      else if operation = ''complete'' then ''complete_queue_item''
      else if operation = ''fail'' then (if retryable \<or> next_status = ''retry_scheduled'' then ''schedule_queue_retry'' else ''fail_queue_item'')
      else if operation = ''retry'' then ''retry_queue_item''
      else if operation = ''cancel'' then ''cancel_queue_item''
      else if operation = ''release'' then ''release_queue_item''
      else if operation = ''dead_letter'' then ''dead_letter_queue_item''
      else ''review_queue_transition'')"

record queue_input =
  qi_item :: "string option"
  qi_requester :: "string option"
  qi_holder :: "string option"
  qi_status :: string
  qi_attempts :: int
  qi_max_attempts :: int
  qi_stale :: bool
  qi_force :: bool

definition queue_response :: "queue_input \<Rightarrow> string \<Rightarrow> string \<Rightarrow> string \<Rightarrow> string option \<Rightarrow> string option \<Rightarrow> string \<Rightarrow> bool \<Rightarrow> int \<Rightarrow> bool \<Rightarrow> pydict" where
  "queue_response x decision reason operation requester holder next_status retryable delay terminal =
     [(''ok'', PBool (decision \<noteq> ''block'')), (''decision'', PStr decision), (''reason'', PStr reason),
      (''operation'', PStr operation), (''next_action'', PStr (queue_next_action operation next_status retryable)),
      (''item_id'', opt_str (qi_item x)), (''requester_id'', opt_str requester), (''lease_holder_id'', opt_str holder),
      (''current_status'', PStr (qi_status x)), (''next_status'', PStr next_status), (''retryable'', PBool retryable),
      (''retry_delay_seconds'', PInt delay), (''terminal'', PBool terminal),
      (''approval_required'', PBool (decision = ''require_approval'')), (''cacheable'', PBool False),
      (''audit_visibility'', PStr (if decision = ''allow'' \<and> \<not> terminal then ''standard'' else ''security''))]"

definition terminal_status :: "string \<Rightarrow> bool" where
  "terminal_status s = (s \<in> set [''completed'', ''failed'', ''cancelled''])"

definition busy_status :: "string \<Rightarrow> bool" where
  "busy_status s = (s \<in> set [''running'', ''claimed''])"

definition claim_decision :: "queue_input \<Rightarrow> pydict" where
  "claim_decision x =
     (if qi_item x = None then block ''queue_item_missing''
      else case qi_requester x of
        None \<Rightarrow> block ''queue_requester_missing''
      | Some r \<Rightarrow>
          if busy_status (qi_status x) \<and> qi_holder x \<noteq> Some r \<and> \<not> qi_stale x \<and> \<not> qi_force x then
            queue_response x ''block'' ''queue_item_already_claimed'' ''claim'' (Some r) (qi_holder x) (qi_status x) False 0 False
          else if terminal_status (qi_status x) then
            queue_response x ''block'' ''queue_terminal_item_not_claimable'' ''claim'' (Some r) (qi_holder x) (qi_status x) False 0 False
          else
            queue_response x (if qi_force x \<and> qi_holder x \<noteq> None then ''require_approval'' else ''allow'')
              (if qi_stale x then ''stale_queue_claim_allowed''
               else if qi_force x \<and> qi_holder x \<noteq> None then ''forced_queue_claim_requires_approval'' else ''queue_claim_allowed'')
              ''claim'' (Some r) (qi_holder x) ''running'' False 0 False)"

definition queue_release_decision :: "queue_input \<Rightarrow> pydict" where
  "queue_release_decision x =
     (if qi_item x = None then block ''queue_item_missing''
      else if \<not> busy_status (qi_status x) then
        queue_response x ''block'' ''queue_item_not_releasable'' ''release'' (qi_requester x) (qi_holder x) (qi_status x) False 0 False
      else if qi_requester x \<noteq> None \<and> qi_holder x \<noteq> None \<and> qi_requester x \<noteq> qi_holder x \<and> \<not> qi_stale x then
        queue_response x ''block'' ''queue_release_not_owned'' ''release'' (qi_requester x) (qi_holder x) (qi_status x) False 0 False
      else
        queue_response x ''allow'' (if qi_stale x then ''stale_queue_release_allowed'' else ''queue_release_allowed'') ''release''
          (qi_requester x) (qi_holder x) ''queued'' False 0 False)"

definition fail_decision :: "queue_input \<Rightarrow> pydict" where
  "fail_decision x =
     (if qi_item x = None then block ''queue_item_missing''
      else if terminal_status (qi_status x) then
        queue_response x ''allow'' ''queue_item_already_terminal'' ''fail'' (qi_requester x) (qi_holder x) (qi_status x) False 0 True
      else if \<not> busy_status (qi_status x) then
        queue_response x ''block'' ''queue_item_not_active'' ''fail'' (qi_requester x) (qi_holder x) (qi_status x) False 0 False
      else
        let next_attempts = min (qi_attempts x + 1) (2 ^ 64 - 1) in
        if next_attempts < qi_max_attempts x then
          queue_response x ''allow'' ''queue_failure_retry_scheduled'' ''fail'' (qi_requester x) (qi_holder x) ''retry_scheduled'' True
            (retry_delay_seconds next_attempts) False
        else
          queue_response x ''allow'' ''queue_failure_terminal'' ''fail'' (qi_requester x) (qi_holder x) ''failed'' False 0 True)"

definition retry_decision :: "queue_input \<Rightarrow> pydict" where
  "retry_decision x =
     (if qi_item x = None then block ''queue_item_missing''
      else if qi_max_attempts x \<le> qi_attempts x then
        queue_response x ''block'' ''queue_retry_attempts_exhausted'' ''retry'' None None (qi_status x) False 0 False
      else if qi_status x \<notin> set [''retry_scheduled'', ''failed'', ''queued''] then
        queue_response x ''block'' ''queue_item_not_retryable'' ''retry'' None None (qi_status x) False 0 False
      else queue_response x ''allow'' ''queue_retry_allowed'' ''retry'' None None ''queued'' False 0 False)"

definition enqueue_decision :: "queue_input \<Rightarrow> pydict" where
  "enqueue_decision x =
     (if qi_item x = None then block ''queue_item_missing''
      else if qi_status x \<in> set [''running'', ''completed'', ''failed'', ''cancelled''] then
        queue_response x ''block'' ''queue_item_not_enqueueable'' ''enqueue'' None None (qi_status x) False 0 False
      else queue_response x ''allow'' ''queue_enqueue_allowed'' ''enqueue'' None None ''queued'' False 0 False)"

definition terminal_decision :: "string \<Rightarrow> string \<Rightarrow> string \<Rightarrow> bool \<Rightarrow> queue_input \<Rightarrow> pydict" where
  "terminal_decision operation next_status reason force x =
     (if qi_item x = None then block ''queue_item_missing''
      else if \<not> busy_status (qi_status x) then
        queue_response x ''block'' ''queue_item_not_active'' operation (qi_requester x) (qi_holder x) (qi_status x) False 0 False
      else if qi_requester x \<noteq> None \<and> qi_holder x \<noteq> None \<and> qi_requester x \<noteq> qi_holder x \<and> \<not> force then
        queue_response x ''block'' ''queue_item_not_owned_by_requester'' operation (qi_requester x) (qi_holder x) (qi_status x) False 0 False
      else queue_response x ''allow'' reason operation (qi_requester x) (qi_holder x) next_status False 0 True)"

definition complete_decision :: "queue_input \<Rightarrow> pydict" where
  "complete_decision x =
     (if terminal_status (qi_status x) then
        queue_response x ''allow'' ''queue_item_already_terminal'' ''complete'' (qi_requester x) (qi_holder x) (qi_status x) False 0 True
      else terminal_decision ''complete'' ''completed'' ''queue_complete_allowed'' False x)"

definition cancel_decision :: "queue_input \<Rightarrow> pydict" where
  "cancel_decision x =
     (let reason = (if qi_force x then ''queue_forced_cancel_allowed'' else ''queue_cancel_allowed'') in
      if qi_status x = ''queued'' then
        (if qi_item x = None then block ''queue_item_missing''
         else queue_response x ''allow'' reason ''cancel'' (qi_requester x) (qi_holder x) ''cancelled'' False 0 True)
      else if terminal_status (qi_status x) then
        queue_response x ''allow'' ''queue_item_already_terminal'' ''cancel'' (qi_requester x) (qi_holder x) (qi_status x) False 0 True
      else terminal_decision ''cancel'' ''cancelled'' reason (qi_force x) x)"

definition dead_letter_decision :: "string option \<Rightarrow> queue_input \<Rightarrow> pydict" where
  "dead_letter_decision reason x =
     (if qi_item x = None then block ''queue_item_missing''
      else if reason = None then
        queue_response x ''block'' ''queue_dead_letter_reason_missing'' ''dead_letter'' None None (qi_status x) False 0 False
      else if qi_status x \<in> set [''completed'', ''cancelled''] then
        queue_response x ''block'' ''queue_dead_letter_invalid_status'' ''dead_letter'' None None (qi_status x) False 0 False
      else queue_response x ''allow'' ''queue_dead_letter_allowed'' ''dead_letter'' None None ''failed'' False 0 True)"

definition read_queue_input :: "pydict \<Rightarrow> queue_input" where
  "read_queue_input input =
     \<lparr>qi_item = or_else (string_field input ''item_id'') (or_else (string_field input ''run_id'') (string_field input ''queue_id'')),
      qi_requester = or_else (string_field input ''requester_id'') (or_else (string_field input ''worker_id'') (string_field input ''holder_id'')),
      qi_holder = or_else (string_field input ''lease_holder_id'') (string_field input ''current_holder_id''),
      qi_status = queue_status (opt_string (or_else (string_field input ''status'') (string_field input ''current_status'')) ''unknown''),
      qi_attempts = u64_field input ''attempts'' 0,
      qi_max_attempts = max (u64_field input ''max_attempts'' 3) 1,
      qi_stale = (boolish input ''stale'' \<or> boolish input ''lease_stale''),
      qi_force = boolish input ''force''\<rparr>"

definition queue_transition_decision_command :: "pydict \<Rightarrow> pydict" where
  "queue_transition_decision_command input =
     (let operation = queue_operation (opt_string (or_else (string_field input ''operation'') (string_field input ''action'')) []);
          x = read_queue_input input
      in if operation = [] then block ''queue_operation_missing''
         else if operation = ''enqueue'' then enqueue_decision x
         else if operation = ''claim'' then claim_decision x
         else if operation = ''complete'' then complete_decision x
         else if operation = ''fail'' then fail_decision x
         else if operation = ''retry'' then retry_decision x
         else if operation = ''cancel'' then cancel_decision x
         else if operation = ''release'' then queue_release_decision x
         else if operation = ''dead_letter'' then dead_letter_decision (string_field input ''reason'') x
         else block ''unknown_queue_operation'')"

section \<open>What the decisions guarantee\<close>

definition decides :: "pydict \<Rightarrow> string \<Rightarrow> bool" where
  "decides response decision = (dget response ''decision'' = PStr decision)"

lemma block_decides [simp]: "decides (block r) d \<longleftrightarrow> d = ''block''"
  by (auto simp: decides_def block_def dget_Cons)

lemma lease_response_decides [simp]: "decides (lease_response d r op h c l ttl f) d' \<longleftrightarrow> d' = d"
  by (auto simp: decides_def lease_response_def dget_Cons)

lemma queue_response_decides [simp]: "decides (queue_response x d r op h c n rt dl tm) d' \<longleftrightarrow> d' = d"
  by (auto simp: decides_def queue_response_def dget_Cons)

lemma acquire_allowed:
  "decides (acquire_decision x) ''allow'' \<longleftrightarrow>
    (\<exists>h. in_holder x = Some h \<and>
      ((in_current_holder x = Some h \<and> or_else (in_current_lease x) (in_lease x) \<noteq> None) \<or>
       in_active x < in_max x \<or> (in_stale x \<and> \<not> in_force x)))"
  by (auto simp: acquire_decision_def not_le split: option.split)

lemma lease_release_allowed:
  "decides (lease_release_decision x) ''allow'' \<longleftrightarrow>
    (\<exists>h l. in_holder x = Some h \<and> in_lease x = Some l \<and> in_current_holder x = Some h \<and>
      (in_current_lease x = None \<or> in_current_lease x = Some l))"
  by (auto simp: lease_release_decision_def split: option.split)

section \<open>Properties\<close>

text \<open>Machine leases are exclusive: the kernel allows an acquire only to a holder that already holds
  the lease, when there is spare capacity, or to replace a stale lease; a forced takeover of a full
  machine is never allowed without approval; and a release is allowed only to the current holder
  naming the current lease.\<close>

theorem lease_decisions_sound:
  "(decides (acquire_decision x) ''allow'' \<longleftrightarrow>
     (\<exists>h. in_holder x = Some h \<and>
       ((in_current_holder x = Some h \<and> or_else (in_current_lease x) (in_lease x) \<noteq> None) \<or>
        in_active x < in_max x \<or> (in_stale x \<and> \<not> in_force x)))) \<and>
   (decides (lease_release_decision x) ''allow'' \<longleftrightarrow>
     (\<exists>h l. in_holder x = Some h \<and> in_lease x = Some l \<and> in_current_holder x = Some h \<and>
       (in_current_lease x = None \<or> in_current_lease x = Some l)))"
  using acquire_allowed lease_release_allowed by blast

text \<open>The retry budget: a failure of an active item is retried exactly while the attempts, this one
  included, stay below the maximum, with a delay between 60 and 960 seconds that never shrinks from
  one attempt to the next; otherwise the item becomes failed for good.\<close>

theorem failure_retry_budget:
  assumes "qi_item x = Some i" and "busy_status (qi_status x)" and "0 \<le> qi_attempts x" and "qi_attempts x < 2 ^ 64 - 1"
  shows "(dget (fail_decision x) ''next_status'' = PStr ''retry_scheduled'' \<longleftrightarrow> qi_attempts x + 1 < qi_max_attempts x) \<and>
    (dget (fail_decision x) ''next_status'' \<noteq> PStr ''retry_scheduled'' \<longrightarrow>
      dget (fail_decision x) ''next_status'' = PStr ''failed'' \<and> dget (fail_decision x) ''terminal'' = PBool True) \<and>
    60 \<le> retry_delay_seconds (qi_attempts x + 1) \<and> retry_delay_seconds (qi_attempts x + 1) \<le> 960 \<and>
    retry_delay_seconds (qi_attempts x) \<le> retry_delay_seconds (qi_attempts x + 1)"
proof -
  have nt: "\<not> terminal_status (qi_status x)" using assms(2) by (auto simp: busy_status_def terminal_status_def)
  have mono: "(2 :: int) ^ nat (min a 5) \<le> 2 ^ nat (min b 5)" if "a \<le> b" for a b
    by (rule power_increasing) (use that in auto)
  have "(2 :: int) ^ nat 1 \<le> 2 ^ nat (min (qi_attempts x + 1) 5)"
    by (rule power_increasing) (use assms(3) in auto)
  then have "60 \<le> retry_delay_seconds (qi_attempts x + 1)" by (simp add: retry_delay_seconds_def)
  moreover have "retry_delay_seconds (qi_attempts x) \<le> retry_delay_seconds (qi_attempts x + 1)"
    unfolding retry_delay_seconds_def by (intro min.mono mult_left_mono mono) simp_all
  moreover have "retry_delay_seconds (qi_attempts x + 1) \<le> 960" by (simp add: retry_delay_seconds_def)
  moreover have "min (qi_attempts x + 1) (2 ^ 64 - 1) = qi_attempts x + 1" using assms(4) by simp
  ultimately show ?thesis
    using assms(1,2) nt by (simp add: fail_decision_def Let_def queue_response_def dget_Cons)
qed

theorem failure_retry_budget_witness:
  "dget (fail_decision \<lparr>qi_item = Some ''run-1'', qi_requester = Some ''w'', qi_holder = Some ''w'', qi_status = ''running'',
     qi_attempts = 1, qi_max_attempts = 3, qi_stale = False, qi_force = False\<rparr>) ''next_status'' = PStr ''retry_scheduled''"
  using failure_retry_budget [of "\<lparr>qi_item = Some ''run-1'', qi_requester = Some ''w'', qi_holder = Some ''w'',
     qi_status = ''running'', qi_attempts = 1, qi_max_attempts = 3, qi_stale = False, qi_force = False\<rparr>" "''run-1''"]
  by (simp add: busy_status_def)

end
