(* ===== verification/Machine_Session.thy ===== *)
theory Machine_Session
  imports Rust_Kernel
begin

text \<open>
  The first half of \<^verbatim>\<open>server_modules/machine_lease_service.py\<close>: enrollment scopes, the two kernel
  gates every lease and queue transition passes, the presence and registration records of a machine,
  and its authenticated session (issue, touch, assert).

  A machine record is the Python dictionary the code mutates, a \<open>pydict\<close>; the registry maps runtime
  ids to such records. \<^verbatim>\<open>assert_machine_session\<close> works on the record inside the registry, so its
  changes stay there when it raises: the model returns the registry with the outcome. The kernel is
  an argument, \<^verbatim>\<open>run_runtime_kernel_enforced\<close> applied to a command and a payload; the section
  \<open>The kernel behind the gates\<close> instantiates it with the decisions of \<open>Rust_Kernel\<close>. Also arguments
  are the functions the service receives from its callers (token factory, token hash, capability
  digest, policy-mode normaliser). An optional string argument is a string, empty for \<^verbatim>\<open>None\<close>:
  every use is \<^verbatim>\<open>str(x or "")\<close>.
\<close>

section \<open>Scopes\<close>

text \<open>\<^verbatim>\<open>str(x or d).strip().lower() or d\<close>.\<close>

definition token_default :: "pyval \<Rightarrow> string \<Rightarrow> string" where
  "token_default v d = sor (lower (strip (py_str (por v (PStr d))))) d"

definition normalize_machine_enrollment_scope :: "pyval \<Rightarrow> string \<Rightarrow> string" where
  "normalize_machine_enrollment_scope v d =
     (if token_of v \<in> set [''workspace'', ''tenant'', ''global''] then token_of v else d)"

definition runtime_session_scope :: "pydict \<Rightarrow> pydict" where
  "runtime_session_scope record =
     [(''tenant_id'', PStr (text_default (dget record ''tenant_id'') ''default'')),
      (''workspace_id'', PStr (text_default (dget record ''workspace_id'') ''default'')),
      (''runtime_type'', PStr (text_default (dget record ''runtime_type'') ''local'')),
      (''runtime_role'', PStr (token_default (dget record ''runtime_role'') ''generic'')),
      (''install_id'', PStr (text_of (dget record ''install_id''))),
      (''specialist_key'', PStr (text_of (dget record ''specialist_key''))),
      (''instance_id'', PStr (text_of (dget record ''instance_id''))),
      (''capability_digest'', PStr (text_of (dget record ''capability_digest''))),
      (''machine_enrollment_scope'',
         PStr (normalize_machine_enrollment_scope (dget record ''machine_enrollment_scope'') ''workspace''))]"

definition scope_key_parts :: "pydict \<Rightarrow> string list" where
  "scope_key_parts scope =
     [text_default (dget scope ''tenant_id'') ''default'',
      text_default (dget scope ''workspace_id'') ''default'',
      text_default (dget scope ''runtime_type'') ''local'',
      token_default (dget scope ''runtime_role'') ''generic'',
      text_of (dget scope ''install_id''),
      text_of (dget scope ''specialist_key''),
      text_of (dget scope ''instance_id''),
      text_of (dget scope ''capability_digest''),
      normalize_machine_enrollment_scope (dget scope ''machine_enrollment_scope'') ''workspace'']"

definition runtime_session_scope_key :: "pydict \<Rightarrow> string" where
  "runtime_session_scope_key scope = join ''|'' (scope_key_parts scope)"

text \<open>The scope of a run, the dictionary \<^verbatim>\<open>_run_scope_from_payload\<close> returns.\<close>

record run_scope =
  rs_workspace_id :: string
  rs_tenant_id :: string
  rs_specialist_key :: string

definition worker_runtime_scope_allows_run :: "pydict \<Rightarrow> run_scope \<Rightarrow> bool" where
  "worker_runtime_scope_allows_run record run_scope =
     (if record = [] then True
      else
        let worker_tenant = text_default (dget record ''tenant_id'') ''default'';
            worker_workspace = text_default (dget record ''workspace_id'') ''default'';
            enrollment_scope = normalize_machine_enrollment_scope (dget record ''machine_enrollment_scope'') ''workspace'';
            run_tenant = text_default (PStr (rs_tenant_id run_scope)) ''default'';
            run_workspace = text_default (PStr (rs_workspace_id run_scope)) ''default''
        in if enrollment_scope = ''global'' then True
           else if enrollment_scope = ''workspace'' \<and> run_tenant = ''default'' \<and> worker_workspace \<noteq> ''default'' \<and>
                   worker_workspace = run_workspace then True
           else if worker_tenant \<noteq> run_tenant then False
           else if enrollment_scope = ''tenant'' then True
           else worker_workspace = run_workspace)"

section \<open>The kernel gates\<close>

type_synonym kernel = "string \<Rightarrow> pydict \<Rightarrow> kernel_error + pydict"

text \<open>What the service raises. \<open>ConversionError\<close> is the \<^verbatim>\<open>ValueError\<close> or \<^verbatim>\<open>TypeError\<close> of an \<^verbatim>\<open>int(...)\<close>
  or of iterating a value that cannot be iterated.\<close>

datatype lease_error = HTTPException int string | AttributeError | ConversionError | KeyError

record lease_args =
  la_operation :: string
  la_holder_id :: string
  la_current_holder_id :: string
  la_lease_id :: string
  la_current_lease_id :: string
  la_active_lease_count :: int
  la_max_concurrent_leases :: int
  la_lease_ttl_seconds :: int
  la_stale :: bool
  la_force :: bool

definition machine_lease_payload :: "lease_args \<Rightarrow> pydict" where
  "machine_lease_payload a =
     [(''operation'', PStr (la_operation a)),
      (''holder_id'', PStr (strip (la_holder_id a))), (''requested_holder_id'', PStr (strip (la_holder_id a))),
      (''current_holder_id'', PStr (strip (la_current_holder_id a))),
      (''lease_id'', PStr (strip (la_lease_id a))), (''current_lease_id'', PStr (strip (la_current_lease_id a))),
      (''active_lease_count'', PInt (max 0 (la_active_lease_count a))),
      (''max_concurrent_leases'', PInt (max 1 (la_max_concurrent_leases a))),
      (''lease_ttl_seconds'', PInt (max 1 (la_lease_ttl_seconds a))),
      (''requested_ttl_seconds'', PInt (max 1 (la_lease_ttl_seconds a))),
      (''stale'', PBool (la_stale a)), (''expired'', PBool (la_stale a)), (''force'', PBool (la_force a))]"

definition lease_expected_next_action :: "(string \<times> string) list" where
  "lease_expected_next_action =
     [(''acquire'', ''persist_machine_lease_transition''), (''renew'', ''persist_machine_lease_transition''),
      (''release'', ''release_machine_lease_transition''), (''heartbeat'', ''touch_machine_lease'')]"

text \<open>With \<^verbatim>\<open>allow_block_result\<close> both handlers read \<^verbatim>\<open>exc.result\<close>, an attribute the kernel client's
  exceptions do not have: they raise \<^verbatim>\<open>AttributeError\<close>.\<close>

definition lease_gate_error :: "string \<Rightarrow> kernel_error \<Rightarrow> lease_error" where
  "lease_gate_error operation e =
     (case e of
        ApprovalRequired d \<Rightarrow> HTTPException 409 (''Rust machine-lease gate requires approval for '' @ operation @ '': '' @ error_reason e)
      | DecisionError d \<Rightarrow> HTTPException 409 (''Rust machine-lease gate blocked '' @ operation @ '': '' @ error_reason e))"

definition enforce_machine_lease_decision :: "kernel \<Rightarrow> lease_args \<Rightarrow> bool \<Rightarrow> lease_error + pydict" where
  "enforce_machine_lease_decision kern a allow_block_result =
     (case kern ''machine-lease-decision'' (machine_lease_payload a) of
        Inl e \<Rightarrow> Inl (if allow_block_result then AttributeError else lease_gate_error (la_operation a) e)
      | Inr decision \<Rightarrow>
          let expected = map_of lease_expected_next_action (strip (la_operation a));
              next_action = text_of (dget decision ''next_action'')
          in if token_of (dget decision ''decision'') = ''allow'' \<and> expected \<noteq> None \<and> Some next_action \<noteq> expected
             then Inl (HTTPException 409 (''Rust machine-lease gate blocked '' @ la_operation a @
                    '': unexpected_next_action:'' @ sor next_action ''missing''))
             else Inr decision)"

record queue_args =
  qa_operation :: string
  qa_run_id :: string
  qa_requester_id :: string
  qa_lease_holder_id :: string
  qa_status :: string
  qa_stale :: bool
  qa_force :: bool
  qa_attempts :: int
  qa_max_attempts :: int

definition queue_transition_payload :: "queue_args \<Rightarrow> pydict" where
  "queue_transition_payload a =
     [(''operation'', PStr (qa_operation a)),
      (''item_id'', PStr (strip (qa_run_id a))), (''run_id'', PStr (strip (qa_run_id a))),
      (''requester_id'', PStr (strip (qa_requester_id a))), (''worker_id'', PStr (strip (qa_requester_id a))),
      (''lease_holder_id'', PStr (strip (qa_lease_holder_id a))), (''current_holder_id'', PStr (strip (qa_lease_holder_id a))),
      (''status'', PStr (strip (sor (qa_status a) ''unknown''))), (''current_status'', PStr (strip (sor (qa_status a) ''unknown''))),
      (''stale'', PBool (qa_stale a)), (''lease_stale'', PBool (qa_stale a)), (''force'', PBool (qa_force a)),
      (''attempts'', PInt (max 0 (qa_attempts a))), (''max_attempts'', PInt (max 1 (qa_max_attempts a)))]"

definition queue_expected_next_action :: "(string \<times> string) list" where
  "queue_expected_next_action =
     [(''enqueue'', ''enqueue_queue_item''), (''claim'', ''claim_queue_item''), (''complete'', ''complete_queue_item''),
      (''retry'', ''retry_queue_item''), (''cancel'', ''cancel_queue_item''), (''release'', ''release_queue_item''),
      (''dead_letter'', ''dead_letter_queue_item'')]"

definition queue_gate_error :: "string \<Rightarrow> kernel_error \<Rightarrow> lease_error" where
  "queue_gate_error operation e =
     (case e of
        ApprovalRequired d \<Rightarrow> HTTPException 409 (''Rust queue gate requires approval for '' @ operation @ '': '' @ error_reason e)
      | DecisionError d \<Rightarrow> HTTPException 409 (''Rust queue gate blocked '' @ operation @ '': '' @ error_reason e))"

definition enforce_queue_transition_decision :: "kernel \<Rightarrow> queue_args \<Rightarrow> lease_error + pydict" where
  "enforce_queue_transition_decision kern a =
     (case kern ''queue-transition-decision'' (queue_transition_payload a) of
        Inl e \<Rightarrow> Inl (queue_gate_error (qa_operation a) e)
      | Inr decision \<Rightarrow>
          let expected = (if strip (qa_operation a) = ''fail''
                then Some (if truthy (dget decision ''retryable'') \<or> text_of (dget decision ''next_status'') = ''retry_scheduled''
                           then ''schedule_queue_retry'' else ''fail_queue_item'')
                else map_of queue_expected_next_action (strip (qa_operation a)));
              next_action = text_of (dget decision ''next_action'')
          in if expected \<noteq> None \<and> Some next_action \<noteq> expected
             then Inl (HTTPException 409 (''Rust queue gate returned unexpected next_action for '' @ qa_operation a @
                    '': '' @ sor next_action ''missing''))
             else Inr decision)"

section \<open>Machine records\<close>

definition build_machine_presence_record ::
    "pydict \<Rightarrow> string \<Rightarrow> string option \<Rightarrow> string \<Rightarrow> int \<Rightarrow> string \<Rightarrow> pyval \<Rightarrow> lease_error + pydict" where
  "build_machine_presence_record previous machine_id current_run_id status_hint lease_seconds now_iso note =
     (let machine = strip machine_id in
      if machine = [] then Inr previous
      else
        let status = token_default (por (PStr status_hint) (dget previous ''status'')) ''idle'';
            clears = (current_run_id = None \<and> status \<in> set [''idle'', ''offline'', ''stopped'', ''recovering''])
        in rbind (of_option ConversionError (py_int (por (dget previous ''lease_seconds'') (PInt lease_seconds)))) (\<lambda>seconds.
          let record = dmerge previous
                [(''worker_id'', PStr machine),
                 (''runtime_id'', PStr (text_default (dget previous ''runtime_id'') machine)),
                 (''machine_id'', PStr (text_default (dget previous ''machine_id'') machine)),
                 (''last_seen_at'', PStr now_iso),
                 (''status'', PStr status),
                 (''current_run_id'', if clears then PNone
                    else (case current_run_id of Some r \<Rightarrow> PStr r | None \<Rightarrow> dget previous ''current_run_id'')),
                 (''lease_seconds'', PInt seconds),
                 (''note'', PStr (py_str (por (dget previous ''note'') (PStr []))))]
          in Inr (if truthy note then dset ''note'' (PStr (take 280 (py_str note))) record else record)))"

text \<open>\<^verbatim>\<open>[str(item).strip() for item in x if str(item).strip()]\<close>.\<close>

fun iterate :: "pyval \<Rightarrow> lease_error + pyval list" where
  "iterate (PList xs) = Inr xs"
| "iterate (PStr s) = Inr (map (\<lambda>c. PStr [c]) s)"
| "iterate (PDict d) = Inr (map (\<lambda>p. PStr (fst p)) d)"
| "iterate _ = Inl ConversionError"

definition clean_texts :: "pyval list \<Rightarrow> string list" where
  "clean_texts xs = filter (\<lambda>s. s \<noteq> []) (map (\<lambda>v. strip (py_str v)) xs)"

record registration_args =
  ra_tenant_id :: string
  ra_workspace_id :: string
  ra_runtime_type :: string
  ra_display_name :: string
  ra_platform :: string
  ra_policy_mode :: string
  ra_capabilities :: "string list option"
  ra_execution_targets :: "string list option"
  ra_instance_id :: string
  ra_capability_digest :: string
  ra_prewarm_state :: string
  ra_warm_pool :: string
  ra_lease_seconds :: int

definition given_or_previous :: "string list option \<Rightarrow> pyval \<Rightarrow> lease_error + string list" where
  "given_or_previous given previous =
     map_sum id clean_texts (case given of Some xs \<Rightarrow> Inr (map PStr xs) | None \<Rightarrow> iterate (por previous (PList [])))"

definition none_if_blank :: "string \<Rightarrow> pyval" where
  "none_if_blank s = (if s = [] then PNone else PStr s)"

definition build_runtime_registration_record ::
    "(pyval \<Rightarrow> string) \<Rightarrow> (string list \<Rightarrow> pyval) \<Rightarrow> string \<Rightarrow> pydict \<Rightarrow> registration_args \<Rightarrow> string \<Rightarrow> lease_error + pydict" where
  "build_runtime_registration_record normalize_policy_mode capability_digest machine_id previous a now_iso =
     (let worker = strip machine_id;
          arg = (\<lambda>given key d. text_default (por (PStr given) (dget previous key)) d);
          tenant = arg (ra_tenant_id a) ''tenant_id'' ''default'';
          workspace = arg (ra_workspace_id a) ''workspace_id'' ''default'';
          runtime_type = arg (ra_runtime_type a) ''runtime_type'' ''local'';
          old = dget previous
      in if worker = [] then Inr []
         else rbind (given_or_previous (ra_capabilities a) (old ''capabilities'')) (\<lambda>capabilities.
           rbind (given_or_previous (ra_execution_targets a) (old ''execution_targets'')) (\<lambda>targets.
           rbind (of_option ConversionError (py_int (por (old ''lease_seconds'') (PInt (ra_lease_seconds a))))) (\<lambda>seconds.
             let primary = sor (lower (strip (case targets of [] \<Rightarrow> [] | t # _ \<Rightarrow> t))) ''local'';
                 digest = sor (strip (ra_capability_digest a)) (text_of (old ''capability_digest''))
             in Inr (dmerge previous
               [(''worker_id'', PStr worker), (''runtime_id'', PStr worker),
                (''machine_id'', PStr (text_default (old ''machine_id'') worker)),
                (''tenant_id'', PStr tenant), (''workspace_id'', PStr workspace), (''runtime_type'', PStr runtime_type),
                (''display_name'', PStr (arg (ra_display_name a) ''display_name'' worker)),
                (''platform'', none_if_blank (text_of (por (PStr (ra_platform a)) (old ''platform'')))),
                (''policy_mode'', PStr (normalize_policy_mode
                   (if ra_policy_mode a \<noteq> [] then PStr (ra_policy_mode a) else old ''policy_mode''))),
                (''capabilities'', PList (map PStr capabilities)),
                (''execution_targets'', PList (map PStr targets)),
                (''instance_id'', PStr (arg (ra_instance_id a) ''instance_id'' worker)),
                (''capability_digest'', if digest \<noteq> [] then PStr digest else capability_digest capabilities),
                (''queue_shard'', PStr (sor (text_of (old ''queue_shard''))
                   (tenant @ '':'' @ workspace @ '':'' @ runtime_type @ '':'' @ primary))),
                (''prewarm_state'', none_if_blank (token_of (por (PStr (ra_prewarm_state a)) (old ''prewarm_state'')))),
                (''warm_pool'', none_if_blank (text_of (por (PStr (ra_warm_pool a)) (old ''warm_pool'')))),
                (''registered_at'', PStr (py_str (por (old ''registered_at'') (PStr now_iso)))),
                (''last_registered_at'', PStr now_iso),
                (''lease_seconds'', PInt seconds),
                (''trust_state'', PStr (text_default (old ''trust_state'') ''unverified'')),
                (''permission_probe'', PDict (as_dict (old ''permission_probe''))),
                (''permission_probe_updated_at'', old ''permission_probe_updated_at''),
                (''control_state'', PStr (token_default (old ''control_state'') ''active'')),
                (''suspended_at'', old ''suspended_at''), (''suspended_reason'', old ''suspended_reason''),
                (''revoked_at'', old ''revoked_at''), (''revoked_reason'', old ''revoked_reason''),
                (''control_state_updated_at'', old ''control_state_updated_at'')])))))"

definition build_queue_partition_key :: "string \<Rightarrow> string \<Rightarrow> string" where
  "build_queue_partition_key workspace_id specialist_key =
     sor (strip workspace_id) ''default'' @ ''::'' @ sor (strip specialist_key) ''workspace-default''"

section \<open>Sessions\<close>

text \<open>The argument \<open>token\<close> is what \<^verbatim>\<open>token_factory(24)\<close> returned; it is the session token of the reply.\<close>

definition issue_machine_session :: "(string \<Rightarrow> string) \<Rightarrow> string \<Rightarrow> string \<Rightarrow> pydict \<Rightarrow> pydict" where
  "issue_machine_session hash_token token issued_at record =
     (let record1 = dset ''session_last_authenticated_at'' (PStr issued_at)
            (dset ''session_issued_at'' (PStr issued_at)
            (dset ''session_token_hash'' (PStr (hash_token token)) record));
          session_scope = runtime_session_scope record1
      in dset ''trust_state'' (PStr ''verified'')
           (dset ''session_scope_key'' (PStr (runtime_session_scope_key session_scope))
           (dset ''session_scope'' (PDict session_scope) record1)))"

definition first_text :: "pydict \<Rightarrow> string list \<Rightarrow> string \<Rightarrow> string" where
  "first_text record keys d = text_default (foldr (\<lambda>k v. por (dget record k) v) keys (PStr d)) d"

text \<open>A mutating call: the record after it, and what it raised.\<close>

definition touch_machine_session :: "kernel \<Rightarrow> string \<Rightarrow> pydict \<Rightarrow> pydict \<times> lease_error option" where
  "touch_machine_session kern touched_at record =
     (let holder_id = first_text record [''machine_id'', ''runtime_id'', ''worker_id'', ''instance_id'', ''session_scope_key'']
            ''runtime-session'';
          lease_id = first_text record [''lease_id'', ''machine_lease_id'', ''session_scope_key'', ''session_token_hash''] holder_id
      in case py_int (por (dget record ''lease_seconds'') (PInt 900)) of
           None \<Rightarrow> (record, Some ConversionError)
         | Some seconds \<Rightarrow>
             (case enforce_machine_lease_decision kern
                     \<lparr>la_operation = ''heartbeat'', la_holder_id = holder_id, la_current_holder_id = holder_id,
                      la_lease_id = lease_id, la_current_lease_id = lease_id, la_active_lease_count = 0,
                      la_max_concurrent_leases = 1, la_lease_ttl_seconds = seconds, la_stale = False, la_force = False\<rparr> False of
                Inl e \<Rightarrow> (record, Some e)
              | Inr _ \<Rightarrow> (dset ''trust_state'' (PStr ''verified'')
                           (dset ''session_last_authenticated_at'' (PStr touched_at) record), None)))"

text \<open>The scope check of \<^verbatim>\<open>assert_machine_session\<close>: the record with the fields it fills in, and the
  scope key the session was issued for.\<close>

definition expected_scope :: "pydict \<Rightarrow> pydict \<times> string" where
  "expected_scope record =
     (let key = text_of (dget record ''session_scope_key'') in
      if key \<noteq> [] then (record, key)
      else (case dget record ''session_scope'' of
              PDict scope \<Rightarrow> (dset ''session_scope_key'' (PStr (runtime_session_scope_key scope)) record,
                 runtime_session_scope_key scope)
            | _ \<Rightarrow> (let current = runtime_session_scope record;
                        record1 = dset ''session_scope_key'' (PStr (runtime_session_scope_key current))
                          (dset ''session_scope'' (PDict current) record)
                    in (record1, text_of (dget record1 ''session_scope_key'')))))"

definition assert_machine_session ::
    "(string \<Rightarrow> string) \<Rightarrow> (pydict \<Rightarrow> pydict \<times> lease_error option) \<Rightarrow> pydict \<Rightarrow> string \<Rightarrow> string \<Rightarrow> string \<Rightarrow> bool \<Rightarrow>
      pydict \<times> (lease_error + pydict)" where
  "assert_machine_session hash_token touch registry machine_id session_token instance_id enforce_scope =
     (let runtime_token = strip machine_id; provided = strip session_token in
      if runtime_token = [] then (registry, Inl (HTTPException 400 ''runtime_id is required.''))
      else if provided = [] then (registry, Inl (HTTPException 401 ''runtime session token is required.''))
      else case dget registry runtime_token of
        PDict record \<Rightarrow>
          let expected_hash = text_of (dget record ''session_token_hash'');
              expected_instance = text_of (dget record ''instance_id'');
              provided_instance = strip instance_id
          in if expected_hash = [] then
               (registry, Inl (HTTPException 409 ''runtime session is not active. Re-register this machine.''))
             else if hash_token provided \<noteq> expected_hash then
               (registry, Inl (HTTPException 401 ''runtime session is no longer valid. Re-register this machine.''))
             else if expected_instance \<noteq> [] \<and> provided_instance \<noteq> [] \<and> expected_instance \<noteq> provided_instance then
               (registry, Inl (HTTPException 409 ''runtime instance changed. Re-register this machine.''))
             else
               let current_scope = runtime_session_scope record;
                   (record1, expected_key) = expected_scope record;
                   mismatch = (expected_key \<noteq> runtime_session_scope_key current_scope);
                   record2 = (if mismatch
                     then dset ''session_scope_mismatch''
                            (PDict [(''expected'', PDict (as_dict (dget record1 ''session_scope''))), (''current'', PDict current_scope)]) record1
                     else dpop ''session_scope_mismatch'' record1)
               in if mismatch \<and> enforce_scope then
                    (dset runtime_token (PDict record2) registry,
                     Inl (HTTPException 409 ''runtime scope changed. Re-register this machine.''))
                  else (case touch record2 of
                      (record3, Some e) \<Rightarrow> (dset runtime_token (PDict record3) registry, Inl e)
                    | (record3, None) \<Rightarrow> (dset runtime_token (PDict record3) registry, Inr record3))
      | _ \<Rightarrow> (registry, Inl (HTTPException 404 ''runtime_id is not registered.'')))"

section \<open>The kernel behind the gates\<close>

text \<open>The enforced call when the process answers with the decisions of \<open>Rust_Kernel\<close>; the lemma
  \<open>rust_kernel_process\<close> relates it to the subprocess call of \<open>Kernel_Client\<close>.\<close>

definition rust_decision :: "string \<Rightarrow> pydict \<Rightarrow> pydict" where
  "rust_decision command =
     (if command = ''machine-lease-decision'' then machine_lease_decision_command else queue_transition_decision_command)"

definition rust_kernel :: "kernel_env \<Rightarrow> kernel" where
  "rust_kernel env command payload =
     enforce_kernel_decision env command (normalize_kernel_decision env command (rust_decision command payload)) False"

lemma rust_kernel_process:
  assumes "command \<in> set [''machine-lease-decision'', ''queue-transition-decision'']" and "has_binary env"
    and "spawn env command payload = Completed out 0" and "strip out \<noteq> []"
    and "json_loads env (strip out) = Some (PDict (rust_decision command payload))"
    and "is_bool (dget (rust_decision command payload) ''ok'')" and "is_str (dget (rust_decision command payload) ''decision'')"
  shows "run_runtime_kernel_enforced env command payload False = rust_kernel env command payload"
proof -
  have "''machine-lease-decision'' \<in> set ALLOWED_KERNEL_COMMANDS" "''queue-transition-decision'' \<in> set ALLOWED_KERNEL_COMMANDS"
    by code_simp+
  then have "command \<in> set ALLOWED_KERNEL_COMMANDS" using assms(1) by auto
  then have "run_runtime_kernel env command payload = normalize_kernel_decision env command (rust_decision command payload)"
    using assms(2-) by (simp add: run_runtime_kernel_def)
  then show ?thesis by (simp add: run_runtime_kernel_enforced_def rust_kernel_def)
qed

text \<open>A decision of the kernel: its three verdicts, with the flags that go with them.\<close>

definition well_formed_decision :: "pydict \<Rightarrow> bool" where
  "well_formed_decision d =
     (\<exists>v \<in> set [''allow'', ''block'', ''require_approval'']. dget d ''decision'' = PStr v \<and>
        dget d ''ok'' = PBool (v \<noteq> ''block'') \<and> (v \<noteq> ''block'' \<longrightarrow> dget d ''approval_required'' = PBool (v = ''require_approval'')))"

lemma wf_block [simp]: "well_formed_decision (block r)"
  by (simp add: well_formed_decision_def block_def dget_Cons)

lemma wf_lease_response [simp]:
  "v \<in> {''allow'', ''block'', ''require_approval''} \<Longrightarrow> well_formed_decision (lease_response v r op h c l ttl f)"
  by (auto simp: well_formed_decision_def lease_response_def dget_Cons)

lemma wf_queue_response [simp]:
  "v \<in> {''allow'', ''block'', ''require_approval''} \<Longrightarrow> well_formed_decision (queue_response x v r op h c n rt dl tm)"
  by (auto simp: well_formed_decision_def queue_response_def dget_Cons)

lemma wf_If: "well_formed_decision a \<Longrightarrow> well_formed_decision b \<Longrightarrow> well_formed_decision (if c then a else b)"
  by simp

lemma wf_lease_steps:
  "well_formed_decision (acquire_decision x)" "well_formed_decision (renew_decision x)"
  "well_formed_decision (lease_release_decision x)" "well_formed_decision (heartbeat_decision x)"
  unfolding acquire_decision_def renew_decision_def lease_release_decision_def heartbeat_decision_def
  by (cases "in_holder x"; simp; fail)+

lemma wf_queue_steps:
  "well_formed_decision (enqueue_decision y)" "well_formed_decision (retry_decision y)"
  "well_formed_decision (queue_release_decision y)" "well_formed_decision (dead_letter_decision o' y)"
  "well_formed_decision (terminal_decision op n r f y)"
  unfolding enqueue_decision_def retry_decision_def queue_release_decision_def dead_letter_decision_def terminal_decision_def
  by (intro wf_If wf_block wf_queue_response; simp)+

lemma wf_queue_steps':
  "well_formed_decision (complete_decision y)" "well_formed_decision (cancel_decision y)" "well_formed_decision (fail_decision y)"
  unfolding complete_decision_def cancel_decision_def fail_decision_def Let_def
  by (intro wf_If wf_block wf_queue_response wf_queue_steps; simp)+

lemma wf_claim: "well_formed_decision (claim_decision y)"
  unfolding claim_decision_def
  by (cases "qi_requester y") (simp_all only: option.case, (intro wf_If wf_block wf_queue_response; simp)+)

lemma wf_lease_decision: "well_formed_decision (machine_lease_decision_command input)"
  unfolding machine_lease_decision_command_def Let_def by (intro wf_If wf_block wf_lease_steps)

lemma wf_queue_decision: "well_formed_decision (queue_transition_decision_command input)"
  unfolding queue_transition_decision_command_def Let_def by (intro wf_If wf_block wf_queue_steps wf_queue_steps' wf_claim)

lemma wf_rust_decision: "well_formed_decision (rust_decision command payload)"
  by (simp add: rust_decision_def wf_lease_decision wf_queue_decision)

lemma verdict_texts: "strip ''allow'' = ''allow''" "strip ''block'' = ''block''" "strip ''require_approval'' = ''require_approval''"
  by code_simp+

lemma wf_verdict: "well_formed_decision d \<Longrightarrow> dget d ''decision'' = PStr (verdict d)"
  using verdict_texts by (auto simp: well_formed_decision_def verdict_def por_def sor_def)

lemma wf_flags:
  assumes "well_formed_decision d"
  shows "truthy (dget d ''ok'') \<longleftrightarrow> verdict d \<noteq> ''block''"
    and "verdict d \<noteq> ''block'' \<Longrightarrow> needs_approval d \<longleftrightarrow> verdict d \<noteq> ''allow''"
  using assms wf_verdict [OF assms] by (auto simp: well_formed_decision_def needs_approval_def)

lemma rust_kernel_Inr:
  "(\<exists>d. rust_kernel env command payload = Inr d) \<longleftrightarrow> decides (rust_decision command payload) ''allow''"
proof -
  let ?d = "rust_decision command payload"
  note wf = wf_rust_decision [of command payload]
  have "(\<exists>d. rust_kernel env command payload = Inr d) \<longleftrightarrow> verdict ?d \<noteq> ''block'' \<and> \<not> needs_approval ?d"
    using wf_flags(1) [OF wf]
    by (auto simp: rust_kernel_def enforce_Inr_iff normalized_fields verdict_normalized needs_approval_normalized)
  then show ?thesis using wf_flags(2) [OF wf] wf_verdict [OF wf] by (auto simp: decides_def)
qed

lemma rust_kernel_fields:
  assumes "rust_kernel env command payload = Inr d"
  shows "dget d ''decision'' = PStr ''allow''"
    and "dget d ''next_action'' = PStr (text_of (dget (rust_decision command payload) ''next_action''))"
proof -
  have d: "d = normalize_kernel_decision env command (normalize_kernel_decision env command (rust_decision command payload))"
    using assms enforce_Inr_value by (auto simp: rust_kernel_def)
  have "decides (rust_decision command payload) ''allow''" using assms rust_kernel_Inr by blast
  then have "verdict (rust_decision command payload) = ''allow''"
    using wf_verdict [OF wf_rust_decision] by (simp add: decides_def)
  then show "dget d ''decision'' = PStr ''allow''" by (simp add: d normalized_fields verdict_normalized)
  show "dget d ''next_action'' = PStr (text_of (dget (rust_decision command payload) ''next_action''))"
    by (simp add: d normalized_fields)
qed

subsection \<open>What the kernel reads\<close>

lemma rust_space_is_space: "rust_space c \<Longrightarrow> is_space c"
  by (auto simp: rust_space_def is_space_def Let_def)

lemma rust_trim_strip [simp]: "rust_trim (strip s) = strip s"
proof (cases "strip s = []")
  case False
  have "\<not> rust_space (hd (strip s))" "\<not> rust_space (last (strip s))"
    using strip_hd [OF False] strip_last [OF False] rust_space_is_space by blast+
  with False show ?thesis by (simp add: rust_trim_def dropWhile_hd hd_rev)
qed (simp add: rust_trim_def)

lemma string_field_stripped: "dget d k = PStr (strip s) \<Longrightarrow> string_field d k = snone (strip s)"
  by (simp add: string_field_def snone_def)

lemma or_else_same [simp]: "or_else x x = x"
  by (simp add: or_else_def split: option.split)

lemma snone_Some [simp]: "snone s = Some t \<longleftrightarrow> s = t \<and> t \<noteq> []" and snone_None [simp]: "snone s = None \<longleftrightarrow> s = []"
  by (auto simp: snone_def)

lemma u64_nonneg: "0 \<le> i \<Longrightarrow> i < 2 ^ 64 \<Longrightarrow> dget d k = PInt i \<Longrightarrow> u64_field d k e = i"
  by (simp add: u64_field_def as_u64_def)

lemma machine_lease_payload_fields:
  "dget (machine_lease_payload a) ''operation'' = PStr (la_operation a)"
  "dget (machine_lease_payload a) ''holder_id'' = PStr (strip (la_holder_id a))"
  "dget (machine_lease_payload a) ''requested_holder_id'' = PStr (strip (la_holder_id a))"
  "dget (machine_lease_payload a) ''current_holder_id'' = PStr (strip (la_current_holder_id a))"
  "dget (machine_lease_payload a) ''lease_id'' = PStr (strip (la_lease_id a))"
  "dget (machine_lease_payload a) ''current_lease_id'' = PStr (strip (la_current_lease_id a))"
  "dget (machine_lease_payload a) ''existing_lease_id'' = PNone"
  "dget (machine_lease_payload a) ''active_lease_count'' = PInt (max 0 (la_active_lease_count a))"
  "dget (machine_lease_payload a) ''max_concurrent_leases'' = PInt (max 1 (la_max_concurrent_leases a))"
  "dget (machine_lease_payload a) ''stale'' = PBool (la_stale a)"
  "dget (machine_lease_payload a) ''expired'' = PBool (la_stale a)"
  "dget (machine_lease_payload a) ''force'' = PBool (la_force a)"
  by (simp_all add: machine_lease_payload_def dget_Cons)

lemma or_else_None [simp]: "or_else x None = x"
  by (simp add: or_else_def split: option.split)

definition counts_fit :: "lease_args \<Rightarrow> bool" where
  "counts_fit a = (la_active_lease_count a < 2 ^ 64 \<and> la_max_concurrent_leases a < 2 ^ 64)"

lemma read_machine_lease_payload:
  assumes "counts_fit a"
  shows "in_holder (read_lease_input (machine_lease_payload a)) = snone (strip (la_holder_id a))"
    and "in_current_holder (read_lease_input (machine_lease_payload a)) = snone (strip (la_current_holder_id a))"
    and "in_lease (read_lease_input (machine_lease_payload a)) = snone (strip (la_lease_id a))"
    and "in_current_lease (read_lease_input (machine_lease_payload a)) = snone (strip (la_current_lease_id a))"
    and "in_active (read_lease_input (machine_lease_payload a)) = max 0 (la_active_lease_count a)"
    and "in_max (read_lease_input (machine_lease_payload a)) = max 1 (la_max_concurrent_leases a)"
    and "in_stale (read_lease_input (machine_lease_payload a)) = la_stale a"
    and "in_force (read_lease_input (machine_lease_payload a)) = la_force a"
proof -
  let ?p = "machine_lease_payload a"
  have none: "string_field ?p ''existing_lease_id'' = None"
    by (simp add: string_field_def machine_lease_payload_fields)
  note f = string_field_stripped [OF machine_lease_payload_fields(2)] string_field_stripped [OF machine_lease_payload_fields(3)]
    string_field_stripped [OF machine_lease_payload_fields(4)] string_field_stripped [OF machine_lease_payload_fields(5)]
    string_field_stripped [OF machine_lease_payload_fields(6)]
  show "in_holder (read_lease_input ?p) = snone (strip (la_holder_id a))"
    "in_current_holder (read_lease_input ?p) = snone (strip (la_current_holder_id a))"
    "in_lease (read_lease_input ?p) = snone (strip (la_lease_id a))"
    "in_current_lease (read_lease_input ?p) = snone (strip (la_current_lease_id a))"
    by (simp_all add: read_lease_input_def f none)
  show "in_stale (read_lease_input ?p) = la_stale a" "in_force (read_lease_input ?p) = la_force a"
    by (simp_all add: read_lease_input_def boolish_def machine_lease_payload_fields)
  have "u64_field ?p ''active_lease_count'' 0 = max 0 (la_active_lease_count a)"
    by (rule u64_nonneg [OF _ _ machine_lease_payload_fields(8)]) (use assms in \<open>simp_all add: counts_fit_def\<close>)
  moreover have "u64_field ?p ''max_concurrent_leases'' 1 = max 1 (la_max_concurrent_leases a)"
    by (rule u64_nonneg [OF _ _ machine_lease_payload_fields(9)]) (use assms in \<open>simp_all add: counts_fit_def\<close>)
  ultimately show "in_active (read_lease_input ?p) = max 0 (la_active_lease_count a)"
    "in_max (read_lease_input ?p) = max 1 (la_max_concurrent_leases a)"
    by (simp_all add: read_lease_input_def)
qed

lemma lease_operations:
  "lease_operation ''acquire'' = ''acquire''" "lease_operation ''release'' = ''release''" "lease_operation ''heartbeat'' = ''heartbeat''"
  "rust_trim ''acquire'' = ''acquire''" "rust_trim ''release'' = ''release''" "rust_trim ''heartbeat'' = ''heartbeat''"
  "rust_trim ''claim'' = ''claim''" "queue_operation ''claim'' = ''claim''" "queue_operation ''release'' = ''release''"
  "strip ''acquire'' = ''acquire''" "strip ''release'' = ''release''" "strip ''heartbeat'' = ''heartbeat''" "strip ''claim'' = ''claim''"
  "lower ''allow'' = ''allow''"
  by code_simp+

lemma operation_field:
  "dget d ''operation'' = PStr s \<Longrightarrow> rust_trim s = s \<Longrightarrow> s \<noteq> [] \<Longrightarrow>
    opt_string (or_else (string_field d ''operation'') e) [] = s"
  by (simp add: string_field_def opt_string_def or_else_def)

lemma lease_command_step:
  "la_operation a = ''acquire'' \<Longrightarrow>
    machine_lease_decision_command (machine_lease_payload a) = acquire_decision (read_lease_input (machine_lease_payload a))"
  "la_operation a = ''release'' \<Longrightarrow>
    machine_lease_decision_command (machine_lease_payload a) = lease_release_decision (read_lease_input (machine_lease_payload a))"
  "la_operation a = ''heartbeat'' \<Longrightarrow>
    machine_lease_decision_command (machine_lease_payload a) = heartbeat_decision (read_lease_input (machine_lease_payload a))"
  by (simp_all add: machine_lease_decision_command_def Let_def operation_field machine_lease_payload_fields lease_operations)

definition allow_leads_to :: "string \<Rightarrow> pydict \<Rightarrow> bool" where
  "allow_leads_to next_action d = (decides d ''allow'' \<longrightarrow> dget d ''next_action'' = PStr next_action)"

lemma leads_If: "allow_leads_to n a \<Longrightarrow> allow_leads_to n b \<Longrightarrow> allow_leads_to n (if c then a else b)"
  by simp

lemma leads_block: "allow_leads_to n (block r)"
  by (simp add: allow_leads_to_def)

lemma leads_lease_response: "lease_next_action op ''allow'' = n \<Longrightarrow> allow_leads_to n (lease_response v r op h c l ttl f)"
  by (auto simp: allow_leads_to_def lease_response_def dget_Cons decides_def)

lemma leads_queue_response: "queue_next_action op nx rt = n \<Longrightarrow> allow_leads_to n (queue_response x v r op h c nx rt dl tm)"
  by (auto simp: allow_leads_to_def queue_response_def dget_Cons decides_def)

lemmas leads_rules = leads_If leads_block leads_lease_response leads_queue_response

lemma allowed_next_action:
  "allow_leads_to ''persist_machine_lease_transition'' (acquire_decision x)"
  "allow_leads_to ''release_machine_lease_transition'' (lease_release_decision x)"
  "allow_leads_to ''touch_machine_lease'' (heartbeat_decision x)"
  "allow_leads_to ''claim_queue_item'' (claim_decision y)"
  "allow_leads_to ''release_queue_item'' (queue_release_decision y)"
  unfolding acquire_decision_def lease_release_decision_def heartbeat_decision_def claim_decision_def queue_release_decision_def
  by (cases "in_holder x"; cases "qi_requester y"; simp only: option.case;
      intro leads_rules; simp add: lease_next_action_def queue_next_action_def)+

lemma next_action_texts:
  "text_of (PStr ''persist_machine_lease_transition'') = ''persist_machine_lease_transition''"
  "text_of (PStr ''release_machine_lease_transition'') = ''release_machine_lease_transition''"
  "text_of (PStr ''touch_machine_lease'') = ''touch_machine_lease''"
  "text_of (PStr ''claim_queue_item'') = ''claim_queue_item''" "text_of (PStr ''release_queue_item'') = ''release_queue_item''"
  "token_of (PStr ''allow'') = ''allow''"
  by code_simp+

lemma lease_gate_iff:
  assumes "la_operation a \<in> {''acquire'', ''release'', ''heartbeat''}"
  shows "(\<exists>d. enforce_machine_lease_decision (rust_kernel env) a allow = Inr d) \<longleftrightarrow>
    decides (machine_lease_decision_command (machine_lease_payload a)) ''allow''"
proof (cases "rust_kernel env ''machine-lease-decision'' (machine_lease_payload a)")
  case (Inl e)
  then have "\<not> decides (machine_lease_decision_command (machine_lease_payload a)) ''allow''"
    using rust_kernel_Inr [of env "''machine-lease-decision''" "machine_lease_payload a"] by (simp add: rust_decision_def)
  then show ?thesis using Inl by (simp add: enforce_machine_lease_decision_def)
next
  case (Inr d)
  then have "\<exists>d. rust_kernel env ''machine-lease-decision'' (machine_lease_payload a) = Inr d" by blast
  then have allowed: "decides (machine_lease_decision_command (machine_lease_payload a)) ''allow''"
    by (simp add: rust_kernel_Inr rust_decision_def)
  have "map_of lease_expected_next_action (strip (la_operation a)) = Some (text_of (dget d ''next_action''))"
    using assms allowed allowed_next_action(1-3) [of "read_lease_input (machine_lease_payload a)"]
    by (auto simp: rust_kernel_fields(2) [OF Inr] rust_decision_def lease_command_step allow_leads_to_def next_action_texts
        lease_operations lease_expected_next_action_def)
  with Inr allowed show ?thesis by (simp add: enforce_machine_lease_decision_def)
qed

text \<open>A lease gate grants exactly what the kernel's lease rules allow.\<close>

lemma acquire_gate:
  assumes "counts_fit a" and "la_operation a = ''acquire''"
  shows "(\<exists>d. enforce_machine_lease_decision (rust_kernel env) a allow = Inr d) \<longleftrightarrow>
    strip (la_holder_id a) \<noteq> [] \<and>
    ((strip (la_current_holder_id a) = strip (la_holder_id a) \<and> (strip (la_current_lease_id a) \<noteq> [] \<or> strip (la_lease_id a) \<noteq> [])) \<or>
     max 0 (la_active_lease_count a) < max 1 (la_max_concurrent_leases a) \<or> (la_stale a \<and> \<not> la_force a))"
  using assms
  by (simp add: lease_gate_iff lease_command_step acquire_allowed read_machine_lease_payload) (auto simp: or_else_def snone_def)

lemma release_gate:
  assumes "counts_fit a" and "la_operation a = ''release''"
  shows "(\<exists>d. enforce_machine_lease_decision (rust_kernel env) a allow = Inr d) \<longleftrightarrow>
    strip (la_holder_id a) \<noteq> [] \<and> strip (la_current_holder_id a) = strip (la_holder_id a) \<and> strip (la_lease_id a) \<noteq> [] \<and>
    (strip (la_current_lease_id a) = [] \<or> strip (la_current_lease_id a) = strip (la_lease_id a))"
  using assms
  by (simp add: lease_gate_iff lease_command_step lease_release_allowed read_machine_lease_payload) (auto simp: snone_def)

lemma heartbeat_gate:
  assumes "counts_fit a" and "la_operation a = ''heartbeat''" and "\<not> la_stale a"
    and "strip (la_holder_id a) \<noteq> []" and "la_current_holder_id a = la_holder_id a"
    and "strip (la_lease_id a) \<noteq> []" and "la_current_lease_id a = la_lease_id a"
  shows "\<exists>d. enforce_machine_lease_decision (rust_kernel env) a allow = Inr d"
  using assms
  by (simp add: lease_gate_iff lease_command_step heartbeat_decision_def read_machine_lease_payload snone_def)

subsection \<open>Queue transitions\<close>

lemma queue_payload_fields:
  "dget (queue_transition_payload a) ''operation'' = PStr (qa_operation a)"
  "dget (queue_transition_payload a) ''item_id'' = PStr (strip (qa_run_id a))"
  "dget (queue_transition_payload a) ''run_id'' = PStr (strip (qa_run_id a))"
  "dget (queue_transition_payload a) ''queue_id'' = PNone"
  "dget (queue_transition_payload a) ''requester_id'' = PStr (strip (qa_requester_id a))"
  "dget (queue_transition_payload a) ''worker_id'' = PStr (strip (qa_requester_id a))"
  "dget (queue_transition_payload a) ''holder_id'' = PNone"
  "dget (queue_transition_payload a) ''lease_holder_id'' = PStr (strip (qa_lease_holder_id a))"
  "dget (queue_transition_payload a) ''current_holder_id'' = PStr (strip (qa_lease_holder_id a))"
  "dget (queue_transition_payload a) ''status'' = PStr (strip (sor (qa_status a) ''unknown''))"
  "dget (queue_transition_payload a) ''current_status'' = PStr (strip (sor (qa_status a) ''unknown''))"
  "dget (queue_transition_payload a) ''stale'' = PBool (qa_stale a)"
  "dget (queue_transition_payload a) ''lease_stale'' = PBool (qa_stale a)"
  "dget (queue_transition_payload a) ''force'' = PBool (qa_force a)"
  by (simp_all add: queue_transition_payload_def dget_Cons)

lemma read_queue_payload:
  "qi_item (read_queue_input (queue_transition_payload a)) = snone (strip (qa_run_id a))"
  "qi_requester (read_queue_input (queue_transition_payload a)) = snone (strip (qa_requester_id a))"
  "qi_holder (read_queue_input (queue_transition_payload a)) = snone (strip (qa_lease_holder_id a))"
  "qi_status (read_queue_input (queue_transition_payload a)) =
     queue_status (sor (strip (sor (qa_status a) ''unknown'')) ''unknown'')"
  "qi_stale (read_queue_input (queue_transition_payload a)) = qa_stale a"
  "qi_force (read_queue_input (queue_transition_payload a)) = qa_force a"
proof -
  let ?p = "queue_transition_payload a"
  note f = string_field_stripped [OF queue_payload_fields(2)] string_field_stripped [OF queue_payload_fields(3)]
    string_field_stripped [OF queue_payload_fields(5)] string_field_stripped [OF queue_payload_fields(6)]
    string_field_stripped [OF queue_payload_fields(8)] string_field_stripped [OF queue_payload_fields(9)]
    string_field_stripped [OF queue_payload_fields(10)] string_field_stripped [OF queue_payload_fields(11)]
  have none: "string_field ?p ''queue_id'' = None" "string_field ?p ''holder_id'' = None"
    by (simp_all add: string_field_def queue_payload_fields)
  show "qi_item (read_queue_input ?p) = snone (strip (qa_run_id a))"
    "qi_requester (read_queue_input ?p) = snone (strip (qa_requester_id a))"
    "qi_holder (read_queue_input ?p) = snone (strip (qa_lease_holder_id a))"
    by (simp_all add: read_queue_input_def f none)
  show "qi_status (read_queue_input ?p) = queue_status (sor (strip (sor (qa_status a) ''unknown'')) ''unknown'')"
    by (simp add: read_queue_input_def f opt_string_def snone_def sor_def)
  show "qi_stale (read_queue_input ?p) = qa_stale a" "qi_force (read_queue_input ?p) = qa_force a"
    by (simp_all add: read_queue_input_def boolish_def queue_payload_fields)
qed

lemma queue_command_step:
  "qa_operation a = ''claim'' \<Longrightarrow>
    queue_transition_decision_command (queue_transition_payload a) = claim_decision (read_queue_input (queue_transition_payload a))"
  "qa_operation a = ''release'' \<Longrightarrow>
    queue_transition_decision_command (queue_transition_payload a) = queue_release_decision (read_queue_input (queue_transition_payload a))"
  by (simp_all add: queue_transition_decision_command_def Let_def operation_field queue_payload_fields lease_operations)

lemma queue_gate_iff:
  assumes "qa_operation a \<in> {''claim'', ''release''}"
  shows "(\<exists>d. enforce_queue_transition_decision (rust_kernel env) a = Inr d) \<longleftrightarrow>
    decides (queue_transition_decision_command (queue_transition_payload a)) ''allow''"
proof (cases "rust_kernel env ''queue-transition-decision'' (queue_transition_payload a)")
  case (Inl e)
  then have "\<not> decides (queue_transition_decision_command (queue_transition_payload a)) ''allow''"
    using rust_kernel_Inr [of env "''queue-transition-decision''" "queue_transition_payload a"] by (simp add: rust_decision_def)
  then show ?thesis using Inl by (simp add: enforce_queue_transition_decision_def)
next
  case (Inr d)
  then have "\<exists>d. rust_kernel env ''queue-transition-decision'' (queue_transition_payload a) = Inr d" by blast
  then have allowed: "decides (queue_transition_decision_command (queue_transition_payload a)) ''allow''"
    by (simp add: rust_kernel_Inr rust_decision_def)
  have "map_of queue_expected_next_action (strip (qa_operation a)) = Some (text_of (dget d ''next_action''))"
    and "strip (qa_operation a) \<noteq> ''fail''"
    using assms allowed allowed_next_action(4-5) [of "read_queue_input (queue_transition_payload a)"]
    by (auto simp: rust_kernel_fields(2) [OF Inr] rust_decision_def queue_command_step allow_leads_to_def next_action_texts
        lease_operations queue_expected_next_action_def)
  with Inr allowed show ?thesis by (simp add: enforce_queue_transition_decision_def)
qed

lemma queue_claim_gate:
  assumes "qa_operation a = ''claim''"
  shows "(\<exists>d. enforce_queue_transition_decision (rust_kernel env) a = Inr d) \<longleftrightarrow>
    (let status = queue_status (sor (strip (sor (qa_status a) ''unknown'')) ''unknown'') in
     strip (qa_run_id a) \<noteq> [] \<and> strip (qa_requester_id a) \<noteq> [] \<and> \<not> terminal_status status \<and>
     (busy_status status \<longrightarrow> strip (qa_lease_holder_id a) = strip (qa_requester_id a) \<or> qa_stale a \<or> qa_force a) \<and>
     \<not> (qa_force a \<and> strip (qa_lease_holder_id a) \<noteq> []))"
  using assms
  by (cases "strip (qa_requester_id a) = []")
    (auto simp: queue_gate_iff queue_command_step claim_decision_def read_queue_payload snone_def Let_def split: if_splits)

lemma queue_release_gate:
  assumes "qa_operation a = ''release''"
  shows "(\<exists>d. enforce_queue_transition_decision (rust_kernel env) a = Inr d) \<longleftrightarrow>
    strip (qa_run_id a) \<noteq> [] \<and> busy_status (queue_status (sor (strip (sor (qa_status a) ''unknown'')) ''unknown'')) \<and>
    (strip (qa_requester_id a) = [] \<or> strip (qa_lease_holder_id a) = [] \<or>
     strip (qa_requester_id a) = strip (qa_lease_holder_id a) \<or> qa_stale a)"
  using assms
  by (simp add: queue_gate_iff queue_command_step queue_release_decision_def read_queue_payload snone_def)

subsection \<open>The contract of the gates\<close>

text \<open>What the lease service relies on: a granted acquire had spare capacity, a granted release came
  from the holder of the lease, a claimed queue item had no other holder; and the holder's own
  heartbeats and releases are granted.\<close>

locale machine_gate =
  fixes kern :: kernel
  assumes acquire_law:
      "\<lbrakk>enforce_machine_lease_decision kern a allow = Inr d; la_operation a = ''acquire''; counts_fit a;
        strip (la_current_holder_id a) = []; \<not> la_stale a\<rbrakk> \<Longrightarrow>
        max 0 (la_active_lease_count a) < max 1 (la_max_concurrent_leases a)"
    and release_law:
      "\<lbrakk>enforce_machine_lease_decision kern a allow = Inr d; la_operation a = ''release''; counts_fit a\<rbrakk> \<Longrightarrow>
        strip (la_holder_id a) = strip (la_current_holder_id a) \<and>
        (strip (la_current_lease_id a) = [] \<or> strip (la_lease_id a) = strip (la_current_lease_id a))"
    and release_granted:
      "\<lbrakk>la_operation a = ''release''; counts_fit a; strip (la_holder_id a) \<noteq> []; strip (la_current_holder_id a) = strip (la_holder_id a);
        strip (la_lease_id a) \<noteq> []; strip (la_current_lease_id a) = strip (la_lease_id a)\<rbrakk> \<Longrightarrow>
        \<exists>d. enforce_machine_lease_decision kern a allow = Inr d \<and> token_of (dget d ''decision'') = ''allow''"
    and heartbeat_granted:
      "\<lbrakk>la_operation a = ''heartbeat''; counts_fit a; \<not> la_stale a; strip (la_holder_id a) \<noteq> []; la_current_holder_id a = la_holder_id a;
        strip (la_lease_id a) \<noteq> []; la_current_lease_id a = la_lease_id a\<rbrakk> \<Longrightarrow>
        \<exists>d. enforce_machine_lease_decision kern a allow = Inr d"
    and queue_release_granted:
      "\<lbrakk>qa_operation q = ''release''; strip (qa_run_id q) \<noteq> []; qa_status q = ''claimed'';
        strip (qa_requester_id q) = strip (qa_lease_holder_id q)\<rbrakk> \<Longrightarrow>
        \<exists>d. enforce_queue_transition_decision kern q = Inr d"
begin

lemma touch_outcome:
  assumes "py_int (por (dget record ''lease_seconds'') (PInt 900)) \<noteq> None"
  shows "touch_machine_session kern touched_at record =
    (dset ''trust_state'' (PStr ''verified'') (dset ''session_last_authenticated_at'' (PStr touched_at) record), None)"
proof -
  have nonblank: "strip (text_default v d) \<noteq> []" if "strip d = d" "d \<noteq> []" for v d
    using that by (auto simp: text_default_def sor_def)
  have rs: "strip ''runtime-session'' = ''runtime-session''" by code_simp
  obtain seconds where sec: "py_int (por (dget record ''lease_seconds'') (PInt 900)) = Some seconds" using assms by blast
  define h where "h = first_text record [''machine_id'', ''runtime_id'', ''worker_id'', ''instance_id'', ''session_scope_key''] ''runtime-session''"
  define l where "l = first_text record [''lease_id'', ''machine_lease_id'', ''session_scope_key'', ''session_token_hash''] h"
  have h: "strip h = h" "h \<noteq> []" using rs by (auto simp: h_def first_text_def text_default_def sor_def)
  have l: "strip l \<noteq> []" using nonblank [OF h] by (simp add: l_def first_text_def)
  obtain d where "enforce_machine_lease_decision kern
      \<lparr>la_operation = ''heartbeat'', la_holder_id = h, la_current_holder_id = h, la_lease_id = l, la_current_lease_id = l,
       la_active_lease_count = 0, la_max_concurrent_leases = 1, la_lease_ttl_seconds = seconds, la_stale = False, la_force = False\<rparr> False = Inr d"
    using heartbeat_granted [of "\<lparr>la_operation = ''heartbeat'', la_holder_id = h, la_current_holder_id = h, la_lease_id = l, la_current_lease_id = l,
       la_active_lease_count = 0, la_max_concurrent_leases = 1, la_lease_ttl_seconds = seconds, la_stale = False, la_force = False\<rparr>" False]
      h l by (auto simp: counts_fit_def)
  then show ?thesis by (simp add: touch_machine_session_def Let_def sec flip: h_def l_def)
qed

end

lemma release_decision_allows:
  assumes "enforce_machine_lease_decision (rust_kernel env) a allow = Inr d"
  shows "token_of (dget d ''decision'') = ''allow''"
  using assms rust_kernel_fields(1) [of env "''machine-lease-decision''" "machine_lease_payload a"]
  by (auto simp: enforce_machine_lease_decision_def Let_def next_action_texts split: sum.splits if_splits)

interpretation rust: machine_gate "rust_kernel env"
proof unfold_locales
  fix a :: lease_args and allow d
  assume "enforce_machine_lease_decision (rust_kernel env) a allow = Inr d" "la_operation a = ''acquire''" "counts_fit a"
    "strip (la_current_holder_id a) = []" "\<not> la_stale a"
  then show "max 0 (la_active_lease_count a) < max 1 (la_max_concurrent_leases a)"
    using acquire_gate [of a env allow] by auto
next
  fix a :: lease_args and allow d
  assume "enforce_machine_lease_decision (rust_kernel env) a allow = Inr d" "la_operation a = ''release''" "counts_fit a"
  then show "strip (la_holder_id a) = strip (la_current_holder_id a) \<and>
      (strip (la_current_lease_id a) = [] \<or> strip (la_lease_id a) = strip (la_current_lease_id a))"
    using release_gate [of a env allow] by auto
next
  fix a :: lease_args and allow
  assume "la_operation a = ''release''" "counts_fit a" "strip (la_holder_id a) \<noteq> []"
    "strip (la_current_holder_id a) = strip (la_holder_id a)" "strip (la_lease_id a) \<noteq> []"
    "strip (la_current_lease_id a) = strip (la_lease_id a)"
  then show "\<exists>d. enforce_machine_lease_decision (rust_kernel env) a allow = Inr d \<and> token_of (dget d ''decision'') = ''allow''"
    using release_gate [of a env allow] release_decision_allows by fastforce
next
  fix a :: lease_args and allow
  assume "la_operation a = ''heartbeat''" "counts_fit a" "\<not> la_stale a" "strip (la_holder_id a) \<noteq> []"
    "la_current_holder_id a = la_holder_id a" "strip (la_lease_id a) \<noteq> []" "la_current_lease_id a = la_lease_id a"
  then show "\<exists>d. enforce_machine_lease_decision (rust_kernel env) a allow = Inr d"
    by (intro heartbeat_gate)
next
  fix a :: queue_args
  assume "qa_operation a = ''release''" "strip (qa_run_id a) \<noteq> []" "qa_status a = ''claimed''"
    "strip (qa_requester_id a) = strip (qa_lease_holder_id a)"
  moreover have "busy_status (queue_status (sor (strip (sor ''claimed'' ''unknown'')) ''unknown''))" by code_simp
  ultimately show "\<exists>d. enforce_queue_transition_decision (rust_kernel env) a = Inr d"
    by (simp add: queue_release_gate)
qed

section \<open>Scope keys\<close>

lemma text_default_again: "strip d = d \<Longrightarrow> d \<noteq> [] \<Longrightarrow> text_default (PStr (text_default v d)) d = text_default v d"
  by (auto simp: text_default_def sor_def por_def)

lemma token_default_again:
  "strip d = d \<Longrightarrow> lower d = d \<Longrightarrow> d \<noteq> [] \<Longrightarrow> token_default (PStr (token_default v d)) d = token_default v d"
  by (auto simp: token_default_def sor_def por_def strip_lower)

lemma enrollment_again:
  "normalize_machine_enrollment_scope (PStr (normalize_machine_enrollment_scope v ''workspace'')) ''workspace'' =
   normalize_machine_enrollment_scope v ''workspace''"
proof -
  have "token_of (PStr ''workspace'') = ''workspace''" by code_simp
  then show ?thesis by (simp add: normalize_machine_enrollment_scope_def)
qed

lemma scope_defaults:
  "strip ''default'' = ''default''" "strip ''local'' = ''local''" "strip ''generic'' = ''generic''" "lower ''generic'' = ''generic''"
  by code_simp+

lemma scope_parts_again [simp]: "scope_key_parts (runtime_session_scope record) = scope_key_parts record"
  by (simp add: scope_key_parts_def runtime_session_scope_def dget_Cons text_default_again token_default_again enrollment_again scope_defaults
      text_of_PStr)

lemma scope_key_again [simp]: "runtime_session_scope_key (runtime_session_scope record) = runtime_session_scope_key record"
  by (simp add: runtime_session_scope_key_def)

lemma same_scope_iff: "runtime_session_scope r = runtime_session_scope r' \<longleftrightarrow> scope_key_parts r = scope_key_parts r'"
  by (simp add: runtime_session_scope_def scope_key_parts_def)

lemma first_split: "s @ c # r = s' @ c # r' \<Longrightarrow> c \<notin> set s \<Longrightarrow> c \<notin> set s' \<Longrightarrow> s = s' \<and> r = r'"
proof (induction s arbitrary: s')
  case Nil
  then show ?case by (cases s') auto
next
  case (Cons a s)
  then show ?case by (cases s') auto
qed

lemma join_inj:
  "join [c] xs = join [c] ys \<Longrightarrow> length xs = length ys \<Longrightarrow> \<forall>x \<in> set xs. c \<notin> set x \<Longrightarrow> \<forall>y \<in> set ys. c \<notin> set y \<Longrightarrow> xs = ys"
proof (induction "[c]" xs arbitrary: ys rule: join.induct)
  case 1
  then show ?case by simp
next
  case (2 s)
  then show ?case by (cases ys) auto
next
  case (3 s t ts)
  then obtain s' t' ts' where ys: "ys = s' # t' # ts'" by (metis length_Suc_conv list.size(4))
  from "3.prems" have "s @ c # join [c] (t # ts) = s' @ c # join [c] (t' # ts')" by (simp add: ys)
  from first_split [OF this] have "s = s'" "join [c] (t # ts) = join [c] (t' # ts')" using "3.prems" by (simp_all add: ys)
  with "3.hyps" [of "t' # ts'"] "3.prems" show ?case by (simp add: ys)
qed

definition bar_free :: "pydict \<Rightarrow> bool" where
  "bar_free record = list_all (\<lambda>p. CHR ''|'' \<notin> set p) (scope_key_parts record)"

lemma scope_key_eq_iff:
  assumes "bar_free r" and "bar_free r'"
  shows "runtime_session_scope_key r = runtime_session_scope_key r' \<longleftrightarrow> runtime_session_scope r = runtime_session_scope r'"
proof -
  have "length (scope_key_parts r) = length (scope_key_parts r')" by (simp add: scope_key_parts_def)
  with assms show ?thesis
    unfolding same_scope_iff runtime_session_scope_key_def bar_free_def list_all_iff
    using join_inj [of "CHR ''|''" "scope_key_parts r" "scope_key_parts r'"] by auto
qed

lemma scope_key_text: "strip (runtime_session_scope_key r) = runtime_session_scope_key r \<and> runtime_session_scope_key r \<noteq> []"
proof -
  let ?t = "text_default (dget r ''tenant_id'') ''default''"
  let ?e = "normalize_machine_enrollment_scope (dget r ''machine_enrollment_scope'') ''workspace''"
  have t: "strip ?t = ?t" "?t \<noteq> []" using scope_defaults by (auto simp: text_default_def sor_def)
  have e: "?e \<in> {''workspace'', ''tenant'', ''global''}" by (simp add: normalize_machine_enrollment_scope_def)
  have sp: "\<not> is_space (CHR ''e'')" "\<not> is_space (CHR ''t'')" "\<not> is_space (CHR ''l'')" by code_simp+
  obtain mid where key: "runtime_session_scope_key r = ?t @ mid @ ''|'' @ ?e"
    by (simp add: runtime_session_scope_key_def scope_key_parts_def)
  have "\<not> is_space (hd ?t)" using strip_hd [of ?t] t by simp
  then have "\<not> is_space (hd (runtime_session_scope_key r))" using t(2) by (simp add: key)
  moreover have "last (runtime_session_scope_key r) = last ?e" "?e \<noteq> []" using e by (auto simp: key)
  then have "\<not> is_space (last (runtime_session_scope_key r))" using e sp by auto
  ultimately show ?thesis using t(2) strip_id [of "runtime_session_scope_key r"] by (simp add: key)
qed

lemma issued_fields:
  "dget (issue_machine_session hash_token token t record) ''session_token_hash'' = PStr (hash_token token)"
  "dget (issue_machine_session hash_token token t record) ''session_scope_key'' = PStr (runtime_session_scope_key record)"
proof -
  show "dget (issue_machine_session hash_token token t record) ''session_token_hash'' = PStr (hash_token token)"
    by (simp add: issue_machine_session_def Let_def dget_dset)
  have "scope_key_parts (dset ''session_last_authenticated_at'' (PStr t) (dset ''session_issued_at'' (PStr t)
      (dset ''session_token_hash'' (PStr (hash_token token)) record))) = scope_key_parts record"
    by (simp add: scope_key_parts_def dget_dset)
  then show "dget (issue_machine_session hash_token token t record) ''session_scope_key'' = PStr (runtime_session_scope_key record)"
    by (simp add: issue_machine_session_def Let_def dget_dset runtime_session_scope_key_def)
qed

section \<open>Properties\<close>


definition demo_hash :: "string \<Rightarrow> string" where
  "demo_hash s = CHR ''h'' # s"

definition demo_session :: pydict where
  "demo_session = issue_machine_session demo_hash ''tok'' ''t0'' [(''tenant_id'', PStr ''acme'')]"


text \<open>Two different scopes with one key: tenant \<^verbatim>\<open>a|b\<close> with workspace \<^verbatim>\<open>c\<close> and tenant \<^verbatim>\<open>a\<close> with workspace
  \<^verbatim>\<open>b|c\<close>. A session issued for the first is accepted after the record moves to the second.\<close>

definition moved_session :: pydict where
  "moved_session = dset ''tenant_id'' (PStr ''a'') (dset ''workspace_id'' (PStr ''b|c'')
     (issue_machine_session demo_hash ''tok'' ''t0'' [(''tenant_id'', PStr ''a|b''), (''workspace_id'', PStr ''c'')]))"

theorem session_scope_keys_collide:
  "runtime_session_scope moved_session \<noteq> runtime_session_scope [(''tenant_id'', PStr ''a|b''), (''workspace_id'', PStr ''c'')] \<and>
   (\<exists>r. snd (assert_machine_session demo_hash (\<lambda>record. (record, None)) [(''m'', PDict moved_session)] ''m'' ''tok'' [] True) = Inr r)"
proof
  show "runtime_session_scope moved_session \<noteq> runtime_session_scope [(''tenant_id'', PStr ''a|b''), (''workspace_id'', PStr ''c'')]"
    by code_simp
  have "isl (snd (assert_machine_session demo_hash (\<lambda>record. (record, None)) [(''m'', PDict moved_session)] ''m'' ''tok'' [] True)) = False"
    by code_simp
  then show "\<exists>r. snd (assert_machine_session demo_hash (\<lambda>record. (record, None)) [(''m'', PDict moved_session)] ''m'' ''tok'' [] True) = Inr r"
    by (metis isl_def old.sum.exhaust)
qed

end
