(* ===== verification/Machine_Lease.thy ===== *)
theory Machine_Lease
  imports Machine_Session
begin

text \<open>
  The lease operations of \<^verbatim>\<open>server_modules/machine_lease_service.py\<close>: claiming a pending run for a
  worker (classification of the pending runs, weighted choice, the two kernel gates, the claim
  record), binding a claim to its run, releasing and reconciling claims.

  The state the operations share is \<open>lease_world\<close>: the pending run ids, the claimed runs, the worker
  registry and the runs by id, all Python objects the callers pass in and the code changes in place.
  Each operation is one transition under the queue lock and returns the new world, the calls it made
  on its collaborators in order (\<open>effect\<close>: persisting, repository writes, presence updates) and its
  result or exception. A Python datetime is a rational number of seconds.
\<close>

section \<open>State\<close>

record lease_world =
  pending_run_ids :: "string list"
  claimed_runs :: pydict
  worker_registry :: pydict
  runs_by_id :: pydict

datatype effect =
    PersistState
  | ClaimWrite string string "string option" int string
  | ReleaseWrite string "string option"
  | MarkSeen string "string option" string "string option"
  | SyncSnapshot
  | DeadLetter string string string string string string int pydict
  | EmitLog string string string string pydict
  | CloseLog string
  | SaveSnapshot "string list" pydict pydict

text \<open>The collaborators of a claim: \<^verbatim>\<open>ordered_runtime_preferences_for_run_fn\<close>,
  \<^verbatim>\<open>required_capabilities_for_run_fn\<close>, \<^verbatim>\<open>normalize_capability_ids_fn\<close>, the optional timestamp parser
  and clock, and what \<^verbatim>\<open>now_iso_fn\<close>, \<^verbatim>\<open>lease_id_factory\<close> and \<^verbatim>\<open>uuid.uuid4().hex\<close> return.\<close>

record claim_env =
  ordered_runtime_preferences_for_run :: "pydict \<Rightarrow> string list"
  required_capabilities_for_run :: "pydict \<Rightarrow> string list"
  normalize_capability_ids :: "pyval \<Rightarrow> string list"
  parse_utc_ts :: "(pyval \<Rightarrow> rat option) option"
  clock_now :: "rat option"
  now_iso_text :: string
  fresh_lease_id :: string
  fresh_uuid :: string

section \<open>Runs and their scopes\<close>

definition run_context :: "pydict \<Rightarrow> pydict" where
  "run_context run = as_dict (dget run ''context'')"

definition metadata_for_run :: "pydict \<Rightarrow> pydict" where
  "metadata_for_run run = as_dict (dget (run_context run) ''metadata'')"

definition run_scope_from_payload :: "pydict \<Rightarrow> run_scope" where
  "run_scope_from_payload run =
     (let context = run_context run; metadata = metadata_for_run run in
      \<lparr>rs_workspace_id = text_default (por (dget run ''workspace_id'')
         (por (dget context ''workspace_id'') (dget metadata ''workspace_id''))) ''default'',
       rs_tenant_id = text_default (por (dget run ''tenant_id'')
         (por (dget context ''tenant_id'') (dget metadata ''tenant_id''))) ''default'',
       rs_specialist_key = text_default (por (dget metadata ''active_agent_install_id'')
         (por (dget metadata ''agent_install_id'') (dget metadata ''agent_role''))) ''workspace-default''\<rparr>)"

type_synonym counts = "(string \<times> int) list"

definition count_of :: "counts \<Rightarrow> string \<Rightarrow> int" where
  "count_of d k = (case map_of d k of None \<Rightarrow> 0 | Some n \<Rightarrow> n)"

definition bump :: "run_scope \<Rightarrow> counts \<times> counts \<Rightarrow> counts \<times> counts" where
  "bump scope c = (dset (rs_workspace_id scope) (count_of (fst c) (rs_workspace_id scope) + 1) (fst c),
     dset (rs_specialist_key scope) (count_of (snd c) (rs_specialist_key scope) + 1) (snd c))"

definition count_claims_by_scope :: "pydict \<Rightarrow> pydict \<Rightarrow> counts \<times> counts" where
  "count_claims_by_scope claimed runs =
     fold (\<lambda>(run_id, claim) c. if is_dict claim \<and> is_dict (dget runs run_id)
        then bump (run_scope_from_payload (as_dict (dget runs run_id))) c else c) claimed ([], [])"

definition claimable_status :: "pydict \<Rightarrow> bool" where
  "claimable_status run = (token_of (dget run ''status'') \<in> set [''queued_local'', ''starting''])"

definition count_pending_by_scope :: "string list \<Rightarrow> pydict \<Rightarrow> counts \<times> counts" where
  "count_pending_by_scope pending runs =
     fold (\<lambda>run_id c. if is_dict (dget runs run_id) \<and> claimable_status (as_dict (dget runs run_id))
        then bump (run_scope_from_payload (as_dict (dget runs run_id))) c else c) pending ([], [])"

section \<open>Workers\<close>

definition to_int :: "pyval \<Rightarrow> lease_error + int" where
  "to_int v = of_option ConversionError (py_int v)"

definition worker_is_online_for_claim :: "claim_env \<Rightarrow> pydict \<Rightarrow> lease_error + bool" where
  "worker_is_online_for_claim env record =
     (let lifecycle_state = token_of (dget record ''lifecycle_state'');
          control_state = token_default (dget record ''control_state'') ''active'';
          status = token_default (dget record ''status'') ''idle''
      in if lifecycle_state \<in> set [''stopped'', ''recovering''] then Inr False
         else if control_state \<in> set [''interrupting'', ''suspended'', ''revoked''] then Inr False
         else if status \<in> set [''offline'', ''stopped'', ''recovering''] then Inr False
         else case (clock_now env, parse_utc_ts env) of
           (Some now, Some parse) \<Rightarrow>
             (case parse (dget record ''last_seen_at'') of
                None \<Rightarrow> Inr (status \<notin> set [''offline'', ''stopped''])
              | Some seen_at \<Rightarrow> rbind (to_int (por (dget record ''lease_seconds'') (PInt 30)))
                  (\<lambda>seconds. Inr (now \<le> seen_at + of_int (max 1 seconds))))
         | _ \<Rightarrow> Inr True)"

fun best_online_preferred_runtime_from_registry :: "claim_env \<Rightarrow> pydict \<Rightarrow> string list \<Rightarrow> lease_error + string option" where
  "best_online_preferred_runtime_from_registry env workers [] = Inr None"
| "best_online_preferred_runtime_from_registry env workers (runtime_id # rest) =
     (let token = strip runtime_id in
      if token = [] then best_online_preferred_runtime_from_registry env workers rest
      else case dget workers token of
        PDict record \<Rightarrow> rbind (worker_is_online_for_claim env record)
          (\<lambda>online. if online then Inr (Some token) else best_online_preferred_runtime_from_registry env workers rest)
      | _ \<Rightarrow> best_online_preferred_runtime_from_registry env workers rest)"

section \<open>Claiming a run\<close>

text \<open>What the scan of the pending list decides for one run: forget it, keep it waiting, or offer it
  with its preference rank, required capabilities, scope and retry count.\<close>

datatype verdict_for_run = Dropped | Deferred | Eligible int "string list" run_scope int

text \<open>The worker's side of a claim, computed once under the lock.\<close>

record claim_view =
  cv_worker_id :: string
  cv_worker_state :: pydict
  cv_capabilities :: "string list"
  cv_filter :: "string list"

definition retry_not_due :: "claim_env \<Rightarrow> pydict \<Rightarrow> bool" where
  "retry_not_due env metadata =
     (truthy (dget metadata ''local_queue_next_retry_at'') \<and>
      (case (clock_now env, parse_utc_ts env) of
         (Some now, Some parse) \<Rightarrow>
           (case parse (dget metadata ''local_queue_next_retry_at'') of None \<Rightarrow> False | Some due_at \<Rightarrow> now < due_at)
       | _ \<Rightarrow> False))"

definition classify_run :: "claim_env \<Rightarrow> lease_world \<Rightarrow> claim_view \<Rightarrow> string \<Rightarrow> lease_error + verdict_for_run" where
  "classify_run env w v run_id =
     (case dget (runs_by_id w) run_id of
        PDict run \<Rightarrow>
          if \<not> claimable_status run then Inr Dropped
          else if retry_not_due env (metadata_for_run run) then Inr Deferred
          else rbind (best_online_preferred_runtime_from_registry env (worker_registry w) (ordered_runtime_preferences_for_run env run))
            (\<lambda>preferred.
              if preferred \<noteq> None \<and> preferred \<noteq> Some (cv_worker_id v) then Inr Deferred
              else
                let required = required_capabilities_for_run env run; scope = run_scope_from_payload run
                in if required \<noteq> [] \<and> \<not> set required \<subseteq> set (cv_capabilities v) then Inr Deferred
                   else if cv_filter v \<noteq> [] \<and> required \<noteq> [] \<and> \<not> set required \<subseteq> set (cv_filter v) then Inr Deferred
                   else if \<not> worker_runtime_scope_allows_run (cv_worker_state v) scope then Inr Deferred
                   else rbind (to_int (por (dget (metadata_for_run run) ''local_queue_retry_count'') (PInt 0)))
                     (\<lambda>retry_count. Inr (Eligible (if preferred = Some (cv_worker_id v) then 0 else 1) required scope (max 0 retry_count))))
      | _ \<Rightarrow> Inr Dropped)"

record candidate =
  cd_run_id :: string
  cd_run :: pydict
  cd_required :: "string list"
  cd_scope :: run_scope
  cd_score :: "int list"

record claim_counts =
  active_counts :: "counts \<times> counts"
  pending_counts :: "counts \<times> counts"

definition score_of :: "claim_counts \<Rightarrow> int \<Rightarrow> run_scope \<Rightarrow> int \<Rightarrow> nat \<Rightarrow> int list" where
  "score_of c preferred_match_rank scope retry_count queue_index =
     [preferred_match_rank,
      count_of (fst (active_counts c)) (rs_workspace_id scope), count_of (snd (active_counts c)) (rs_specialist_key scope),
      count_of (fst (pending_counts c)) (rs_workspace_id scope), count_of (snd (pending_counts c)) (rs_specialist_key scope),
      retry_count, int queue_index]"

text \<open>The scan: the eligible candidates, the ids that stay pending, and whether any run was held back.\<close>

fun scan_pending :: "claim_env \<Rightarrow> lease_world \<Rightarrow> claim_view \<Rightarrow> claim_counts \<Rightarrow> nat \<Rightarrow> string list \<Rightarrow>
    lease_error + (candidate list \<times> string list \<times> bool)" where
  "scan_pending env w v c i [] = Inr ([], [], False)"
| "scan_pending env w v c i (run_id # rest) =
     rbind (classify_run env w v run_id) (\<lambda>verdict.
       rbind (scan_pending env w v c (Suc i) rest) (\<lambda>(eligible, remaining, filtered).
         Inr (case verdict of
            Dropped \<Rightarrow> (eligible, remaining, filtered)
          | Deferred \<Rightarrow> (eligible, run_id # remaining, True)
          | Eligible rank required scope retry_count \<Rightarrow>
              (\<lparr>cd_run_id = run_id, cd_run = as_dict (dget (runs_by_id w) run_id), cd_required = required, cd_scope = scope,
                cd_score = score_of c rank scope retry_count i\<rparr> # eligible, run_id # remaining, filtered))))"

text \<open>Python's order on tuples of equal length, and \<^verbatim>\<open>min(eligible, key=...)\<close>, which returns the first minimum.\<close>

fun score_less :: "int list \<Rightarrow> int list \<Rightarrow> bool" where
  "score_less (x # xs) (y # ys) = (x < y \<or> (x = y \<and> score_less xs ys))"
| "score_less xs ys = (xs = [] \<and> ys \<noteq> [])"

fun min_candidate :: "candidate \<Rightarrow> candidate list \<Rightarrow> candidate" where
  "min_candidate best [] = best"
| "min_candidate best (d # ds) = min_candidate (if score_less (cd_score d) (cd_score best) then d else best) ds"

definition build_machine_lease_record ::
    "claim_env \<Rightarrow> string \<Rightarrow> string \<Rightarrow> string \<Rightarrow> string \<Rightarrow> int \<Rightarrow> string list \<Rightarrow> string list \<Rightarrow> pydict \<Rightarrow> pydict" where
  "build_machine_lease_record env machine_id run_id workspace_id actor_id ttl_seconds requested granted metadata =
     (let claimed_at = PStr (now_iso_text env) in
      [(''worker_id'', PStr (strip machine_id)), (''machine_id'', PStr (strip machine_id)),
       (''lease_id'', PStr (sor (strip (fresh_lease_id env)) (fresh_uuid env))),
       (''run_id'', PStr (strip run_id)), (''workspace_id'', PStr (strip workspace_id)), (''actor_id'', PStr (strip actor_id)),
       (''claimed_at'', claimed_at), (''last_heartbeat_at'', claimed_at), (''last_progress_event_at'', claimed_at),
       (''lease_seconds'', PInt ttl_seconds),
       (''capabilities_requested'', PList (map PStr requested)), (''capabilities_granted'', PList (map PStr granted)),
       (''metadata'', PDict metadata)])"

definition claim_holder :: "pydict \<Rightarrow> string" where
  "claim_holder claim = text_of (por (dget claim ''worker_id'') (dget claim ''machine_id''))"

definition active_worker_lease_count :: "pydict \<Rightarrow> string \<Rightarrow> int" where
  "active_worker_lease_count claimed worker_id =
     int (length (filter (\<lambda>(_, claim). is_dict claim \<and> claim_holder (as_dict claim) = worker_id) claimed))"

definition acquire_args :: "lease_world \<Rightarrow> string \<Rightarrow> int \<Rightarrow> int \<Rightarrow> lease_args" where
  "acquire_args w worker_id max_concurrent lease_seconds =
     \<lparr>la_operation = ''acquire'', la_holder_id = worker_id, la_current_holder_id = [], la_lease_id = [], la_current_lease_id = [],
      la_active_lease_count = active_worker_lease_count (claimed_runs w) worker_id,
      la_max_concurrent_leases = max 1 max_concurrent, la_lease_ttl_seconds = lease_seconds, la_stale = False, la_force = False\<rparr>"

definition claim_args :: "string \<Rightarrow> string \<Rightarrow> pydict \<Rightarrow> queue_args" where
  "claim_args run_id worker_id run =
     \<lparr>qa_operation = ''claim'', qa_run_id = run_id, qa_requester_id = worker_id, qa_lease_holder_id = [],
      qa_status = text_default (dget run ''status'') ''queued_local'', qa_stale = False, qa_force = False, qa_attempts = 0, qa_max_attempts = 3\<rparr>"

definition machine_of_worker :: "pydict \<Rightarrow> string \<Rightarrow> string" where
  "machine_of_worker worker_state worker_id =
     sor (strip (py_str (por (dget worker_state ''machine_id'') (por (dget worker_state ''runtime_id'') (PStr worker_id))))) (strip worker_id)"

definition claim_record_for :: "claim_env \<Rightarrow> claim_view \<Rightarrow> int \<Rightarrow> string \<Rightarrow> candidate \<Rightarrow> pydict" where
  "claim_record_for env v lease_seconds claimed_run_id c =
     (let metadata = metadata_for_run (cd_run c); context = run_context (cd_run c); scope = cd_scope c;
          actor_id = text_of (por (dget metadata ''owner_user_id'') (por (dget metadata ''user_id'') (dget context ''user_id'')))
      in build_machine_lease_record env (machine_of_worker (cv_worker_state v) (cv_worker_id v)) claimed_run_id
           (strip (rs_workspace_id scope)) actor_id lease_seconds (cd_required c)
           (filter (\<lambda>cap. cap \<in> set (cv_capabilities v)) (cd_required c))
           [(''runtime_id'', PStr (cv_worker_id v)), (''contention_strategy'', PStr ''workspace_specialist_weighted_fifo''),
            (''tenant_id'', PStr (rs_tenant_id scope)), (''specialist_key'', PStr (rs_specialist_key scope)),
            (''queue_partition'', PStr (build_queue_partition_key (strip (rs_workspace_id scope)) (strip (rs_specialist_key scope))))])"

text \<open>The gates and the state change for the chosen candidate.\<close>

definition commit_claim :: "kernel \<Rightarrow> claim_env \<Rightarrow> claim_view \<Rightarrow> int \<Rightarrow> candidate \<Rightarrow> string list \<Rightarrow> lease_world \<Rightarrow> lease_error + (lease_world \<times> string)" where
  "commit_claim kern env v lease_seconds c remaining w =
     (let claimed_run_id = strip (cd_run_id c) in
      rbind (to_int (por (dget (cv_worker_state v) ''max_concurrent_sessions'') (PInt 1))) (\<lambda>max_concurrent.
      rbind (enforce_machine_lease_decision kern (acquire_args w (cv_worker_id v) max_concurrent lease_seconds) False) (\<lambda>_.
      rbind (enforce_queue_transition_decision kern (claim_args claimed_run_id (cv_worker_id v) (cd_run c))) (\<lambda>_.
        Inr (w\<lparr>claimed_runs := dset claimed_run_id (PDict (claim_record_for env v lease_seconds claimed_run_id c)) (claimed_runs w),
                pending_run_ids := filter (\<lambda>run_id. run_id \<noteq> claimed_run_id) remaining\<rparr>, claimed_run_id)))))"

datatype claim_outcome = Suspended string | Claimed string bool | Idle bool

text \<open>The block under \<^verbatim>\<open>local_queue_lock\<close>: the new world, the outcome and whether the state changed.\<close>

definition claim_view_of :: "claim_env \<Rightarrow> pyval \<Rightarrow> lease_world \<Rightarrow> string \<Rightarrow> claim_view" where
  "claim_view_of env required_capabilities w worker_id =
     (let worker_state = as_dict (dget (worker_registry w) worker_id) in
      \<lparr>cv_worker_id = worker_id, cv_worker_state = worker_state,
       cv_capabilities = normalize_capability_ids env (dget worker_state ''capabilities''),
       cv_filter = normalize_capability_ids env required_capabilities\<rparr>)"

definition claim_locked :: "kernel \<Rightarrow> claim_env \<Rightarrow> pyval \<Rightarrow> int \<Rightarrow> string \<Rightarrow> lease_world \<Rightarrow> lease_error + (lease_world \<times> claim_outcome \<times> bool)" where
  "claim_locked kern env required_capabilities lease_seconds worker_id w =
     (let v = claim_view_of env required_capabilities w worker_id;
          control_state = token_default (dget (cv_worker_state v) ''control_state'') ''active'';
          c = \<lparr>active_counts = count_claims_by_scope (claimed_runs w) (runs_by_id w),
               pending_counts = count_pending_by_scope (pending_run_ids w) (runs_by_id w)\<rparr>
      in if control_state \<in> set [''interrupting'', ''suspended'', ''revoked''] then Inr (w, Suspended (''idle_machine_'' @ control_state), False)
         else rbind (scan_pending env w v c 0 (pending_run_ids w)) (\<lambda>(eligible, remaining, filtered).
           case eligible of
             [] \<Rightarrow> Inr (w\<lparr>pending_run_ids := remaining\<rparr>, Idle filtered, remaining \<noteq> pending_run_ids w)
           | d # ds \<Rightarrow> rbind (commit_claim kern env v lease_seconds (min_candidate d ds) remaining w)
               (\<lambda>(w', run_id). Inr (w', Claimed run_id filtered, True))))"

definition claim_write_effect :: "lease_world \<Rightarrow> int \<Rightarrow> string \<Rightarrow> string \<Rightarrow> lease_error + effect" where
  "claim_write_effect w lease_seconds worker_id run_id =
     (let claim = as_dict (dget (claimed_runs w) run_id);
          run = as_dict (dget (runs_by_id w) run_id);
          trace_id = text_of (por (dget run ''trace_id'') (por (dget (metadata_for_run run) ''trace_id'') (dget (metadata_for_run run) ''request_trace_id'')))
      in rbind (to_int (por (dget claim ''lease_seconds'') (PInt lease_seconds))) (\<lambda>ttl.
           Inr (ClaimWrite run_id worker_id (snone (text_of (dget claim ''lease_id''))) (max 1 ttl) trace_id)))"

text \<open>\<^verbatim>\<open>cleanup_stale_local_claims_fn\<close> is the argument \<open>cleanup\<close>: the world after it, its calls, and the
  exception it raised if any.\<close>

definition claim_local_machine_lease ::
    "kernel \<Rightarrow> claim_env \<Rightarrow> (lease_world \<Rightarrow> lease_world \<times> effect list \<times> lease_error option) \<Rightarrow> pyval \<Rightarrow> int \<Rightarrow> string \<Rightarrow> lease_world \<Rightarrow>
      lease_world \<times> effect list \<times> (lease_error + string option)" where
  "claim_local_machine_lease kern env cleanup required_capabilities lease_seconds worker_id w0 =
     (case cleanup w0 of
        (w, effs, Some e) \<Rightarrow> (w, effs, Inl e)
      | (w, effs, None) \<Rightarrow>
          (case claim_locked kern env required_capabilities lease_seconds worker_id w of
             Inl e \<Rightarrow> (w, effs, Inl e)
           | Inr (w', outcome, changed) \<Rightarrow>
               let effs1 = effs @ (if changed then [PersistState] else []) in
               case outcome of
                 Claimed run_id filtered \<Rightarrow>
                   if run_id = [] then
                     (w', effs1 @ [MarkSeen worker_id None ''idle'' (Some (if filtered then ''idle_capability_wait'' else ''idle_poll''))], Inr (Some run_id))
                   else (case claim_write_effect w' lease_seconds worker_id run_id of
                       Inl e \<Rightarrow> (w', effs1, Inl e)
                     | Inr write \<Rightarrow> (w', effs1 @ [write, MarkSeen worker_id (Some run_id) ''busy'' (Some ''claimed_local_run'')], Inr (Some run_id)))
               | Suspended note \<Rightarrow> (w', effs1 @ [MarkSeen worker_id None ''idle'' (Some note)], Inr None)
               | Idle filtered \<Rightarrow>
                   (w', effs1 @ [MarkSeen worker_id None ''idle'' (Some (if filtered then ''idle_capability_wait'' else ''idle_poll''))], Inr None)))"

section \<open>Binding a claim to its run\<close>

text \<open>The run after the call, and what it raised: the last assignments are lost when \<^verbatim>\<open>int\<close> raises.\<close>

definition bind_machine_lease_to_run ::
    "(pyval \<Rightarrow> string) \<Rightarrow> string \<Rightarrow> pydict \<Rightarrow> pyval \<Rightarrow> string \<Rightarrow> pydict \<Rightarrow> pydict \<times> lease_error option" where
  "bind_machine_lease_to_run normalize_policy_mode worker_id claim worker_state now_iso run =
     (let context = run_context run;
          metadata0 = dset ''policy_mode'' (PStr (normalize_policy_mode (dget (as_dict worker_state) ''policy_mode'')))
            (dset ''runtime_id'' (PStr worker_id) (metadata_for_run run));
          metadata1 = (if truthy (dget claim ''machine_id'') then dset ''machine_id'' (dget claim ''machine_id'') metadata0 else metadata0);
          metadata = (if truthy (dget claim ''lease_id'') then dset ''machine_lease_id'' (dget claim ''lease_id'') metadata1 else metadata1);
          run1 = dmerge run
            [(''context'', PDict (dset ''metadata'' (PDict metadata) context)),
             (''local_worker_id'', PStr worker_id),
             (''machine_id'', por (dget claim ''machine_id'') (PStr worker_id)),
             (''machine_lease_id'', dget claim ''lease_id''),
             (''local_claimed_at'', PStr now_iso), (''local_last_heartbeat_at'', PStr now_iso)]
      in case py_int (por (dget claim ''lease_seconds'') (PInt 0)) of
           None \<Rightarrow> (run1, Some ConversionError)
         | Some seconds \<Rightarrow> (dpop ''_resume_after_confirmation_scheduled'' (dset ''lease_seconds'' (PInt seconds) run1), None))"

definition clear_active_machine_lease_binding :: "pydict \<Rightarrow> pydict" where
  "clear_active_machine_lease_binding run =
     dmerge run [(''local_worker_id'', PNone), (''local_claimed_at'', PNone), (''local_last_heartbeat_at'', PNone), (''machine_lease_id'', PNone)]"

section \<open>Releasing\<close>

definition release_queue_args :: "string \<Rightarrow> string \<Rightarrow> string \<Rightarrow> bool \<Rightarrow> queue_args" where
  "release_queue_args run_id requester holder stale =
     \<lparr>qa_operation = ''release'', qa_run_id = run_id, qa_requester_id = requester, qa_lease_holder_id = holder,
      qa_status = ''claimed'', qa_stale = stale, qa_force = False, qa_attempts = 0, qa_max_attempts = 3\<rparr>"

definition release_lease_args :: "string \<Rightarrow> string \<Rightarrow> string \<Rightarrow> string \<Rightarrow> bool \<Rightarrow> lease_args" where
  "release_lease_args holder current_holder lease_id current_lease_id stale =
     \<lparr>la_operation = ''release'', la_holder_id = holder, la_current_holder_id = current_holder, la_lease_id = lease_id,
      la_current_lease_id = current_lease_id, la_active_lease_count = 0, la_max_concurrent_leases = 1, la_lease_ttl_seconds = 900,
      la_stale = stale, la_force = False\<rparr>"

definition release_write_effect :: "string \<Rightarrow> pydict \<Rightarrow> effect" where
  "release_write_effect run_id claim = ReleaseWrite run_id (snone (text_of (dget claim ''lease_id'')))"

text \<open>The gates of \<^verbatim>\<open>release_machine_lease_claim\<close> for a stored claim: \<open>Inr None\<close> means go on and remove it,
  \<open>Inr (Some r)\<close> is the early return of the lease mismatch.\<close>

definition release_gates :: "kernel \<Rightarrow> string \<Rightarrow> string \<Rightarrow> string \<Rightarrow> pydict \<Rightarrow> lease_error + pydict option" where
  "release_gates kern run_id resolved_worker incoming_lease claim =
     (let holder = claim_holder claim; lease = text_of (dget claim ''lease_id'') in
      rbind (enforce_queue_transition_decision kern (release_queue_args run_id resolved_worker holder False)) (\<lambda>_.
      rbind (enforce_machine_lease_decision kern (release_lease_args resolved_worker holder (sor incoming_lease lease) lease False) True) (\<lambda>decision.
        let reason = token_of (dget decision ''reason'') in
        if token_of (dget decision ''decision'') \<noteq> ''block'' then Inr None
        else if reason = ''lease_release_not_owned'' then Inl (HTTPException 403 ''Worker does not own this local run.'')
        else if reason = ''lease_release_id_mismatch'' then
          Inr (Some [(''claim'', PDict claim), (''resolved_worker'', PStr resolved_worker), (''released'', PBool False),
                     (''lease_mismatch'', PBool True), (''decision_id'', dget decision ''decision_id'')])
        else Inl (HTTPException 409 (''Rust machine-lease gate blocked release: '' @ sor reason ''unknown_reason'')))))"

definition release_machine_lease_claim ::
    "kernel \<Rightarrow> string \<Rightarrow> string \<Rightarrow> string \<Rightarrow> bool \<Rightarrow> bool \<Rightarrow> string \<Rightarrow> string \<Rightarrow> lease_world \<Rightarrow> lease_world \<times> effect list \<times> (lease_error + pydict)" where
  "release_machine_lease_claim kern run_id worker_id lease_id can_persist can_mark status_hint note w =
     (let claim = dget (claimed_runs w) run_id;
          resolved_worker = sor (strip worker_id) (text_of (dget (as_dict claim) ''worker_id''));
          released = (claim \<noteq> PNone);
          finish = (w\<lparr>claimed_runs := dpop run_id (claimed_runs w)\<rparr>,
             (if released \<and> can_persist then [PersistState] else []) @
             (if released then [release_write_effect run_id (as_dict claim)] else []) @
             (if resolved_worker \<noteq> [] \<and> can_mark \<and> status_hint \<noteq> [] then [MarkSeen resolved_worker None status_hint (snone note)] else []),
             Inr [(''claim'', if is_dict claim then claim else PNone), (''resolved_worker'', PStr resolved_worker), (''released'', PBool released)])
      in case claim of
           PDict c \<Rightarrow> (case release_gates kern run_id resolved_worker (strip lease_id) c of
               Inl e \<Rightarrow> (w, [], Inl e)
             | Inr (Some result) \<Rightarrow> (w, [], Inr result)
             | Inr None \<Rightarrow> finish)
         | _ \<Rightarrow> finish)"

text \<open>Both gates for a claim that is given up on behalf of its own holder.\<close>

definition holder_release_gates :: "kernel \<Rightarrow> string \<Rightarrow> pydict \<Rightarrow> lease_error + unit" where
  "holder_release_gates kern run_id claim =
     (let holder = claim_holder claim; lease = text_of (dget claim ''lease_id'') in
      rbind (enforce_queue_transition_decision kern (release_queue_args run_id holder holder False)) (\<lambda>_.
      rbind (enforce_machine_lease_decision kern (release_lease_args holder holder lease lease False) False) (\<lambda>_. Inr ())))"

definition reconcile_machine_lease_release :: "kernel \<Rightarrow> string \<Rightarrow> lease_world \<Rightarrow> lease_world \<times> effect list \<times> (lease_error + bool)" where
  "reconcile_machine_lease_release kern run_id w =
     (let was_pending = (run_id \<in> set (pending_run_ids w));
          w1 = w\<lparr>pending_run_ids := filter (\<lambda>r. r \<noteq> run_id) (pending_run_ids w)\<rparr>;
          done = (\<lambda>w' claim changed. (w', if changed then [release_write_effect run_id claim, SyncSnapshot] else [], Inr changed))
      in case dget (claimed_runs w) run_id of
           PDict claim \<Rightarrow> (case holder_release_gates kern run_id claim of
               Inl e \<Rightarrow> (w1, [], Inl e)
             | Inr _ \<Rightarrow> done (w1\<lparr>claimed_runs := dpop run_id (claimed_runs w)\<rparr>) claim True)
         | _ \<Rightarrow> done w1 [] was_pending)"

text \<open>\<^verbatim>\<open>recovered_set\<close> is iterated in the order the interpreter's hash table gives; the model takes that
  order, a list without repetitions of the same ids, as its argument. The fold stops at the first
  exception and keeps what was released before it.\<close>

fun release_recovered :: "kernel \<Rightarrow> string list \<Rightarrow> pydict \<Rightarrow> pydict \<times> pydict \<times> lease_error option" where
  "release_recovered kern [] claimed = (claimed, [], None)"
| "release_recovered kern (run_id # rest) claimed =
     (case dget claimed run_id of
        PDict claim \<Rightarrow> (case holder_release_gates kern run_id claim of
            Inl e \<Rightarrow> (claimed, [], Some e)
          | Inr _ \<Rightarrow> (case release_recovered kern rest (dpop run_id claimed) of
               (claimed', released, err) \<Rightarrow> (claimed', (run_id, PDict claim) # released, err)))
      | _ \<Rightarrow> release_recovered kern rest claimed)"

definition reconcile_recovered_machine_leases :: "kernel \<Rightarrow> string list \<Rightarrow> lease_world \<Rightarrow> lease_world \<times> effect list \<times> (lease_error + bool)" where
  "reconcile_recovered_machine_leases kern recovered w =
     (if recovered = [] then (w, [], Inr False)
      else
        let next_pending = filter (\<lambda>r. r \<notin> set recovered) (pending_run_ids w) in
        case release_recovered kern recovered (claimed_runs w) of
          (claimed', released, Some e) \<Rightarrow> (w\<lparr>pending_run_ids := next_pending, claimed_runs := claimed'\<rparr>, [], Inl e)
        | (claimed', released, None) \<Rightarrow>
            let changed = (next_pending \<noteq> pending_run_ids w \<or> released \<noteq> []) in
            (w\<lparr>pending_run_ids := next_pending, claimed_runs := claimed'\<rparr>,
             if changed then map (\<lambda>r. release_write_effect r (as_dict (dget released r))) recovered @ [PersistState] else [],
             Inr changed))"

section \<open>The choice of a run\<close>

lemma score_less_irrefl [simp]: "\<not> score_less x x"
  by (induction x) auto

lemma score_less_trans: "score_less x y \<Longrightarrow> score_less y z \<Longrightarrow> score_less x z"
proof (induction x y arbitrary: z rule: score_less.induct)
  case (1 x xs y ys)
  then show ?case by (cases z) auto
qed (auto elim: score_less.elims)

lemma score_less_linear: "score_less x y \<or> x = y \<or> score_less y x"
proof (induction x arbitrary: y)
  case Nil
  then show ?case by (cases y) auto
next
  case (Cons a x)
  then show ?case by (cases y) auto
qed

lemma score_not_less_trans: "\<not> score_less x y \<Longrightarrow> \<not> score_less y z \<Longrightarrow> \<not> score_less x z"
  using score_less_linear [of x y] score_less_trans by blast

lemma min_candidate_in: "min_candidate d ds \<in> set (d # ds)"
proof (induction ds arbitrary: d)
  case (Cons e ds)
  from Cons [of "if score_less (cd_score e) (cd_score d) then e else d"] show ?case by (auto split: if_splits)
qed simp

lemma min_candidate_least: "x \<in> set (d # ds) \<Longrightarrow> \<not> score_less (cd_score x) (cd_score (min_candidate d ds))"
proof (induction ds arbitrary: d x)
  case (Cons e ds)
  define b where "b = (if score_less (cd_score e) (cd_score d) then e else d)"
  have b: "\<not> score_less (cd_score b) (cd_score (min_candidate b ds))" using Cons.IH [of b b] by simp
  have "\<not> score_less (cd_score d) (cd_score b)" "\<not> score_less (cd_score e) (cd_score b)"
    using score_less_trans [of "cd_score d" "cd_score e" "cd_score d"] by (auto simp: b_def)
  then have "\<not> score_less (cd_score d) (cd_score (min_candidate b ds))" "\<not> score_less (cd_score e) (cd_score (min_candidate b ds))"
    using b score_not_less_trans by blast+
  moreover have "\<not> score_less (cd_score x) (cd_score (min_candidate b ds))" if "x \<in> set ds" using Cons.IH [of x b] that by simp
  ultimately show ?case using Cons.prems by (auto simp: b_def)
qed simp

text \<open>The candidate the scan builds for the run at position \<open>i\<close> of the pending list.\<close>

definition candidate_at :: "claim_env \<Rightarrow> lease_world \<Rightarrow> claim_view \<Rightarrow> claim_counts \<Rightarrow> nat \<Rightarrow> string \<Rightarrow> candidate option" where
  "candidate_at env w v c i run_id =
     (case classify_run env w v run_id of
        Inr (Eligible rank required scope retry_count) \<Rightarrow>
          Some \<lparr>cd_run_id = run_id, cd_run = as_dict (dget (runs_by_id w) run_id), cd_required = required, cd_scope = scope,
                cd_score = score_of c rank scope retry_count i\<rparr>
      | _ \<Rightarrow> None)"

lemma scan_pending_Cons:
  assumes "scan_pending env w v c i (p # ps) = Inr (eligible, remaining, filtered)"
  obtains x e' r' f' where "classify_run env w v p = Inr x" and "scan_pending env w v c (Suc i) ps = Inr (e', r', f')"
    and "remaining = (if x = Dropped then r' else p # r')" and "filtered = (x = Deferred \<or> f')"
    and "eligible = (case candidate_at env w v c i p of None \<Rightarrow> e' | Some d \<Rightarrow> d # e')"
proof -
  from assms obtain x e' r' f' where x: "classify_run env w v p = Inr x"
    and rest: "scan_pending env w v c (Suc i) ps = Inr (e', r', f')"
    by (auto simp: res_simps)
  show thesis
    by (rule that [OF x rest]) (use assms x rest in \<open>cases x; simp add: candidate_at_def\<close>)+
qed

lemma scan_pending_spec:
  assumes "scan_pending env w v c i ps = Inr (eligible, remaining, filtered)"
  shows "remaining = filter (\<lambda>r. classify_run env w v r \<noteq> Inr Dropped) ps"
    and "set eligible = {d. \<exists>j < length ps. candidate_at env w v c (i + j) (ps ! j) = Some d}"
    and "filtered \<longleftrightarrow> (\<exists>r \<in> set ps. classify_run env w v r = Inr Deferred)"
  using assms
proof (induction ps arbitrary: i eligible remaining filtered)
  case (Cons p ps)
  {
    case 1
    then show ?case by (rule scan_pending_Cons) (use Cons.IH(1) in auto)
  next
    case 2
    have split: "(\<exists>j < length (p # ps). candidate_at env w v c (i + j) ((p # ps) ! j) = Some d) \<longleftrightarrow>
      candidate_at env w v c i p = Some d \<or> (\<exists>j < length ps. candidate_at env w v c (Suc i + j) (ps ! j) = Some d)" for d
      by (auto simp: less_Suc_eq_0_disj)
    from 2 obtain e' r' f' where rest: "scan_pending env w v c (Suc i) ps = Inr (e', r', f')"
      and e: "eligible = (case candidate_at env w v c i p of None \<Rightarrow> e' | Some d \<Rightarrow> d # e')"
      by (rule scan_pending_Cons)
    show ?case unfolding split using Cons.IH(2) [OF rest] by (auto simp: e split: option.splits)
  next
    case 3
    then show ?case by (rule scan_pending_Cons) (use Cons.IH(3) in auto)
  }
qed auto

text \<open>What a worker may be offered.\<close>

definition suits_worker :: "claim_env \<Rightarrow> lease_world \<Rightarrow> claim_view \<Rightarrow> pydict \<Rightarrow> bool" where
  "suits_worker env w v run =
     (claimable_status run \<and> \<not> retry_not_due env (metadata_for_run run) \<and>
      set (required_capabilities_for_run env run) \<subseteq> set (cv_capabilities v) \<and>
      (cv_filter v = [] \<or> set (required_capabilities_for_run env run) \<subseteq> set (cv_filter v)) \<and>
      worker_runtime_scope_allows_run (cv_worker_state v) (run_scope_from_payload run) \<and>
      best_online_preferred_runtime_from_registry env (worker_registry w) (ordered_runtime_preferences_for_run env run)
        \<in> {Inr None, Inr (Some (cv_worker_id v))})"

lemma classify_Eligible:
  assumes "classify_run env w v run_id = Inr (Eligible rank required scope n)"
  obtains run where "dget (runs_by_id w) run_id = PDict run" and "suits_worker env w v run"
    and "required = required_capabilities_for_run env run" and "scope = run_scope_from_payload run"
    and "rank = (if best_online_preferred_runtime_from_registry env (worker_registry w) (ordered_runtime_preferences_for_run env run) = Inr None then 1 else 0)"
  using assms
  by (auto simp: classify_run_def suits_worker_def res_simps Let_def split: pyval.splits if_splits)

abbreviation counts_of :: "lease_world \<Rightarrow> claim_counts" where
  "counts_of w \<equiv> \<lparr>active_counts = count_claims_by_scope (claimed_runs w) (runs_by_id w),
     pending_counts = count_pending_by_scope (pending_run_ids w) (runs_by_id w)\<rparr>"

text \<open>The pending runs a worker could take, with the position and the score of each.\<close>

definition offers :: "claim_env \<Rightarrow> lease_world \<Rightarrow> claim_view \<Rightarrow> nat \<Rightarrow> candidate \<Rightarrow> bool" where
  "offers env w v j d = (j < length (pending_run_ids w) \<and> candidate_at env w v (counts_of w) j (pending_run_ids w ! j) = Some d)"

lemma claim_locked_eq:
  "claim_locked kern env required lease_seconds worker_id w =
     (let v = claim_view_of env required w worker_id; control_state = token_default (dget (cv_worker_state v) ''control_state'') ''active'' in
      if control_state \<in> set [''interrupting'', ''suspended'', ''revoked''] then Inr (w, Suspended (''idle_machine_'' @ control_state), False)
      else case scan_pending env w v (counts_of w) 0 (pending_run_ids w) of
         Inl e \<Rightarrow> Inl e
       | Inr ([], remaining, f) \<Rightarrow> Inr (w\<lparr>pending_run_ids := remaining\<rparr>, Idle f, remaining \<noteq> pending_run_ids w)
       | Inr (d # ds, remaining, f) \<Rightarrow> rbind (commit_claim kern env v lease_seconds (min_candidate d ds) remaining w)
           (\<lambda>(w', run_id). Inr (w', Claimed run_id f, True)))"
  by (simp add: claim_locked_def Let_def split: sum.split list.split)

lemma offers_id: "offers env w v j d \<Longrightarrow> cd_run_id d = pending_run_ids w ! j"
  by (auto simp: offers_def candidate_at_def split: sum.splits verdict_for_run.splits)

lemma claim_locked_Claimed:
  assumes "claim_locked kern env required lease_seconds worker_id w = Inr (w', Claimed run_id filtered, changed)"
  obtains j d m where "offers env w (claim_view_of env required w worker_id) j d" and "cd_run_id d = pending_run_ids w ! j"
    and "\<And>i d'. offers env w (claim_view_of env required w worker_id) i d' \<Longrightarrow> \<not> score_less (cd_score d') (cd_score d)"
    and "run_id = strip (cd_run_id d)"
    and "to_int (por (dget (cv_worker_state (claim_view_of env required w worker_id)) ''max_concurrent_sessions'') (PInt 1)) = Inr m"
    and "\<exists>x. enforce_machine_lease_decision kern (acquire_args w worker_id m lease_seconds) False = Inr x"
    and "\<exists>x. enforce_queue_transition_decision kern (claim_args run_id worker_id (cd_run d)) = Inr x"
    and "w' = w\<lparr>claimed_runs := dset run_id (PDict (claim_record_for env (claim_view_of env required w worker_id) lease_seconds run_id d)) (claimed_runs w),
        pending_run_ids := filter (\<lambda>r. r \<noteq> run_id)
          (filter (\<lambda>r. classify_run env w (claim_view_of env required w worker_id) r \<noteq> Inr Dropped) (pending_run_ids w))\<rparr>"
    and "token_default (dget (cv_worker_state (claim_view_of env required w worker_id)) ''control_state'') ''active'' \<notin>
        set [''interrupting'', ''suspended'', ''revoked'']"
    and "changed"
proof -
  let ?v = "claim_view_of env required w worker_id"
  have wid: "cv_worker_id ?v = worker_id" by (simp add: claim_view_of_def Let_def)
  have ctl: "token_default (dget (cv_worker_state ?v) ''control_state'') ''active'' \<notin> set [''interrupting'', ''suspended'', ''revoked'']"
    using assms by (auto simp: claim_locked_def Let_def)
  with assms obtain d ds remaining where scan: "scan_pending env w ?v (counts_of w) 0 (pending_run_ids w) = Inr (d # ds, remaining, filtered)"
    and commit: "commit_claim kern env ?v lease_seconds (min_candidate d ds) remaining w = Inr (w', run_id)" and ch: changed
    unfolding claim_locked_eq by (auto simp: Let_def res_simps split: sum.splits list.splits)
  have off: "set (d # ds) = {x. \<exists>j. offers env w ?v j x}"
    unfolding scan_pending_spec(2) [OF scan] by (auto simp: offers_def)
  then obtain j where j: "offers env w ?v j (min_candidate d ds)" using min_candidate_in [of d ds] by auto
  then have id: "cd_run_id (min_candidate d ds) = pending_run_ids w ! j" by (rule offers_id)
  have least: "\<not> score_less (cd_score d') (cd_score (min_candidate d ds))" if "offers env w ?v i d'" for i d'
    by (rule min_candidate_least) (use off that in auto)
  from commit show thesis
    by (auto simp: commit_claim_def Let_def res_simps wid scan_pending_spec(1) [OF scan] intro!: that [OF j id least _ _ _ _ _ ctl ch])
qed

lemma offered_run:
  assumes "offers env w v j d"
  obtains run where "dget (runs_by_id w) (pending_run_ids w ! j) = PDict run" and "suits_worker env w v run"
    and "cd_run d = run" and "cd_required d = required_capabilities_for_run env run" and "cd_scope d = run_scope_from_payload run"
proof -
  from assms obtain rank required scope n where c: "classify_run env w v (pending_run_ids w ! j) = Inr (Eligible rank required scope n)"
    and d: "d = \<lparr>cd_run_id = pending_run_ids w ! j, cd_run = as_dict (dget (runs_by_id w) (pending_run_ids w ! j)), cd_required = required,
      cd_scope = scope, cd_score = score_of (counts_of w) rank scope n j\<rparr>"
    by (auto simp: offers_def candidate_at_def split: sum.splits verdict_for_run.splits)
  from c show thesis by (rule classify_Eligible) (auto simp: d intro: that)
qed

lemma claim_result:
  assumes "claim_local_machine_lease kern env cleanup required lease_seconds worker_id w0 = (w', effs, Inr (Some run_id))"
  obtains w effs0 filtered changed where "cleanup w0 = (w, effs0, None)"
    and "claim_locked kern env required lease_seconds worker_id w = Inr (w', Claimed run_id filtered, changed)"
  using assms
  by (auto simp: claim_local_machine_lease_def Let_def split: prod.splits option.splits sum.splits claim_outcome.splits if_splits)

subsection \<open>What the counters count\<close>

definition claims_in_workspace :: "lease_world \<Rightarrow> string \<Rightarrow> nat" where
  "claims_in_workspace w ws =
     length (filter (\<lambda>(run_id, claim). is_dict claim \<and> is_dict (dget (runs_by_id w) run_id) \<and>
       rs_workspace_id (run_scope_from_payload (as_dict (dget (runs_by_id w) run_id))) = ws) (claimed_runs w))"

lemma count_of_bump: "count_of (fst (bump scope c)) k = count_of (fst c) k + (if rs_workspace_id scope = k then 1 else 0)"
  by (simp add: count_of_def bump_def map_of_dset)

lemma count_fold:
  "count_of (fst (fold (\<lambda>x c. if P x then bump (g x) c else c) xs c)) ws =
   count_of (fst c) ws + int (length (filter (\<lambda>x. P x \<and> rs_workspace_id (g x) = ws) xs))"
  by (induction xs arbitrary: c) (simp_all add: count_of_bump)

lemma count_claims_workspace: "count_of (fst (count_claims_by_scope (claimed_runs w) (runs_by_id w))) ws = int (claims_in_workspace w ws)"
  by (simp add: count_claims_by_scope_def claims_in_workspace_def split_def count_fold conj_assoc) (simp add: count_of_def)

lemma offered_score:
  assumes "offers env w v j d"
  shows "\<exists>rank n. cd_score d = score_of (counts_of w) rank (cd_scope d) n j"
proof -
  from assms obtain rank required scope n where "d = \<lparr>cd_run_id = pending_run_ids w ! j,
      cd_run = as_dict (dget (runs_by_id w) (pending_run_ids w ! j)), cd_required = required,
      cd_scope = scope, cd_score = score_of (counts_of w) rank scope n j\<rparr>"
    by (auto simp: offers_def candidate_at_def split: sum.splits verdict_for_run.splits)
  then have "cd_score d = score_of (counts_of w) rank (cd_scope d) n j" by simp
  then show ?thesis by blast
qed

section \<open>Properties\<close>

text \<open>C5. A claimed run suits its worker. When a worker obtains a run, that run was pending in the state
  after the clean-up, its status was queued or starting, its retry delay had passed, no other online
  runtime was preferred for it, the worker has every capability it needs (and the caller's filter, if
  any, covers them), and the worker's enrollment covers the run's tenant and workspace; the worker was
  not suspended, interrupted or revoked, and the kernel allowed both the lease and the queue
  transition. Afterwards the run is claimed by a record that names the worker's machine and grants
  every required capability, and it is no longer pending.\<close>

theorem claimed_run_suits_worker:
  assumes "claim_local_machine_lease kern env cleanup required lease_seconds worker_id w0 = (w', effs, Inr (Some run_id))"
  shows "\<exists>w effs0 v p run m claim. cleanup w0 = (w, effs0, None) \<and> v = claim_view_of env required w worker_id \<and>
    p \<in> set (pending_run_ids w) \<and> run_id = strip p \<and> dget (runs_by_id w) p = PDict run \<and> suits_worker env w v run \<and>
    token_default (dget (cv_worker_state v) ''control_state'') ''active'' \<notin> {''interrupting'', ''suspended'', ''revoked''} \<and>
    (\<exists>x. enforce_machine_lease_decision kern (acquire_args w worker_id m lease_seconds) False = Inr x) \<and>
    (\<exists>x. enforce_queue_transition_decision kern (claim_args run_id worker_id run) = Inr x) \<and>
    dget (claimed_runs w') run_id = PDict claim \<and> dget claim ''machine_id'' = PStr (strip (machine_of_worker (cv_worker_state v) worker_id)) \<and>
    dget claim ''capabilities_granted'' = dget claim ''capabilities_requested'' \<and>
    run_id \<notin> set (pending_run_ids w')"
proof -
  from assms obtain w effs0 filtered changed where cl: "cleanup w0 = (w, effs0, None)"
    and lk: "claim_locked kern env required lease_seconds worker_id w = Inr (w', Claimed run_id filtered, changed)"
    by (rule claim_result)
  let ?v = "claim_view_of env required w worker_id"
  from lk obtain j d m where off: "offers env w ?v j d" and id: "cd_run_id d = pending_run_ids w ! j" and rid: "run_id = strip (cd_run_id d)"
    and lease: "\<exists>x. enforce_machine_lease_decision kern (acquire_args w worker_id m lease_seconds) False = Inr x"
    and queue: "\<exists>x. enforce_queue_transition_decision kern (claim_args run_id worker_id (cd_run d)) = Inr x"
    and w': "w' = w\<lparr>claimed_runs := dset run_id (PDict (claim_record_for env ?v lease_seconds run_id d)) (claimed_runs w),
        pending_run_ids := filter (\<lambda>r. r \<noteq> run_id) (filter (\<lambda>r. classify_run env w ?v r \<noteq> Inr Dropped) (pending_run_ids w))\<rparr>"
    and ctl: "token_default (dget (cv_worker_state ?v) ''control_state'') ''active'' \<notin> set [''interrupting'', ''suspended'', ''revoked'']"
    by (rule claim_locked_Claimed)
  from off obtain run where run: "dget (runs_by_id w) (pending_run_ids w ! j) = PDict run" and fits: "suits_worker env w ?v run"
    and "cd_run d = run" and caps: "cd_required d = required_capabilities_for_run env run"
    by (rule offered_run)
  have j: "j < length (pending_run_ids w)" using off by (simp add: offers_def)
  have "filter (\<lambda>cap. cap \<in> set (cv_capabilities ?v)) (cd_required d) = cd_required d"
    using fits by (auto simp: filter_id_conv caps suits_worker_def)
  then have claim: "dget (claimed_runs w') run_id = PDict (claim_record_for env ?v lease_seconds run_id d)"
    "dget (claim_record_for env ?v lease_seconds run_id d) ''machine_id'' = PStr (strip (machine_of_worker (cv_worker_state ?v) worker_id))"
    "dget (claim_record_for env ?v lease_seconds run_id d) ''capabilities_granted'' =
     dget (claim_record_for env ?v lease_seconds run_id d) ''capabilities_requested''"
    by (simp_all add: w' dget_dset claim_record_for_def build_machine_lease_record_def Let_def dget_Cons claim_view_of_def)
  show ?thesis
    using cl run fits lease queue ctl claim id rid j \<open>cd_run d = run\<close>
    by (intro exI [of _ w] exI [of _ effs0] exI [of _ ?v] exI [of _ "pending_run_ids w ! j"] exI [of _ run] exI [of _ m]
        exI [of _ "claim_record_for env ?v lease_seconds run_id d"]) (auto simp: w')
qed

text \<open>Claims are shared fairly between workspaces. Among all pending runs a worker could have
  taken, the one it takes is preferred at least as much, and among those equally preferred no other
  run belongs to a workspace with fewer runs claimed at that moment. Ties are broken by specialist,
  pending load, retries and finally queue position: no offered run has a smaller score.\<close>

theorem claim_favours_idle_workspaces:
  assumes "claim_local_machine_lease kern env cleanup required lease_seconds worker_id w0 = (w', effs, Inr (Some run_id))"
  shows "\<exists>w effs0 v j d. cleanup w0 = (w, effs0, None) \<and> v = claim_view_of env required w worker_id \<and>
    offers env w v j d \<and> run_id = strip (pending_run_ids w ! j) \<and>
    (\<forall>i d'. offers env w v i d' \<longrightarrow> \<not> score_less (cd_score d') (cd_score d) \<and> hd (cd_score d) \<le> hd (cd_score d') \<and>
      (hd (cd_score d') = hd (cd_score d) \<longrightarrow>
        claims_in_workspace w (rs_workspace_id (cd_scope d)) \<le> claims_in_workspace w (rs_workspace_id (cd_scope d'))))"
proof -
  from assms obtain w effs0 filtered changed where cl: "cleanup w0 = (w, effs0, None)"
    and lk: "claim_locked kern env required lease_seconds worker_id w = Inr (w', Claimed run_id filtered, changed)"
    by (rule claim_result)
  let ?v = "claim_view_of env required w worker_id"
  from lk obtain j d where off: "offers env w ?v j d" and id: "cd_run_id d = pending_run_ids w ! j" and rid: "run_id = strip (cd_run_id d)"
    and least: "\<And>i d'. offers env w ?v i d' \<Longrightarrow> \<not> score_less (cd_score d') (cd_score d)"
    by (rule claim_locked_Claimed) (rule that)
  have "hd (cd_score d) \<le> hd (cd_score d') \<and> (hd (cd_score d') = hd (cd_score d) \<longrightarrow>
      claims_in_workspace w (rs_workspace_id (cd_scope d)) \<le> claims_in_workspace w (rs_workspace_id (cd_scope d')))"
    if "offers env w ?v i d'" for i d'
    using least [OF that] offered_score [OF off] offered_score [OF that]
    by (auto simp: score_of_def count_claims_workspace)
  with cl off rid id least show ?thesis by (intro exI [of _ w] exI [of _ effs0] exI [of _ ?v] exI [of _ j] exI [of _ d]) auto
qed

definition demo_claim_env :: claim_env where
  "demo_claim_env = \<lparr>ordered_runtime_preferences_for_run = \<lambda>_. [], required_capabilities_for_run = \<lambda>_. [],
     normalize_capability_ids = \<lambda>_. [], parse_utc_ts = None, clock_now = None, now_iso_text = ''t0'',
     fresh_lease_id = ''lease-1'', fresh_uuid = ''uuid-1''\<rparr>"

definition demo_world :: lease_world where
  "demo_world = \<lparr>pending_run_ids = [''run-1'', ''run-2''], claimed_runs = [],
     worker_registry = [(''w'', PDict [(''machine_id'', PStr ''mac-7''), (''tenant_id'', PStr ''acme'')])],
     runs_by_id = [(''run-1'', PDict [(''status'', PStr ''queued_local''), (''tenant_id'', PStr ''acme'')]),
                   (''run-2'', PDict [(''status'', PStr ''starting''), (''tenant_id'', PStr ''acme'')])]\<rparr>"

definition demo_kernel :: kernel where
  "demo_kernel command payload = Inr [(''decision'', PStr ''allow''),
     (''next_action'', PStr (if command = ''machine-lease-decision'' then ''persist_machine_lease_transition'' else ''claim_queue_item''))]"

definition demo_claim :: "lease_world \<times> effect list \<times> (lease_error + string option)" where
  "demo_claim = claim_local_machine_lease demo_kernel demo_claim_env (\<lambda>w. (w, [], None)) PNone 60 ''w'' demo_world"

lemma demo_claim_eval: "snd (snd demo_claim) = Inr (Some ''run-1'')"
  by code_simp

lemma demo_claim_eq:
  "claim_local_machine_lease demo_kernel demo_claim_env (\<lambda>w. (w, [], None)) PNone 60 ''w'' demo_world =
   (fst demo_claim, fst (snd demo_claim), Inr (Some ''run-1''))"
  using demo_claim_eval by (metis demo_claim_def prod.collapse)

theorem claimed_run_suits_worker_witness:
  "''run-1'' \<notin> set (pending_run_ids (fst demo_claim)) \<and> (\<exists>claim. dget (claimed_runs (fst demo_claim)) ''run-1'' = PDict claim)"
  using claimed_run_suits_worker [OF demo_claim_eq] by blast

theorem claim_favours_idle_workspaces_witness:
  "\<exists>j d. offers demo_claim_env demo_world (claim_view_of demo_claim_env PNone demo_world ''w'') j d \<and>
     ''run-1'' = strip (pending_run_ids demo_world ! j)"
  using claim_favours_idle_workspaces [OF demo_claim_eq] by auto

definition claims_of_runtime :: "pydict \<Rightarrow> string \<Rightarrow> pydict" where
  "claims_of_runtime claimed worker_id =
     filter (\<lambda>(_, claim). is_dict claim \<and> dget (as_dict (dget (as_dict claim) ''metadata'')) ''runtime_id'' = PStr worker_id) claimed"

definition claims_recorded_under :: "pydict \<Rightarrow> string \<Rightarrow> bool" where
  "claims_recorded_under claimed worker_id =
     list_all (\<lambda>(_, claim). claim_holder (as_dict claim) = worker_id) (claims_of_runtime claimed worker_id)"

lemma machine_of_worker_stripped [simp]: "strip (machine_of_worker ws worker_id) = machine_of_worker ws worker_id"
  by (simp add: machine_of_worker_def sor_def)

lemma claim_record_holder:
  "machine_of_worker (cv_worker_state v) (cv_worker_id v) \<noteq> [] \<Longrightarrow>
   claim_holder (claim_record_for env v lease_seconds run_id d) = machine_of_worker (cv_worker_state v) (cv_worker_id v)"
  by (simp add: claim_holder_def claim_record_for_def build_machine_lease_record_def Let_def dget_Cons por_def text_of_PStr)

lemma recorded_under_dset:
  assumes "claims_recorded_under claimed worker_id" and "claim_holder claim = worker_id"
  shows "claims_recorded_under (dset run_id (PDict claim) claimed) worker_id"
  using assms by (induction claimed) (auto simp: claims_recorded_under_def claims_of_runtime_def)

lemma recorded_count:
  assumes "claims_recorded_under claimed worker_id"
  shows "int (length (claims_of_runtime claimed worker_id)) \<le> active_worker_lease_count claimed worker_id"
  using assms unfolding claims_recorded_under_def claims_of_runtime_def active_worker_lease_count_def
  by (auto simp: list_all_iff intro!: length_filter_mono)

lemma active_count_le: "active_worker_lease_count claimed worker_id \<le> int (length claimed)"
  by (simp add: active_worker_lease_count_def)


lemma claim_locked_kernel:
  assumes "claim_locked k1 env required lease_seconds worker_id w = Inr r"
    and "\<And>m. to_int (por (dget (as_dict (dget (worker_registry w) worker_id)) ''max_concurrent_sessions'') (PInt 1)) = Inr m \<Longrightarrow>
      \<exists>x. enforce_machine_lease_decision k2 (acquire_args w worker_id m lease_seconds) False = Inr x"
    and "\<And>j d. offers env w (claim_view_of env required w worker_id) j d \<Longrightarrow>
      \<exists>x. enforce_queue_transition_decision k2 (claim_args (strip (cd_run_id d)) worker_id (cd_run d)) = Inr x"
  shows "claim_locked k2 env required lease_seconds worker_id w = Inr r"
proof -
  let ?v = "claim_view_of env required w worker_id"
  have v: "cv_worker_id ?v = worker_id" "cv_worker_state ?v = as_dict (dget (worker_registry w) worker_id)"
    by (simp_all add: claim_view_of_def Let_def)
  have commit: "commit_claim k1 env ?v lease_seconds (min_candidate d ds) remaining w = Inr x \<Longrightarrow>
      commit_claim k2 env ?v lease_seconds (min_candidate d ds) remaining w = Inr x"
    if scan: "scan_pending env w ?v (counts_of w) 0 (pending_run_ids w) = Inr (d # ds, remaining, f)" for d ds remaining f x
  proof -
    have "min_candidate d ds \<in> set (d # ds)" by (rule min_candidate_in)
    then obtain j where "offers env w ?v j (min_candidate d ds)"
      unfolding scan_pending_spec(2) [OF scan] by (auto simp: offers_def)
    from assms(3) [OF this] assms(2)
    show "commit_claim k1 env ?v lease_seconds (min_candidate d ds) remaining w = Inr x \<Longrightarrow>
        commit_claim k2 env ?v lease_seconds (min_candidate d ds) remaining w = Inr x"
      by (fastforce simp: commit_claim_def Let_def res_simps v)
  qed
  show ?thesis
    using assms(1) commit unfolding claim_locked_eq by (auto split: sum.splits list.splits if_splits simp: res_simps Let_def)
qed

text \<open>The demonstration worker \<^verbatim>\<open>w\<close> is registered on machine \<^verbatim>\<open>mac-7\<close>; its own claims are recorded under
  the machine and not counted for it.\<close>

definition second_claim :: "lease_error + (lease_world \<times> claim_outcome \<times> bool)" where
  "second_claim = claim_locked demo_kernel demo_claim_env PNone 60 ''w'' (fst demo_claim)"

lemma second_claim_eval:
  "map_sum id (\<lambda>t. fst (snd t)) second_claim = Inr (Claimed ''run-2'' False)"
  "active_worker_lease_count (claimed_runs (fst demo_claim)) ''w'' = 0"
  "pending_run_ids (fst demo_claim) = [''run-2'']" "runs_by_id (fst demo_claim) = runs_by_id demo_world"
  by code_simp+

lemma demo_queue_gate:
  assumes "run \<in> {[(''status'', PStr ''queued_local''), (''tenant_id'', PStr ''acme'')], [(''status'', PStr ''starting''), (''tenant_id'', PStr ''acme'')]}"
    and "run_id \<in> {''run-1'', ''run-2''}"
  shows "\<exists>x. enforce_queue_transition_decision (rust_kernel kenv) (claim_args (strip run_id) ''w'' run) = Inr x"
proof -
  have q: "\<exists>x. enforce_queue_transition_decision (rust_kernel kenv) (claim_args (strip r) ''w'' run) = Inr x"
    if "strip r \<noteq> []" "strip ''w'' \<noteq> []" "\<not> terminal_status (queue_status (sor (strip (sor (text_default (dget run ''status'') ''queued_local'') ''unknown'')) ''unknown''))"
      "\<not> busy_status (queue_status (sor (strip (sor (text_default (dget run ''status'') ''queued_local'') ''unknown'')) ''unknown''))" for r run
    using that by (subst queue_claim_gate) (simp_all add: claim_args_def Let_def)
  have ids: "strip ''run-1'' \<noteq> []" "strip ''run-2'' \<noteq> []" "strip ''w'' \<noteq> []" by code_simp+
  have st: "\<not> terminal_status (queue_status (sor (strip (sor (text_default (PStr ''queued_local'') ''queued_local'') ''unknown'')) ''unknown''))"
    "\<not> busy_status (queue_status (sor (strip (sor (text_default (PStr ''queued_local'') ''queued_local'') ''unknown'')) ''unknown''))"
    "\<not> terminal_status (queue_status (sor (strip (sor (text_default (PStr ''starting'') ''queued_local'') ''unknown'')) ''unknown''))"
    "\<not> busy_status (queue_status (sor (strip (sor (text_default (PStr ''starting'') ''queued_local'') ''unknown'')) ''unknown''))"
    by code_simp+
  have "dget run ''status'' \<in> {PStr ''queued_local'', PStr ''starting''}" using assms(1) by (auto simp: dget_Cons)
  then show ?thesis using assms(2) st ids by (intro q) auto
qed

lemma demo_offers:
  assumes "runs_by_id w = runs_by_id demo_world" and "set (pending_run_ids w) \<subseteq> {''run-1'', ''run-2''}" and "offers env w v j d"
  shows "\<exists>x. enforce_queue_transition_decision (rust_kernel kenv) (claim_args (strip (cd_run_id d)) ''w'' (cd_run d)) = Inr x"
proof (rule demo_queue_gate)
  have "pending_run_ids w ! j \<in> {''run-1'', ''run-2''}" using assms(2,3) by (auto simp: offers_def subset_iff in_set_conv_nth)
  with assms(1,3) show "cd_run_id d \<in> {''run-1'', ''run-2''}"
    "cd_run d \<in> {[(''status'', PStr ''queued_local''), (''tenant_id'', PStr ''acme'')], [(''status'', PStr ''starting''), (''tenant_id'', PStr ''acme'')]}"
    by (auto simp: offers_id elim!: offered_run) (auto simp: demo_world_def dget_Cons)
qed

lemma demo_acquire_gate:
  assumes "active_worker_lease_count (claimed_runs w) ''w'' = 0"
  shows "\<exists>x. enforce_machine_lease_decision (rust_kernel kenv) (acquire_args w ''w'' 1 60) False = Inr x"
proof -
  have "strip ''w'' \<noteq> []" by code_simp
  with assms show ?thesis by (subst acquire_gate) (simp_all add: counts_fit_def acquire_args_def)
qed

text \<open>The capacity limit is counted under the worker id but claims are recorded under the machine id:
  a worker registered on a machine with another id, limited to one session, is granted a second run
  by the real kernel decisions while it still holds the first.\<close>

theorem machine_id_hides_leases:
  "\<exists>w1 f1 w2 f2.
     claim_locked (rust_kernel kenv) demo_claim_env PNone 60 ''w'' demo_world = Inr (w1, Claimed ''run-1'' f1, True) \<and>
     claim_locked (rust_kernel kenv) demo_claim_env PNone 60 ''w'' w1 = Inr (w2, Claimed ''run-2'' f2, True) \<and>
     length (claims_of_runtime (claimed_runs w2) ''w'') = 2 \<and>
     dget (as_dict (dget (worker_registry demo_world) ''w'')) ''max_concurrent_sessions'' = PNone"
proof -
  have reg: "to_int (por (dget (as_dict (dget (worker_registry w) ''w'')) ''max_concurrent_sessions'') (PInt 1)) = Inr m \<Longrightarrow> m = 1"
    if "worker_registry w = worker_registry demo_world" for w m
    using that by (simp add: demo_world_def dget_Cons por_def to_int_def of_option_def)
  obtain f1 c1 where k1: "claim_locked demo_kernel demo_claim_env PNone 60 ''w'' demo_world = Inr (fst demo_claim, Claimed ''run-1'' f1, c1)"
    using demo_claim_eq by (auto elim!: claim_result)
  obtain w2 c2 where k2: "claim_locked demo_kernel demo_claim_env PNone 60 ''w'' (fst demo_claim) = Inr (w2, Claimed ''run-2'' False, c2)"
    using second_claim_eval(1) by (cases second_claim) (auto simp: second_claim_def)
  have c: c1 c2 using k1 k2 by (auto elim!: claim_locked_Claimed)
  have same: "worker_registry (fst demo_claim) = worker_registry demo_world" by code_simp
  have zero: "active_worker_lease_count (claimed_runs demo_world) ''w'' = 0" by code_simp
  have gate: "\<exists>x. enforce_machine_lease_decision (rust_kernel kenv) (acquire_args w ''w'' m 60) False = Inr x"
    if "to_int (por (dget (as_dict (dget (worker_registry w) ''w'')) ''max_concurrent_sessions'') (PInt 1)) = Inr m"
      "worker_registry w = worker_registry demo_world" "active_worker_lease_count (claimed_runs w) ''w'' = 0" for w m
    using demo_acquire_gate [OF that(3)] reg [OF that(2,1)] by simp
  have r1: "claim_locked (rust_kernel kenv) demo_claim_env PNone 60 ''w'' demo_world = Inr (fst demo_claim, Claimed ''run-1'' f1, c1)"
    by (rule claim_locked_kernel [OF k1 gate [OF _ refl zero] demo_offers]) (simp_all add: demo_world_def)
  have r2: "claim_locked (rust_kernel kenv) demo_claim_env PNone 60 ''w'' (fst demo_claim) = Inr (w2, Claimed ''run-2'' False, c2)"
    by (rule claim_locked_kernel [OF k2 gate [OF _ same second_claim_eval(2)] demo_offers]) (simp_all add: second_claim_eval)
  have "case second_claim of Inr (w2, _) \<Rightarrow> length (claims_of_runtime (claimed_runs w2) ''w'') = 2 | _ \<Rightarrow> False" by code_simp
  then have "length (claims_of_runtime (claimed_runs w2) ''w'') = 2" by (simp add: second_claim_def k2)
  moreover have "dget (as_dict (dget (worker_registry demo_world) ''w'')) ''max_concurrent_sessions'' = PNone" by (simp add: demo_world_def dget_Cons)
  ultimately show ?thesis using r1 r2 c
    by (intro exI [of _ "fst demo_claim"] exI [of _ f1] exI [of _ w2] exI [of _ False]) simp
qed

definition own_world :: lease_world where
  "own_world = demo_world\<lparr>worker_registry := [(''w'', PDict [(''machine_id'', PStr ''w''), (''tenant_id'', PStr ''acme'')])]\<rparr>"

definition own_claim :: "kernel \<Rightarrow> lease_world \<times> effect list \<times> (lease_error + string option)" where
  "own_claim kern = claim_local_machine_lease kern demo_claim_env (\<lambda>w. (w, [], None)) PNone 60 ''w'' own_world"

lemma own_claim_eval: "snd (snd (own_claim demo_kernel)) = Inr (Some ''run-1'')" "active_worker_lease_count (claimed_runs own_world) ''w'' = 0"
  by code_simp+

lemma own_claim_rust: "snd (snd (own_claim (rust_kernel kenv))) = Inr (Some ''run-1'')"
proof -
  have "own_claim demo_kernel = (fst (own_claim demo_kernel), fst (snd (own_claim demo_kernel)), Inr (Some ''run-1''))"
    using own_claim_eval(1) by (metis prod.collapse)
  then obtain r where k1: "claim_locked demo_kernel demo_claim_env PNone 60 ''w'' own_world = Inr r"
    unfolding own_claim_def by (auto elim!: claim_result)
  have reg: "m = 1" if "to_int (por (dget (as_dict (dget (worker_registry own_world) ''w'')) ''max_concurrent_sessions'') (PInt 1)) = Inr m" for m
    using that by (simp add: own_world_def dget_Cons por_def to_int_def of_option_def)
  have "claim_locked (rust_kernel kenv) demo_claim_env PNone 60 ''w'' own_world = Inr r"
    by (rule claim_locked_kernel [OF k1 _ demo_offers])
      (use demo_acquire_gate [OF own_claim_eval(2)] reg in \<open>auto simp: own_world_def demo_world_def\<close>)
  with k1 have "own_claim (rust_kernel kenv) = own_claim demo_kernel" by (simp add: own_claim_def claim_local_machine_lease_def)
  then show ?thesis using own_claim_eval(1) by simp
qed


lemma queue_gate_error_409: "\<exists>t. queue_gate_error op e = HTTPException 409 t"
  by (cases e) (auto simp: queue_gate_error_def)

lemma queue_gate_raises:
  assumes "\<nexists>d. enforce_queue_transition_decision kern a = Inr d"
  obtains t where "enforce_queue_transition_decision kern a = Inl (HTTPException 409 t)"
proof -
  from assms obtain e where e: "enforce_queue_transition_decision kern a = Inl e"
    by (cases "enforce_queue_transition_decision kern a") auto
  then have "\<exists>t. e = HTTPException 409 t"
    using queue_gate_error_409 by (fastforce simp: enforce_queue_transition_decision_def Let_def split: sum.splits if_splits)
  with e that show thesis by blast
qed

lemma lease_gate_attribute_error:
  assumes "la_operation a = ''release''" and "\<nexists>d. enforce_machine_lease_decision (rust_kernel kenv) a True = Inr d"
  shows "enforce_machine_lease_decision (rust_kernel kenv) a True = Inl AttributeError"
proof (cases "rust_kernel kenv ''machine-lease-decision'' (machine_lease_payload a)")
  case (Inl e)
  then show ?thesis by (simp add: enforce_machine_lease_decision_def)
next
  case (Inr d)
  then have "decides (rust_decision ''machine-lease-decision'' (machine_lease_payload a)) ''allow''" using rust_kernel_Inr by blast
  then have "\<exists>d. enforce_machine_lease_decision (rust_kernel kenv) a True = Inr d"
    using lease_gate_iff [of a kenv True] assms(1) by (simp add: rust_decision_def)
  with assms(2) show ?thesis by blast
qed



end
