(* ===== verification/Lease_Recovery.thy ===== *)
theory Lease_Recovery
  imports Machine_Lease
begin

text \<open>
  \<^verbatim>\<open>cleanup_stale_machine_leases\<close> of \<^verbatim>\<open>server_modules/machine_lease_service.py\<close>: claims whose worker
  stopped sending heartbeats are released, the worker is marked offline, and every run so orphaned is
  either paused for a person, resumed from its browser checkpoint, put back into the pending queue or
  dead-lettered, within two retry budgets. Beside it stands how runs enter the pending list,
  \<^verbatim>\<open>enqueue_local_companion_run\<close> of \<^verbatim>\<open>server_modules/outbox_service.py\<close>. The last section proves the invariants that claiming,
  releasing, reconciling and cleaning up keep together.

  The callbacks the function receives are the fields of \<open>recovery_env\<close>. \<^verbatim>\<open>set_run_status_fn\<close> and
  \<^verbatim>\<open>schedule_restored_run_resume_fn\<close> act on the whole world, as the real ones may archive the run or
  touch the queue; a resume that raises counts as not resumed. \<^verbatim>\<open>iso_after\<close> is the timestamp
  \<^verbatim>\<open>(now + timedelta(seconds=s)).isoformat()\<close>, with \<open>None\<close> for the overflow the code catches.
\<close>

section \<open>Environment\<close>

record recovery_env =
  re_now :: rat
  re_parse_utc_ts :: "pyval \<Rightarrow> rat option"
  re_now_iso :: string
  iso_after :: "int \<Rightarrow> string option"
  re_set_run_status :: "string \<Rightarrow> string \<Rightarrow> lease_world \<Rightarrow> lease_world"
  re_resume :: "(string \<Rightarrow> lease_world \<Rightarrow> lease_world \<times> bool) option"
  checkpoint_recovery_max_auto_retries :: int
  checkpoint_recovery_backoff_seconds :: "int list"
  local_worker_lost_timeout_seconds :: int
  default_lease_seconds :: int
  requeue_enabled :: bool
  max_queue_retry_attempts :: int
  queue_retry_backoff_seconds :: "int list"
  dead_letters_enabled :: bool

record stale_item =
  si_run_id :: string
  si_worker_id :: "string option"
  si_machine_id :: "string option"
  si_lease_seconds :: int
  si_last_heartbeat_at :: pyval

section \<open>Releasing stale claims\<close>

definition last_heartbeat :: "recovery_env \<Rightarrow> pydict \<Rightarrow> rat" where
  "last_heartbeat env claim =
     (case re_parse_utc_ts env (dget claim ''last_heartbeat_at'') of
        Some t \<Rightarrow> t
      | None \<Rightarrow> (case re_parse_utc_ts env (dget claim ''claimed_at'') of Some t \<Rightarrow> t | None \<Rightarrow> re_now env))"

definition is_stale :: "recovery_env \<Rightarrow> pydict \<Rightarrow> bool" where
  "is_stale env claim = (of_int (local_worker_lost_timeout_seconds env) < re_now env - last_heartbeat env claim)"

definition item_of_claim :: "string \<Rightarrow> int \<Rightarrow> pydict \<Rightarrow> stale_item" where
  "item_of_claim run_id lease_seconds claim =
     (let worker_id = text_of (dget claim ''worker_id'') in
      \<lparr>si_run_id = run_id, si_worker_id = snone worker_id,
       si_machine_id = snone (text_of (por (dget claim ''machine_id'') (PStr worker_id))),
       si_lease_seconds = lease_seconds, si_last_heartbeat_at = dget claim ''last_heartbeat_at''\<rparr>)"

text \<open>The worker of a stale claim is marked offline; the record keeps its last sighting.\<close>

definition mark_worker_offline :: "recovery_env \<Rightarrow> pydict \<Rightarrow> int \<Rightarrow> string \<Rightarrow> pydict \<Rightarrow> lease_error + pydict" where
  "mark_worker_offline env claim lease_seconds worker_id workers =
     (let worker_state = as_dict (dget workers worker_id);
          last_seen_at = por (dget worker_state ''last_seen_at'')
            (por (dget claim ''last_heartbeat_at'') (por (dget claim ''claimed_at'') (PStr (re_now_iso env))))
      in rbind (to_int (por (dget worker_state ''lease_seconds'') (PInt lease_seconds))) (\<lambda>seconds.
         rbind (build_machine_presence_record worker_state worker_id None ''offline'' seconds (py_str last_seen_at) (dget worker_state ''note''))
           (\<lambda>record. Inr (dset worker_id (PDict record) workers))))"

text \<open>One pass of the loop over the claims: the world, its calls, the stale item if the claim was
  released, whether the state changed, and what was raised.\<close>

definition expire_claim ::
    "kernel \<Rightarrow> recovery_env \<Rightarrow> string \<times> pyval \<Rightarrow> lease_world \<Rightarrow> lease_world \<times> effect list \<times> stale_item option \<times> bool \<times> lease_error option" where
  "expire_claim kern env entry w =
     (let run_id = fst entry; popped = w\<lparr>claimed_runs := dpop run_id (claimed_runs w)\<rparr> in
      case snd entry of
        PDict claim \<Rightarrow>
          (case py_int (por (dget claim ''lease_seconds'') (PInt (default_lease_seconds env))) of
             None \<Rightarrow> (w, [], None, False, Some ConversionError)
           | Some claimed_seconds \<Rightarrow>
               let lease_seconds = max 10 claimed_seconds;
                   item = item_of_claim run_id lease_seconds claim;
                   holder = sor (text_of (dget claim ''worker_id'')) (case si_machine_id item of Some m \<Rightarrow> m | None \<Rightarrow> []);
                   lease = text_of (dget claim ''lease_id'');
                   written = [release_write_effect run_id claim]
               in if \<not> is_stale env claim then (w, [], None, False, None)
                  else case rbind (enforce_queue_transition_decision kern (release_queue_args run_id holder holder True))
                         (\<lambda>_. enforce_machine_lease_decision kern (release_lease_args holder holder lease lease True) False) of
                    Inl e \<Rightarrow> (w, [], None, False, Some e)
                  | Inr _ \<Rightarrow>
                      (case si_worker_id item of
                         None \<Rightarrow> (popped, written, Some item, True, None)
                       | Some worker_id \<Rightarrow>
                           (case mark_worker_offline env claim lease_seconds worker_id (worker_registry w) of
                              Inl e \<Rightarrow> (popped, written, None, True, Some e)
                            | Inr workers \<Rightarrow> (popped\<lparr>worker_registry := workers\<rparr>, written, Some item, True, None))))
      | _ \<Rightarrow> (popped, [], None, True, None))"

fun expire_claims ::
    "kernel \<Rightarrow> recovery_env \<Rightarrow> pydict \<Rightarrow> lease_world \<Rightarrow> lease_world \<times> effect list \<times> stale_item list \<times> bool \<times> lease_error option" where
  "expire_claims kern env [] w = (w, [], [], False, None)"
| "expire_claims kern env (entry # rest) w =
     (case expire_claim kern env entry w of
        (w1, effs, item, changed, Some e) \<Rightarrow> (w1, effs, [], changed, Some e)
      | (w1, effs, item, changed, None) \<Rightarrow>
          (case expire_claims kern env rest w1 of
             (w2, effs', items, changed', err) \<Rightarrow>
               (w2, effs @ effs', (case item of None \<Rightarrow> items | Some i \<Rightarrow> i # items), changed \<or> changed', err)))"

section \<open>Recovering the orphaned runs\<close>

definition put_run :: "string \<Rightarrow> pydict \<Rightarrow> lease_world \<Rightarrow> lease_world" where
  "put_run run_id run w = w\<lparr>runs_by_id := dset run_id (PDict run) (runs_by_id w)\<rparr>"

text \<open>A change of the run after a callback: the local variable of the code is the object in the
  dictionary, and no longer visible when the callback removed it.\<close>

definition change_run :: "string \<Rightarrow> (pydict \<Rightarrow> pydict) \<Rightarrow> lease_world \<Rightarrow> lease_world" where
  "change_run run_id f w = (case dget (runs_by_id w) run_id of PDict run \<Rightarrow> put_run run_id (f run) w | _ \<Rightarrow> w)"

definition get_run :: "string \<Rightarrow> lease_world \<Rightarrow> pydict" where
  "get_run run_id w = as_dict (dget (runs_by_id w) run_id)"

text \<open>\<^verbatim>\<open>metadata[k] = v\<close> for each pair, then \<^verbatim>\<open>context["metadata"] = metadata; run["context"] = context\<close>.\<close>

definition set_metadata :: "pydict \<Rightarrow> pydict \<Rightarrow> pydict" where
  "set_metadata kvs run =
     dset ''context'' (PDict (dset ''metadata'' (PDict (dmerge (metadata_for_run run) kvs)) (run_context run))) run"

definition log_effect :: "pydict \<Rightarrow> string \<Rightarrow> string \<Rightarrow> string \<Rightarrow> string \<Rightarrow> pydict \<Rightarrow> effect list" where
  "log_effect run run_id level message event data =
     (if dget run ''logs'' \<noteq> PNone then [EmitLog run_id level message event data] else [])"

definition item_fields :: "stale_item \<Rightarrow> pydict" where
  "item_fields item = [(''worker_id'', opt_str (si_worker_id item)), (''machine_id'', opt_str (si_machine_id item))]"

definition checkpoint_fields :: "pydict \<Rightarrow> pydict" where
  "checkpoint_fields checkpoint =
     [(''next_action_index'', dget checkpoint ''next_action_index''), (''session_profile'', dget checkpoint ''session_profile'')]"

text \<open>\<^verbatim>\<open>schedule[min(max(0, attempt_count - 1), len(schedule) - 1)]\<close> with negative entries raised to 0
  and \<open>[0]\<close> for an empty schedule.\<close>

definition backoff_for :: "int list \<Rightarrow> int \<Rightarrow> int" where
  "backoff_for schedule attempt_count =
     (let s = (if schedule = [] then [0] else map (max 0) schedule)
      in s ! nat (min (max 0 (attempt_count - 1)) (int (length s) - 1)))"

definition next_retry_at :: "recovery_env \<Rightarrow> int \<Rightarrow> pyval" where
  "next_retry_at env backoff_seconds =
     (if 0 < backoff_seconds then PStr (case iso_after env backoff_seconds of Some t \<Rightarrow> t | None \<Rightarrow> re_now_iso env) else PNone)"

definition dead_letter_effect :: "recovery_env \<Rightarrow> run_scope \<Rightarrow> pydict \<Rightarrow> string \<Rightarrow> string \<Rightarrow> int \<Rightarrow> pydict \<Rightarrow> effect list" where
  "dead_letter_effect env scope run run_id reason failure_count payload =
     (if dead_letters_enabled env
      then [DeadLetter run_id (rs_tenant_id scope) (rs_workspace_id scope) (rs_specialist_key scope) reason
              (text_of (por (dget run ''trace_id'') (dget (metadata_for_run run) ''trace_id''))) failure_count payload]
      else [])"

definition paused_text :: string where
  "paused_text = ''Worker lost connection repeatedly. Automatic checkpoint recovery is paused.''"

definition pause_recovery :: "recovery_env \<Rightarrow> stale_item \<Rightarrow> pydict \<Rightarrow> pydict \<Rightarrow> int \<Rightarrow> int \<Rightarrow> lease_world \<Rightarrow> lease_world \<times> effect list" where
  "pause_recovery env item run checkpoint previous_attempts max_auto_retries w =
     (let run_id = si_run_id item;
          seen = (''last_heartbeat_at'', si_last_heartbeat_at item);
          attempts = [(''attempt_count'', PInt previous_attempts), (''max_auto_retries'', PInt max_auto_retries)];
          run' = set_metadata
            [(''browser_resume_supported'', PBool True), (''resume_ready'', PBool True),
             (''local_worker_recovery_reason'', PStr ''worker_lost''),
             (''local_worker_recovery_auto_retry_exhausted'', PBool True),
             (''local_worker_recovery_manual_confirmation_required'', PBool True),
             (''local_worker_recovery_attempt_count'', PInt previous_attempts),
             (''local_worker_recovery_next_retry_at'', PNone), (''local_worker_recovery_backoff_seconds'', PInt 0)]
            (dset ''result_data'' (PDict ([(''summary'', PStr paused_text), (''error'', PStr ''local_worker_recovery_exhausted''),
                (''resume_available'', PBool True), (''manual_confirmation_required'', PBool True)] @
                item_fields item @ [seen] @ checkpoint_fields checkpoint @ attempts))
            (dset ''result'' (PStr paused_text) run))
      in (re_set_run_status env run_id ''waiting_for_input'' (put_run run_id run' w),
          dead_letter_effect env (run_scope_from_payload run) run run_id ''checkpoint_recovery_exhausted'' previous_attempts
            ([(''run_id'', PStr run_id)] @ item_fields item @ [seen] @ checkpoint_fields checkpoint @ attempts @
             [(''failure_kind'', PStr ''checkpoint_recovery'')]) @
          log_effect run' run_id ''error'' paused_text ''local_worker_recovery_exhausted''
            ([(''run_id'', PStr run_id)] @ item_fields item @ attempts @ checkpoint_fields checkpoint)))"

definition recoverable_run :: "recovery_env \<Rightarrow> stale_item \<Rightarrow> pydict \<Rightarrow> pydict \<Rightarrow> int \<Rightarrow> int \<Rightarrow> int \<Rightarrow> pydict" where
  "recoverable_run env item run checkpoint attempt_count max_auto_retries backoff_seconds =
     (let summary = (if 0 < backoff_seconds
            then ''Worker lost connection. Recovery from saved browser checkpoint is delayed before retry.''
            else ''Worker lost connection. Recovering from saved browser checkpoint.'')
      in set_metadata
           [(''browser_resume_supported'', PBool True), (''resume_ready'', PBool True),
            (''local_worker_recovery_reason'', PStr ''worker_lost''),
            (''local_worker_recovery_attempt_count'', PInt attempt_count),
            (''local_worker_recovery_backoff_seconds'', PInt backoff_seconds),
            (''local_worker_recovery_max_auto_retries'', PInt max_auto_retries),
            (''local_worker_recovery_auto_retry_exhausted'', PBool False),
            (''local_worker_recovery_manual_confirmation_required'', PBool False),
            (''local_worker_recovery_next_retry_at'', next_retry_at env backoff_seconds)]
           (dset ''result_data'' (PDict ([(''summary'', PStr summary), (''error'', PStr ''local_worker_lost_recoverable''),
               (''resume_available'', PBool True)] @ item_fields item @ [(''last_heartbeat_at'', si_last_heartbeat_at item)] @
               checkpoint_fields checkpoint @
               [(''attempt_count'', PInt attempt_count), (''max_auto_retries'', PInt max_auto_retries),
                (''retry_backoff_seconds'', PInt backoff_seconds), (''next_retry_at'', next_retry_at env backoff_seconds)]))
           (dset ''result'' (PStr summary) run)))"

text \<open>The checkpoint branch. The Boolean says whether the run is dealt with; otherwise the code goes
  on to the queue retry with the world as it is then.\<close>

definition checkpoint_recovery ::
    "recovery_env \<Rightarrow> stale_item \<Rightarrow> pydict \<Rightarrow> pydict \<Rightarrow> lease_world \<Rightarrow> lease_world \<times> effect list \<times> bool \<times> lease_error option" where
  "checkpoint_recovery env item run checkpoint w =
     (let run_id = si_run_id item in
      case py_int (por (dget (metadata_for_run run) ''local_worker_recovery_attempt_count'') (PInt 0)) of
        None \<Rightarrow> (put_run run_id run w, [], False, Some ConversionError)
      | Some previous_attempts \<Rightarrow>
          let attempt_count = previous_attempts + 1; max_auto_retries = max 1 (checkpoint_recovery_max_auto_retries env) in
          if max_auto_retries < attempt_count then
            (case pause_recovery env item run checkpoint previous_attempts max_auto_retries w of (w', effs) \<Rightarrow> (w', effs, True, None))
          else
            let backoff_seconds = backoff_for (checkpoint_recovery_backoff_seconds env) attempt_count;
                run1 = recoverable_run env item run checkpoint attempt_count max_auto_retries backoff_seconds;
                w1 = re_set_run_status env run_id ''waiting_for_input'' (put_run run_id run1 w);
                lost_log = log_effect run1 run_id ''warn'' ''Worker lost connection. Recovering from saved browser checkpoint.''
                  ''local_worker_lost_recoverable''
                  ([(''run_id'', PStr run_id)] @ item_fields item @ [(''lease_seconds'', PInt (si_lease_seconds item)),
                    (''last_heartbeat_at'', si_last_heartbeat_at item)] @ checkpoint_fields checkpoint @
                   [(''attempt_count'', PInt attempt_count), (''retry_backoff_seconds'', PInt backoff_seconds),
                    (''next_retry_at'', next_retry_at env backoff_seconds)])
            in if 0 < backoff_seconds then
                 (w1, lost_log @ log_effect run1 run_id ''warn''
                    (''Automatic checkpoint recovery will retry in '' @ int_str backoff_seconds @ '' second(s).'') ''local_worker_recovery_backoff''
                    [(''run_id'', PStr run_id), (''attempt_count'', PInt attempt_count), (''retry_backoff_seconds'', PInt backoff_seconds),
                     (''next_retry_at'', next_retry_at env backoff_seconds)], True, None)
               else
                 (case (case re_resume env of None \<Rightarrow> (w1, False) | Some resume \<Rightarrow> resume run_id w1) of
                    (w2, True) \<Rightarrow>
                      (change_run run_id (set_metadata
                         [(''local_worker_recovery_next_retry_at'', PNone), (''local_worker_recovery_backoff_seconds'', PInt 0),
                          (''local_worker_recovery_last_resume_scheduled_at'', PStr (re_now_iso env))]) w2,
                       lost_log @ log_effect run1 run_id ''info'' ''Automatic local checkpoint recovery was scheduled after worker loss.''
                         ''local_resume_scheduled_after_worker_loss''
                         ([(''run_id'', PStr run_id)] @ item_fields item @ checkpoint_fields checkpoint @ [(''attempt_count'', PInt attempt_count)]),
                       True, None)
                  | (w2, False) \<Rightarrow>
                      (change_run run_id (dpop ''_resume_after_confirmation_scheduled'') w2, lost_log, False, None)))"

text \<open>The queue retry: put the run back into the pending list, with a backoff, or give it up.\<close>

definition requeued_run :: "recovery_env \<Rightarrow> stale_item \<Rightarrow> int \<Rightarrow> int \<Rightarrow> int \<Rightarrow> pydict \<Rightarrow> pydict" where
  "requeued_run env item attempt_count limit backoff_seconds run =
     (let summary = (if 0 < backoff_seconds then ''Worker lost connection. Requeued for another local worker after backoff.''
            else ''Worker lost connection. Requeued for another local worker.'')
      in dset ''result_data'' (PDict ([(''summary'', PStr summary), (''error'', PStr ''local_worker_requeued'')] @ item_fields item @
             [(''last_heartbeat_at'', si_last_heartbeat_at item), (''retry_count'', PInt attempt_count), (''max_retries'', PInt limit),
              (''retry_backoff_seconds'', PInt backoff_seconds), (''next_retry_at'', next_retry_at env backoff_seconds)]))
           (dset ''result'' (PStr summary)
           (set_metadata
             [(''local_queue_retry_reason'', PStr ''worker_lost''), (''local_queue_retry_count'', PInt attempt_count),
              (''local_queue_max_retries'', PInt limit), (''local_queue_retry_backoff_seconds'', PInt backoff_seconds),
              (''local_queue_next_retry_at'', next_retry_at env backoff_seconds)] run)))"

definition requeue_run :: "recovery_env \<Rightarrow> stale_item \<Rightarrow> int \<Rightarrow> int \<Rightarrow> lease_world \<Rightarrow> lease_world \<times> effect list" where
  "requeue_run env item attempt_count limit w =
     (let run_id = si_run_id item;
          backoff_seconds = backoff_for (queue_retry_backoff_seconds env) attempt_count;
          run1 = requeued_run env item attempt_count limit backoff_seconds (get_run run_id w);
          w1 = re_set_run_status env run_id ''queued_local'' (change_run run_id (\<lambda>_. run1) w)
      in (if run_id \<in> set (pending_run_ids w1) then w1 else w1\<lparr>pending_run_ids := pending_run_ids w1 @ [run_id]\<rparr>,
          log_effect run1 run_id ''warn'' (py_str (dget run1 ''result'')) ''local_worker_requeued''
            ([(''run_id'', PStr run_id), (''retry_count'', PInt attempt_count), (''max_retries'', PInt limit),
              (''retry_backoff_seconds'', PInt backoff_seconds), (''next_retry_at'', next_retry_at env backoff_seconds)] @ item_fields item) @
          [PersistState]))"

definition abandoned_run :: "stale_item \<Rightarrow> int \<Rightarrow> int \<Rightarrow> pydict \<Rightarrow> pydict" where
  "abandoned_run item previous_retry_count limit run =
     dset ''result_data'' (PDict ([(''summary'', PStr ''Worker lost connection.''), (''error'', PStr ''local_worker_lost_connection'')] @
         item_fields item @ [(''last_heartbeat_at'', si_last_heartbeat_at item), (''retry_count'', PInt previous_retry_count),
           (''max_retries'', PInt limit)]))
       (dset ''result'' (PStr ''Worker lost connection.'') run)"

definition abandon_run :: "recovery_env \<Rightarrow> stale_item \<Rightarrow> run_scope \<Rightarrow> int \<Rightarrow> int \<Rightarrow> lease_world \<Rightarrow> lease_world \<times> effect list" where
  "abandon_run env item scope previous_retry_count limit w =
     (let run_id = si_run_id item;
          run = get_run run_id w;
          run1 = abandoned_run item previous_retry_count limit run;
          seen = (''last_heartbeat_at'', si_last_heartbeat_at item);
          tally = [(''retry_count'', PInt previous_retry_count), (''max_retries'', PInt limit)]
      in (re_set_run_status env run_id ''failed'' (change_run run_id (\<lambda>_. run1) w),
          dead_letter_effect env scope run run_id ''worker_lost_retry_exhausted'' (max previous_retry_count limit)
            ([(''run_id'', PStr run_id)] @ item_fields item @ [seen] @ tally @ [(''failure_kind'', PStr ''worker_lost'')]) @
          log_effect run1 run_id ''error'' ''Worker lost connection. Run moved to the dead-letter queue after retry budget exhaustion.''
            ''local_worker_lost''
            ([(''run_id'', PStr run_id)] @ item_fields item @ [(''lease_seconds'', PInt (si_lease_seconds item)), seen] @ tally) @
          (if dget run1 ''logs'' \<noteq> PNone then [CloseLog run_id] else [])))"

definition queue_retry :: "recovery_env \<Rightarrow> stale_item \<Rightarrow> run_scope \<Rightarrow> string \<Rightarrow> lease_world \<Rightarrow> lease_world \<times> effect list \<times> lease_error option" where
  "queue_retry env item scope selected_target w =
     (let metadata = metadata_for_run (get_run (si_run_id item) w) in
      case (py_int (por (dget metadata ''local_queue_retry_count'') (PInt 0)),
            py_int (por (dget metadata ''local_queue_max_retries'') (PInt (max_queue_retry_attempts env)))) of
        (Some previous_retry_count, Some configured) \<Rightarrow>
          let limit = max 0 configured;
              (w', effs) = (if selected_target \<in> set [''local'', ''local_companion''] \<and> requeue_enabled env \<and> previous_retry_count < limit
                 then requeue_run env item (previous_retry_count + 1) limit w
                 else abandon_run env item scope previous_retry_count limit w)
          in (w', effs, None)
      | _ \<Rightarrow> (w, [], Some ConversionError))"

definition recover_run :: "recovery_env \<Rightarrow> stale_item \<Rightarrow> lease_world \<Rightarrow> lease_world \<times> effect list \<times> lease_error option" where
  "recover_run env item w =
     (case dget (runs_by_id w) (si_run_id item) of
        PDict run \<Rightarrow>
          let checkpoint = as_dict (dget run ''browser_checkpoint'');
              metadata = metadata_for_run run;
              scope = run_scope_from_payload run;
              selected_target = token_of (por (dget metadata ''execution_target_selected'') (dget metadata ''execution_target''));
              run0 = clear_active_machine_lease_binding run
          in if token_of (dget run ''status'') \<in> set [''completed'', ''failed'', ''timeout''] then (w, [], None)
             else if checkpoint \<noteq> [] \<and> selected_target \<in> set [''local'', ''local_companion''] then
               (case checkpoint_recovery env item run0 checkpoint w of
                  (w1, effs, _, Some e) \<Rightarrow> (w1, effs, Some e)
                | (w1, effs, True, None) \<Rightarrow> (w1, effs, None)
                | (w1, effs, False, None) \<Rightarrow>
                    (case queue_retry env item scope selected_target w1 of (w2, effs', err) \<Rightarrow> (w2, effs @ effs', err)))
             else queue_retry env item scope selected_target (put_run (si_run_id item) run0 w)
      | _ \<Rightarrow> (w, [], None))"

fun recover_runs :: "recovery_env \<Rightarrow> stale_item list \<Rightarrow> lease_world \<Rightarrow> lease_world \<times> effect list \<times> lease_error option" where
  "recover_runs env [] w = (w, [], None)"
| "recover_runs env (item # rest) w =
     (case recover_run env item w of
        (w1, effs, Some e) \<Rightarrow> (w1, effs, Some e)
      | (w1, effs, None) \<Rightarrow> (case recover_runs env rest w1 of (w2, effs', err) \<Rightarrow> (w2, effs @ effs', err)))"

definition cleanup_stale_machine_leases ::
    "kernel \<Rightarrow> recovery_env \<Rightarrow> lease_world \<Rightarrow> lease_world \<times> effect list \<times> (lease_error + string list)" where
  "cleanup_stale_machine_leases kern env w =
     (case expire_claims kern env (claimed_runs w) w of
        (w1, effs, items, changed, Some e) \<Rightarrow> (w1, effs, Inl e)
      | (w1, effs, items, changed, None) \<Rightarrow>
          (case recover_runs env items w1 of
             (w2, effs', err) \<Rightarrow>
               (w2, effs @ (if changed then [PersistState] else []) @ effs',
                case err of Some e \<Rightarrow> Inl e | None \<Rightarrow> Inr (map si_run_id items))))"

section \<open>Submitting runs\<close>

text \<open>\<^verbatim>\<open>build_local_runtime_state_snapshot\<close>: only dictionaries are kept.\<close>

definition dict_entries :: "pydict \<Rightarrow> pydict" where
  "dict_entries d = filter (\<lambda>(_, v). is_dict v) d"

definition build_local_runtime_state_snapshot :: "lease_world \<Rightarrow> effect" where
  "build_local_runtime_state_snapshot w = SaveSnapshot (pending_run_ids w) (dict_entries (claimed_runs w)) (dict_entries (worker_registry w))"

definition default_queued_message :: string where
  "default_queued_message = ''Run queued for Local Companion execution.''"

definition queued_message :: "string \<Rightarrow> pydict \<Rightarrow> string" where
  "queued_message message metadata =
     (let waiting_reason = text_of (dget metadata ''execution_target_reason'') in
      if message = default_queued_message \<and> waiting_reason \<noteq> [] \<and>
         (truthy (dget metadata ''execution_target_waiting_for_runtime'') \<or> truthy (dget metadata ''execution_target_waiting_for_capacity''))
      then waiting_reason else message)"

text \<open>The data of the log line: five lists copied from the metadata, each of which may raise.\<close>

definition queued_lists :: "pydict \<Rightarrow> lease_error + pyval list" where
  "queued_lists metadata =
     foldr (\<lambda>key rest. rbind (iterate (por (dget metadata key) (PList []))) (\<lambda>xs. rbind rest (\<lambda>ys. Inr (PList xs # ys))))
       [''execution_target_required_capabilities'', ''execution_target_missing_capabilities'', ''execution_target_matching_runtime_ids'',
        ''execution_target_available_runtime_ids'', ''execution_target_busy_runtime_ids''] (Inr [])"

definition queued_data :: "string \<Rightarrow> int \<Rightarrow> pydict \<Rightarrow> pyval list \<Rightarrow> pydict" where
  "queued_data run_id lease_seconds metadata copied =
     [(''run_id'', PStr run_id), (''lease_seconds'', PInt lease_seconds),
      (''waiting_for_runtime'', PBool (truthy (dget metadata ''execution_target_waiting_for_runtime'')))] @
     zip [''required_capabilities'', ''missing_capabilities'', ''matching_runtime_ids'', ''available_runtime_ids'', ''busy_runtime_ids''] copied @
     [(''preferred_runtime_id'', dget metadata ''execution_target_preferred_runtime_id''),
      (''preferred_runtime_label'', dget metadata ''execution_target_preferred_runtime_label''),
      (''waiting_for_capacity'', PBool (truthy (dget metadata ''execution_target_waiting_for_capacity'')))]"

definition enqueue_local_companion_run ::
    "(string \<Rightarrow> string \<Rightarrow> lease_world \<Rightarrow> lease_world) \<Rightarrow> string \<Rightarrow> int \<Rightarrow> string \<Rightarrow> string \<Rightarrow> string \<Rightarrow> lease_world \<Rightarrow>
      lease_world \<times> effect list \<times> (lease_error + bool)" where
  "enqueue_local_companion_run set_run_status now_iso lease_seconds message event run_id w =
     (case dget (runs_by_id w) run_id of
        PDict run \<Rightarrow>
          let metadata = metadata_for_run run;
              w1 = change_run run_id (dset ''updated_at'' (PStr now_iso)) (set_run_status run_id ''queued_local'' w);
              w2 = (if run_id \<in> set (pending_run_ids w1) then w1 else w1\<lparr>pending_run_ids := pending_run_ids w1 @ [run_id]\<rparr>);
              saved = [build_local_runtime_state_snapshot w2]
          in if map_of (get_run run_id w2) ''logs'' = None then (w2, saved, Inl KeyError)
             else (case queued_lists metadata of
                 Inl e \<Rightarrow> (w2, saved, Inl e)
               | Inr copied \<Rightarrow> (w2, saved @ [EmitLog run_id ''info'' (queued_message message metadata) event (queued_data run_id lease_seconds metadata copied)], Inr True))
      | _ \<Rightarrow> (w, [], Inr False))"

section \<open>Pending and claimed runs stay apart\<close>

definition claimed_ids :: "lease_world \<Rightarrow> string set" where
  "claimed_ids w = fst ` set (claimed_runs w)"

lemma claimed_ids_simps [simp]:
  "claimed_ids (w\<lparr>pending_run_ids := p\<rparr>) = claimed_ids w" "claimed_ids (w\<lparr>worker_registry := d\<rparr>) = claimed_ids w"
  "claimed_ids (w\<lparr>runs_by_id := d\<rparr>) = claimed_ids w"
  "claimed_ids (w\<lparr>claimed_runs := d\<rparr>) = fst ` set d" "fst ` set (claimed_runs w) = claimed_ids w"
  by (auto simp: claimed_ids_def)

lemma keys_dpop [simp]: "fst ` set (dpop r d) = fst ` set d - {r}" and keys_dset [simp]: "fst ` set (dset r v d) = insert r (fst ` set d)"
  by (auto simp: AList.delete_eq dom_update)

definition queue_ok :: "lease_world \<Rightarrow> bool" where
  "queue_ok w = (set (pending_run_ids w) \<inter> claimed_ids w = {} \<and> (\<forall>r \<in> set (pending_run_ids w) \<union> claimed_ids w. strip r = r))"

text \<open>A callback that submits nothing and claims nothing.\<close>

definition adds_nothing :: "(lease_world \<Rightarrow> lease_world) \<Rightarrow> bool" where
  "adds_nothing f = (\<forall>w. set (pending_run_ids (f w)) \<subseteq> set (pending_run_ids w) \<and> claimed_ids (f w) \<subseteq> claimed_ids w)"

definition tame :: "recovery_env \<Rightarrow> bool" where
  "tame env = ((\<forall>r s. adds_nothing (re_set_run_status env r s)) \<and>
     (\<forall>resume r. re_resume env = Some resume \<longrightarrow> adds_nothing (\<lambda>w. fst (resume r w))))"

text \<open>How the parts of the clean-up may change the queue: the claims only shrink, and only the given
  run may become pending.\<close>

definition queue_step :: "string set \<Rightarrow> lease_world \<Rightarrow> lease_world \<Rightarrow> bool" where
  "queue_step new w w' = (set (pending_run_ids w') \<subseteq> set (pending_run_ids w) \<union> new \<and> claimed_ids w' \<subseteq> claimed_ids w)"

lemma queue_step_refl [simp]: "queue_step new w w"
  by (simp add: queue_step_def)

lemma queue_step_trans: "queue_step a w w' \<Longrightarrow> queue_step b w' w'' \<Longrightarrow> queue_step (a \<union> b) w w''"
  unfolding queue_step_def by blast

lemma queue_step_mono: "queue_step a w w' \<Longrightarrow> a \<subseteq> b \<Longrightarrow> queue_step b w w'"
  unfolding queue_step_def by blast

lemma queue_step_ok:
  assumes "queue_step new w w'" and "queue_ok w" and "\<forall>r \<in> new. r \<notin> claimed_ids w \<and> strip r = r"
  shows "queue_ok w'"
  using assms unfolding queue_step_def queue_ok_def by blast

lemma put_run_queue [simp]: "queue_step new w (put_run r run w')  = queue_step new w w'"
  by (simp add: queue_step_def put_run_def)

lemma change_run_queue [simp]: "queue_step new w (change_run r f w') = queue_step new w w'"
  by (simp add: change_run_def split: pyval.split)

lemma callback_queue: "adds_nothing f \<Longrightarrow> queue_step new w w' \<Longrightarrow> queue_step new w (f w')"
  unfolding queue_step_def adds_nothing_def by blast

lemma expire_claim_queue:
  assumes "expire_claim kern env entry w = (w', effs, item, changed, err)"
  shows "pending_run_ids w' = pending_run_ids w" and "claimed_ids w' \<subseteq> claimed_ids w"
    and "item = Some i \<Longrightarrow> si_run_id i = fst entry \<and> fst entry \<notin> claimed_ids w'"
  using assms
  by (auto simp: expire_claim_def Let_def item_of_claim_def split: pyval.splits option.splits if_splits sum.splits)

lemma expire_claims_queue:
  assumes "expire_claims kern env entries w = (w', effs, items, changed, err)"
  shows "pending_run_ids w' = pending_run_ids w \<and> claimed_ids w' \<subseteq> claimed_ids w \<and>
    (\<forall>i \<in> set items. si_run_id i \<notin> claimed_ids w' \<and> si_run_id i \<in> fst ` set entries)"
  using assms
proof (induction entries arbitrary: w w' effs items changed err)
  case (Cons entry rest)
  obtain w1 effs1 item ch e where one: "expire_claim kern env entry w = (w1, effs1, item, ch, e)" by (metis prod_cases5)
  obtain w2 effs2 items2 ch2 e2 where more: "expire_claims kern env rest w1 = (w2, effs2, items2, ch2, e2)" by (metis prod_cases5)
  note head = expire_claim_queue [OF one] and tail = Cons.IH [OF more]
  show ?case
  proof (cases e)
    case (Some x)
    then show ?thesis using Cons.prems one head by auto
  next
    case None
    then have r: "w' = w2" "items = (case item of None \<Rightarrow> items2 | Some i \<Rightarrow> i # items2)"
      using Cons.prems one more by (auto split: option.splits)
    show ?thesis using head tail by (auto simp: r split: option.splits)
  qed
qed simp

text \<open>A relation between worlds that recovering a run respects, whichever branch it takes: it does not
  see the runs, it allows the given ids to become pending, and the callbacks respect it.\<close>

definition recovery_frame :: "recovery_env \<Rightarrow> string set \<Rightarrow> (lease_world \<Rightarrow> lease_world \<Rightarrow> bool) \<Rightarrow> bool" where
  "recovery_frame env ids R =
     ((\<forall>w w' r run. R w w' \<longrightarrow> R w (put_run r run w')) \<and>
      (\<forall>w w'. \<forall>r \<in> ids. R w w' \<longrightarrow> R w (w'\<lparr>pending_run_ids := pending_run_ids w' @ [r]\<rparr>)) \<and>
      (\<forall>w w' r st. R w w' \<longrightarrow> R w (re_set_run_status env r st w')) \<and>
      (\<forall>w w' r resume. re_resume env = Some resume \<longrightarrow> R w w' \<longrightarrow> R w (fst (resume r w'))))"

lemma frame_rules:
  assumes "recovery_frame env ids R" and "R w w'"
  shows "R w (put_run r run w')" and "R w (change_run r f w')" and "R w (re_set_run_status env r st w')"
    and "r \<in> ids \<Longrightarrow> R w (w'\<lparr>pending_run_ids := pending_run_ids w' @ [r]\<rparr>)"
    and "re_resume env = Some resume \<Longrightarrow> resume r w' = (w'', b) \<Longrightarrow> R w w''"
proof -
  show put: "R w (put_run r run w')" for r run using assms unfolding recovery_frame_def by blast
  show "R w (change_run r f w')" using put assms(2) by (simp add: change_run_def split: pyval.split)
  show "R w (re_set_run_status env r st w')" using assms unfolding recovery_frame_def by blast
  show "r \<in> ids \<Longrightarrow> R w (w'\<lparr>pending_run_ids := pending_run_ids w' @ [r]\<rparr>)" using assms unfolding recovery_frame_def by blast
  show "R w w''" if "re_resume env = Some resume" "resume r w' = (w'', b)"
    using assms that unfolding recovery_frame_def by (metis fst_conv)
qed

lemma checkpoint_frame:
  assumes "recovery_frame env ids R" and "R w0 w" and "checkpoint_recovery env item run checkpoint w = (w', effs, handled, err)"
  shows "R w0 w'"
proof -
  note rules = frame_rules [OF assms(1)]
  have waiting: "R w0 (re_set_run_status env (si_run_id item) ''waiting_for_input'' (put_run (si_run_id item) r w))" for r
    by (intro rules(1,3) assms(2))
  have resumed: "R w0 (change_run (si_run_id item) f w2)" if "re_resume env = Some resume"
    "resume (si_run_id item) (re_set_run_status env (si_run_id item) ''waiting_for_input'' (put_run (si_run_id item) r w)) = (w2, b)" for resume r w2 b f
    by (rule rules(2) [OF rules(5) [OF waiting that]])
  show ?thesis
    using assms(3)
    by (auto simp: checkpoint_recovery_def pause_recovery_def Let_def split: option.splits if_splits prod.splits bool.splits
        intro!: waiting rules(1) assms(2) rules(2) [OF waiting] resumed)
qed

lemma queue_retry_frame:
  assumes "recovery_frame env ids R" and "si_run_id item \<in> ids" and "R w0 w" and "queue_retry env item scope target w = (w', effs, err)"
  shows "R w0 w'"
proof -
  note rules = frame_rules [OF assms(1)]
  have "R w0 (fst (requeue_run env item n limit w))" for n limit
    by (simp add: requeue_run_def Let_def) (intro conjI impI rules(1-4) assms(2,3))
  moreover have "R w0 (fst (abandon_run env item scope n limit w))" for n limit
    by (simp add: abandon_run_def Let_def) (intro rules(1-3) assms(3))
  ultimately show ?thesis using assms(3,4)
    by (auto simp: queue_retry_def Let_def split: option.splits if_splits prod.splits) (metis fst_conv)+
qed

lemma recover_run_frame:
  assumes "recovery_frame env ids R" and "si_run_id item \<in> ids" and "R w0 w" and "recover_run env item w = (w', effs, err)"
  shows "R w0 w'"
proof (cases "dget (runs_by_id w) (si_run_id item)")
  case (PDict run)
  let ?target = "token_of (por (dget (metadata_for_run run) ''execution_target_selected'') (dget (metadata_for_run run) ''execution_target''))"
  let ?checkpoint = "as_dict (dget run ''browser_checkpoint'')" and ?run0 = "clear_active_machine_lease_binding run"
  obtain w1 e1 handled x1 where ck: "checkpoint_recovery env item ?run0 ?checkpoint w = (w1, e1, handled, x1)" by (metis prod_cases4)
  note ckR = checkpoint_frame [OF assms(1,3) ck]
  obtain w2 e2 x2 where qr: "queue_retry env item (run_scope_from_payload run) ?target w1 = (w2, e2, x2)" by (metis prod_cases3)
  consider (terminal) "token_of (dget run ''status'') \<in> set [''completed'', ''failed'', ''timeout'']"
    | (checkpoint) "token_of (dget run ''status'') \<notin> set [''completed'', ''failed'', ''timeout'']"
        "?checkpoint \<noteq> [] \<and> ?target \<in> set [''local'', ''local_companion'']"
    | (plain) "token_of (dget run ''status'') \<notin> set [''completed'', ''failed'', ''timeout'']"
        "\<not> (?checkpoint \<noteq> [] \<and> ?target \<in> set [''local'', ''local_companion''])" by blast
  then show ?thesis
  proof cases
    case terminal
    then show ?thesis using assms(3,4) PDict by (simp add: recover_run_def)
  next
    case checkpoint
    then have "w' = w1 \<or> w' = w2" using assms(4) PDict ck qr
      by (cases x1; cases handled) (simp_all add: recover_run_def)
    then show ?thesis using ckR queue_retry_frame [OF assms(1,2) ckR qr] by blast
  next
    case plain
    then have "queue_retry env item (run_scope_from_payload run) ?target (put_run (si_run_id item) ?run0 w) = (w', effs, err)"
      using assms(4) PDict by (simp only: recover_run_def pyval.case Let_def if_False)
    then show ?thesis by (rule queue_retry_frame [OF assms(1,2) frame_rules(1) [OF assms(1,3)]])
  qed
qed (use assms(3,4) in \<open>auto simp: recover_run_def\<close>)

lemma recover_runs_frame:
  assumes "recovery_frame env ids R" and "si_run_id ` set items \<subseteq> ids" and "R w0 w" and "recover_runs env items w = (w', effs, err)"
  shows "R w0 w'"
  using assms(2-)
proof (induction items arbitrary: w w' effs err)
  case (Cons item rest)
  obtain w1 e1 x1 where one: "recover_run env item w = (w1, e1, x1)" by (metis prod_cases3)
  obtain w2 e2 x2 where more: "recover_runs env rest w1 = (w2, e2, x2)" by (metis prod_cases3)
  have step: "R w0 w1" using recover_run_frame [OF assms(1) _ Cons.prems(2) one] Cons.prems(1) by simp
  have "w' = (if x1 = None then w2 else w1)" using Cons.prems(3) one more by (auto split: option.splits)
  then show ?case using step Cons.IH [OF _ step more] Cons.prems(1) by auto
qed simp

lemma recover_runs_queue:
  assumes "tame env" and "recover_runs env items w = (w', effs, err)"
  shows "queue_step (si_run_id ` set items) w w'"
proof (rule recover_runs_frame [OF _ _ _ assms(2)])
  show "recovery_frame env (si_run_id ` set items) (queue_step (si_run_id ` set items))"
    using assms(1) unfolding recovery_frame_def tame_def by (auto intro: callback_queue callback_queue [of "\<lambda>w. fst (f r w)" for f r])
      (auto simp: queue_step_def)
qed simp_all

text \<open>Callbacks that leave the claims alone leave them alone throughout.\<close>

definition leaves_claims :: "recovery_env \<Rightarrow> bool" where
  "leaves_claims env = ((\<forall>r s w. claimed_runs (re_set_run_status env r s w) = claimed_runs w) \<and>
     (\<forall>resume r w. re_resume env = Some resume \<longrightarrow> claimed_runs (fst (resume r w)) = claimed_runs w))"

lemma recover_runs_claims:
  assumes "leaves_claims env" and "recover_runs env items w = (w', effs, err)"
  shows "claimed_runs w' = claimed_runs w"
proof (rule recover_runs_frame [where R = "\<lambda>w w'. claimed_runs w' = claimed_runs w", OF _ _ _ assms(2)])
  show "recovery_frame env (si_run_id ` set items) (\<lambda>w w'. claimed_runs w' = claimed_runs w)"
    using assms(1) by (simp add: recovery_frame_def leaves_claims_def put_run_def)
qed simp_all

lemma cleanup_queue_ok:
  assumes "tame env" and "queue_ok w" and "cleanup_stale_machine_leases kern env w = (w', effs, res)"
  shows "queue_ok w'"
proof -
  obtain w1 e1 items ch err where ex: "expire_claims kern env (claimed_runs w) w = (w1, e1, items, ch, err)" by (metis prod_cases5)
  obtain w2 e2 err2 where rec: "recover_runs env items w1 = (w2, e2, err2)" by (metis prod_cases3)
  note q = expire_claims_queue [OF ex]
  then have "queue_step {} w w1" by (simp add: queue_step_def)
  from queue_step_ok [OF this assms(2)] have ok1: "queue_ok w1" by simp
  have "\<forall>r \<in> si_run_id ` set items. r \<notin> claimed_ids w1 \<and> strip r = r"
  proof
    fix r assume "r \<in> si_run_id ` set items"
    then have "r \<notin> claimed_ids w1" "r \<in> claimed_ids w" using q by auto
    with assms(2) show "r \<notin> claimed_ids w1 \<and> strip r = r" by (simp add: queue_ok_def)
  qed
  from queue_step_ok [OF recover_runs_queue [OF assms(1) rec] ok1 this] have "queue_ok w2" .
  moreover have "w' = (if err = None then w2 else w1)"
    using assms(3) ex rec by (auto simp: cleanup_stale_machine_leases_def split: option.splits)
  ultimately show ?thesis using ok1 by simp
qed

lemma claim_locked_ok:
  assumes "queue_ok w" and "claim_locked kern env required lease_seconds worker_id w = Inr (w', outcome, changed)"
  shows "queue_ok w'"
proof (cases outcome)
  case (Claimed run_id filtered)
  from assms(2) [unfolded Claimed] obtain j d where off: "offers env w (claim_view_of env required w worker_id) j d"
    and id: "cd_run_id d = pending_run_ids w ! j" "run_id = strip (cd_run_id d)"
    and w': "w' = w\<lparr>claimed_runs := dset run_id (PDict (claim_record_for env (claim_view_of env required w worker_id) lease_seconds run_id d)) (claimed_runs w),
        pending_run_ids := filter (\<lambda>r. r \<noteq> run_id)
          (filter (\<lambda>r. classify_run env w (claim_view_of env required w worker_id) r \<noteq> Inr Dropped) (pending_run_ids w))\<rparr>"
    by (rule claim_locked_Claimed)
  have "pending_run_ids w ! j \<in> set (pending_run_ids w)" using off by (simp add: offers_def)
  then have "run_id \<in> set (pending_run_ids w)" "strip run_id = run_id" using assms(1) id by (simp_all add: queue_ok_def)
  then show ?thesis using assms(1) by (auto simp: queue_ok_def w')
next
  case (Suspended t)
  then have "w' = w" using assms(2)
    unfolding claim_locked_eq by (auto simp: Let_def res_simps split: if_splits list.splits sum.splits)
  then show ?thesis using assms(1) by simp
next
  case (Idle f)
  then obtain remaining el where "scan_pending env w (claim_view_of env required w worker_id) (counts_of w) 0 (pending_run_ids w) = Inr (el, remaining, f)"
    and "w' = w\<lparr>pending_run_ids := remaining\<rparr>"
    using assms(2) unfolding claim_locked_eq by (auto simp: Let_def res_simps split: if_splits list.splits sum.splits)
  then have "set (pending_run_ids w') \<subseteq> set (pending_run_ids w)" "claimed_ids w' = claimed_ids w"
    using scan_pending_spec(1) by fastforce+
  then show ?thesis using assms(1) unfolding queue_ok_def by blast
qed

definition run_cleanup :: "kernel \<Rightarrow> recovery_env \<Rightarrow> lease_world \<Rightarrow> lease_world \<times> effect list \<times> lease_error option" where
  "run_cleanup kern env w = (case cleanup_stale_machine_leases kern env w of
     (w', effs, Inl e) \<Rightarrow> (w', effs, Some e) | (w', effs, Inr _) \<Rightarrow> (w', effs, None))"

lemma claim_queue_ok:
  assumes "tame renv" and "queue_ok w"
    and "claim_local_machine_lease kern env (run_cleanup kern renv) required lease_seconds worker_id w = (w', effs, res)"
  shows "queue_ok w'"
proof -
  obtain w1 e1 err where cl: "run_cleanup kern renv w = (w1, e1, err)" by (metis prod_cases3)
  then have ok1: "queue_ok w1"
    using cleanup_queue_ok [OF assms(1,2)] by (auto simp: run_cleanup_def split: prod.splits sum.splits)
  have "w' = w1 \<or> (\<exists>outcome changed. claim_locked kern env required lease_seconds worker_id w1 = Inr (w', outcome, changed))"
    using assms(3) cl
    by (auto simp: claim_local_machine_lease_def Let_def split: option.splits sum.splits claim_outcome.splits if_splits)
  then show ?thesis using ok1 claim_locked_ok [OF ok1] by auto
qed

lemma shrink_ok: "queue_step {} w w' \<Longrightarrow> queue_ok w \<Longrightarrow> queue_ok w'"
  by (rule queue_step_ok) auto

lemma release_queue: "release_machine_lease_claim kern r wid lid a b st n w = (w', effs, res) \<Longrightarrow> queue_step {} w w'"
  by (auto simp: release_machine_lease_claim_def Let_def queue_step_def split: pyval.splits sum.splits option.splits)

lemma reconcile_queue: "reconcile_machine_lease_release kern r w = (w', effs, res) \<Longrightarrow> queue_step {} w w'"
  by (auto simp: reconcile_machine_lease_release_def Let_def queue_step_def split: pyval.splits sum.splits)

lemma release_recovered_subset: "release_recovered kern rs claimed = (claimed', released, err) \<Longrightarrow> fst ` set claimed' \<subseteq> fst ` set claimed"
proof (induction rs arbitrary: claimed released)
  case (Cons r rs)
  have sub: "fst ` set (dpop r claimed) \<subseteq> fst ` set claimed" by (auto simp: AList.delete_eq)
  obtain c1 rel1 e1 where one: "release_recovered kern rs (dpop r claimed) = (c1, rel1, e1)" by (metis prod_cases3)
  show ?case
    using Cons.prems one Cons.IH [of "dpop r claimed" rel1] Cons.IH [of claimed] sub
    by (auto split: pyval.splits sum.splits)
qed simp

lemma reconcile_recovered_queue:
  assumes "reconcile_recovered_machine_leases kern rs w = (w', effs, res)"
  shows "queue_step {} w w'"
proof -
  obtain c rel e where r: "release_recovered kern rs (claimed_runs w) = (c, rel, e)" by (metis prod_cases3)
  then have "w' = w \<or> w' = w\<lparr>pending_run_ids := filter (\<lambda>r. r \<notin> set rs) (pending_run_ids w), claimed_runs := c\<rparr>"
    using assms by (auto simp: reconcile_recovered_machine_leases_def Let_def split: if_splits option.splits)
  then show ?thesis using release_recovered_subset [OF r] by (auto simp only: queue_step_def) auto
qed

lemma enqueue_queue:
  assumes "adds_nothing (set_run_status r ''queued_local'')" and "enqueue_local_companion_run set_run_status t secs msg ev r w = (w', effs, res)"
  shows "queue_step {r} w w'"
proof -
  let ?w1 = "change_run r (dset ''updated_at'' (PStr t)) (set_run_status r ''queued_local'' w)"
  have "queue_step {r} w ?w1" using callback_queue [OF assms(1), of "{r}" w w] by simp
  moreover have "w' \<in> {w, ?w1, ?w1\<lparr>pending_run_ids := pending_run_ids ?w1 @ [r]\<rparr>}"
    using assms(2) by (auto simp: enqueue_local_companion_run_def Let_def split: pyval.splits if_splits sum.splits)
  ultimately show ?thesis by (auto simp: queue_step_def)
qed

datatype lease_action = ClaimRun string | ReleaseRun string | ReconcileRun string | ReconcileRecovered "string list" | CleanUp | EnqueueRun string

text \<open>The operations on the shared queue, each under the lock. Runs are submitted under stripped ids and
  only while they are not claimed; the callbacks submit and claim nothing themselves.\<close>

inductive lease_step :: "kernel \<Rightarrow> lease_world \<Rightarrow> lease_action \<Rightarrow> lease_world \<Rightarrow> bool" for kern where
  claim: "tame renv \<Longrightarrow> claim_local_machine_lease kern env (run_cleanup kern renv) required lease_seconds worker_id w = (w', effs, res) \<Longrightarrow>
    lease_step kern w (ClaimRun worker_id) w'"
| release: "release_machine_lease_claim kern run_id worker_id lease_id can_persist can_mark status_hint remark w = (w', effs, res) \<Longrightarrow>
    lease_step kern w (ReleaseRun run_id) w'"
| reconcile: "reconcile_machine_lease_release kern run_id w = (w', effs, res) \<Longrightarrow> lease_step kern w (ReconcileRun run_id) w'"
| reconcile_recovered: "reconcile_recovered_machine_leases kern run_ids w = (w', effs, res) \<Longrightarrow> lease_step kern w (ReconcileRecovered run_ids) w'"
| cleanup: "tame renv \<Longrightarrow> cleanup_stale_machine_leases kern renv w = (w', effs, res) \<Longrightarrow> lease_step kern w CleanUp w'"
| enqueue: "adds_nothing (set_run_status run_id ''queued_local'') \<Longrightarrow> run_id \<notin> claimed_ids w \<Longrightarrow> strip run_id = run_id \<Longrightarrow>
    enqueue_local_companion_run set_run_status now_iso lease_seconds message event run_id w = (w', effs, res) \<Longrightarrow>
    lease_step kern w (EnqueueRun run_id) w'"

inductive_cases lease_step_EnqueueE: "lease_step kern w (EnqueueRun run_id) w'"

lemma lease_step_ok: "lease_step kern w a w' \<Longrightarrow> queue_ok w \<Longrightarrow> queue_ok w'"
proof (induction rule: lease_step.induct)
  case (claim renv env required lease_seconds worker_id w w' effs res)
  then show ?case by (blast intro: claim_queue_ok)
next
  case (release run_id worker_id lease_id can_persist can_mark status_hint remark w w' effs res)
  then show ?case by (blast intro: shrink_ok release_queue)
next
  case (reconcile run_id w w' effs res)
  then show ?case by (blast intro: shrink_ok reconcile_queue)
next
  case (reconcile_recovered run_ids w w' effs res)
  then show ?case by (blast intro: shrink_ok reconcile_recovered_queue)
next
  case (cleanup renv w w' effs res)
  then show ?case by (blast intro: cleanup_queue_ok)
next
  case (enqueue set_run_status run_id w now_iso lease_seconds message event w' effs res)
  from queue_step_ok [OF enqueue_queue [OF enqueue.hyps(1,4)] enqueue.prems] enqueue.hyps(2,3) show ?case by simp
qed

section \<open>Exactly the stale claims are released\<close>

definition claim_alive :: "recovery_env \<Rightarrow> pyval \<Rightarrow> bool" where
  "claim_alive env v = (is_dict v \<and> \<not> is_stale env (as_dict v))"

lemma expire_claim_exact:
  assumes "expire_claim kern env (r, v) w = (w1, effs, item, ch, None)"
  shows "claimed_runs w1 = (if claim_alive env v then claimed_runs w else dpop r (claimed_runs w))"
    and "map_option si_run_id item = (if is_dict v \<and> \<not> claim_alive env v then Some r else None)"
  using assms
  by (auto simp: expire_claim_def claim_alive_def item_of_claim_def Let_def split: pyval.splits option.splits if_splits sum.splits)

lemma dpop_filter_entry:
  assumes "distinct (map fst d)" and "(r, v) \<in> set d"
  shows "dpop r d = filter (\<lambda>e. e \<noteq> (r, v)) d"
proof -
  have "k \<noteq> r \<longleftrightarrow> (k, x) \<noteq> (r, v)" if "(k, x) \<in> set d" for k x
    using assms that by (metis eq_key_imp_eq_value prod.inject)
  then show ?thesis unfolding AList.delete_eq by (auto intro!: filter_cong)
qed

lemma expire_claims_exact:
  assumes "expire_claims kern env entries w = (w', effs, items, ch, None)"
    and "distinct (map fst (claimed_runs w))" and "set entries \<subseteq> set (claimed_runs w)" and "distinct entries"
  shows "claimed_runs w' = filter (\<lambda>e. e \<notin> set entries \<or> claim_alive env (snd e)) (claimed_runs w)"
    and "map si_run_id items = map fst (filter (\<lambda>e. is_dict (snd e) \<and> \<not> claim_alive env (snd e)) entries)"
  using assms
proof (induction entries arbitrary: w w' effs items ch)
  case (Cons entry rest)
  obtain r v where entry: "entry = (r, v)" by (cases entry)
  {
    fix w w' effs items ch
    assume run: "expire_claims kern env (entry # rest) w = (w', effs, items, ch, None)" and dist: "distinct (map fst (claimed_runs w))"
      and sub: "set (entry # rest) \<subseteq> set (claimed_runs w)" and de: "distinct (entry # rest)"
    from run obtain w1 e1 item c1 e2 items2 c2 where one: "expire_claim kern env (r, v) w = (w1, e1, item, c1, None)"
      and more: "expire_claims kern env rest w1 = (w', e2, items2, c2, None)"
      and items: "items = (case item of None \<Rightarrow> items2 | Some i \<Rightarrow> i # items2)"
      by (auto simp: entry split: prod.splits option.splits)
    have claims: "claimed_runs w1 = filter (\<lambda>e. e \<noteq> entry \<or> claim_alive env v) (claimed_runs w)"
      using expire_claim_exact(1) [OF one] dpop_filter_entry [OF dist, of r v] sub by (simp add: entry)
    then have d1: "distinct (map fst (claimed_runs w1))" "set rest \<subseteq> set (claimed_runs w1)" "distinct rest"
      using dist sub de by (auto simp: distinct_map_filter)
    have "claimed_runs w' = filter (\<lambda>e. e \<notin> set (entry # rest) \<or> claim_alive env (snd e)) (claimed_runs w) \<and>
      map si_run_id items = map fst (filter (\<lambda>e. is_dict (snd e) \<and> \<not> claim_alive env (snd e)) (entry # rest))"
    proof
      show "claimed_runs w' = filter (\<lambda>e. e \<notin> set (entry # rest) \<or> claim_alive env (snd e)) (claimed_runs w)"
        unfolding Cons.IH(1) [OF more d1] claims filter_filter
        by (rule filter_cong) (use de entry in auto)
      show "map si_run_id items = map fst (filter (\<lambda>e. is_dict (snd e) \<and> \<not> claim_alive env (snd e)) (entry # rest))"
        using expire_claim_exact(2) [OF one] Cons.IH(2) [OF more d1] by (auto simp: items entry split: option.splits if_splits)
    qed
  }
  note both = this
  case 1
  then show ?case using both by blast
  case 2
  then show ?case using both by blast
qed auto

end
