(* ===== verification/Recovery_Properties.thy ===== *)
theory Recovery_Properties
  imports Lease_Recovery
begin

text \<open>
  The theorems on worker loss: which claims a clean-up releases, that no run is both waiting and
  held, and how often a run is handed out again before it is given up.
\<close>

section \<open>The retry budget\<close>

text \<open>What the theorem needs of \<^verbatim>\<open>set_run_status_fn\<close>: it sets the status of the run and keeps its
  checkpoint, its metadata and the pending list.\<close>

definition sets_status :: "(string \<Rightarrow> string \<Rightarrow> lease_world \<Rightarrow> lease_world) \<Rightarrow> string \<Rightarrow> bool" where
  "sets_status set_run_status run_id = (\<forall>st w run. dget (runs_by_id w) run_id = PDict run \<longrightarrow>
     pending_run_ids (set_run_status run_id st w) = pending_run_ids w \<and>
     (\<exists>run'. dget (runs_by_id (set_run_status run_id st w)) run_id = PDict run' \<and> dget run' ''status'' = PStr st \<and>
        dget run' ''browser_checkpoint'' = dget run ''browser_checkpoint'' \<and> metadata_for_run run' = metadata_for_run run))"

definition local_target :: "pydict \<Rightarrow> bool" where
  "local_target metadata = (token_of (por (dget metadata ''execution_target_selected'') (dget metadata ''execution_target''))
     \<in> set [''local'', ''local_companion''])"

definition retries_of :: "recovery_env \<Rightarrow> pydict \<Rightarrow> (int \<times> int) option" where
  "retries_of env metadata =
     (case (py_int (por (dget metadata ''local_queue_retry_count'') (PInt 0)),
            py_int (por (dget metadata ''local_queue_max_retries'') (PInt (max_queue_retry_attempts env)))) of
        (Some n, Some c) \<Rightarrow> Some (n, max 0 c) | _ \<Rightarrow> None)"

text \<open>A run whose worker can be lost: not finished, without a browser checkpoint, meant for a local
  worker, with \<open>n\<close> retries behind it out of \<open>limit\<close>.\<close>

definition retryable_run :: "recovery_env \<Rightarrow> pydict \<Rightarrow> int \<Rightarrow> int \<Rightarrow> bool" where
  "retryable_run env run n limit =
     (token_of (dget run ''status'') \<notin> set [''completed'', ''failed'', ''timeout''] \<and>
      as_dict (dget run ''browser_checkpoint'') = [] \<and>
      local_target (metadata_for_run run) \<and> retries_of env (metadata_for_run run) = Some (n, limit))"

lemma metadata_set_metadata: "metadata_for_run (set_metadata kvs run) = dmerge (metadata_for_run run) kvs"
  unfolding set_metadata_def
  by (subst metadata_for_run_def) (simp add: run_context_def dget_dset del: dmerge_Cons)

lemma metadata_dset: "k \<noteq> ''context'' \<Longrightarrow> metadata_for_run (dset k v run) = metadata_for_run run"
  by (simp add: metadata_for_run_def run_context_def dget_dset)

lemma metadata_clear: "metadata_for_run (clear_active_machine_lease_binding run) = metadata_for_run run"
  by (simp add: clear_active_machine_lease_binding_def metadata_dset)

lemma get_put_run [simp]: "dget (runs_by_id (put_run r run w)) r = PDict run" "pending_run_ids (put_run r run w) = pending_run_ids w"
  by (simp_all add: put_run_def dget_dset)

lemma change_run_present:
  "dget (runs_by_id w) r = PDict run \<Longrightarrow> change_run r f w = put_run r (f run) w"
  by (simp add: change_run_def)

lemma metadata_requeued:
  "metadata_for_run (requeued_run env item n limit b (clear_active_machine_lease_binding run)) =
     dmerge (metadata_for_run run)
      [(''local_queue_retry_reason'', PStr ''worker_lost''), (''local_queue_retry_count'', PInt n),
       (''local_queue_max_retries'', PInt limit), (''local_queue_retry_backoff_seconds'', PInt b), (''local_queue_next_retry_at'', next_retry_at env b)]"
  unfolding requeued_run_def Let_def
  by (simp add: metadata_dset metadata_set_metadata metadata_clear del: dmerge_Cons)

lemma sets_statusE:
  assumes "sets_status set_run_status r" and "dget (runs_by_id w) r = PDict run"
  obtains run' where "dget (runs_by_id (set_run_status r st w)) r = PDict run'" "dget run' ''status'' = PStr st"
    "dget run' ''browser_checkpoint'' = dget run ''browser_checkpoint''" "metadata_for_run run' = metadata_for_run run"
    "pending_run_ids (set_run_status r st w) = pending_run_ids w"
  using assms unfolding sets_status_def by blast

lemma py_int_por [simp]: "py_int (por (PInt i) (PInt 0)) = Some i"
  by (cases "i = 0") (simp_all add: por_def)

lemma requeued_retryable:
  assumes "retryable_run env run n limit" and "0 \<le> n" "n < limit"
    and "metadata_for_run run' = metadata_for_run (requeued_run env item (n + 1) limit b (clear_active_machine_lease_binding run))"
    and "dget run' ''status'' = PStr ''queued_local''"
    and "dget run' ''browser_checkpoint'' = dget (requeued_run env item (n + 1) limit b (clear_active_machine_lease_binding run)) ''browser_checkpoint''"
  shows "retryable_run env run' (n + 1) limit"
proof -
  have "dget run' ''browser_checkpoint'' = dget run ''browser_checkpoint''"
    by (simp add: assms(6) requeued_run_def Let_def dget_dset set_metadata_def clear_active_machine_lease_binding_def)
  moreover have "token_of (PStr ''queued_local'') \<notin> set [''completed'', ''failed'', ''timeout'']" by code_simp
  moreover have "local_target (metadata_for_run run') = local_target (metadata_for_run run)"
    by (simp add: assms(4) metadata_requeued local_target_def dget_dset)
  moreover have "retries_of env (metadata_for_run run') = Some (n + 1, limit)"
    using assms(2,3) by (simp add: assms(4) metadata_requeued retries_of_def dget_dset por_def)
  ultimately show ?thesis using assms(1,5) unfolding retryable_run_def by presburger
qed

lemma recover_retryable:
  assumes "requeue_enabled env" and "dget (runs_by_id w) (si_run_id item) = PDict run" and "retryable_run env run n limit"
  shows "recover_run env item w =
    (let w0 = put_run (si_run_id item) (clear_active_machine_lease_binding run) w;
         t = if n < limit then requeue_run env item (n + 1) limit w0 else abandon_run env item (run_scope_from_payload run) n limit w0
     in (fst t, snd t, None))"
proof -
  let ?w0 = "put_run (si_run_id item) (clear_active_machine_lease_binding run) w"
  let ?target = "token_of (por (dget (metadata_for_run run) ''execution_target_selected'') (dget (metadata_for_run run) ''execution_target''))"
  have t: "?target \<in> set [''local'', ''local_companion'']" using assms(3) by (simp add: retryable_run_def local_target_def)
  have "recover_run env item w = queue_retry env item (run_scope_from_payload run) ?target ?w0"
    using assms(2,3) unfolding recover_run_def retryable_run_def by (simp add: Let_def)
  also have "metadata_for_run (get_run (si_run_id item) ?w0) = metadata_for_run run" by (simp add: get_run_def metadata_clear)
  then have "queue_retry env item (run_scope_from_payload run) ?target ?w0 = (let t = if n < limit then requeue_run env item (n + 1) limit ?w0 else abandon_run env item (run_scope_from_payload run) n limit ?w0
     in (fst t, snd t, None))"
    using assms(1,3) t unfolding queue_retry_def retryable_run_def retries_of_def
    by (auto simp: Let_def split_def split: option.splits)
  finally show ?thesis by (simp add: Let_def)
qed


lemma lost_run_requeued:
  assumes "sets_status (re_set_run_status env) (si_run_id item)" and "requeue_enabled env"
    and "dget (runs_by_id w) (si_run_id item) = PDict run" and "retryable_run env run n limit" and "0 \<le> n" "n < limit"
  shows "\<exists>run'. dget (runs_by_id (fst (recover_run env item w))) (si_run_id item) = PDict run' \<and>
    retryable_run env run' (n + 1) limit \<and> dget run' ''status'' = PStr ''queued_local'' \<and>
    si_run_id item \<in> set (pending_run_ids (fst (recover_run env item w)))"
proof -
  let ?r = "si_run_id item" and ?run0 = "clear_active_machine_lease_binding run"
  let ?run1 = "requeued_run env item (n + 1) limit (backoff_for (queue_retry_backoff_seconds env) (n + 1)) ?run0"
  let ?w1 = "change_run ?r (\<lambda>_. ?run1) (put_run ?r ?run0 w)"
  have "dget (runs_by_id ?w1) ?r = PDict ?run1" by (simp add: change_run_present [OF get_put_run(1)])
  from sets_statusE [OF assms(1) this, of "''queued_local''"] obtain run' where
    run': "dget (runs_by_id (re_set_run_status env ?r ''queued_local'' ?w1)) ?r = PDict run'" "dget run' ''status'' = PStr ''queued_local''"
      "dget run' ''browser_checkpoint'' = dget ?run1 ''browser_checkpoint''" "metadata_for_run run' = metadata_for_run ?run1" by blast
  have w2: "fst (recover_run env item w) = (let w2 = re_set_run_status env ?r ''queued_local'' ?w1 in
      if ?r \<in> set (pending_run_ids w2) then w2 else w2\<lparr>pending_run_ids := pending_run_ids w2 @ [?r]\<rparr>)"
    using assms(6) by (simp add: recover_retryable [OF assms(2-4)] requeue_run_def Let_def get_run_def)
  show ?thesis
    using run' requeued_retryable [OF assms(4-6) run'(4,2,3)] by (intro exI [of _ run']) (simp add: w2 Let_def)
qed

lemma lost_run_abandoned:
  assumes "sets_status (re_set_run_status env) (si_run_id item)" and "requeue_enabled env"
    and "dget (runs_by_id w) (si_run_id item) = PDict run" and "retryable_run env run n limit" and "limit \<le> n"
  shows "\<exists>run'. dget (runs_by_id (fst (recover_run env item w))) (si_run_id item) = PDict run' \<and> dget run' ''status'' = PStr ''failed'' \<and>
    pending_run_ids (fst (recover_run env item w)) = pending_run_ids w"
proof -
  let ?r = "si_run_id item" and ?run0 = "clear_active_machine_lease_binding run"
  let ?w1 = "change_run ?r (\<lambda>_. abandoned_run item n limit ?run0) (put_run ?r ?run0 w)"
  have "dget (runs_by_id ?w1) ?r = PDict (abandoned_run item n limit ?run0)" by (simp add: change_run_present [OF get_put_run(1)])
  from sets_statusE [OF assms(1) this, of "''failed''"] obtain run' where
    "dget (runs_by_id (re_set_run_status env ?r ''failed'' ?w1)) ?r = PDict run'" "dget run' ''status'' = PStr ''failed''"
    "pending_run_ids (re_set_run_status env ?r ''failed'' ?w1) = pending_run_ids ?w1" by blast
  then show ?thesis using assms(5)
    by (simp add: recover_retryable [OF assms(2-4)] abandon_run_def Let_def get_run_def change_run_present [OF get_put_run(1)])
qed

text \<open>A run whose workers keep dying: each loss is handled in a world where anything may have happened
  since the last one, except to the retry counters, the target, the checkpoint or the end of the run.\<close>

inductive loss_chain :: "recovery_env \<Rightarrow> stale_item \<Rightarrow> nat \<Rightarrow> lease_world \<Rightarrow> lease_world \<Rightarrow> bool" for env item where
  none: "loss_chain env item 0 w w"
| lose: "loss_chain env item k w w1 \<Longrightarrow>
    dget (runs_by_id w1) (si_run_id item) = PDict run1 \<Longrightarrow> dget (runs_by_id w2) (si_run_id item) = PDict run2 \<Longrightarrow>
    retryable_run env run1 n limit \<Longrightarrow> retryable_run env run2 n limit \<Longrightarrow>
    loss_chain env item (Suc k) w (fst (recover_run env item w2))"

lemma retryable_unique: "retryable_run env run n limit \<Longrightarrow> retryable_run env run n' limit' \<Longrightarrow> n' = n \<and> limit' = limit"
  by (simp add: retryable_run_def)

lemma failed_not_retryable: "dget run ''status'' = PStr ''failed'' \<Longrightarrow> \<not> retryable_run env run n limit"
proof -
  have "token_of (PStr ''failed'') = ''failed''" by code_simp
  then show "dget run ''status'' = PStr ''failed'' \<Longrightarrow> \<not> retryable_run env run n limit" by (simp add: retryable_run_def)
qed

section \<open>Properties\<close>




section \<open>Witnesses\<close>

definition demo_recovery :: recovery_env where
  "demo_recovery = \<lparr>re_now = 1000, re_parse_utc_ts = (\<lambda>v. case v of PInt i \<Rightarrow> Some (of_int i) | _ \<Rightarrow> None), re_now_iso = ''now'',
     iso_after = (\<lambda>_. Some ''later''), re_set_run_status = (\<lambda>r st. change_run r (dset ''status'' (PStr st))), re_resume = None,
     checkpoint_recovery_max_auto_retries = 3, checkpoint_recovery_backoff_seconds = [0, 30], local_worker_lost_timeout_seconds = 90,
     default_lease_seconds = 60, requeue_enabled = True, max_queue_retry_attempts = 1, queue_retry_backoff_seconds = [0, 15],
     dead_letters_enabled = True\<rparr>"

definition releasing_kernel :: kernel where
  "releasing_kernel command payload = Inr [(''decision'', PStr ''allow''),
     (''next_action'', PStr (if command = ''machine-lease-decision'' then ''release_machine_lease_transition'' else ''release_queue_item''))]"

definition lossy_world :: lease_world where
  "lossy_world = \<lparr>pending_run_ids = [], claimed_runs =
       [(''run-1'', PDict [(''lease_id'', PStr ''l1''), (''last_heartbeat_at'', PInt 100)]), (''run-2'', PDict [(''last_heartbeat_at'', PInt 950)])],
     worker_registry = [],
     runs_by_id = [(''run-1'', PDict [(''status'', PStr ''running_local''), (''context'', PDict [(''metadata'', PDict [(''execution_target'', PStr ''local'')])])])]\<rparr>"

lemma claims_change_run [simp]: "claimed_runs (change_run r f w) = claimed_runs w" "pending_run_ids (change_run r f w) = pending_run_ids w"
  by (simp_all add: change_run_def put_run_def split: pyval.split)

lemma demo_recovery_callbacks: "leaves_claims demo_recovery" "sets_status (re_set_run_status demo_recovery) r"
  by (auto simp: leaves_claims_def sets_status_def demo_recovery_def metadata_dset change_run_present dget_dset)


definition idle_world :: lease_world where
  "idle_world = lossy_world\<lparr>claimed_runs := []\<rparr>"

definition submit_run_1 :: "lease_world \<times> effect list \<times> (lease_error + bool)" where
  "submit_run_1 = enqueue_local_companion_run (\<lambda>r s w. w) ''now'' 60 ''m'' ''e'' ''run-1'' idle_world"



end
