(* ===== verification/Compaction.thy ===== *)
theory Compaction
  imports Py_Prelude
begin

text \<open>
  \<^verbatim>\<open>server_modules/compaction_service.py\<close>: when a conversation outgrows the context window of its
  model, the older turns are replaced by a summary the model writes itself, or, for small windows, cut off.
  Beside it stand the output cap of \<^verbatim>\<open>provider_limit_policy\<close> (\<^verbatim>\<open>provider_profiles.py\<close>) that the threshold
  subtracts, the read of the stored turns (\<^verbatim>\<open>list_agent_turns\<close> of \<^verbatim>\<open>control_plane_repository.py\<close>), and the two callers
  in \<^verbatim>\<open>direct_chat_generation_service.py\<close> that decide when to compact and swap the result in.

  A turn is the dictionary of its row. The context windows of the models (\<^verbatim>\<open>context_window_for_model\<close>, a
  catalogue) and the language model are parameters: \<open>windows\<close> maps a provider and a model to a window, \<open>chat\<close>
  gives the answer of the \<open>k\<close>-th call to a prompt, \<open>None\<close> when the call raises and otherwise the text and the
  error message, empty for \<^verbatim>\<open>None\<close>. The ratios 0.9 and 0.15 are exact; on windows below \<open>2 ^ 50\<close> tokens the truncated
  products agree with those of the nearest doubles. The dash of the messages is the character 0x97.
  Log lines are left out.
\<close>

section \<open>Estimating tokens\<close>

type_synonym turn = pydict

definition estimate_tokens :: "string \<Rightarrow> int" where
  "estimate_tokens s = max 0 (int (length s) div 4)"

definition turn_content :: "turn \<Rightarrow> string" where
  "turn_content t = py_str (por (dget t ''content'') (PStr []))"

definition turn_role :: "turn \<Rightarrow> string" where
  "turn_role t = token_of (dget t ''role'')"

definition estimate_turn_tokens :: "turn \<Rightarrow> int" where
  "estimate_turn_tokens t = estimate_tokens (turn_content t)"

definition estimate_turns_tokens :: "turn list \<Rightarrow> int" where
  "estimate_turns_tokens turns = sum_list (map estimate_turn_tokens turns)"

section \<open>Budgets\<close>

definition COMPACT_TRIGGER_RATIO :: rat where "COMPACT_TRIGGER_RATIO = 9 / 10"

definition FIXED_SAFETY_MARGIN_TOKENS :: int where "FIXED_SAFETY_MARGIN_TOKENS = 2048"

definition DEFAULT_MAX_OUTPUT_RESERVE_TOKENS :: int where "DEFAULT_MAX_OUTPUT_RESERVE_TOKENS = 4096"

definition SMALL_WINDOW_NO_SUMMARIZE_THRESHOLD_TOKENS :: int where "SMALL_WINDOW_NO_SUMMARIZE_THRESHOLD_TOKENS = 32000"

definition FORCED_KEEP_RECENT_TOKENS_FLOOR :: int where "FORCED_KEEP_RECENT_TOKENS_FLOOR = 500"

definition TOOL_RESULT_MAX_CHARS :: nat where "TOOL_RESULT_MAX_CHARS = 2000"

definition DEFAULT_CONTEXT_WINDOW :: int where "DEFAULT_CONTEXT_WINDOW = 128000"

definition KEEP_RECENT_CAP :: int where "KEEP_RECENT_CAP = 30000"

definition KEEP_RECENT_RATIO :: rat where "KEEP_RECENT_RATIO = 15 / 100"

text \<open>\<^verbatim>\<open>int(x)\<close> on a float.\<close>

definition py_trunc :: "rat \<Rightarrow> int" where
  "py_trunc x = (if 0 \<le> x then \<lfloor>x\<rfloor> else \<lceil>x\<rceil>)"

definition keep_recent_tokens_for_window :: "int \<Rightarrow> int" where
  "keep_recent_tokens_for_window context_window = min (py_trunc (of_int context_window * KEEP_RECENT_RATIO)) KEEP_RECENT_CAP"

type_synonym window_catalog = "string \<Rightarrow> string \<Rightarrow> int option"

definition resolve_context_window :: "window_catalog \<Rightarrow> string \<Rightarrow> string \<Rightarrow> int" where
  "resolve_context_window windows provider model =
     (case windows provider model of
        Some window \<Rightarrow> if window = 0 then DEFAULT_CONTEXT_WINDOW else window
      | None \<Rightarrow> DEFAULT_CONTEXT_WINDOW)"

subsection \<open>The output cap of a provider\<close>

definition LEGACY_PROVIDER_ALIASES :: "(string \<times> string) list" where
  "LEGACY_PROVIDER_ALIASES = [(''claude_code_cli'', ''anthropic''), (''openai_codex'', ''openai-codex'')]"

definition PROVIDER_LIMIT_ALIASES :: "(string \<times> string) list" where
  "PROVIDER_LIMIT_ALIASES = [(''codex_cli'', ''openai-codex''), (''claude_code_cli'', ''anthropic'')]"

text \<open>The \<^verbatim>\<open>max_output_tokens\<close> of each entry.\<close>

definition PROVIDER_LIMIT_POLICY :: "(string \<times> int) list" where
  "PROVIDER_LIMIT_POLICY = [(''openai'', 1600), (''openai-codex'', 1800), (''anthropic'', 1600), (''gemini'', 1700), (''deepseek'', 2400),
     (''qwen'', 1400), (''mistral'', 1400), (''ollama'', 900), (''ollama_cloud'', 1400)]"

definition lookup_default :: "(string \<times> 'v) list \<Rightarrow> string \<Rightarrow> 'v \<Rightarrow> 'v" where
  "lookup_default d k v = (case map_of d k of Some x \<Rightarrow> x | None \<Rightarrow> v)"

definition normalize_provider_id :: "string \<Rightarrow> string" where
  "normalize_provider_id provider = (let provider_id = lower (strip provider) in lookup_default LEGACY_PROVIDER_ALIASES provider_id provider_id)"

definition limit_provider_id :: "string \<Rightarrow> string" where
  "limit_provider_id provider =
     (let provider_token = lower (strip provider) in lookup_default PROVIDER_LIMIT_ALIASES provider_token (normalize_provider_id provider_token))"

text \<open>\<^verbatim>\<open>provider_limit_policy(...)["max_output_tokens"]\<close>.\<close>

definition provider_max_output_tokens :: "window_catalog \<Rightarrow> string \<Rightarrow> string \<Rightarrow> int" where
  "provider_max_output_tokens windows provider model =
     (let provider_id = limit_provider_id provider;
          max_output_tokens = lookup_default PROVIDER_LIMIT_POLICY provider_id 1200
      in case windows provider_id model of
           Some context_window \<Rightarrow>
             if 0 < context_window
             then let model_cap = max 512 (min 12000 (py_trunc (of_int context_window * (15 / 100)))) in max 256 (min max_output_tokens model_cap)
             else max_output_tokens
         | None \<Rightarrow> max_output_tokens)"

definition max_output_reserve_tokens :: "window_catalog \<Rightarrow> string \<Rightarrow> string \<Rightarrow> int" where
  "max_output_reserve_tokens windows provider model =
     (let cap = provider_max_output_tokens windows provider model in if 0 < cap then cap else DEFAULT_MAX_OUTPUT_RESERVE_TOKENS)"

subsection \<open>The trigger\<close>

definition should_use_structural_truncation :: "int \<Rightarrow> bool" where
  "should_use_structural_truncation context_window = (context_window \<le> SMALL_WINDOW_NO_SUMMARIZE_THRESHOLD_TOKENS)"

definition effective_compaction_threshold :: "window_catalog \<Rightarrow> int \<Rightarrow> string \<Rightarrow> string \<Rightarrow> int" where
  "effective_compaction_threshold windows context_window provider model =
     (let reserve = max_output_reserve_tokens windows provider model + FIXED_SAFETY_MARGIN_TOKENS;
          effective = max 1 (context_window - reserve)
      in max 1 (py_trunc (of_int effective * COMPACT_TRIGGER_RATIO)))"

definition should_compact :: "window_catalog \<Rightarrow> turn list \<Rightarrow> int \<Rightarrow> int option \<Rightarrow> string \<Rightarrow> string \<Rightarrow> bool" where
  "should_compact windows turns context_window reserve_tokens provider model =
     (let threshold = (case reserve_tokens of
            Some reserve \<Rightarrow> max 1 (context_window - reserve)
          | None \<Rightarrow> effective_compaction_threshold windows context_window provider model)
      in threshold < estimate_turns_tokens turns)"

section \<open>Where to cut\<close>

text \<open>The loop from the newest turn backwards, on the reversed list: the index of a turn is the number of
  turns after it there.\<close>

fun cut_from :: "int \<Rightarrow> int \<Rightarrow> turn list \<Rightarrow> nat" where
  "cut_from keep accumulated [] = 0"
| "cut_from keep accumulated (t # older) =
     (let accumulated' = accumulated + estimate_turn_tokens t
      in if keep \<le> accumulated' then length older else cut_from keep accumulated' older)"

definition keep_budget :: "int option \<Rightarrow> int option \<Rightarrow> int" where
  "keep_budget keep_recent_tokens context_window =
     (case keep_recent_tokens of
        Some keep \<Rightarrow> keep
      | None \<Rightarrow> keep_recent_tokens_for_window (case context_window of Some w \<Rightarrow> w | None \<Rightarrow> DEFAULT_CONTEXT_WINDOW))"

definition find_cut_point :: "turn list \<Rightarrow> int option \<Rightarrow> int option \<Rightarrow> nat" where
  "find_cut_point turns keep_recent_tokens context_window = cut_from (keep_budget keep_recent_tokens context_window) 0 (rev turns)"

definition find_cut_point_with_fallback :: "turn list \<Rightarrow> int \<Rightarrow> nat \<times> bool" where
  "find_cut_point_with_fallback turns context_window =
     (let cut_idx = find_cut_point turns None (Some context_window) in
      if 0 < cut_idx then (cut_idx, False)
      else (find_cut_point turns (Some FORCED_KEEP_RECENT_TOKENS_FLOOR) None, True))"

section \<open>Pruning tool results\<close>

definition em_dash :: string where "em_dash = [CHR 0x97]"

definition tool_name_of :: "turn \<Rightarrow> string" where
  "tool_name_of t =
     (case dget t ''metadata'' of
        PDict meta \<Rightarrow> py_str (por (dget meta ''tool_name'') (por (dget meta ''name'') (PStr ''unknown'')))
      | _ \<Rightarrow> ''unknown'')"

definition prune_tool_result :: "turn \<Rightarrow> string" where
  "prune_tool_result t =
     (let content = turn_content t in
      if turn_role t = ''tool_result'' \<and> TOOL_RESULT_MAX_CHARS < length content
      then ''[tool result: '' @ tool_name_of t @ '' '' @ em_dash @ '' '' @ nat_str (length content) @ '' chars'' @
           '' '' @ em_dash @ '' pruned for context]''
      else content)"

definition pruned_turn :: "turn \<Rightarrow> turn" where
  "pruned_turn t = (if turn_role t = ''tool_result'' then dset ''content'' (PStr (prune_tool_result t)) t else t)"

definition structural_truncate :: "turn list \<Rightarrow> int \<Rightarrow> turn list" where
  "structural_truncate turns context_window =
     (let pruned = map pruned_turn turns in drop (find_cut_point pruned None (Some context_window)) pruned)"

section \<open>Summarising\<close>

definition newline :: string where "newline = [CHR 0x0A]"

definition serialize_turn :: "turn \<Rightarrow> string option" where
  "serialize_turn t =
     (let role = turn_role t; content = strip (turn_content t) in
      if content = [] then None
      else Some (
        if role = ''user'' then ''[User]: '' @ content
        else if role = ''assistant'' then ''[Assistant]: '' @ content
        else if role = ''tool_result'' then ''[Tool result: '' @ tool_name_of t @ '']: '' @ prune_tool_result t
        else if role = ''compaction_summary'' then ''[Previous summary]: '' @ content
        else if role = ''system'' then ''[System]: '' @ content
        else ''['' @ role @ '']: '' @ content))"

definition serialize_turns_for_compaction :: "turn list \<Rightarrow> string" where
  "serialize_turns_for_compaction turns = join (newline @ newline) (List.map_filter serialize_turn turns)"

definition compaction_prompt_head :: string where
  "compaction_prompt_head = join newline
     [''Summarize this conversation segment concisely. Preserve:'',
      ''- Decisions made and their outcomes'',
      ''- User preferences and stated requirements'',
      ''- Active tasks and their current status'',
      ''- Pending items that need follow-up'',
      ''- Important facts about the user or their work'',
      [],
      ''If a prior compaction summary is present below, extract its key historical'',
      ''thread and carry it forward as a cumulative section (a few dense sentences'',
      ''per prior round) at the TOP of your summary '' @ em_dash @ '' never discard earlier'',
      ''entries just because they came from an older summary rather than raw'',
      ''conversation. Each new summary should read as the running history, not'',
      ''just the delta since the last one.'',
      [],
      ''Do not invent. Do not speculate. Be factual and dense.'',
      [],
      ''Previous summary (if any):'',
      []]"

text \<open>\<^verbatim>\<open>COMPACTION_PROMPT.format(...)\<close>.\<close>

definition compaction_prompt :: "string \<Rightarrow> string \<Rightarrow> string" where
  "compaction_prompt previous_summary conversation_text =
     compaction_prompt_head @ sor previous_summary (''(none '' @ em_dash @ '' this is the first compaction)'') @
     newline @ newline @ ''Conversation to summarize:'' @ newline @ conversation_text"

definition OVERFLOW_KEYWORDS :: "string list" where
  "OVERFLOW_KEYWORDS = [''context_length_exceeded'', ''request_too_large'', ''maximum context length'', ''context window'', ''token limit'',
     ''too many tokens'', ''prompt is too long'']"

fun contains_text :: "string \<Rightarrow> string \<Rightarrow> bool" where
  "contains_text kw [] = (kw = [])"
| "contains_text kw (c # s) = (startswith (c # s) kw \<or> contains_text kw s)"

definition is_context_overflow_error :: "string \<Rightarrow> bool" where
  "is_context_overflow_error error_message = list_ex (\<lambda>kw. contains_text kw (lower error_message)) OVERFLOW_KEYWORDS"

type_synonym chat = "nat \<Rightarrow> string \<Rightarrow> (string \<times> string) option"

datatype attempt = Answered string string | OverflowedAlone | CallRaised

text \<open>The loop of \<^verbatim>\<open>compact_turns\<close>: when the prompt itself overflows, the oldest turn is dropped and the call
  repeated. The number returned is how many calls have been made.\<close>

function summarize :: "chat \<Rightarrow> string \<Rightarrow> nat \<Rightarrow> turn list \<Rightarrow> attempt \<times> nat" where
  "summarize chat previous_summary k working_turns =
     (case chat k (compaction_prompt previous_summary (serialize_turns_for_compaction working_turns)) of
        None \<Rightarrow> (CallRaised, Suc k)
      | Some (result_text, error) \<Rightarrow>
          if strip result_text \<noteq> [] \<or> \<not> is_context_overflow_error error then (Answered (strip result_text) error, Suc k)
          else if length working_turns \<le> 1 then (OverflowedAlone, Suc k)
          else summarize chat previous_summary (Suc k) (tl working_turns))"
  by pat_completeness auto
termination by (relation "measure (\<lambda>(_, _, _, ts). length ts)") auto

declare summarize.simps [simp del]

datatype compaction_effect = CompactionSkipped string string string | UpsertAgentTurn turn

definition summary_turn :: "string \<Rightarrow> turn" where
  "summary_turn summary = [(''role'', PStr ''compaction_summary''), (''content'', PStr summary), (''status'', PStr ''completed'')]"

text \<open>The summary (\<open>None\<close> when the call to the model raised) and what was traced or stored. The Boolean says
  whether a trace context was given.\<close>

definition compact_turns :: "chat \<Rightarrow> string \<Rightarrow> string \<Rightarrow> bool \<Rightarrow> string \<Rightarrow> turn list \<Rightarrow> string option \<times> compaction_effect list" where
  "compact_turns chat provider model traced previous_summary turns =
     (let resolved_provider = lower (strip provider); resolved_model = strip model;
          skipped = (\<lambda>reason. if traced then [CompactionSkipped reason resolved_provider resolved_model] else [])
      in if resolved_provider = [] then (Some [], skipped ''model_unavailable_no_fallback'')
         else case fst (summarize chat previous_summary 0 turns) of
           CallRaised \<Rightarrow> (None, [])
         | OverflowedAlone \<Rightarrow> (Some [], skipped ''compaction_itself_overflowed_single_item'')
         | Answered summary error \<Rightarrow>
             if summary = [] then (Some [], skipped (sor (strip (sor error ''empty_summary'')) ''empty_summary''))
             else (Some summary, [UpsertAgentTurn (summary_turn summary)]))"

section \<open>The compacted context\<close>

definition summary_note :: string where
  "summary_note = ''[Automated note '' @ em_dash @ '' compacted summary of earlier conversation, not something the user actually said]:'' @ newline"

definition build_context_from_compaction :: "string \<Rightarrow> turn list \<Rightarrow> turn list" where
  "build_context_from_compaction summary kept_turns =
     (if summary = [] then [] else [[(''role'', PStr ''user''), (''content'', PStr (summary_note @ summary))]]) @
     List.map_filter (\<lambda>t. let role = turn_role t; content = strip (turn_content t) in
       if role \<in> set [''user'', ''assistant''] \<and> content \<noteq> [] then Some [(''role'', PStr role), (''content'', PStr content)] else None) kept_turns"

text \<open>The stored turns of a thread in the order they were created.\<close>

definition list_agent_turns :: "turn list \<Rightarrow> int \<Rightarrow> turn list" where
  "list_agent_turns rows lmt = take (nat (max 1 (if lmt = 0 then 200 else lmt))) rows"

definition load_previous_summary :: "turn list \<Rightarrow> string" where
  "load_previous_summary rows =
     (case List.find (\<lambda>t. dget t ''role'' = PStr ''compaction_summary'') (rev (list_agent_turns rows 200)) of
        Some t \<Rightarrow> turn_content t
      | None \<Rightarrow> [])"

section \<open>The callers\<close>

text \<open>\<open>stored\<close> are the rows of the thread, \<open>None\<close> when reading them raises. The result is the new content of
  the list, the returned flag and the effects.\<close>

definition compact_conversation_messages_in_place ::
    "window_catalog \<Rightarrow> chat \<Rightarrow> turn list option \<Rightarrow> string \<Rightarrow> string \<Rightarrow> bool \<Rightarrow> turn list \<Rightarrow> turn list \<times> bool \<times> compaction_effect list" where
  "compact_conversation_messages_in_place windows chat stored provider model traced conversation_messages =
     (let window = resolve_context_window windows provider model in
      if should_use_structural_truncation window then
        let truncated = structural_truncate conversation_messages window in
        if length conversation_messages \<le> length truncated then (conversation_messages, False, []) else (truncated, True, [])
      else
        let (cut_idx, forced) = find_cut_point_with_fallback conversation_messages window in
        if cut_idx = 0 then (conversation_messages, False, [])
        else
          let previous_summary = (case stored of None \<Rightarrow> [] | Some rows \<Rightarrow> load_previous_summary rows) in
          case compact_turns chat provider model traced previous_summary (take cut_idx conversation_messages) of
            (None, effs) \<Rightarrow> (conversation_messages, False, effs)
          | (Some summary, effs) \<Rightarrow>
              if summary = [] then (conversation_messages, False, effs)
              else (build_context_from_compaction summary (drop cut_idx conversation_messages), True, effs))"

definition estimated_context_tokens :: "string \<Rightarrow> string \<Rightarrow> turn list \<Rightarrow> int" where
  "estimated_context_tokens system_prompt current_prompt conversation_messages =
     estimate_tokens (concat ([system_prompt, current_prompt] @ map turn_content conversation_messages))"

definition continuous_work_budget_allows_more :: "window_catalog \<Rightarrow> string \<Rightarrow> string \<Rightarrow> string \<Rightarrow> string \<Rightarrow> turn list \<Rightarrow> bool" where
  "continuous_work_budget_allows_more windows provider model system_prompt current_prompt conversation_messages =
     (estimated_context_tokens system_prompt current_prompt conversation_messages
        \<le> effective_compaction_threshold windows (resolve_context_window windows provider model) provider model)"

text \<open>The check at the top of every iteration of the chat loop.\<close>

definition proactive_compaction ::
    "window_catalog \<Rightarrow> chat \<Rightarrow> turn list option \<Rightarrow> string \<Rightarrow> string \<Rightarrow> bool \<Rightarrow> string \<Rightarrow> string \<Rightarrow> turn list \<Rightarrow> turn list \<times> compaction_effect list" where
  "proactive_compaction windows chat stored provider model traced system_prompt current_prompt conversation_messages =
     (let provider' = strip provider; model' = strip model in
      if effective_compaction_threshold windows (resolve_context_window windows provider' model') provider' model'
           < estimated_context_tokens system_prompt current_prompt conversation_messages
      then (case compact_conversation_messages_in_place windows chat stored provider' model' traced conversation_messages of
              (messages, _, effs) \<Rightarrow> (messages, effs))
      else (conversation_messages, []))"

section \<open>Budgets\<close>

lemma provider_max_output_range: "256 \<le> provider_max_output_tokens windows provider model \<and> provider_max_output_tokens windows provider model \<le> 2400"
proof -
  have "256 \<le> lookup_default PROVIDER_LIMIT_POLICY p 1200 \<and> lookup_default PROVIDER_LIMIT_POLICY p 1200 \<le> 2400" for p
    by (auto simp: lookup_default_def PROVIDER_LIMIT_POLICY_def)
  then show ?thesis
    by (auto simp: provider_max_output_tokens_def Let_def le_max_iff_disj min_le_iff_disj split: option.split)
qed

lemma reserve_range: "256 \<le> max_output_reserve_tokens windows provider model \<and> max_output_reserve_tokens windows provider model \<le> 2400"
  using provider_max_output_range [of windows provider model] by (simp add: max_output_reserve_tokens_def Let_def)

lemma py_trunc_nonneg: "0 \<le> x \<Longrightarrow> py_trunc x = \<lfloor>x\<rfloor>"
  by (simp add: py_trunc_def)

lemma threshold_formula:
  "effective_compaction_threshold windows w provider model =
    max 1 (9 * max 1 (w - max_output_reserve_tokens windows provider model - 2048) div 10)"
proof -
  let ?e = "max 1 (w - (max_output_reserve_tokens windows provider model + 2048))"
  have "of_int ?e * (9 / 10 :: rat) = of_int (9 * ?e) / of_int 10" by simp
  then have "\<lfloor>of_int ?e * (9 / 10 :: rat)\<rfloor> = 9 * ?e div 10" by (simp only: floor_divide_of_int_eq)
  moreover have "(0 :: rat) \<le> of_int ?e * (9 / 10)" by simp
  ultimately have "py_trunc (of_int ?e * (9 / 10)) = 9 * ?e div 10" by (simp only: py_trunc_nonneg)
  then show ?thesis
    by (simp only: effective_compaction_threshold_def Let_def COMPACT_TRIGGER_RATIO_def FIXED_SAFETY_MARGIN_TOKENS_def diff_diff_eq)
qed

lemma keep_recent_formula: "0 \<le> w \<Longrightarrow> keep_recent_tokens_for_window w = min (15 * w div 100) 30000"
proof -
  assume "0 \<le> w"
  moreover have "of_int w * (15 / 100 :: rat) = of_int (15 * w) / of_int 100" by simp
  then have "\<lfloor>of_int w * (15 / 100 :: rat)\<rfloor> = 15 * w div 100" by (simp only: floor_divide_of_int_eq)
  ultimately show ?thesis by (simp add: keep_recent_tokens_for_window_def py_trunc_nonneg KEEP_RECENT_RATIO_def KEEP_RECENT_CAP_def)
qed

section \<open>The cut point\<close>

lemma estimate_tokens_nonneg [simp]: "0 \<le> estimate_tokens s" "0 \<le> estimate_turn_tokens t"
  by (simp_all add: estimate_tokens_def estimate_turn_tokens_def)

lemma turns_tokens_simps [simp]:
  "estimate_turns_tokens [] = 0"
  "estimate_turns_tokens (t # ts) = estimate_turn_tokens t + estimate_turns_tokens ts"
  "estimate_turns_tokens (ts @ us) = estimate_turns_tokens ts + estimate_turns_tokens us"
  by (simp_all add: estimate_turns_tokens_def)

lemma turns_tokens_rev [simp]: "estimate_turns_tokens (rev ts) = estimate_turns_tokens ts"
  by (induction ts) simp_all

lemma turns_tokens_nonneg [simp]: "0 \<le> estimate_turns_tokens ts"
  by (induction ts) auto

lemma cut_from_bound: "xs \<noteq> [] \<Longrightarrow> cut_from keep acc xs < length xs"
proof (induction keep acc xs rule: cut_from.induct)
  case (2 keep acc t older)
  then show ?case by (cases older) (auto simp: Let_def less_Suc_eq)
qed simp

lemma cut_from_reached:
  "0 < cut_from keep acc xs \<Longrightarrow> keep \<le> acc + estimate_turns_tokens (take (length xs - cut_from keep acc xs) xs)"
proof (induction keep acc xs rule: cut_from.induct)
  case (2 keep acc t older)
  show ?case
  proof (cases "keep \<le> acc + estimate_turn_tokens t")
    case False
    let ?c = "cut_from keep (acc + estimate_turn_tokens t) older"
    have pos: "0 < ?c" using 2(2) False by (simp add: Let_def)
    then have "older \<noteq> []" by auto
    then have "length (t # older) - ?c = Suc (length older - ?c)" using cut_from_bound [of older keep "acc + estimate_turn_tokens t"] by (simp add: Suc_diff_le)
    then show ?thesis using 2(1) [OF refl False pos] False by (simp add: Let_def)
  qed (simp add: Let_def)
qed simp

lemma cut_from_minimal:
  "0 < m \<Longrightarrow> m < length xs - cut_from keep acc xs \<Longrightarrow> acc + estimate_turns_tokens (take m xs) < keep"
proof (induction keep acc xs arbitrary: m rule: cut_from.induct)
  case (2 keep acc t older)
  have less: "acc + estimate_turn_tokens t < keep" using 2(2,3) by (auto simp: Let_def split: if_splits)
  show ?case
  proof (cases "m = 1")
    case False
    then obtain n where m: "m = Suc n" "0 < n" using 2(2) by (cases m) auto
    then have "n < length older - cut_from keep (acc + estimate_turn_tokens t) older" using 2(3) less by (simp add: Let_def)
    then show ?thesis using 2(1) [OF refl _ m(2)] less m(1) by (simp add: Let_def add.assoc)
  qed (use less in simp)
qed simp

lemma find_cut_point_bound: "turns \<noteq> [] \<Longrightarrow> find_cut_point turns keep w < length turns"
  using cut_from_bound [of "rev turns"] by (simp add: find_cut_point_def)

lemma cut_point_reached: "0 < find_cut_point turns keep w \<Longrightarrow> keep_budget keep w \<le> estimate_turns_tokens (drop (find_cut_point turns keep w) turns)"
  using cut_from_reached [of "keep_budget keep w" 0 "rev turns"] cut_from_bound [of "rev turns" "keep_budget keep w" 0]
  by (cases "turns = []") (simp_all add: find_cut_point_def take_rev)

lemma cut_point_minimal:
  assumes "find_cut_point turns keep w < j" and "j < length turns"
  shows "estimate_turns_tokens (drop j turns) < keep_budget keep w"
  using cut_from_minimal [of "length turns - j" "rev turns" "keep_budget keep w" 0] assms by (simp add: find_cut_point_def take_rev)

lemma find_cut_point_Nil [simp]: "find_cut_point [] keep w = 0"
  by (simp add: find_cut_point_def)

lemma kept_after_first:
  assumes "0 \<le> keep_budget keep w"
  shows "estimate_turns_tokens (drop (Suc (find_cut_point turns keep w)) turns) \<le> keep_budget keep w"
proof (cases "Suc (find_cut_point turns keep w) < length turns")
  case True
  then show ?thesis using cut_point_minimal [of turns keep w "Suc (find_cut_point turns keep w)"] by simp
qed (use assms in simp)

section \<open>The summariser\<close>

definition overflowed :: "(string \<times> string) option \<Rightarrow> bool" where
  "overflowed answer = (case answer of None \<Rightarrow> False | Some (result_text, error) \<Rightarrow> strip result_text = [] \<and> is_context_overflow_error error)"

definition attempt_at :: "chat \<Rightarrow> string \<Rightarrow> turn list \<Rightarrow> nat \<Rightarrow> (string \<times> string) option" where
  "attempt_at chat previous_summary turns i = chat i (compaction_prompt previous_summary (serialize_turns_for_compaction (drop i turns)))"

definition attempt_of :: "(string \<times> string) option \<Rightarrow> attempt" where
  "attempt_of answer = (case answer of None \<Rightarrow> CallRaised
     | Some (result_text, error) \<Rightarrow> if overflowed answer then OverflowedAlone else Answered (strip result_text) error)"

lemma summarize_spec:
  assumes "k < max 1 (length turns)"
  shows "\<exists>n. k \<le> n \<and> n < max 1 (length turns) \<and> summarize chat prev k (drop k turns) = (attempt_of (attempt_at chat prev turns n), Suc n) \<and>
    (\<forall>i. k \<le> i \<longrightarrow> i < n \<longrightarrow> overflowed (attempt_at chat prev turns i)) \<and>
    (overflowed (attempt_at chat prev turns n) \<longrightarrow> Suc n = max 1 (length turns))"
  using assms
proof (induction "length turns - k" arbitrary: k rule: less_induct)
  case less
  let ?a = "attempt_at chat prev turns k"
  show ?case
  proof (cases "overflowed ?a \<and> Suc k < length turns")
    case True
    then have "summarize chat prev k (drop k turns) = summarize chat prev (Suc k) (drop (Suc k) turns)"
      by (subst summarize.simps) (auto simp: attempt_at_def overflowed_def drop_Suc tl_drop split: option.splits)
    moreover have "length turns - Suc k < length turns - k" "Suc k < max 1 (length turns)" using True by auto
    note less.hyps [OF this]
    ultimately show ?thesis using True by (metis Suc_leD le_less_Suc_eq not_less_eq_eq le_antisym)
  next
    case False
    then have "summarize chat prev k (drop k turns) = (attempt_of ?a, Suc k)"
      by (subst summarize.simps) (auto simp: attempt_at_def overflowed_def attempt_of_def split: option.splits)
    then show ?thesis using False less.prems by (intro exI [of _ k]) auto
  qed
qed

section \<open>The compacted context\<close>

text \<open>A message every transport accepts.\<close>

definition sendable :: "turn \<Rightarrow> bool" where
  "sendable m = (dget m ''role'' \<in> {PStr ''user'', PStr ''assistant''} \<and> (\<exists>c. c \<noteq> [] \<and> dget m ''content'' = PStr c))"

definition kept_message :: "turn \<Rightarrow> turn option" where
  "kept_message t =
     (if turn_role t \<in> set [''user'', ''assistant''] \<and> strip (turn_content t) \<noteq> []
      then Some [(''role'', PStr (turn_role t)), (''content'', PStr (strip (turn_content t)))] else None)"

lemma build_context_eq:
  "summary \<noteq> [] \<Longrightarrow> build_context_from_compaction summary kept =
    [(''role'', PStr ''user''), (''content'', PStr (summary_note @ summary))] # List.map_filter kept_message kept"
  by (simp add: build_context_from_compaction_def kept_message_def [abs_def] Let_def)

lemma build_context_sendable: "m \<in> set (build_context_from_compaction summary kept) \<Longrightarrow> sendable m"
  by (auto simp: build_context_from_compaction_def sendable_def Let_def List.map_filter_def dget_Cons summary_note_def split: if_splits)

lemma compact_turns_stores:
  assumes "compact_turns chat provider model traced prev turns = (Some summary, effs)" and "summary \<noteq> []"
  shows "effs = [UpsertAgentTurn (summary_turn summary)]"
  using assms by (auto simp: compact_turns_def Let_def split: if_splits attempt.splits)

lemma structural_suffix: "structural_truncate turns w = drop (find_cut_point (map pruned_turn turns) None (Some w)) (map pruned_turn turns)"
  by (simp add: structural_truncate_def Let_def)

text \<open>The rows of the thread after the effects.\<close>

definition store_effects :: "compaction_effect list \<Rightarrow> turn list \<Rightarrow> turn list" where
  "store_effects effs rows = rows @ List.map_filter (\<lambda>e. case e of UpsertAgentTurn t \<Rightarrow> Some t | CompactionSkipped _ _ _ \<Rightarrow> None) effs"

section \<open>Properties\<close>

text \<open>C36. The cut point is the reference one: the newest position from which the turns fill the budget, or
  the start when the whole conversation does not.\<close>

theorem cut_point_is_reference:
  "find_cut_point turns keep w =
     (if \<exists>i<length turns. keep_budget keep w \<le> estimate_turns_tokens (drop i turns)
      then Max {i. i < length turns \<and> keep_budget keep w \<le> estimate_turns_tokens (drop i turns)} else 0)"
proof (cases "\<exists>i<length turns. keep_budget keep w \<le> estimate_turns_tokens (drop i turns)")
  case True
  let ?S = "{i. i < length turns \<and> keep_budget keep w \<le> estimate_turns_tokens (drop i turns)}" and ?c = "find_cut_point turns keep w"
  have upper: "i \<le> ?c" if "i \<in> ?S" for i using that cut_point_minimal [of turns keep w i] by (cases "i \<le> ?c") auto
  have "?c \<in> ?S"
  proof (cases "?c = 0")
    case True
    with \<open>\<exists>i<length turns. _ i\<close> upper show ?thesis by fastforce
  next
    case False
    then show ?thesis using cut_point_reached [of turns keep w] find_cut_point_bound [of turns keep w] by (cases "turns = []") auto
  qed
  then have "Max ?S = ?c" by (intro Max_eqI) (use upper in auto)
  then show ?thesis using True by simp
next
  case False
  then show ?thesis using cut_point_reached [of turns keep w] find_cut_point_bound [of turns keep w] by (cases "turns = []") auto
qed

text \<open>C35. Summarising ends. For every behaviour of the model, \<open>compact_turns\<close> makes between one call and one
  call per turn; the \<open>i\<close>-th call is made on the turns without the \<open>i\<close> oldest; every call but the last overflowed
  the window; and the outcome is that of the last call, which overflows only when a single turn was left.\<close>

theorem summarize_terminates:
  "\<exists>n. n < max 1 (length turns) \<and> summarize chat prev 0 turns = (attempt_of (attempt_at chat prev turns n), Suc n) \<and>
    (\<forall>i. i < n \<longrightarrow> overflowed (attempt_at chat prev turns i)) \<and>
    (overflowed (attempt_at chat prev turns n) \<longrightarrow> Suc n = max 1 (length turns))"
  using summarize_spec [of 0 turns chat prev] by simp

text \<open>The compaction trigger scales with the window: on every window of at least 10240 tokens, for every
  provider and model, it lies between half and nine tenths of the window, and below the window by at least
  the safety margin; on smaller windows it is still positive.\<close>

theorem threshold_scales_with_window:
  "1 \<le> effective_compaction_threshold windows w provider model \<and>
   (10240 \<le> w \<longrightarrow> w \<le> 2 * effective_compaction_threshold windows w provider model \<and>
      10 * effective_compaction_threshold windows w provider model \<le> 9 * (w - FIXED_SAFETY_MARGIN_TOKENS))"
  using reserve_range [of windows provider model] unfolding threshold_formula FIXED_SAFETY_MARGIN_TOKENS_def by auto

text \<open>Structural truncation fits: what it keeps is a non-empty suffix of the pruned turns, all of which but
  the first fit into 15 per cent of the window.\<close>

theorem structural_truncate_fits:
  assumes "turns \<noteq> []" and "0 \<le> w"
  shows "(\<exists>n<length turns. structural_truncate turns w = drop n (map pruned_turn turns)) \<and> structural_truncate turns w \<noteq> [] \<and>
    100 * estimate_turns_tokens (tl (structural_truncate turns w)) \<le> 15 * w"
proof -
  let ?p = "map pruned_turn turns" and ?c = "find_cut_point (map pruned_turn turns) None (Some w)"
  have "?c < length turns" using find_cut_point_bound [of ?p] assms(1) by simp
  moreover have "estimate_turns_tokens (tl (structural_truncate turns w)) \<le> keep_recent_tokens_for_window w"
    using kept_after_first [of None "Some w" ?p] assms(2)
    by (simp add: structural_suffix keep_budget_def keep_recent_formula drop_Suc tl_drop)
  then have "100 * estimate_turns_tokens (tl (structural_truncate turns w)) \<le> 15 * w"
    using assms(2) by (simp only: keep_recent_formula)
  ultimately show ?thesis using structural_suffix by force
qed

text \<open>Compacting is all or nothing. When it reports failure the conversation is unchanged. When it reports
  success on a small window the conversation is a proper suffix of the pruned messages and nothing was stored;
  on a large one it is the note with a non-empty summary followed by the newest messages, the summary was stored,
  and every message is one that each transport accepts.\<close>

theorem compaction_all_or_nothing:
  assumes "compact_conversation_messages_in_place windows chat stored provider model traced messages = (messages', done_flag, effs)"
  shows "if \<not> done_flag then messages' = messages
    else if should_use_structural_truncation (resolve_context_window windows provider model)
    then effs = [] \<and> (\<exists>n. 0 < n \<and> messages' = drop n (map pruned_turn messages))
    else \<exists>cut summary. 0 < cut \<and> summary \<noteq> [] \<and> effs = [UpsertAgentTurn (summary_turn summary)] \<and> list_all sendable messages' \<and>
      messages' = [(''role'', PStr ''user''), (''content'', PStr (summary_note @ summary))] # List.map_filter kept_message (drop cut messages)"
proof (cases "should_use_structural_truncation (resolve_context_window windows provider model)")
  case True
  let ?w = "resolve_context_window windows provider model"
  have "0 < find_cut_point (map pruned_turn messages) None (Some ?w)" if "length (structural_truncate messages ?w) < length messages"
    using that by (cases "find_cut_point (map pruned_turn messages) None (Some ?w) = 0") (simp_all add: structural_suffix)
  with True assms structural_suffix [of messages ?w] show ?thesis
    by (auto simp: compact_conversation_messages_in_place_def Let_def split: if_splits)
next
  case False
  obtain cut forced where cut: "find_cut_point_with_fallback messages (resolve_context_window windows provider model) = (cut, forced)" by fastforce
  obtain res effs' where res: "compact_turns chat provider model traced (case stored of None \<Rightarrow> [] | Some rows \<Rightarrow> load_previous_summary rows) (take cut messages) = (res, effs')"
    by fastforce
  show ?thesis
  proof (cases "done_flag")
    case True
    with False assms cut res obtain summary where "0 < cut" "res = Some summary" "summary \<noteq> []" "effs = effs'"
        "messages' = build_context_from_compaction summary (drop cut messages)"
      by (auto simp: compact_conversation_messages_in_place_def Let_def split: if_splits option.splits)
    moreover have "list_all sendable messages'" using calculation build_context_sendable unfolding list_all_iff by blast
    moreover have "effs' = [UpsertAgentTurn (summary_turn summary)]" using compact_turns_stores res calculation by blast
    ultimately show ?thesis
      using True False build_context_eq [of summary "drop cut messages"] by auto
  next
    case False
    with \<open>\<not> should_use_structural_truncation _\<close> assms cut res show ?thesis
      by (auto simp: compact_conversation_messages_in_place_def Let_def split: if_splits option.splits)
  qed
qed

text \<open>C37. The summary is carried forward: after a successful summary is stored, the next compaction of the thread
  reads it back, provided the thread had fewer than 200 turns. On longer threads it is never seen: the
  reader keeps returning what it returned before.\<close>

theorem summary_carried_forward:
  assumes "compact_turns chat provider model traced prev turns = (Some summary, effs)" and "summary \<noteq> []"
  shows "load_previous_summary (store_effects effs rows) = (if length rows < 200 then summary else load_previous_summary rows)"
proof -
  have "store_effects effs rows = rows @ [summary_turn summary]"
    by (simp add: compact_turns_stores [OF assms] store_effects_def List.map_filter_def)
  then show ?thesis
    by (simp add: load_previous_summary_def list_agent_turns_def summary_turn_def turn_content_def dget_Cons por_def assms(2))
qed


section \<open>Witnesses\<close>

definition user_turn :: "string \<Rightarrow> turn" where
  "user_turn s = [(''role'', PStr ''user''), (''content'', PStr s)]"

text \<open>A model whose first call overflows.\<close>

definition demo_chat :: chat where
  "demo_chat k prompt = (if k = 0 then Some ([], ''context window'') else Some (''S'', []))"

lemma demo_chat_overflows: "overflowed (demo_chat k prompt) = (k = 0)"
proof -
  have "is_context_overflow_error ''context window''" "strip ''S'' = ''S''" by code_simp+
  then show ?thesis by (simp add: overflowed_def demo_chat_def)
qed

theorem summarize_terminates_witness:
  "summarize demo_chat [] 0 [user_turn ''a'', user_turn ''b''] = (Answered ''S'' [], 2)"
proof -
  obtain n where "n < 2" and run: "summarize demo_chat [] 0 [user_turn ''a'', user_turn ''b''] =
      (attempt_of (attempt_at demo_chat [] [user_turn ''a'', user_turn ''b''] n), Suc n)"
    and "overflowed (attempt_at demo_chat [] [user_turn ''a'', user_turn ''b''] n) \<longrightarrow> Suc n = 2"
    using summarize_terminates [of "[user_turn ''a'', user_turn ''b'']" demo_chat "[]"] by auto
  then have "n = 1" by (cases n) (auto simp: attempt_at_def demo_chat_overflows)
  moreover have "strip ''S'' = ''S''" by code_simp
  ultimately show ?thesis
    unfolding run by (simp add: attempt_at_def attempt_of_def demo_chat_overflows) (simp add: demo_chat_def overflowed_def)
qed

theorem threshold_scales_with_window_witness:
  "32000 \<le> 2 * effective_compaction_threshold (\<lambda>_ _. Some 32000) 32000 ''openai'' ''m''"
  using threshold_scales_with_window [of "\<lambda>_ _. Some 32000" 32000 "''openai''" "''m''"] by simp

theorem structural_truncate_fits_witness:
  "structural_truncate [user_turn ''a'', user_turn ''b''] 8192 \<noteq> []"
  using structural_truncate_fits [of "[user_turn ''a'', user_turn ''b'']" 8192] by simp

definition small_chat :: "turn list \<times> bool \<times> compaction_effect list" where
  "small_chat = compact_conversation_messages_in_place (\<lambda>_ _. Some 32) demo_chat None ''openai'' ''m'' False
     [user_turn ''a'', user_turn ''a question of twenty letters'']"

theorem compaction_all_or_nothing_witness:
  "snd small_chat = (True, []) \<and> (\<exists>n. 0 < n \<and> fst small_chat = drop n (map pruned_turn [user_turn ''a'', user_turn ''a question of twenty letters'']))"
proof -
  have flag: "fst (snd small_chat)" by code_simp
  have small: "should_use_structural_truncation (resolve_context_window (\<lambda>_ _. Some 32) ''openai'' ''m'')" by code_simp
  have "compact_conversation_messages_in_place (\<lambda>_ _. Some 32) demo_chat None ''openai'' ''m'' False
     [user_turn ''a'', user_turn ''a question of twenty letters''] = (fst small_chat, fst (snd small_chat), snd (snd small_chat))"
    by (simp add: small_chat_def)
  from compaction_all_or_nothing [OF this] flag small show ?thesis by (auto simp: prod_eq_iff)
qed

theorem summary_carried_forward_witness:
  "load_previous_summary [summary_turn ''S''] = ''S''"
proof -
  have "strip ''S'' = ''S''" "lower (strip ''openai'') \<noteq> []" by code_simp+
  then have "compact_turns (\<lambda>_ _. Some (''S'', [])) ''openai'' ''m'' False [] [user_turn ''a''] = (Some ''S'', [UpsertAgentTurn (summary_turn ''S'')])"
    by (simp add: compact_turns_def Let_def summarize.simps)
  from summary_carried_forward [OF this, of "[]"] show ?thesis by (simp add: store_effects_def List.map_filter_def)
qed

end
