(* ===== verification/Credential_Lock.thy ===== *)
theory Credential_Lock
  imports Py_Prelude
begin

text \<open>
  The machine-local credential lock of \<^verbatim>\<open>gateway_credential_lock.py\<close>: a lock file per scope and
  hashed credential, created with \<^verbatim>\<open>O_CREAT | O_EXCL\<close>, whose owner is named by process id and
  process start time.  The file system is a directory of inodes (\<open>lock_disk\<close>), so that a file that
  was unlinked or replaced stays the one an open descriptor writes to; the text of a file is what
  \<^verbatim>\<open>json.loads\<close> makes of it.  The process table, \<^verbatim>\<open>psutil\<close>, the clock, SHA-256 and the outcome
  of each system call are fields of \<open>lock_host\<close> and \<open>lock_io\<close>.  The lemmas show when a call gets the
  lock, that it then owns the file, and that along calls that run one at a time two live processes
  never own it together; \<open>Credential_Lock_Race\<close> takes the calls apart.
\<close>

section \<open>The host\<close>

datatype kill_result = Delivered | NoSuchProcess | NotPermitted | KillOSError | KillOverflow

text \<open>What the host says of its processes: \<open>psutil_exists\<close> is \<open>None\<close> where \<^verbatim>\<open>psutil.pid_exists\<close>
  raises, \<open>proc_stat\<close> is field 22 of \<^verbatim>\<open>/proc/<pid>/stat\<close> when it can be read, and the start times
  are numbers of clock ticks (only their equality is used).\<close>

record lock_host =
  has_psutil :: bool
  is_posix :: bool
  psutil_exists :: "int \<Rightarrow> bool option"
  kill0 :: "int \<Rightarrow> kill_result"
  proc_stat :: "int \<Rightarrow> int option"
  psutil_create :: "int \<Rightarrow> int option"

datatype lock_error =
    PidOverflow
  | BadLockText
  | LockDirError
  | LockOpenError
  | LockWriteError
  | CredentialInUse string "pydict option"

definition pid_exists :: "lock_host \<Rightarrow> int \<Rightarrow> lock_error + bool" where
  "pid_exists h pid = (if pid \<le> 0 then Inr False
     else case (if has_psutil h then psutil_exists h pid else None) of
       Some b \<Rightarrow> Inr b
     | None \<Rightarrow> if is_posix h
         then (case kill0 h pid of
             Delivered \<Rightarrow> Inr True
           | NoSuchProcess \<Rightarrow> Inr False
           | NotPermitted \<Rightarrow> Inr True
           | KillOSError \<Rightarrow> Inr False
           | KillOverflow \<Rightarrow> Inl PidOverflow)
         else Inr True)"

definition process_start_time :: "lock_host \<Rightarrow> int \<Rightarrow> int option" where
  "process_start_time h pid = (case proc_stat h pid of
       Some t \<Rightarrow> Some t
     | None \<Rightarrow> if has_psutil h then psutil_create h pid else None)"

text \<open>One call of the module by one process: its environment and the outcomes of its system calls.
  \<open>torn\<close> is what a write that raised left in the file.\<close>

datatype lock_text = BlankText | Undecodable | Malformed | Json pyval

record lock_io =
  host :: lock_host
  getpid :: int
  sys_argv :: "string list"
  utc_now_iso :: string
  sha256_hex :: "string \<Rightarrow> string"
  lock_dir_env :: "string option"
  state_home_env :: "string option"
  home_dir :: string
  expanduser :: "string \<Rightarrow> string"
  mkdir_ok :: bool
  read_ok :: bool
  reread_ok :: bool
  unlink_ok :: bool
  open_ok :: bool
  write_ok :: bool
  torn :: lock_text
  undo_ok :: bool
  replace_ok :: bool

section \<open>Paths and records\<close>

definition empyralis_state_home :: "lock_io \<Rightarrow> string" where
  "empyralis_state_home io = (let raw = strip (case state_home_env io of None \<Rightarrow> [] | Some s \<Rightarrow> s)
     in if raw \<noteq> [] then expanduser io raw else home_dir io @ ''/.empyralis/state'')"

definition lock_dir :: "lock_io \<Rightarrow> string" where
  "lock_dir io = (case lock_dir_env io of
       Some (c # cs) \<Rightarrow> expanduser io (c # cs)
     | _ \<Rightarrow> expanduser io (empyralis_state_home io @ ''/gateway-credential-locks''))"

definition scope_hash :: "lock_io \<Rightarrow> string \<Rightarrow> string" where
  "scope_hash io identity = take 16 (sha256_hex io identity)"

definition lock_path :: "lock_io \<Rightarrow> string \<Rightarrow> string \<Rightarrow> string" where
  "lock_path io scope identity =
     lock_dir io @ ''/'' @ scope @ ''-'' @ scope_hash io identity @ ''.lock''"

definition opt_int :: "int option \<Rightarrow> pyval" where
  "opt_int m = (case m of None \<Rightarrow> PNone | Some i \<Rightarrow> PInt i)"

definition build_pid_record :: "lock_io \<Rightarrow> pydict" where
  "build_pid_record io =
     [(''pid'', PInt (getpid io)),
      (''argv'', PList (map PStr (sys_argv io))),
      (''start_time'', opt_int (process_start_time (host io) (getpid io)))]"

definition lock_record :: "lock_io \<Rightarrow> string \<Rightarrow> string \<Rightarrow> pydict \<Rightarrow> pydict" where
  "lock_record io scope identity metadata = build_pid_record io @
     [(''scope'', PStr scope),
      (''identity_hash'', PStr (scope_hash io identity)),
      (''metadata'', PDict metadata),
      (''updated_at'', PStr (utc_now_iso io))]"

section \<open>Files\<close>

record lock_disk =
  entry :: "string \<Rightarrow> nat option"
  node :: "nat \<Rightarrow> lock_text"
  fresh :: nat

definition empty_disk :: lock_disk where
  "empty_disk = \<lparr>entry = \<lambda>_. None, node = \<lambda>_. BlankText, fresh = 0\<rparr>"

definition file_exists :: "string \<Rightarrow> lock_disk \<Rightarrow> bool" where
  "file_exists path d = (entry d path \<noteq> None)"

text \<open>\<^verbatim>\<open>unlink(missing_ok=True)\<close> with its \<^verbatim>\<open>OSError\<close> swallowed.\<close>

definition try_unlink :: "bool \<Rightarrow> string \<Rightarrow> lock_disk \<Rightarrow> lock_disk" where
  "try_unlink ok path d = (if ok then d\<lparr>entry := (entry d)(path := None)\<rparr> else d)"

text \<open>\<^verbatim>\<open>os.open(path, O_CREAT | O_EXCL | O_WRONLY)\<close> on a path that is free: an empty file.\<close>

definition create_file :: "string \<Rightarrow> lock_disk \<Rightarrow> lock_disk" where
  "create_file path d = d\<lparr>entry := (entry d)(path \<mapsto> fresh d),
     node := (node d)(fresh d := BlankText), fresh := fresh d + 1\<rparr>"

definition write_node :: "nat \<Rightarrow> lock_text \<Rightarrow> lock_disk \<Rightarrow> lock_disk" where
  "write_node n t d = d\<lparr>node := (node d)(n := t)\<rparr>"

text \<open>\<^verbatim>\<open>_atomic_write\<close>: a temporary file is written and renamed over the path, or an error leaves
  the path as it was; the temporary file is unlinked either way.\<close>

definition atomic_write :: "bool \<Rightarrow> string \<Rightarrow> pydict \<Rightarrow> lock_disk \<Rightarrow> (lock_error + unit) \<times> lock_disk" where
  "atomic_write ok path payload d =
     (if ok then (Inr (), write_node (fresh d) (Json (PDict payload)) (create_file path d))
      else (Inl LockWriteError, d))"

definition read_json_file :: "bool \<Rightarrow> string \<Rightarrow> lock_disk \<Rightarrow> lock_error + pydict option" where
  "read_json_file ok path d = (case entry d path of
       None \<Rightarrow> Inr None
     | Some n \<Rightarrow> if \<not> ok then Inr None
         else (case node d n of
             BlankText \<Rightarrow> Inr None
           | Undecodable \<Rightarrow> Inl BadLockText
           | Malformed \<Rightarrow> Inr None
           | Json v \<Rightarrow> Inr (case v of PDict p \<Rightarrow> Some p | _ \<Rightarrow> None)))"

section \<open>Who owns a record\<close>

fun num_of :: "pyval \<Rightarrow> int option" where
  "num_of (PBool b) = Some (if b then 1 else 0)"
| "num_of (PInt i) = Some i"
| "num_of _ = None"

text \<open>\<^verbatim>\<open>==\<close> of a JSON value with a start time or \<^verbatim>\<open>None\<close>.\<close>

definition start_eq :: "pyval \<Rightarrow> pyval \<Rightarrow> bool" where
  "start_eq a b = (case (num_of a, num_of b) of (Some i, Some j) \<Rightarrow> i = j | _ \<Rightarrow> a = b)"

definition existing_is_live :: "lock_host \<Rightarrow> pydict \<Rightarrow> lock_error + bool" where
  "existing_is_live h existing = (case py_int (dget existing ''pid'') of
       None \<Rightarrow> Inr False
     | Some pid \<Rightarrow> rbind (pid_exists h pid) (\<lambda>alive. Inr (alive \<and>
         (let recorded = dget existing ''start_time''; current = process_start_time h pid
          in recorded = PNone \<or> current = None \<or> start_eq recorded (opt_int current)))))"

definition same_process :: "lock_io \<Rightarrow> pydict \<Rightarrow> pydict \<Rightarrow> bool" where
  "same_process io existing record =
     (py_str (dget existing ''pid'') = int_str (getpid io) \<and>
      start_eq (dget existing ''start_time'') (dget record ''start_time''))"

section \<open>Acquire and release\<close>

text \<open>The \<^verbatim>\<open>O_EXCL\<close> creation and the write that follows it.\<close>

definition create_lock :: "lock_io \<Rightarrow> string \<Rightarrow> pydict \<Rightarrow> lock_disk
    \<Rightarrow> (lock_error + bool \<times> pydict option) \<times> lock_disk" where
  "create_lock io path record d =
     (if file_exists path d
      then (rbind (read_json_file (reread_ok io) path d) (\<lambda>r. Inr (False, r)), d)
      else if \<not> open_ok io then (Inl LockOpenError, d)
      else (let n = fresh d; d1 = create_file path d in
        if write_ok io then (Inr (True, None), write_node n (Json (PDict record)) d1)
        else (Inl LockWriteError, try_unlink (undo_ok io) path (write_node n (torn io) d1))))"

definition acquire_scoped_lock :: "lock_io \<Rightarrow> string \<Rightarrow> string \<Rightarrow> pydict \<Rightarrow> lock_disk
    \<Rightarrow> (lock_error + bool \<times> pydict option) \<times> lock_disk" where
  "acquire_scoped_lock io scope identity metadata d =
     (let path = lock_path io scope identity;
          record = lock_record io scope identity metadata
      in if \<not> mkdir_ok io then (Inl LockDirError, d)
         else case read_json_file (read_ok io) path d of
           Inl e \<Rightarrow> (Inl e, d)
         | Inr None \<Rightarrow> create_lock io path record
             (if file_exists path d then try_unlink (unlink_ok io) path d else d)
         | Inr (Some existing) \<Rightarrow>
             if same_process io existing record
             then (case atomic_write (replace_ok io) path record d of
                 (Inl e, d') \<Rightarrow> (Inl e, d')
               | (Inr _, d') \<Rightarrow> (Inr (True, Some existing), d'))
             else (case existing_is_live (host io) existing of
                 Inl e \<Rightarrow> (Inl e, d)
               | Inr live \<Rightarrow> if live then (Inr (False, Some existing), d)
                   else create_lock io path record (try_unlink (unlink_ok io) path d)))"

definition release_scoped_lock :: "lock_io \<Rightarrow> string \<Rightarrow> string \<Rightarrow> lock_disk
    \<Rightarrow> (lock_error + unit) \<times> lock_disk" where
  "release_scoped_lock io scope identity d =
     (let path = lock_path io scope identity
      in case read_json_file (read_ok io) path d of
        Inl e \<Rightarrow> (Inl e, d)
      | Inr None \<Rightarrow> (Inr (), d)
      | Inr (Some existing) \<Rightarrow>
          if py_str (dget existing ''pid'') \<noteq> int_str (getpid io) then (Inr (), d)
          else (Inr (), try_unlink (unlink_ok io) path d))"

definition in_use_message :: "string \<Rightarrow> pydict option \<Rightarrow> string" where
  "in_use_message resource_desc existing =
     (let owner_pid = (case existing of Some e \<Rightarrow> dget e ''pid'' | None \<Rightarrow> PNone)
      in resource_desc @ '' already in use''
         @ (if truthy owner_pid then '' (PID '' @ py_str owner_pid @ '')'' else [])
         @ '' on this host. Stop the other gateway process first.'')"

text \<open>\<^verbatim>\<open>with scoped_credential_lock(...)\<close> around a body: \<open>io\<close> and \<open>io'\<close> are the calls at entry and
  exit; an exception of the release replaces the outcome of the body.\<close>

definition scoped_credential_lock :: "lock_io \<Rightarrow> lock_io \<Rightarrow> string \<Rightarrow> string \<Rightarrow> string \<Rightarrow> pydict
    \<Rightarrow> (lock_disk \<Rightarrow> (lock_error + 'a) \<times> lock_disk) \<Rightarrow> lock_disk \<Rightarrow> (lock_error + 'a) \<times> lock_disk" where
  "scoped_credential_lock io io' scope identity resource_desc metadata body d =
     (case acquire_scoped_lock io scope identity metadata d of
        (Inl e, d1) \<Rightarrow> (Inl e, d1)
      | (Inr (acquired, existing), d1) \<Rightarrow>
          if \<not> acquired then (Inl (CredentialInUse (in_use_message resource_desc existing) existing), d1)
          else (case body d1 of (outcome, d2) \<Rightarrow>
            (case release_scoped_lock io' scope identity d2 of
               (Inl e, d3) \<Rightarrow> (Inl e, d3)
             | (Inr _, d3) \<Rightarrow> (outcome, d3))))"

section \<open>Lemmas on the file\<close>

named_theorems lock_defs \<open>the file operations of the lock\<close>

declare int_str_inject [simp]

declare file_exists_def [lock_defs] try_unlink_def [lock_defs] create_file_def [lock_defs]
  write_node_def [lock_defs] atomic_write_def [lock_defs] read_json_file_def [lock_defs]

lemma dget_lock_record:
  "dget (lock_record io s i m) ''pid'' = PInt (getpid io)"
  "dget (lock_record io s i m) ''start_time'' = opt_int (process_start_time (host io) (getpid io))"
  by (simp_all add: lock_record_def build_pid_record_def dict_simps)

text \<open>The record a file holds: \<open>None\<close> where there is no file or no JSON object in it.\<close>

definition stored :: "string \<Rightarrow> lock_disk \<Rightarrow> pydict option" where
  "stored path d = (case entry d path of
       Some n \<Rightarrow> (case node d n of Json (PDict p) \<Rightarrow> Some p | _ \<Rightarrow> None)
     | None \<Rightarrow> None)"

lemma read_stored: "stored path d = Some p \<Longrightarrow> read_json_file True path d = Inr (Some p)"
  by (auto simp: stored_def read_json_file_def split: option.splits lock_text.splits pyval.splits)

lemma stored_exists: "stored path d = Some p \<Longrightarrow> file_exists path d"
  by (auto simp: stored_def file_exists_def split: option.splits)

lemma create_lock_outcomes:
  assumes "create_lock io path rec d = (r, d')"
  obtains (taken) "file_exists path d" "d' = d" "\<And>e. r \<noteq> Inr (True, e)"
  | (raised) e where "\<not> file_exists path d" "r = Inl e"
  | (made) "\<not> file_exists path d" "r = Inr (True, None)" "stored path d' = Some rec"
proof (cases "file_exists path d")
  case True
  with assms have "d' = d" and "r = rbind (read_json_file (reread_ok io) path d) (\<lambda>r. Inr (False, r))"
    by (auto simp: create_lock_def)
  then have "\<And>e. r \<noteq> Inr (True, e)" by (cases "read_json_file (reread_ok io) path d") auto
  with True \<open>d' = d\<close> show ?thesis by (intro taken)
next
  case False
  show ?thesis
  proof (cases "open_ok io \<and> write_ok io")
    case True
    with False assms have "r = Inr (True, None)" and "stored path d' = Some rec"
      by (auto simp: create_lock_def Let_def stored_def lock_defs)
    with False show ?thesis by (intro made)
  next
    case no: False
    with False assms obtain e where "r = Inl e"
      by (auto simp: create_lock_def Let_def split: if_splits)
    with False show ?thesis by (intro raised)
  qed
qed

text \<open>What the stored record of a live process means for a call by another one, and for its own.\<close>

definition truthful :: "(int \<Rightarrow> int option) \<Rightarrow> lock_host \<Rightarrow> bool" where
  "truthful procs h = (\<forall>p t. procs p = Some t \<longrightarrow>
     pid_exists h p = Inr True \<and> process_start_time h p \<in> {None, Some t})"

definition names_owner :: "(int \<Rightarrow> int option) \<Rightarrow> int \<Rightarrow> pydict option \<Rightarrow> bool" where
  "names_owner procs p m = (case m of None \<Rightarrow> False
     | Some r \<Rightarrow> dget r ''pid'' = PInt p \<and>
         (\<exists>t. procs p = Some t \<and> dget r ''start_time'' \<in> {PNone, PInt t}))"

lemma names_owner_unique: "names_owner procs p m \<Longrightarrow> names_owner procs q m \<Longrightarrow> p = q"
  by (auto simp: names_owner_def split: option.splits)

lemma names_owner_live:
  assumes "names_owner procs p (Some r)" and "truthful procs h"
  shows "existing_is_live h r = Inr True"
proof -
  from assms obtain t where "procs p = Some t" "dget r ''pid'' = PInt p"
    "dget r ''start_time'' \<in> {PNone, PInt t}"
    by (auto simp: names_owner_def)
  moreover from this assms(2) have "pid_exists h p = Inr True" "process_start_time h p \<in> {None, Some t}"
    by (auto simp: truthful_def)
  ultimately show ?thesis
    by (auto simp: existing_is_live_def Let_def start_eq_def opt_int_def)
qed

lemma own_record_names:
  assumes "procs (getpid io) = Some t" and "truthful procs (host io)"
  shows "names_owner procs (getpid io) (Some (lock_record io s i m))"
proof -
  have "process_start_time (host io) (getpid io) \<in> {None, Some t}"
    using assms by (simp add: truthful_def)
  with assms(1) show ?thesis by (auto simp: names_owner_def dget_lock_record opt_int_def)
qed

text \<open>The outcomes of a call, by what was stored before it.\<close>

lemma acquire_refused_by_owner:
  assumes "names_owner procs p (stored (lock_path io s i) d)" and "p \<noteq> getpid io"
    and "truthful procs (host io)" and "read_ok io"
    and "acquire_scoped_lock io s i m d = (r, d')"
  shows "d' = d \<and> (\<forall>e. r \<noteq> Inr (True, e))"
proof -
  from assms(1) obtain x where x: "stored (lock_path io s i) d = Some x" and own: "names_owner procs p (Some x)"
    by (cases "stored (lock_path io s i) d") (auto simp: names_owner_def)
  have "\<not> same_process io x (lock_record io s i m)"
    using own \<open>p \<noteq> getpid io\<close> by (simp add: same_process_def names_owner_def)
  with x show ?thesis
    using assms(4,5) read_stored [OF x] names_owner_live [OF own assms(3)]
    by (auto simp: acquire_scoped_lock_def Let_def split: if_splits)
qed

lemma acquire_keeps_own:
  assumes "names_owner procs (getpid io) (stored (lock_path io s i) d)"
    and "procs (getpid io) = Some t"
    and "truthful procs (host io)" and "read_ok io"
    and "acquire_scoped_lock io s i m d = (r, d')"
  shows "names_owner procs (getpid io) (stored (lock_path io s i) d')"
proof -
  from assms(1) obtain x where x: "stored (lock_path io s i) d = Some x"
      and own: "names_owner procs (getpid io) (Some x)"
    by (cases "stored (lock_path io s i) d") (auto simp: names_owner_def)
  have "d' = d \<or> stored (lock_path io s i) d' = Some (lock_record io s i m)"
    using assms(4,5) read_stored [OF x] names_owner_live [OF own assms(3)]
    by (auto simp: acquire_scoped_lock_def Let_def stored_def lock_defs split: if_splits)
  with assms(1) own_record_names [OF assms(2,3)] show ?thesis by auto
qed

lemma acquire_granted_stored:
  assumes "acquire_scoped_lock io s i m d = (Inr (True, e), d')"
  shows "stored (lock_path io s i) d' = Some (lock_record io s i m)"
proof -
  let ?path = "lock_path io s i" and ?rec = "lock_record io s i m"
  have "(\<exists>d0. create_lock io ?path ?rec d0 = (Inr (True, e), d'))
      \<or> atomic_write (replace_ok io) ?path ?rec d = (Inr (), d')"
    using assms by (auto simp: acquire_scoped_lock_def Let_def
        split: if_splits sum.splits option.splits prod.splits)
  then show ?thesis
  proof
    assume "\<exists>d0. create_lock io ?path ?rec d0 = (Inr (True, e), d')"
    then obtain d0 where "create_lock io ?path ?rec d0 = (Inr (True, e), d')" ..
    then show ?thesis by (rule create_lock_outcomes) auto
  next
    assume "atomic_write (replace_ok io) ?path ?rec d = (Inr (), d')"
    then show ?thesis by (auto simp: stored_def lock_defs split: if_splits)
  qed
qed

lemma release_other_keeps:
  assumes "names_owner procs p (stored (lock_path io s i) d)" and "p \<noteq> getpid io"
    and "release_scoped_lock io s i d = (r, d')"
  shows "d' = d"
proof -
  from assms(1) obtain x where x: "stored (lock_path io s i) d = Some x" and own: "names_owner procs p (Some x)"
    by (cases "stored (lock_path io s i) d") (auto simp: names_owner_def)
  have "read_json_file (read_ok io) (lock_path io s i) d \<in> {Inr None, Inr (Some x)}"
    using read_stored [OF x] x
    by (cases "read_ok io") (auto simp: read_json_file_def stored_def split: option.splits)
  with own assms(2,3) show ?thesis
    by (auto simp: release_scoped_lock_def Let_def names_owner_def)
qed

section \<open>Calls one at a time\<close>

text \<open>The processes of the host with their start times, the disk, and the processes that were
  granted the lock and have neither released it nor died.\<close>

record lock_world =
  procs :: "int \<Rightarrow> int option"
  disk :: lock_disk
  owners :: "int set"

datatype lock_call = Spawn int int | Crash int | Acquire lock_io pydict | Release lock_io

definition granted :: "lock_error + bool \<times> pydict option \<Rightarrow> bool" where
  "granted r = (case r of Inr (b, _) \<Rightarrow> b | Inl _ \<Rightarrow> False)"

text \<open>One call for the credential whose lock file is \<open>path\<close>: each by a live process on a host that
  tells the truth about live processes, which may fail in every system call but the read of the lock file.\<close>

inductive lock_step :: "string \<Rightarrow> string \<Rightarrow> string \<Rightarrow> lock_world \<Rightarrow> lock_call \<Rightarrow> lock_world \<Rightarrow> bool"
  for path s i where
  spawn: "procs w p = None \<Longrightarrow> lock_step path s i w (Spawn p t) (w\<lparr>procs := (procs w)(p \<mapsto> t)\<rparr>)"
| crash: "lock_step path s i w (Crash p)
     (w\<lparr>procs := (procs w)(p := None), owners := owners w - {p}\<rparr>)"
| acquire: "procs w (getpid io) = Some t \<Longrightarrow> truthful (procs w) (host io) \<Longrightarrow> read_ok io
     \<Longrightarrow> lock_path io s i = path \<Longrightarrow> acquire_scoped_lock io s i m (disk w) = (r, d)
     \<Longrightarrow> lock_step path s i w (Acquire io m)
       (w\<lparr>disk := d, owners := (if granted r then insert (getpid io) (owners w) else owners w)\<rparr>)"
| release: "lock_path io s i = path \<Longrightarrow> release_scoped_lock io s i (disk w) = (r, d)
     \<Longrightarrow> lock_step path s i w (Release io)
       (w\<lparr>disk := d, owners := owners w - {getpid io}\<rparr>)"

definition lock_inv :: "string \<Rightarrow> lock_world \<Rightarrow> bool" where
  "lock_inv path w = (\<forall>p \<in> owners w. names_owner (procs w) p (stored path (disk w)))"

lemma lock_inv_unique: "lock_inv path w \<Longrightarrow> p \<in> owners w \<Longrightarrow> q \<in> owners w \<Longrightarrow> p = q"
  unfolding lock_inv_def using names_owner_unique by blast

lemma names_owner_procs:
  "names_owner ps p m \<Longrightarrow> ps' p = ps p \<Longrightarrow> names_owner ps' p m"
  by (auto simp: names_owner_def split: option.splits)

lemma names_owner_alive: "names_owner ps p m \<Longrightarrow> ps p \<noteq> None"
  by (auto simp: names_owner_def split: option.splits)

lemma lock_inv_acquire:
  assumes inv: "lock_inv path w" and live: "procs w (getpid io) = Some t"
    and truth: "truthful (procs w) (host io)" and ok: "read_ok io" and path: "lock_path io s i = path"
    and acq: "acquire_scoped_lock io s i m (disk w) = (r, d)"
  shows "lock_inv path
    (w\<lparr>disk := d, owners := (if granted r then insert (getpid io) (owners w) else owners w)\<rparr>)"
proof (cases "\<exists>p \<in> owners w. p \<noteq> getpid io")
  case True
  then obtain p where p: "p \<in> owners w" "p \<noteq> getpid io" by blast
  with inv path have "names_owner (procs w) p (stored (lock_path io s i) (disk w))"
    by (simp add: lock_inv_def)
  from acquire_refused_by_owner [OF this p(2) truth ok acq]
  have "d = disk w" "\<not> granted r" by (auto simp: granted_def split: sum.splits)
  with inv show ?thesis by simp
next
  case False
  have "names_owner (procs w) (getpid io) (stored path d)"
    if "granted r \<or> getpid io \<in> owners w"
  proof (cases "granted r")
    case True
    then obtain e where "r = Inr (True, e)" by (auto simp: granted_def split: sum.splits)
    then have "stored path d = Some (lock_record io s i m)"
      using acquire_granted_stored acq path by blast
    then show ?thesis using own_record_names [OF live truth] by simp
  next
    case no: False
    with that inv path have "names_owner (procs w) (getpid io) (stored (lock_path io s i) (disk w))"
      by (simp add: lock_inv_def)
    from acquire_keeps_own [OF this live truth ok acq] path show ?thesis by simp
  qed
  with False show ?thesis by (auto simp: lock_inv_def)
qed

lemma lock_inv_release:
  assumes inv: "lock_inv path w" and path: "lock_path io s i = path"
    and rel: "release_scoped_lock io s i (disk w) = (r, d)"
  shows "lock_inv path (w\<lparr>disk := d, owners := owners w - {getpid io}\<rparr>)"
proof -
  have "d = disk w" if "p \<in> owners w" "p \<noteq> getpid io" for p
    using that inv path release_other_keeps [OF _ that(2) rel, of "procs w"] by (simp add: lock_inv_def)
  with inv show ?thesis by (auto simp: lock_inv_def)
qed

lemma lock_inv_step: "lock_inv path w \<Longrightarrow> lock_step path s i w a w' \<Longrightarrow> lock_inv path w'"
proof (erule lock_step.cases)
  fix w1 p t
  assume "lock_inv path w" "w = w1" "w' = w1\<lparr>procs := (procs w1)(p \<mapsto> t)\<rparr>" "procs w1 p = None"
  then show "lock_inv path w'"
    using names_owner_alive by (force simp: lock_inv_def intro: names_owner_procs)
next
  fix w1 p
  assume "lock_inv path w" "w = w1" "w' = w1\<lparr>procs := (procs w1)(p := None), owners := owners w1 - {p}\<rparr>"
  then show "lock_inv path w'"
    by (auto simp: lock_inv_def intro: names_owner_procs)
next
  fix w1 io t m r d
  assume "lock_inv path w" "w = w1"
    "w' = w1\<lparr>disk := d, owners := (if granted r then insert (getpid io) (owners w1) else owners w1)\<rparr>"
    "procs w1 (getpid io) = Some t" "truthful (procs w1) (host io)" "read_ok io" "lock_path io s i = path"
    "acquire_scoped_lock io s i m (disk w1) = (r, d)"
  then show "lock_inv path w'" using lock_inv_acquire by blast
next
  fix w1 io r d
  assume "lock_inv path w" "w = w1" "w' = w1\<lparr>disk := d, owners := owners w1 - {getpid io}\<rparr>"
    "lock_path io s i = path" "release_scoped_lock io s i (disk w1) = (r, d)"
  then show "lock_inv path w'" using lock_inv_release by blast
qed


section \<open>When a call is granted\<close>

definition fault_free :: "lock_io \<Rightarrow> bool" where
  "fault_free io = (mkdir_ok io \<and> read_ok io \<and> reread_ok io \<and> unlink_ok io \<and> open_ok io
     \<and> write_ok io \<and> replace_ok io)"

text \<open>The owner a record names, as the module comment describes it: a process with that id exists and
  it is not another process that was given the id later.\<close>

definition owner_running :: "lock_host \<Rightarrow> pydict \<Rightarrow> bool" where
  "owner_running h r = (\<exists>p. py_int (dget r ''pid'') = Some p \<and> pid_exists h p = Inr True
     \<and> \<not> (dget r ''start_time'' \<noteq> PNone \<and> process_start_time h p \<noteq> None
          \<and> \<not> start_eq (dget r ''start_time'') (opt_int (process_start_time h p))))"

lemma existing_is_live_iff:
  "existing_is_live h r = Inr live \<Longrightarrow> live \<longleftrightarrow> owner_running h r"
  by (cases "py_int (dget r ''pid'')"; cases "pid_exists h (the (py_int (dget r ''pid'')))")
    (auto simp: existing_is_live_def owner_running_def Let_def)

lemma create_lock_clean [simp]:
  "fault_free io \<Longrightarrow> \<not> file_exists path d \<Longrightarrow> fst (create_lock io path rec d) = Inr (True, None)"
  by (simp add: create_lock_def fault_free_def Let_def)

lemma unlinked_gone [simp]: "\<not> file_exists path (try_unlink True path d)"
  by (simp add: lock_defs)

lemma live_answer:
  "existing_is_live h e \<noteq> Inl PidOverflow \<Longrightarrow> existing_is_live h e = Inr (owner_running h e)"
  using existing_is_live_iff [of h e]
  by (cases "existing_is_live h e")
    (auto simp: existing_is_live_def pid_exists_def Let_def
       split: option.splits if_splits kill_result.splits)

lemma acquire_no_record:
  assumes "fault_free io" and "read_json_file True (lock_path io s i) d = Inr None"
  shows "fst (acquire_scoped_lock io s i m d) = Inr (True, None)"
  using assms by (simp add: acquire_scoped_lock_def Let_def fault_free_def)

lemma acquire_with_record:
  assumes "fault_free io" and "read_json_file True (lock_path io s i) d = Inr (Some e)"
    and "existing_is_live (host io) e \<noteq> Inl PidOverflow"
  shows "if same_process io e (lock_record io s i m) \<or> \<not> owner_running (host io) e
    then granted (fst (acquire_scoped_lock io s i m d))
    else acquire_scoped_lock io s i m d = (Inr (False, Some e), d)"
  using assms(1,2) live_answer [OF assms(3)]
  by (simp add: acquire_scoped_lock_def Let_def fault_free_def atomic_write_def granted_def)

lemma granted_stored:
  assumes "granted (fst (acquire_scoped_lock io s i m d))"
  shows "stored (lock_path io s i) (snd (acquire_scoped_lock io s i m d)) = Some (lock_record io s i m)"
proof -
  obtain r d' where call: "acquire_scoped_lock io s i m d = (r, d')" by fastforce
  with assms obtain e where "r = Inr (True, e)" by (auto simp: granted_def split: sum.splits)
  with call show ?thesis by (simp add: acquire_granted_stored)
qed

text \<open>C15. When a call gets the credential: if no system call fails, the file decodes and the recorded
  pid does not overflow, \<^verbatim>\<open>acquire_scoped_lock\<close> is granted exactly when there is no readable record,
  or the record is this process's own, or the process it names is no longer running (its pid is gone or was
  given to a process with another start time); then the file holds the caller's record, and otherwise
  the call returns the record of the running owner and leaves the disk as it was.\<close>

theorem acquire_grants_exactly:
  assumes "fault_free io" and "read_json_file True (lock_path io scope identity) d = Inr old"
    and "\<And>e. old = Some e \<Longrightarrow> existing_is_live (host io) e \<noteq> Inl PidOverflow"
  shows "if (case old of None \<Rightarrow> True
      | Some e \<Rightarrow> same_process io e (lock_record io scope identity metadata) \<or> \<not> owner_running (host io) e)
    then granted (fst (acquire_scoped_lock io scope identity metadata d))
      \<and> stored (lock_path io scope identity) (snd (acquire_scoped_lock io scope identity metadata d))
          = Some (lock_record io scope identity metadata)
    else acquire_scoped_lock io scope identity metadata d = (Inr (False, old), d)"
proof (cases old)
  case None
  with assms have "fst (acquire_scoped_lock io scope identity metadata d) = Inr (True, None)"
    by (simp add: acquire_no_record)
  with granted_stored [of io scope identity metadata d] None show ?thesis by (simp add: granted_def)
next
  case (Some e)
  from acquire_with_record [OF assms(1) assms(2) [unfolded Some] assms(3) [OF Some], of metadata]
    granted_stored [of io scope identity metadata d] Some
  show ?thesis by (auto split: if_splits)
qed

section \<open>A concrete host\<close>

text \<open>A Linux host where the processes 1 and 2 run, and a call by one of them with no fault.\<close>

definition demo_host :: lock_host where
  "demo_host = \<lparr>has_psutil = True, is_posix = True,
     psutil_exists = (\<lambda>p. Some (p = 1 \<or> p = 2)), kill0 = (\<lambda>_. NoSuchProcess),
     proc_stat = (\<lambda>p. if p = 1 \<or> p = 2 then Some (100 * p) else None), psutil_create = (\<lambda>_. None)\<rparr>"

definition demo_call :: "int \<Rightarrow> lock_io" where
  "demo_call p = \<lparr>host = demo_host, getpid = p, sys_argv = [''server''], utc_now_iso = ''now'',
     sha256_hex = (\<lambda>_. ''0123456789abcdef0123''), lock_dir_env = Some ''/run'', state_home_env = None, home_dir = ''/home'',
     expanduser = (\<lambda>s. s), mkdir_ok = True, read_ok = True, reread_ok = True, unlink_ok = True,
     open_ok = True, write_ok = True, torn = BlankText, undo_ok = True, replace_ok = True\<rparr>"

definition demo_path :: string where
  "demo_path = ''/run/discord_bot-0123456789abcdef.lock''"

definition idle_host :: lock_world where
  "idle_host = \<lparr>procs = [1 \<mapsto> 100, 2 \<mapsto> 200], disk = empty_disk, owners = {}\<rparr>"

lemma demo_lock_path: "lock_path (demo_call p) ''discord_bot'' t = demo_path"
  by (simp add: lock_path_def demo_call_def demo_path_def lock_dir_def scope_hash_def)

lemma demo_truthful: "truthful [1 \<mapsto> 100, 2 \<mapsto> 200] demo_host"
  by (auto simp: truthful_def pid_exists_def process_start_time_def demo_host_def)

lemma demo_fault_free: "fault_free (demo_call p)"
  by (simp add: fault_free_def demo_call_def)

lemma demo_record_live: "existing_is_live demo_host (lock_record (demo_call 1) s i m) = Inr True"
  by (simp add: existing_is_live_def dget_lock_record demo_call_def start_eq_def opt_int_def
      process_start_time_def pid_exists_def demo_host_def)

lemma demo_record_other:
  "\<not> same_process (demo_call 2) (lock_record (demo_call 1) s i m) (lock_record (demo_call 2) s i m)"
  by (simp add: same_process_def dget_lock_record) (simp add: demo_call_def)

text \<open>Process 1 takes the lock of the empty disk.\<close>

lemma demo_first_granted:
  "fst (acquire_scoped_lock (demo_call 1) ''discord_bot'' t [] empty_disk) = Inr (True, None)"
  by (rule acquire_no_record [OF demo_fault_free]) (simp add: read_json_file_def empty_disk_def)

definition demo_owned :: lock_world where
  "demo_owned = idle_host\<lparr>disk := snd (acquire_scoped_lock (demo_call 1) ''discord_bot'' ''token'' [] empty_disk),
     owners := {1}\<rparr>"

lemma demo_owned_step:
  "lock_step demo_path ''discord_bot'' ''token'' idle_host (Acquire (demo_call 1) []) demo_owned"
proof -
  let ?w = idle_host and ?io = "demo_call 1"
  have "procs ?w (getpid ?io) = Some 100" "truthful (procs ?w) (host ?io)" "read_ok ?io"
    using demo_truthful by (simp_all add: idle_host_def demo_call_def)
  from lock_step.acquire [OF this demo_lock_path prod.collapse [symmetric], of "''token''" "[]"]
  show ?thesis
    using demo_first_granted [of "''token''"]
    by (simp add: demo_owned_def granted_def idle_host_def demo_call_def)
qed


text \<open>Process 2 is refused and told who owns the credential.\<close>

theorem acquire_grants_exactly_witness:
  "acquire_scoped_lock (demo_call 2) ''discord_bot'' ''token'' [] (disk demo_owned)
     = (Inr (False, stored demo_path (disk demo_owned)), disk demo_owned)"
proof -
  have st: "stored demo_path (disk demo_owned) = Some (lock_record (demo_call 1) ''discord_bot'' ''token'' [])"
    using granted_stored [of "demo_call 1" "''discord_bot''" "''token''" "[]" empty_disk] demo_first_granted
    by (simp add: demo_owned_def granted_def demo_lock_path)
  let ?old = "lock_record (demo_call 1) ''discord_bot'' ''token'' []"
  have host: "host (demo_call 2) = demo_host" by (simp add: demo_call_def)
  have run: "owner_running demo_host ?old"
    using existing_is_live_iff [OF demo_record_live] by simp
  have "read_json_file True (lock_path (demo_call 2) ''discord_bot'' ''token'') (disk demo_owned) = Inr (Some ?old)"
    using read_stored [OF st] by (simp add: demo_lock_path)
  from acquire_grants_exactly [OF demo_fault_free this, of "[]"]
  show ?thesis using host run demo_record_live demo_record_other st by simp
qed

end
