(* ===== verification/Credential_Lock_Race.thy ===== *)
theory Credential_Lock_Race
  imports Credential_Lock
begin

text \<open>
  The calls of \<open>Credential_Lock\<close> taken apart: \<open>acquire_scoped_lock\<close> as the sequence of its
  accesses to the file system (read, test for existence, unlink, exclusive creation, write), one
  \<open>acquire_step\<close> each, so that the accesses of several processes can be interleaved.  Run alone, the
  steps are the call; interleaved, the file a process has created and not yet written is taken for
  a corrupt one and unlinked by the next.
\<close>

section \<open>One access at a time\<close>

datatype acquire_pc =
    Start
  | Reading pydict
  | NoRecord pydict
  | Found pydict pydict
  | Refreshing pydict pydict
  | Clearing pydict
  | Creating pydict
  | Writing pydict nat
  | Undoing
  | Rereading
  | Finished "lock_error + bool \<times> pydict option"

text \<open>Each constructor is a point of the body of \<^verbatim>\<open>acquire_scoped_lock\<close>; the arguments are its local
  variables \<^verbatim>\<open>record\<close>, \<^verbatim>\<open>existing\<close> and the descriptor's inode.\<close>

fun acquire_step :: "lock_io \<Rightarrow> string \<Rightarrow> string \<Rightarrow> pydict \<Rightarrow> acquire_pc \<times> lock_disk \<Rightarrow> acquire_pc \<times> lock_disk" where
  "acquire_step io s i m (Start, d) =
     (if mkdir_ok io then (Reading (lock_record io s i m), d) else (Finished (Inl LockDirError), d))"
| "acquire_step io s i m (Reading rec, d) =
     (case read_json_file (read_ok io) (lock_path io s i) d of
        Inl e \<Rightarrow> (Finished (Inl e), d)
      | Inr None \<Rightarrow> (NoRecord rec, d)
      | Inr (Some existing) \<Rightarrow> (Found rec existing, d))"
| "acquire_step io s i m (NoRecord rec, d) =
     (if file_exists (lock_path io s i) d then (Clearing rec, d) else (Creating rec, d))"
| "acquire_step io s i m (Found rec existing, d) =
     (if same_process io existing rec then (Refreshing rec existing, d)
      else case existing_is_live (host io) existing of
        Inl e \<Rightarrow> (Finished (Inl e), d)
      | Inr live \<Rightarrow> if live then (Finished (Inr (False, Some existing)), d) else (Clearing rec, d))"
| "acquire_step io s i m (Refreshing rec existing, d) =
     (case atomic_write (replace_ok io) (lock_path io s i) rec d of
        (Inl e, d') \<Rightarrow> (Finished (Inl e), d')
      | (Inr _, d') \<Rightarrow> (Finished (Inr (True, Some existing)), d'))"
| "acquire_step io s i m (Clearing rec, d) =
     (Creating rec, try_unlink (unlink_ok io) (lock_path io s i) d)"
| "acquire_step io s i m (Creating rec, d) =
     (if file_exists (lock_path io s i) d then (Rereading, d)
      else if \<not> open_ok io then (Finished (Inl LockOpenError), d)
      else (Writing rec (fresh d), create_file (lock_path io s i) d))"
| "acquire_step io s i m (Rereading, d) =
     (Finished (rbind (read_json_file (reread_ok io) (lock_path io s i) d) (\<lambda>r. Inr (False, r))), d)"
| "acquire_step io s i m (Writing rec n, d) =
     (if write_ok io then (Finished (Inr (True, None)), write_node n (Json (PDict rec)) d)
      else (Undoing, write_node n (torn io) d))"
| "acquire_step io s i m (Undoing, d) =
     (Finished (Inl LockWriteError), try_unlink (undo_ok io) (lock_path io s i) d)"
| "acquire_step io s i m (Finished r, d) = (Finished r, d)"

section \<open>Alone, the steps are the call\<close>

text \<open>The number of accesses still to come, at most.\<close>

fun accesses :: "acquire_pc \<Rightarrow> nat" where
  "accesses Start = 7"
| "accesses (Reading rec) = 6"
| "accesses (NoRecord rec) = 5"
| "accesses (Found rec e) = 5"
| "accesses (Clearing rec) = 4"
| "accesses (Creating rec) = 3"
| "accesses (Refreshing rec e) = 2"
| "accesses (Writing rec n) = 2"
| "accesses Undoing = 1"
| "accesses Rereading = 1"
| "accesses (Finished r) = 0"

lemma accesses_decrease:
  "fst (acquire_step io s i m (pc, d)) = pc' \<Longrightarrow> accesses pc' \<le> accesses pc - 1"
  by (cases pc) (auto split: if_splits sum.splits option.splits prod.splits)

fun run_acquire :: "lock_io \<Rightarrow> string \<Rightarrow> string \<Rightarrow> pydict \<Rightarrow> nat \<Rightarrow> acquire_pc \<times> lock_disk \<Rightarrow> acquire_pc \<times> lock_disk" where
  "run_acquire io s i m 0 c = c"
| "run_acquire io s i m (Suc k) c = run_acquire io s i m k (acquire_step io s i m c)"

definition finished :: "(lock_error + bool \<times> pydict option) \<times> lock_disk \<Rightarrow> acquire_pc \<times> lock_disk" where
  "finished c = (Finished (fst c), snd c)"

lemma run_Finished [simp]: "run_acquire io s i m k (Finished r, d) = (Finished r, d)"
  by (induction k) simp_all

lemma run_Creating:
  "run_acquire io s i m (Suc (Suc (Suc k))) (Creating rec, d)
     = finished (create_lock io (lock_path io s i) rec d)"
  by (simp add: create_lock_def finished_def Let_def)

lemma run_Clearing:
  "run_acquire io s i m (Suc (Suc (Suc (Suc k)))) (Clearing rec, d)
     = finished (create_lock io (lock_path io s i) rec (try_unlink (unlink_ok io) (lock_path io s i) d))"
  unfolding run_acquire.simps(2) [of io s i m "Suc (Suc (Suc k))"] acquire_step.simps
  by (rule run_Creating)

lemma run_Refreshing:
  "run_acquire io s i m (Suc k) (Refreshing rec existing, d) = finished
     (case atomic_write (replace_ok io) (lock_path io s i) rec d of
        (Inl e, d') \<Rightarrow> (Inl e, d') | (Inr _, d') \<Rightarrow> (Inr (True, Some existing), d'))"
  by (simp add: finished_def atomic_write_def)

lemma run_Found:
  "run_acquire io s i m (Suc (Suc (Suc (Suc (Suc k))))) (Found rec existing, d) = finished
     (if same_process io existing rec
      then (case atomic_write (replace_ok io) (lock_path io s i) rec d of
          (Inl e, d') \<Rightarrow> (Inl e, d') | (Inr _, d') \<Rightarrow> (Inr (True, Some existing), d'))
      else (case existing_is_live (host io) existing of
          Inl e \<Rightarrow> (Inl e, d)
        | Inr live \<Rightarrow> if live then (Inr (False, Some existing), d)
            else create_lock io (lock_path io s i) rec (try_unlink (unlink_ok io) (lock_path io s i) d)))"
  unfolding run_acquire.simps(2) [of io s i m "Suc (Suc (Suc (Suc k)))"] acquire_step.simps
  by (cases "existing_is_live (host io) existing")
    (simp_all only: run_Clearing run_Refreshing run_Finished finished_def sum.case if_True if_False fst_conv snd_conv
       split: if_split, simp_all)

lemma run_NoRecord:
  "run_acquire io s i m (Suc (Suc (Suc (Suc (Suc k))))) (NoRecord rec, d) = finished
     (create_lock io (lock_path io s i) rec
       (if file_exists (lock_path io s i) d then try_unlink (unlink_ok io) (lock_path io s i) d else d))"
  unfolding run_acquire.simps(2) [of io s i m "Suc (Suc (Suc (Suc k)))"] acquire_step.simps
  by (simp only: run_Clearing run_Creating split: if_split) simp


section \<open>Several processes\<close>

text \<open>One lock file and the processes calling \<open>acquire_scoped_lock\<close> for it, each at its point of the
  body with its environment; any of them takes the next access.\<close>

record acquire_sys =
  files :: lock_disk
  points :: "int \<Rightarrow> acquire_pc"

definition sys_step :: "(int \<Rightarrow> lock_io) \<Rightarrow> string \<Rightarrow> string \<Rightarrow> pydict \<Rightarrow> acquire_sys \<Rightarrow> int \<Rightarrow> acquire_sys" where
  "sys_step env s i m w p = (case acquire_step (env p) s i m (points w p, files w) of
     (pc, d) \<Rightarrow> \<lparr>files = d, points = (points w)(p := pc)\<rparr>)"

definition holds :: "acquire_sys \<Rightarrow> int \<Rightarrow> bool" where
  "holds w p = (case points w p of Finished r \<Rightarrow> granted r | _ \<Rightarrow> False)"

definition fresh_start :: "string \<Rightarrow> acquire_sys \<Rightarrow> bool" where
  "fresh_start path w = (entry (files w) path = None \<and> (\<forall>p. points w p = Start))"

text \<open>The schedule: \<open>p\<close> creates the file and is about to write it; \<open>q\<close> finds it blank, unlinks it,
  creates and writes its own; \<open>p\<close> writes to the file that has no name any more.\<close>

definition race_schedule :: "int \<Rightarrow> int \<Rightarrow> int list" where
  "race_schedule p q = [p, p, p, p, q, q, q, q, q, q, p]"

lemma race_run:
  assumes "fresh_start path w" and "p \<noteq> q"
    and "\<And>x. x = p \<or> x = q \<Longrightarrow> fault_free (env x) \<and> lock_path (env x) s i = path"
  shows "let w' = foldl (sys_step env s i m) w (race_schedule p q)
    in points w' p = Finished (Inr (True, None)) \<and> points w' q = Finished (Inr (True, None))
       \<and> stored path (files w') = Some (lock_record (env q) s i m)"
proof -
  have flags: "mkdir_ok (env x)" "read_ok (env x)" "unlink_ok (env x)" "open_ok (env x)" "write_ok (env x)"
      "lock_path (env x) s i = path" if "x = p \<or> x = q" for x
    using assms(3) [OF that] by (simp_all add: fault_free_def)
  note flags_p = flags [of p, simplified] and flags_q = flags [of q, simplified]
  have start: "entry (files w) path = None" "points w p = Start" "points w q = Start"
    using assms(1) by (simp_all add: fresh_start_def)
  show ?thesis
    using \<open>p \<noteq> q\<close> flags_p flags_q start
    by (simp add: race_schedule_def sys_step_def Let_def stored_def lock_defs)
qed

text \<open>C12. The lock of a fresh credential is not exclusive: for any two live processes \<open>p\<close> and \<open>q\<close> that
  call \<^verbatim>\<open>acquire_scoped_lock\<close> for a credential whose lock file does not exist, with no system call failing
  and a host that answers truthfully, there is an interleaving of their file accesses after
  which both were told they hold it, while the file names only \<open>q\<close>.  (\<open>q\<close> reads the file \<open>p\<close> has created
  and not yet written, takes it for one left by a killed process and unlinks it.)\<close>

theorem fresh_lock_race:
  assumes "fresh_start path w" and "p \<noteq> q"
    and "\<And>x. x = p \<or> x = q \<Longrightarrow> fault_free (env x) \<and> lock_path (env x) scope identity = path
      \<and> getpid (env x) = x \<and> table x \<noteq> None \<and> truthful table (host (env x))"
  shows "\<exists>schedule. let w' = foldl (sys_step env scope identity metadata) w schedule
    in holds w' p \<and> holds w' q \<and> names_owner table q (stored path (files w'))
      \<and> \<not> names_owner table p (stored path (files w'))"
proof (rule exI [of _ "race_schedule p q"])
  let ?w' = "foldl (sys_step env scope identity metadata) w (race_schedule p q)"
  have end_state: "points ?w' p = Finished (Inr (True, None))" "points ?w' q = Finished (Inr (True, None))"
      "stored path (files ?w') = Some (lock_record (env q) scope identity metadata)"
    using race_run [OF assms(1,2), of env scope identity metadata] assms(3) by (simp_all add: Let_def)
  obtain t where "table (getpid (env q)) = Some t" using assms(3) [of q] by auto
  then have own: "names_owner table q (stored path (files ?w'))"
    using own_record_names [of table "env q" t] assms(3) [of q] by (simp add: end_state)
  then have "\<not> names_owner table p (stored path (files ?w'))"
    using names_owner_unique \<open>p \<noteq> q\<close> by blast
  with own end_state show "let w' = ?w' in holds w' p \<and> holds w' q
      \<and> names_owner table q (stored path (files w')) \<and> \<not> names_owner table p (stored path (files w'))"
    by (simp add: Let_def holds_def granted_def)
qed

theorem fresh_lock_race_witness:
  "\<exists>schedule. let w' = foldl (sys_step demo_call ''discord_bot'' ''token'' []) \<lparr>files = empty_disk, points = \<lambda>_. Start\<rparr> schedule
    in holds w' 1 \<and> holds w' 2 \<and> names_owner [1 \<mapsto> 100, 2 \<mapsto> 200] 2 (stored demo_path (files w'))
      \<and> \<not> names_owner [1 \<mapsto> 100, 2 \<mapsto> 200] 1 (stored demo_path (files w'))"
proof (rule fresh_lock_race)
  show "fresh_start demo_path \<lparr>files = empty_disk, points = \<lambda>_. Start\<rparr>"
    by (simp add: fresh_start_def empty_disk_def)
next
  fix x :: int
  assume "x = 1 \<or> x = 2"
  then show "fault_free (demo_call x) \<and> lock_path (demo_call x) ''discord_bot'' ''token'' = demo_path
      \<and> getpid (demo_call x) = x \<and> [1 \<mapsto> 100, 2 \<mapsto> 200] x \<noteq> None \<and> truthful [1 \<mapsto> 100, 2 \<mapsto> 200] (host (demo_call x))"
    using demo_fault_free demo_lock_path demo_truthful by (auto simp: demo_call_def)
qed simp

section \<open>The unlink is the only way to two owners\<close>

fun never_clears :: "(int \<Rightarrow> lock_io) \<Rightarrow> string \<Rightarrow> string \<Rightarrow> pydict \<Rightarrow> acquire_sys \<Rightarrow> int list \<Rightarrow> bool" where
  "never_clears env s i m w [] = True"
| "never_clears env s i m w (p # ps) = (let w' = sys_step env s i m w p
     in (case points w' p of Clearing _ \<Rightarrow> False | _ \<Rightarrow> True) \<and> never_clears env s i m w' ps)"

definition engaged :: "acquire_pc \<Rightarrow> bool" where
  "engaged pc = (case pc of Writing _ _ \<Rightarrow> True | Finished r \<Rightarrow> granted r | _ \<Rightarrow> False)"

text \<open>What is true at each point of a process that nobody's clean-up disturbs.\<close>

definition owned_by_holder :: "acquire_sys \<Rightarrow> pydict \<Rightarrow> bool" where
  "owned_by_holder w e = (\<exists>q. holds w q \<and> dget e ''pid'' = PInt q)"

definition point_ok :: "string \<Rightarrow> acquire_sys \<Rightarrow> int \<Rightarrow> acquire_pc \<Rightarrow> bool" where
  "point_ok path w p pc = (case pc of
       Start \<Rightarrow> True
     | Reading rec \<Rightarrow> dget rec ''pid'' = PInt p
     | NoRecord rec \<Rightarrow> dget rec ''pid'' = PInt p
     | Found rec e \<Rightarrow> dget rec ''pid'' = PInt p \<and> owned_by_holder w e
     | Creating rec \<Rightarrow> dget rec ''pid'' = PInt p
     | Writing rec n \<Rightarrow> dget rec ''pid'' = PInt p \<and> entry (files w) path = Some n
     | Rereading \<Rightarrow> True
     | Finished r \<Rightarrow> granted r \<longrightarrow> file_exists path (files w)
     | _ \<Rightarrow> False)"

definition sys_inv :: "string \<Rightarrow> acquire_sys \<Rightarrow> bool" where
  "sys_inv path w \<longleftrightarrow>
     (\<forall>p q. engaged (points w p) \<longrightarrow> engaged (points w q) \<longrightarrow> p = q)
     \<and> (\<forall>e. stored path (files w) = Some e \<longrightarrow> owned_by_holder w e)
     \<and> (\<forall>p. point_ok path w p (points w p))"

lemma engaged_exists: "point_ok path w p pc \<Longrightarrow> engaged pc \<Longrightarrow> file_exists path (files w)"
  by (cases pc) (auto simp: point_ok_def engaged_def file_exists_def)

lemma holds_engaged: "holds w p \<Longrightarrow> engaged (points w p)"
  by (auto simp: holds_def engaged_def split: acquire_pc.splits)

text \<open>A step that leaves the disk alone and engages nobody.\<close>

lemma sys_inv_quiet:
  assumes "sys_inv path w" and "point_ok path w p pc" and "\<not> engaged pc" and "\<not> holds w p"
  shows "sys_inv path \<lparr>files = files w, points = (points w)(p := pc)\<rparr>"
proof -
  let ?w = "\<lparr>files = files w, points = (points w)(p := pc)\<rparr>"
  have holds_up: "holds ?w q" if "holds w q" for q
    using that assms(4) by (cases "q = p") (simp_all add: holds_def)
  then have own_up: "owned_by_holder ?w e" if "owned_by_holder w e" for e
    using that by (auto simp: owned_by_holder_def)
  have ok_up: "point_ok path ?w q pc'" if "point_ok path w q pc'" for q pc'
    using that own_up by (cases pc') (simp_all add: point_ok_def)
  show ?thesis using assms(1-3) own_up ok_up by (auto simp: sys_inv_def)
qed

text \<open>A step that engages \<open>p\<close> when nobody else is, on a disk where the file now exists.\<close>

lemma sys_inv_engage:
  assumes "\<And>q. q \<noteq> p \<Longrightarrow> point_ok path w q (points w q) \<and> \<not> engaged (points w q)"
    and "\<And>q e rec. q \<noteq> p \<Longrightarrow> points w q = Found rec e \<Longrightarrow> False"
    and "point_ok path \<lparr>files = d, points = (points w)(p := pc)\<rparr> p pc"
    and "\<And>e. stored path d = Some e \<Longrightarrow> owned_by_holder \<lparr>files = d, points = (points w)(p := pc)\<rparr> e"
  shows "sys_inv path \<lparr>files = d, points = (points w)(p := pc)\<rparr>"
proof -
  let ?w = "\<lparr>files = d, points = (points w)(p := pc)\<rparr>"
  have "point_ok path ?w q (points w q)" if "q \<noteq> p" for q
    using assms(1) [OF that] assms(2) [OF that]
    by (cases "points w q") (auto simp: point_ok_def engaged_def)
  then show ?thesis using assms(1,3,4) by (auto simp: sys_inv_def)
qed

lemma no_engaged_no_found:
  assumes "sys_inv path w" and "\<And>q. \<not> holds w q"
  shows "points w q \<noteq> Found rec e"
proof
  assume "points w q = Found rec e"
  moreover from assms(1) have "point_ok path w q (points w q)" by (simp add: sys_inv_def)
  ultimately show False using assms(2) by (auto simp: point_ok_def owned_by_holder_def)
qed

lemma sys_inv_create:
  assumes inv: "sys_inv path w" and at: "points w p = Creating rec" and free: "\<not> file_exists path (files w)"
  shows "sys_inv path \<lparr>files = create_file path (files w), points = (points w)(p := Writing rec (fresh (files w)))\<rparr>"
proof (rule sys_inv_engage)
  have ok: "point_ok path w q (points w q)" for q using inv by (simp add: sys_inv_def)
  then have none: "\<not> engaged (points w q)" for q using engaged_exists free by blast
  fix q
  show "point_ok path w q (points w q) \<and> \<not> engaged (points w q)" using ok none by simp
  show False if "points w q = Found rec' e" for e rec'
    using no_engaged_no_found [OF inv] none holds_engaged that by blast
  show "point_ok path \<lparr>files = create_file path (files w), points = (points w)(p := Writing rec (fresh (files w)))\<rparr>
      p (Writing rec (fresh (files w)))"
    using ok [of p] at by (simp add: point_ok_def create_file_def)
  show "owned_by_holder \<lparr>files = create_file path (files w),
      points = (points w)(p := Writing rec (fresh (files w)))\<rparr> e"
    if "stored path (create_file path (files w)) = Some e" for e
    using that by (simp add: stored_def create_file_def)
qed

lemma sys_inv_write:
  assumes inv: "sys_inv path w" and at: "points w p = Writing rec n"
  shows "sys_inv path \<lparr>files = write_node n (Json (PDict rec)) (files w),
    points = (points w)(p := Finished (Inr (True, None)))\<rparr>"
proof (rule sys_inv_engage)
  have ok: "point_ok path w q (points w q)" for q using inv by (simp add: sys_inv_def)
  have alone: "\<not> engaged (points w q)" if "q \<noteq> p" for q
    using inv at that by (auto simp: sys_inv_def engaged_def)
  have none: "\<not> holds w q" for q
    using alone [of q] holds_engaged [of w q] at by (cases "q = p") (auto simp: holds_def)
  fix q
  show "point_ok path w q (points w q) \<and> \<not> engaged (points w q)" if "q \<noteq> p" using ok alone that by simp
  show False if "points w q = Found rec' e" for e rec'
    using no_engaged_no_found [OF inv none] that by blast
  show "point_ok path \<lparr>files = write_node n (Json (PDict rec)) (files w),
      points = (points w)(p := Finished (Inr (True, None)))\<rparr> p (Finished (Inr (True, None)))"
    using ok [of p] at by (simp add: point_ok_def lock_defs)
  show "owned_by_holder \<lparr>files = write_node n (Json (PDict rec)) (files w),
      points = (points w)(p := Finished (Inr (True, None)))\<rparr> e"
    if "stored path (write_node n (Json (PDict rec)) (files w)) = Some e" for e
    using that ok [of p] at
    by (auto simp: stored_def write_node_def point_ok_def owned_by_holder_def holds_def granted_def)
qed

text \<open>One access that does not enter the clean-up.\<close>

lemma sys_inv_step:
  assumes inv: "sys_inv path w" and env: "fault_free (env p)" "lock_path (env p) s i = path" "getpid (env p) = p"
    and clean: "case points (sys_step env s i m w p) p of Clearing _ \<Rightarrow> False | _ \<Rightarrow> True"
  shows "sys_inv path (sys_step env s i m w p)"
proof -
  have ok: "point_ok path w p (points w p)" using inv by (simp add: sys_inv_def)
  have flags: "mkdir_ok (env p)" "read_ok (env p)" "unlink_ok (env p)" "open_ok (env p)" "write_ok (env p)"
    using env(1) by (simp_all add: fault_free_def)
  note quiet = sys_inv_quiet [OF inv, of p]
  show ?thesis
  proof (cases "points w p")
    case Start
    then show ?thesis
      by (simp add: sys_step_def flags quiet point_ok_def engaged_def holds_def dget_lock_record env)
  next
    case (Reading rec)
    have "owned_by_holder w e" if "read_json_file True path (files w) = Inr (Some e)" for e
    proof -
      have "stored path (files w) = Some e"
        using that by (auto simp: read_json_file_def stored_def
            split: option.splits lock_text.splits pyval.splits)
      then show ?thesis using inv by (simp add: sys_inv_def)
    qed
    with Reading ok show ?thesis
      by (auto simp: sys_step_def flags env point_ok_def engaged_def holds_def granted_def
          split: sum.splits option.splits intro!: quiet)
  next
    case (NoRecord rec)
    with ok clean show ?thesis
      by (auto simp: sys_step_def env point_ok_def engaged_def holds_def split: if_splits intro!: quiet)
  next
    case (Found rec e)
    then obtain q where q: "holds w q" "dget e ''pid'' = PInt q" "dget rec ''pid'' = PInt p"
      using ok by (auto simp: point_ok_def owned_by_holder_def)
    have "q \<noteq> p" using Found q(1) by (auto simp: holds_def)
    then have "\<not> same_process (env p) e rec" using q by (simp add: same_process_def env)
    with Found clean show ?thesis
      by (auto simp: sys_step_def point_ok_def engaged_def holds_def granted_def
          split: sum.splits if_splits intro!: quiet)
  next
    case (Creating rec)
    show ?thesis
    proof (cases "file_exists path (files w)")
      case True
      with Creating show ?thesis
        by (simp add: sys_step_def env quiet point_ok_def engaged_def holds_def)
    next
      case False
      with Creating sys_inv_create [OF inv Creating] show ?thesis by (simp add: sys_step_def env flags)
    qed
  next
    case (Writing rec n)
    with sys_inv_write [OF inv Writing] show ?thesis by (simp add: sys_step_def flags)
  next
    case Rereading
    then show ?thesis
      by (cases "read_json_file (reread_ok (env p)) path (files w)")
        (simp_all add: sys_step_def env quiet point_ok_def engaged_def holds_def granted_def)
  next
    case (Finished r)
    then have "sys_step env s i m w p = w" by (simp add: sys_step_def fun_upd_idem)
    with inv show ?thesis by simp
  qed (use ok in \<open>simp_all add: point_ok_def\<close>)
qed

lemma sys_inv_run:
  assumes "\<And>x. fault_free (env x) \<and> lock_path (env x) s i = path \<and> getpid (env x) = x"
  shows "sys_inv path w \<Longrightarrow> never_clears env s i m w ps \<Longrightarrow> sys_inv path (foldl (sys_step env s i m) w ps)"
proof (induction ps arbitrary: w)
  case (Cons p ps)
  then show ?case using assms [of p] sys_inv_step [of path w env p s i m]
    by (simp add: Let_def)
qed simp

text \<open>C13. Only the clean-up breaks exclusion: in any interleaving of the file accesses of any number of
  processes calling \<^verbatim>\<open>acquire_scoped_lock\<close> on a fresh credential, with no system call failing, in which
  no process ever decides to unlink what it takes for a stale lock file, at most one process is
  ever told that it holds the credential.\<close>

theorem exclusive_unless_cleared:
  assumes "fresh_start path w" and "never_clears env scope identity metadata w schedule"
    and "\<And>x. fault_free (env x) \<and> lock_path (env x) scope identity = path \<and> getpid (env x) = x"
    and "holds (foldl (sys_step env scope identity metadata) w schedule) p"
    and "holds (foldl (sys_step env scope identity metadata) w schedule) q"
  shows "p = q"
proof -
  have "sys_inv path w"
    using assms(1) by (auto simp: fresh_start_def sys_inv_def point_ok_def engaged_def stored_def)
  from sys_inv_run [OF assms(3) this assms(2)] show ?thesis
    using assms(4,5) holds_engaged by (auto simp: sys_inv_def)
qed

theorem exclusive_unless_cleared_witness:
  "{q. holds (foldl (sys_step demo_call ''discord_bot'' ''token'' [])
      \<lparr>files = empty_disk, points = \<lambda>_. Start\<rparr> [1, 2, 1, 2, 1, 2, 1, 2, 1, 2]) q} = {1}"
proof -
  let ?w = "\<lparr>files = empty_disk, points = \<lambda>_. Start\<rparr>" and ?ps = "[1, 2, 1, 2, 1, 2, 1, 2, 1, 2] :: int list"
  have fields: "mkdir_ok (demo_call x)" "read_ok (demo_call x)" "open_ok (demo_call x)" "write_ok (demo_call x)"
    "host (demo_call x) = demo_host" "getpid (demo_call x) = x" for x
    by (simp_all add: demo_call_def)
  have disk: "read_json_file True demo_path empty_disk = Inr None" "\<not> file_exists demo_path empty_disk"
    "file_exists demo_path (create_file demo_path d)" "file_exists demo_path (write_node n t d) = file_exists demo_path d" for d n t
    by (simp_all add: lock_defs empty_disk_def)
  note run = sys_step_def Let_def fields demo_lock_path disk
  have "fresh_start demo_path ?w" by (simp add: fresh_start_def empty_disk_def)
  moreover have "never_clears demo_call ''discord_bot'' ''token'' [] ?w ?ps"
    by (simp add: run cong: let_weak_cong)
  moreover have "fault_free (demo_call x) \<and> lock_path (demo_call x) ''discord_bot'' ''token'' = demo_path
      \<and> getpid (demo_call x) = x" for x
    using fields demo_fault_free demo_lock_path by simp
  moreover have "holds (foldl (sys_step demo_call ''discord_bot'' ''token'' []) ?w ?ps) 1"
    by (simp add: run holds_def granted_def)
  ultimately show ?thesis using exclusive_unless_cleared by blast
qed

text \<open>\<^verbatim>\<open>acquire_scoped_lock\<close> never waits: whatever the other processes do in between, and
  whichever system calls fail, a process that has taken seven accesses of a call has returned from it.\<close>

theorem acquire_wait_free:
  assumes "7 \<le> count_list schedule p" 
  shows "\<exists>r. points (foldl (sys_step env scope identity metadata) w schedule) p = Finished r"
proof -
  have drop: "accesses (points (foldl (sys_step env scope identity metadata) w' ps) p)
      \<le> accesses (points w' p) - count_list ps p" for ps w'
  proof (induction ps arbitrary: w')
    case (Cons x ps)
    let ?w = "sys_step env scope identity metadata w' x"
    have "accesses (points ?w p) \<le> accesses (points w' p) - (if x = p then 1 else 0)"
      using accesses_decrease [OF refl, of "env p" scope identity metadata "points w' p" "files w'"]
      by (cases "acquire_step (env x) scope identity metadata (points w' x, files w')")
        (auto simp: sys_step_def)
    with Cons.IH [of ?w] show ?case by (simp split: if_splits)
  qed simp
  have "accesses (points w p) \<le> 7" by (cases "points w p") simp_all
  with drop [of w schedule] assms
  have "accesses (points (foldl (sys_step env scope identity metadata) w schedule) p) = 0" by simp
  then show ?thesis
    by (cases "points (foldl (sys_step env scope identity metadata) w schedule) p") simp_all
qed

end
