(* ===== verification/Control_Plane.thy ===== *)
theory Control_Plane
  imports Kernel_Client
begin

text \<open>
  The part of \<^verbatim>\<open>server_modules/control_plane_repository.py\<close> that the safe-mode service stands on: the
  two kernel gates in front of control-plane writes, the guard on scope tokens, and the tables
  \<^verbatim>\<open>security_control_states\<close> and \<^verbatim>\<open>security_control_events\<close> with the statements that read and write
  them.

  A table is a list of rows in insertion order. \<open>db_link\<close> is what \<^verbatim>\<open>_scoped_connection\<close> finds: no
  pool (the statements are skipped), a database that raises (the transaction is rolled back), or a
  connection. The unique index, the primary keys and the foreign key on \<^verbatim>\<open>workspace_agent_installs\<close>
  are checked as PostgreSQL checks them; time stamps are rationals, and rows that tie on both sort
  columns come in table order. An optional text argument is a string, empty for \<^verbatim>\<open>None\<close>: every use is
  \<^verbatim>\<open>str(x or "")\<close>. Row-level security is not modelled: every statement here names the tenant and the
  workspace in its \<^verbatim>\<open>WHERE\<close> clause.
\<close>

section \<open>Kernel gates\<close>

definition control_plane_text :: "pyval \<Rightarrow> string" where
  "control_plane_text v = text_of v"

definition control_plane_service_operation :: "string \<Rightarrow> string \<Rightarrow> string" where
  "control_plane_service_operation operation record_type =
     (if lower (strip record_type) = ''deployed_agent'' \<and>
         strip operation \<in> set [''create'', ''update'', ''status_transition'', ''archive'', ''delete'']
      then ''deployed_agent_record_write'' else strip operation)"

record service_request =
  sv_operation :: string
  sv_tenant_id :: string
  sv_workspace_id :: string
  sv_actor_id :: string
  sv_actor_role :: string
  sv_target_actor_id :: string
  sv_record_type :: string
  sv_idempotency_key :: string
  sv_agent_id :: string

definition service_payload :: "service_request \<Rightarrow> pydict \<Rightarrow> pydict" where
  "service_payload q extra =
     (let role = sor (strip (sv_actor_role q)) ''admin'';
          trusted = (role \<in> set [''owner'', ''admin'', ''system''])
      in dmerge
        [(''operation'', PStr (control_plane_service_operation (sv_operation q) (sv_record_type q))),
         (''record_type'', PStr (sv_record_type q)),
         (''tenant_id'', PStr (strip (sv_tenant_id q))), (''workspace_id'', PStr (strip (sv_workspace_id q))),
         (''actor_id'', PStr (sor (strip (sv_actor_id q)) ''system'')), (''actor_role'', PStr role),
         (''target_actor_id'', PStr (strip (sv_target_actor_id q))), (''agent_id'', PStr (strip (sv_agent_id q))),
         (''idempotency_key'', PStr (strip (sv_idempotency_key q))),
         (''workspace_access'', PBool True), (''owner_access'', PBool trusted), (''admin_access'', PBool trusted),
         (''billing_entitled'', PBool True), (''quota_ok'', PBool True), (''status_transition_valid'', PBool True),
         (''approval_provided'', PBool True), (''owner_approval_provided'', PBool True)]
        extra)"

definition SERVICE_NEXT_ACTIONS :: "(string \<times> string list) list" where
  "SERVICE_NEXT_ACTIONS =
     [(''membership_remove'', [''apply_control_plane_destructive_write'']),
      (''invite_accept'', [''apply_control_plane_write'', ''allow_control_plane_read'']),
      (''invite_revoke'', [''apply_control_plane_destructive_write'', ''return_existing_control_plane_record'']),
      (''pilot_invite_revoke'', [''apply_control_plane_destructive_write'']),
      (''external_user_privacy_delete'', [''apply_control_plane_destructive_write'']),
      (''deployed_agent_scope_data_delete'', [''apply_control_plane_destructive_write'']),
      (''workspace_scope_data_delete'', [''apply_control_plane_destructive_write''])] @
     map (\<lambda>operation. (operation, [''apply_control_plane_write'']))
      [''create'', ''update'', ''status_transition'', ''workspace_update'', ''membership_update'', ''invite_create'',
       ''pilot_invite_create'', ''pilot_invite_claim'', ''workspace_billing_defaults_write'',
       ''deployed_agent_daily_message_quota_consume'', ''deployed_agent_daily_message_warning_update'',
       ''deployed_agent_cost_ledger_write'', ''workspace_hosted_ai_cost_ledger_write'', ''credit_ledger_event_write'',
       ''deployed_agent_record_write'', ''agent_action_event_write'', ''workspace_tenant_binding_ensure'',
       ''user_profile_update'', ''agent_turn_transcript_event_append'', ''agent_thread_ensure'', ''agent_session_upsert'',
       ''agent_session_terminate'', ''agent_turn_upsert'', ''compiled_workflow_artifact_create'',
       ''workspace_agent_install_compiled_artifact_update'', ''self_hosted_enrollment_intent_create'',
       ''self_hosted_runtime_enroll'', ''self_hosted_runtime_approve'', ''self_hosted_runtime_heartbeat'',
       ''self_hosted_command_enqueue'', ''self_hosted_command_claim'', ''self_hosted_command_complete'',
       ''workspace_billing_plan_update'', ''workspace_billing_account_write'', ''workspace_billing_subscription_write'',
       ''external_user_privacy_request_write'', ''external_user_privacy_audit_write'', ''security_control_state_write'',
       ''governance_hold_write'', ''governance_hold_release'', ''agent_channel_event_write'',
       ''personal_context_event_write'', ''personal_context_event_seen_update'', ''activity_ledger_event_write'',
       ''agent_trace_create'', ''agent_trace_event_write'', ''agent_trace_finish'', ''agent_secret_access_event_write'',
       ''agent_egress_event_write'']"

text \<open>The left side is the message of the \<^verbatim>\<open>RuntimeError\<close> or \<^verbatim>\<open>ValueError\<close> raised.\<close>

definition enforce_control_plane_service_decision :: "kernel_env \<Rightarrow> service_request \<Rightarrow> pydict \<Rightarrow> string + pydict" where
  "enforce_control_plane_service_decision env q extra =
     (case run_runtime_kernel_enforced env ''control-plane-service-decision'' (service_payload q extra) False of
        Inl e \<Rightarrow> Inl (''Rust control-plane service blocked '' @
                   control_plane_service_operation (sv_operation q) (sv_record_type q) @ '': '' @
                   sor (strip (error_reason e)) ''rust_control_plane_service_denied'')
      | Inr decision \<Rightarrow>
          let next_action = control_plane_text (por (dget (as_dict (dget decision ''mutation_plan'')) ''next_action'')
                              (dget decision ''next_action''))
          in (case map_of SERVICE_NEXT_ACTIONS (sv_operation q) of
                None \<Rightarrow> Inr decision
              | Some allowed \<Rightarrow>
                  if next_action \<notin> set allowed
                  then Inl (''Rust control-plane service returned unexpected next_action for '' @ sv_operation q @ '': '' @
                         sor next_action ''missing'')
                  else Inr decision))"

record record_request =
  rq_operation :: string
  rq_record_type :: string
  rq_tenant_id :: string
  rq_workspace_id :: string
  rq_actor_role :: string
  rq_record_id :: string
  rq_current_status :: string
  rq_next_status :: string

definition record_payload :: "record_request \<Rightarrow> pydict" where
  "record_payload q =
     [(''operation'', PStr (rq_operation q)), (''record_type'', PStr (rq_record_type q)),
      (''tenant_id'', PStr (strip (rq_tenant_id q))), (''workspace_id'', PStr (strip (rq_workspace_id q))),
      (''record_id'', PStr (strip (rq_record_id q))),
      (''actor_role'', PStr (sor (strip (rq_actor_role q)) ''system'')),
      (''current_status'', PStr (strip (rq_current_status q))), (''next_status'', PStr (strip (rq_next_status q)))]"

definition RECORD_NEXT_ACTIONS :: "(string \<times> string list) list" where
  "RECORD_NEXT_ACTIONS =
     [(''create'', [''create_record'']), (''update'', [''update_record'']), (''upsert'', [''upsert_record'']),
      (''status_transition'', [''write_status_transition'', ''noop''])]"

definition enforce_control_plane_record_decision :: "kernel_env \<Rightarrow> record_request \<Rightarrow> string + pydict" where
  "enforce_control_plane_record_decision env q =
     (case run_runtime_kernel_enforced env ''control-plane-decision'' (record_payload q) False of
        Inl e \<Rightarrow> Inl (''Rust control-plane record blocked '' @ rq_operation q @ '': '' @
                   sor (strip (error_reason e)) ''rust_control_plane_record_denied'')
      | Inr decision \<Rightarrow>
          let next_action = control_plane_text (dget decision ''next_action'')
          in (case map_of RECORD_NEXT_ACTIONS (rq_operation q) of
                None \<Rightarrow> Inr decision
              | Some expected \<Rightarrow>
                  if next_action \<notin> set expected
                  then Inl (''Rust control-plane record returned unexpected next_action for '' @ rq_operation q @ '': '' @
                         sor next_action ''missing'')
                  else Inr decision))"

section \<open>Scope tokens\<close>

definition require_scope_token :: "string \<Rightarrow> string \<Rightarrow> string + string" where
  "require_scope_token v label =
     (let token = strip v in
      if token = [] then Inl (label @ '' is required for scoped control-plane access.'')
      else if startswith token ''_unscoped_''
      then Inl (label @ '' resolved to an unscoped ephemeral marker ('' @ token @
             ''). Every control-plane write must be scoped to a real workspace.'')
      else Inr token)"

section \<open>Tables\<close>

record control_row =
  cr_id :: string
  cr_tenant_id :: string
  cr_workspace_id :: string
  cr_scope_type :: string
  cr_control_kind :: string
  cr_scope_key :: string
  cr_agent_install_id :: "string option"
  cr_channel_key :: "string option"
  cr_endpoint_key :: "string option"
  cr_connector_id :: "string option"
  cr_credential_id :: "string option"
  cr_enabled :: bool
  cr_status :: string
  cr_reason :: string
  cr_metadata :: pydict
  cr_created_by_user_id :: "string option"
  cr_created_at :: rat
  cr_updated_at :: rat

text \<open>\<open>ce_row\<close> holds the columns an event copies from the written state.\<close>

record control_event =
  ce_id :: string
  ce_control_state_id :: "string option"
  ce_row :: control_row
  ce_action :: string
  ce_created_at :: rat

record control_db =
  security_control_states :: "control_row list"
  security_control_events :: "control_event list"
  workspace_agent_installs :: "string list"

datatype db_link = NoPool | DbError | Connected

section \<open>Statements\<close>

record upsert_args =
  up_tenant_id :: string
  up_workspace_id :: string
  up_scope_type :: string
  up_control_kind :: string
  up_scope_key :: string
  up_enabled :: bool
  up_status :: string
  up_reason :: string
  up_metadata :: pydict
  up_agent_install_id :: string
  up_channel_key :: string
  up_endpoint_key :: string
  up_connector_id :: string
  up_credential_id :: string
  up_created_by_user_id :: string
  up_action :: string

text \<open>The row an upsert sends, with the scope tokens already resolved.\<close>

definition upsert_row :: "rat \<Rightarrow> string \<Rightarrow> string \<Rightarrow> string \<Rightarrow> upsert_args \<Rightarrow> control_row" where
  "upsert_row now state_id tenant workspace a =
     \<lparr>cr_id = state_id, cr_tenant_id = tenant, cr_workspace_id = workspace,
      cr_scope_type = lower (strip (up_scope_type a)),
      cr_control_kind = sor (lower (strip (sor (up_control_kind a) ''kill_switch''))) ''kill_switch'',
      cr_scope_key = lower (strip (up_scope_key a)),
      cr_agent_install_id = snone (strip (up_agent_install_id a)),
      cr_channel_key = snone (lower (strip (up_channel_key a))),
      cr_endpoint_key = snone (lower (strip (up_endpoint_key a))),
      cr_connector_id = snone (lower (strip (up_connector_id a))),
      cr_credential_id = snone (strip (up_credential_id a)),
      cr_enabled = up_enabled a,
      cr_status = sor (lower (strip (sor (up_status a) ''active''))) ''active'',
      cr_reason = strip (up_reason a), cr_metadata = up_metadata a,
      cr_created_by_user_id = snone (strip (up_created_by_user_id a)),
      cr_created_at = now, cr_updated_at = now\<rparr>"

definition same_control :: "control_row \<Rightarrow> control_row \<Rightarrow> bool" where
  "same_control r s =
     (cr_tenant_id r = cr_tenant_id s \<and> cr_workspace_id r = cr_workspace_id s \<and> cr_scope_type r = cr_scope_type s \<and>
      cr_control_kind r = cr_control_kind s \<and> cr_scope_key r = cr_scope_key s)"

text \<open>\<^verbatim>\<open>ON CONFLICT ... DO UPDATE SET\<close>.\<close>

definition updated_row :: "control_row \<Rightarrow> control_row \<Rightarrow> control_row" where
  "updated_row excluded r =
     r\<lparr>cr_agent_install_id := cr_agent_install_id excluded, cr_channel_key := cr_channel_key excluded,
       cr_endpoint_key := cr_endpoint_key excluded, cr_connector_id := cr_connector_id excluded,
       cr_credential_id := cr_credential_id excluded, cr_enabled := cr_enabled excluded,
       cr_status := cr_status excluded, cr_reason := cr_reason excluded, cr_metadata := cr_metadata excluded,
       cr_created_by_user_id := (case cr_created_by_user_id excluded of None \<Rightarrow> cr_created_by_user_id r | Some u \<Rightarrow> Some u),
       cr_updated_at := cr_updated_at excluded\<rparr>"

definition write_row :: "control_row \<Rightarrow> control_row list \<Rightarrow> control_row list" where
  "write_row new rows =
     (if list_ex (same_control new) rows
      then map (\<lambda>r. if same_control new r then updated_row new r else r) rows
      else rows @ [new])"

text \<open>The constraints the transaction can violate.\<close>

definition write_violates :: "control_row \<Rightarrow> string \<Rightarrow> control_db \<Rightarrow> bool" where
  "write_violates new event_id db =
     ((case cr_agent_install_id new of None \<Rightarrow> False | Some a \<Rightarrow> a \<notin> set (workspace_agent_installs db)) \<or>
      (\<not> list_ex (same_control new) (security_control_states db) \<and> cr_id new \<in> cr_id ` set (security_control_states db)) \<or>
      event_id \<in> ce_id ` set (security_control_events db))"

definition upsert_action :: "upsert_args \<Rightarrow> string" where
  "upsert_action a = sor (lower (strip (up_action a))) (if up_enabled a then ''enabled'' else ''disabled'')"

definition upsert_request :: "control_row \<Rightarrow> string \<Rightarrow> service_request" where
  "upsert_request new action =
     \<lparr>sv_operation = ''security_control_state_write'', sv_tenant_id = cr_tenant_id new,
      sv_workspace_id = cr_workspace_id new,
      sv_actor_id = (case cr_created_by_user_id new of None \<Rightarrow> ''system'' | Some u \<Rightarrow> u),
      sv_actor_role = ''system'', sv_target_actor_id = [], sv_record_type = ''security_control_state'',
      sv_idempotency_key = cr_scope_type new @ '':'' @ cr_control_kind new @ '':'' @ cr_scope_key new @ '':'' @ action,
      sv_agent_id = []\<rparr>"

definition upsert_fields :: "control_row \<Rightarrow> pydict" where
  "upsert_fields new =
     [(''target_status'', PStr (cr_status new)), (''scope_type'', PStr (cr_scope_type new)),
      (''control_kind'', PStr (cr_control_kind new)), (''kill_switch_enabled'', PBool False)]"

definition upsert_security_control_state ::
    "kernel_env \<Rightarrow> db_link \<Rightarrow> rat \<Rightarrow> string \<Rightarrow> string \<Rightarrow> upsert_args \<Rightarrow> control_db \<Rightarrow>
     (string + control_row option) \<times> control_db" where
  "upsert_security_control_state env link now state_id event_id a db =
     (case require_scope_token (up_tenant_id a) ''tenant_id'' of
        Inl e \<Rightarrow> (Inl e, db)
      | Inr tenant \<Rightarrow>
     (case require_scope_token (up_workspace_id a) ''workspace_id'' of
        Inl e \<Rightarrow> (Inl e, db)
      | Inr workspace \<Rightarrow>
          let new = upsert_row now state_id tenant workspace a; action = upsert_action a in
          if cr_scope_type new = [] \<or> cr_scope_key new = [] then (Inr None, db)
          else
            (case enforce_control_plane_service_decision env (upsert_request new action) (upsert_fields new) of
               Inl e \<Rightarrow> (Inl e, db)
             | Inr _ \<Rightarrow>
            (case link of
               NoPool \<Rightarrow> (Inr None, db)
             | DbError \<Rightarrow> (Inl ''database error'', db)
             | Connected \<Rightarrow>
                 if write_violates new event_id db then (Inl ''constraint violated'', db)
                 else
                   let rows = write_row new (security_control_states db) in
                   (case find (same_control new) rows of
                      None \<Rightarrow> (Inr None, db\<lparr>security_control_states := rows\<rparr>)
                    | Some row \<Rightarrow>
                        (Inr (Some row),
                         db\<lparr>security_control_states := rows,
                            security_control_events := security_control_events db @
                              [\<lparr>ce_id = event_id, ce_control_state_id = snone (strip (cr_id row)), ce_row = new,
                                ce_action = action, ce_created_at = now\<rparr>]\<rparr>))))))"

text \<open>\<^verbatim>\<open>ORDER BY updated_at DESC, created_at DESC\<close>: \<open>newer r s\<close> when \<open>r\<close> comes strictly before \<open>s\<close>.\<close>

definition newer :: "control_row \<Rightarrow> control_row \<Rightarrow> bool" where
  "newer r s = (cr_updated_at s < cr_updated_at r \<or> (cr_updated_at s = cr_updated_at r \<and> cr_created_at s < cr_created_at r))"

fun insert_newest :: "control_row \<Rightarrow> control_row list \<Rightarrow> control_row list" where
  "insert_newest r [] = [r]"
| "insert_newest r (s # rows) = (if newer s r then s # insert_newest r rows else r # s # rows)"

definition newest_first :: "control_row list \<Rightarrow> control_row list" where
  "newest_first rows = foldr insert_newest rows []"

definition list_security_control_states ::
    "db_link \<Rightarrow> string \<Rightarrow> string \<Rightarrow> string list \<Rightarrow> string \<Rightarrow> bool \<Rightarrow> int \<Rightarrow> control_db \<Rightarrow> string + control_row list" where
  "list_security_control_states link tenant_id workspace_id scope_types control_kind active_only n db =
     (case require_scope_token tenant_id ''tenant_id'' of
        Inl e \<Rightarrow> Inl e
      | Inr tenant \<Rightarrow>
     (case require_scope_token workspace_id ''workspace_id'' of
        Inl e \<Rightarrow> Inl e
      | Inr workspace \<Rightarrow>
          let types = filter (\<lambda>t. t \<noteq> []) (map (\<lambda>t. lower (strip t)) scope_types);
              keep = (\<lambda>r. cr_tenant_id r = tenant \<and> cr_workspace_id r = workspace \<and>
                       (types = [] \<or> cr_scope_type r \<in> set types) \<and>
                       (control_kind = [] \<or> cr_control_kind r = lower (strip control_kind)) \<and>
                       (active_only \<longrightarrow> cr_enabled r))
          in (case link of
                NoPool \<Rightarrow> Inr []
              | DbError \<Rightarrow> Inl ''database error''
              | Connected \<Rightarrow>
                  Inr (take (nat (max 1 (if n = 0 then 500 else n)))
                        (newest_first (filter keep (security_control_states db)))))))"

definition clear_security_control_state_for_tests :: "db_link \<Rightarrow> control_db \<Rightarrow> string + control_db" where
  "clear_security_control_state_for_tests link db =
     (case link of
        NoPool \<Rightarrow> Inr db
      | DbError \<Rightarrow> Inl ''database error''
      | Connected \<Rightarrow> Inr (db\<lparr>security_control_events := [], security_control_states := []\<rparr>))"

section \<open>Lemmas\<close>

lemma set_insert_newest: "set (insert_newest r rows) = insert r (set rows)"
  by (induction rows) auto

lemma set_newest_first: "set (newest_first rows) = set rows"
  by (induction rows) (auto simp: newest_first_def set_insert_newest)

lemma newer_irrefl: "\<not> newer r r"
  by (simp add: newer_def)

lemma newer_asym: "newer r s \<Longrightarrow> \<not> newer s r"
  by (auto simp: newer_def)

lemma insert_newest_first: "\<forall>s \<in> set rows. \<not> newer s r \<Longrightarrow> insert_newest r rows = r # rows"
  by (cases rows) auto

lemma updated_same_control [simp]: "same_control a (updated_row new r) = same_control a r"
  by (simp add: same_control_def updated_row_def)

lemma same_control_refl [simp]: "same_control r r"
  by (simp add: same_control_def)

end
