(* ===== verification/Safe_Mode.thy ===== *)
theory Safe_Mode
  imports Control_Plane Machine_Session
begin

text \<open>
  The scoped emergency controls, \<^verbatim>\<open>server_modules/safe_mode_service.py\<close>: safe modes, kill switches and
  incident controls for the platform, tenants, workspaces, machines, capabilities, agents, channels
  and connectors. A control lives in the module's dictionaries, and, for the scopes a workspace owns,
  in the table \<^verbatim>\<open>security_control_states\<close>, which is read through a cache of two seconds.

  State: \<open>safe_globals\<close>, the module's dictionaries; the cache; and the database of \<open>Control_Plane\<close>.
  An operation that raises still returns the state, because the code changes the dictionaries before
  it asks the kernel. Every read of the table is a \<open>read_io\<close> (the monotonic clock and the state of the
  link), every write a \<open>write_io\<close>. The argument \<open>jsonb\<close> is how the database driver returns a
  \<^verbatim>\<open>jsonb\<close> column. Optional text arguments are strings, empty for \<^verbatim>\<open>None\<close>.

  Last comes the kernel's side of a capability check, \<^verbatim>\<open>empyralis-runtime-kernel/src/safe_mode.rs\<close>.
\<close>

section \<open>State\<close>

record safe_mode_state =
  sm_enabled :: bool
  sm_reason :: string
  sm_blocked_capabilities :: "string list"
  sm_metadata :: pydict

record kill_switch_state =
  ks_enabled :: bool
  ks_reason :: string
  ks_metadata :: pydict

record incident_control_state =
  ic_mode :: string
  ic_reason :: string
  ic_metadata :: pydict

record safe_globals =
  global_safe_mode :: safe_mode_state
  tenant_safe_mode :: "(string \<times> safe_mode_state) list"
  workspace_safe_mode :: "(string \<times> safe_mode_state) list"
  machine_safe_mode :: "(string \<times> safe_mode_state) list"
  global_kill_switch :: kill_switch_state
  tenant_kill_switches :: "(string \<times> kill_switch_state) list"
  workspace_kill_switches :: "(string \<times> kill_switch_state) list"
  machine_kill_switches :: "(string \<times> kill_switch_state) list"
  capability_kill_switches :: "(string \<times> kill_switch_state) list"
  agent_kill_switches :: "(string \<times> kill_switch_state) list"
  channel_kill_switches :: "(string \<times> kill_switch_state) list"
  connector_kill_switches :: "(string \<times> kill_switch_state) list"
  workspace_incident_controls :: "(string \<times> incident_control_state) list"
  channel_incident_controls :: "(string \<times> incident_control_state) list"
  connector_incident_controls :: "(string \<times> incident_control_state) list"

record cache_entry =
  loaded_at :: rat
  cached_items :: "pydict list"

record control_world =
  safe_memory :: safe_globals
  durable_control_cache :: "(string \<times> cache_entry) list"
  control_plane :: control_db

record read_io =
  rd_now :: rat
  rd_link :: db_link

record control_write_io =
  wr_link :: db_link
  wr_now :: rat
  wr_state_id :: string
  wr_event_id :: string

datatype control_error = SafeModeRustGateError string | ControlValueError string

section \<open>Tokens and keys\<close>

definition UNSAFE_PREFIXES :: "string list" where
  "UNSAFE_PREFIXES = [''computer_control'', ''browser_automation'']"

definition UNSAFE_EXACT :: "string list" where
  "UNSAFE_EXACT = [''shell.execute'']"

definition DURABLE_SCOPE_TYPES :: "string list" where
  "DURABLE_SCOPE_TYPES = [''workspace'', ''agent'', ''channel'', ''connector'']"

definition DURABLE_CACHE_TTL_SECONDS :: rat where
  "DURABLE_CACHE_TTL_SECONDS = 2"

text \<open>\<^verbatim>\<open>_normalize_token\<close> on a string; on other values it is \<open>token_of\<close>.\<close>

definition scope_token :: "string \<Rightarrow> string" where
  "scope_token s = lower (strip s)"

definition safe_mode_blocked_capabilities :: "string list" where
  "safe_mode_blocked_capabilities =
     [''computer_control'', ''computer_control.*'', ''browser_automation.interactive'', ''browser_automation.*'', ''shell.execute'']"

definition normalize_incident_mode :: "pyval \<Rightarrow> string" where
  "normalize_incident_mode v =
     (let aliases = [(''paused'', ''pause''), (''draining'', ''drain''), (''rejected'', ''reject'')];
          token = (case map_of aliases (token_of v) of None \<Rightarrow> token_of v | Some t \<Rightarrow> t)
      in if token \<in> set [''active'', ''pause'', ''drain'', ''reject''] then token else ''active'')"

definition incident_mode_status :: "string \<Rightarrow> string" where
  "incident_mode_status mode =
     (case map_of [(''pause'', ''paused''), (''drain'', ''draining''), (''reject'', ''rejected'')]
        (normalize_incident_mode (PStr mode)) of None \<Rightarrow> ''active'' | Some s \<Rightarrow> s)"

definition is_unsafe_capability :: "string \<Rightarrow> bool" where
  "is_unsafe_capability capability_id =
     (let token = scope_token capability_id in
      token \<in> set UNSAFE_EXACT \<or> list_ex (\<lambda>p. token = p \<or> startswith token (p @ ''.'')) UNSAFE_PREFIXES)"

definition scoped_key :: "string list \<Rightarrow> string" where
  "scoped_key parts = join ''::'' (filter (\<lambda>t. t \<noteq> []) (map scope_token parts))"

definition agent_key :: "string \<Rightarrow> string \<Rightarrow> string" where
  "agent_key workspace_id agent_install_id = scoped_key [workspace_id, agent_install_id]"

definition channel_key :: "string \<Rightarrow> string \<Rightarrow> string \<Rightarrow> string" where
  "channel_key workspace_id channel endpoint = scoped_key [workspace_id, channel, endpoint]"

definition connector_key :: "string \<Rightarrow> string \<Rightarrow> string \<Rightarrow> string" where
  "connector_key workspace_id connector_id credential_id = scoped_key [workspace_id, connector_id, credential_id]"

definition workspace_cache_key :: "string \<Rightarrow> string \<Rightarrow> string" where
  "workspace_cache_key tenant_id workspace_id = scoped_key [tenant_id, workspace_id]"

section \<open>Copies\<close>

definition clone_safe_mode :: "safe_mode_state \<Rightarrow> pydict" where
  "clone_safe_mode st =
     [(''enabled'', PBool (sm_enabled st)), (''reason'', PStr (sm_reason st)),
      (''blocked_capabilities'', PList (map PStr (sm_blocked_capabilities st))), (''metadata'', PDict (sm_metadata st))]"

definition clone_kill_switch :: "kill_switch_state \<Rightarrow> pydict" where
  "clone_kill_switch st =
     [(''enabled'', PBool (ks_enabled st)), (''reason'', PStr (ks_reason st)), (''metadata'', PDict (ks_metadata st))]"

definition clone_incident_control :: "incident_control_state \<Rightarrow> pydict" where
  "clone_incident_control st =
     (let mode = normalize_incident_mode (PStr (ic_mode st)) in
      [(''active'', PBool (mode \<noteq> ''active'')), (''mode'', PStr mode), (''reason'', PStr (ic_reason st)),
       (''metadata'', PDict (ic_metadata st))])"

section \<open>The durable table\<close>

text \<open>\<^verbatim>\<open>dict(row)\<close>, without the time stamps, which nothing reads.\<close>

definition row_dict :: "(pydict \<Rightarrow> pyval) \<Rightarrow> control_row \<Rightarrow> pydict" where
  "row_dict jsonb r =
     [(''id'', PStr (cr_id r)), (''tenant_id'', PStr (cr_tenant_id r)), (''workspace_id'', PStr (cr_workspace_id r)),
      (''scope_type'', PStr (cr_scope_type r)), (''control_kind'', PStr (cr_control_kind r)),
      (''scope_key'', PStr (cr_scope_key r)), (''agent_install_id'', opt_str (cr_agent_install_id r)),
      (''channel_key'', opt_str (cr_channel_key r)), (''endpoint_key'', opt_str (cr_endpoint_key r)),
      (''connector_id'', opt_str (cr_connector_id r)), (''credential_id'', opt_str (cr_credential_id r)),
      (''enabled'', PBool (cr_enabled r)), (''status'', PStr (cr_status r)), (''reason'', PStr (cr_reason r)),
      (''metadata'', jsonb (cr_metadata r)), (''created_by_user_id'', opt_str (cr_created_by_user_id r))]"

text \<open>\<^verbatim>\<open>str(x or "")\<close>.\<close>

definition raw_text :: "pyval \<Rightarrow> string" where
  "raw_text v = py_str (por v (PStr []))"

definition normalize_control_row :: "pydict \<Rightarrow> pydict" where
  "normalize_control_row row =
     dmerge row
       [(''scope_type'', PStr (token_of (dget row ''scope_type''))), (''control_kind'', PStr (token_of (dget row ''control_kind''))),
        (''scope_key'', PStr (token_of (dget row ''scope_key''))), (''channel_key'', PStr (token_of (dget row ''channel_key''))),
        (''endpoint_key'', PStr (token_of (dget row ''endpoint_key''))), (''connector_id'', PStr (token_of (dget row ''connector_id''))),
        (''credential_id'', PStr (text_of (dget row ''credential_id''))),
        (''agent_install_id'', PStr (text_of (dget row ''agent_install_id''))),
        (''reason'', PStr (raw_text (dget row ''reason''))), (''status'', PStr (token_of (dget row ''status''))),
        (''enabled'', PBool (truthy (dget row ''enabled''))), (''metadata'', PDict (as_dict (dget row ''metadata'')))]"

definition invalidate_durable_cache :: "string \<Rightarrow> string \<Rightarrow> control_world \<Rightarrow> control_world" where
  "invalidate_durable_cache tenant_id workspace_id w =
     (let key = workspace_cache_key tenant_id workspace_id in
      if key = [] then w else w\<lparr>durable_control_cache := dpop key (durable_control_cache w)\<rparr>)"

definition load_durable_workspace_controls ::
    "(pydict \<Rightarrow> pyval) \<Rightarrow> read_io \<Rightarrow> string \<Rightarrow> string \<Rightarrow> control_world \<Rightarrow> pydict list \<times> control_world" where
  "load_durable_workspace_controls jsonb io tenant_id workspace_id w =
     (let tenant = scope_token tenant_id; workspace = scope_token workspace_id in
      if tenant = [] \<or> workspace = [] then ([], w)
      else
        let key = workspace_cache_key tenant workspace;
            load = (case list_security_control_states (rd_link io) tenant workspace DURABLE_SCOPE_TYPES [] True 500 (control_plane w) of
                      Inl _ \<Rightarrow> ([], w)
                    | Inr rows \<Rightarrow>
                        let normalized = map (\<lambda>r. normalize_control_row (row_dict jsonb r)) rows in
                        (normalized,
                         w\<lparr>durable_control_cache :=
                             dset key \<lparr>loaded_at = rd_now io, cached_items = normalized\<rparr> (durable_control_cache w)\<rparr>))
        in (case map_of (durable_control_cache w) key of
              None \<Rightarrow> load
            | Some entry \<Rightarrow>
                if rd_now io \<le> loaded_at entry + DURABLE_CACHE_TTL_SECONDS then (cached_items entry, w) else load))"

definition load_matching_durable_controls ::
    "(pydict \<Rightarrow> pyval) \<Rightarrow> read_io \<Rightarrow> string \<Rightarrow> string \<Rightarrow> string \<Rightarrow> string \<Rightarrow> control_world \<Rightarrow> pydict list \<times> control_world" where
  "load_matching_durable_controls jsonb io tenant_id workspace_id control_kind scope_type w =
     (let (rows, w') = load_durable_workspace_controls jsonb io tenant_id workspace_id w in
      (filter (\<lambda>row. token_of (dget row ''control_kind'') = scope_token control_kind \<and>
                     token_of (dget row ''scope_type'') = scope_token scope_type \<and> truthy (dget row ''enabled'')) rows, w'))"

section \<open>The kernel gate and persistence\<close>

definition actor_user_id :: "pydict \<Rightarrow> string" where
  "actor_user_id metadata =
     (let user = text_of (dget metadata ''user_id'') in
      sor (text_of (dget metadata ''requested_by_user_id'')) (sor (text_of (dget metadata ''actor_user_id'')) user))"

definition write_action :: "bool \<Rightarrow> pydict \<Rightarrow> string" where
  "write_action on metadata =
     (let status = token_of (dget metadata ''status'') in
      if status \<in> set [''revoked'', ''rotated''] then status else if on then ''enabled'' else ''disabled'')"

record control_change =
  cc_scope :: string
  cc_enabled :: bool
  cc_tenant_id :: string
  cc_workspace_id :: string
  cc_reason :: string
  cc_metadata :: pydict
  cc_control_kind :: string
  cc_scope_key :: string

definition control_payload :: "control_change \<Rightarrow> pydict" where
  "control_payload c =
     [(''scope'', PStr (scope_token (cc_scope c))), (''scope_key'', PStr (strip (cc_scope_key c))),
      (''enabled'', PBool (cc_enabled c)), (''tenant_id'', PStr (scope_token (cc_tenant_id c))),
      (''workspace_id'', PStr (scope_token (cc_workspace_id c))), (''reason'', PStr (strip (cc_reason c))),
      (''control_kind'', PStr (scope_token (cc_control_kind c))), (''metadata'', PDict (cc_metadata c))]"

definition control_request :: "string \<Rightarrow> control_change \<Rightarrow> pydict" where
  "control_request operation c =
     [(''operation'', PStr operation), (''state_class'', PStr ''security_control_state''),
      (''tenant_id'', PStr (scope_token (cc_tenant_id c))), (''workspace_id'', PStr (scope_token (cc_workspace_id c))),
      (''actor_id'', PStr (sor (actor_user_id (cc_metadata c)) ''system'')),
      (''status'', PStr (if cc_enabled c then ''active'' else ''inactive'')),
      (''payload'', PDict (control_payload c)),
      (''payload_bytes'', PInt (utf8_len (json_dumps True True (PDict (control_payload c))))),
      (''workspace_access'', PBool True), (''owner_access'', PBool True)]"

definition enforce_security_control_state_decision :: "kernel_env \<Rightarrow> string \<Rightarrow> control_change \<Rightarrow> control_error + pydict" where
  "enforce_security_control_state_decision env operation c =
     (let decision = run_runtime_kernel env ''runtime-state-store-decision'' (control_request operation c) in
      case enforce_kernel_decision env ''runtime-state-store-decision'' decision False of
        Inl e \<Rightarrow> Inl (SafeModeRustGateError (error_reason e))
      | Inr _ \<Rightarrow>
          if token_of (dget decision ''next_action'') \<noteq> scope_token operation
          then Inl (SafeModeRustGateError ''unexpected_next_action'')
          else Inr decision)"

record control_target =
  ct_tenant_id :: string
  ct_workspace_id :: string
  ct_machine_id :: string
  ct_capability_id :: string
  ct_agent_install_id :: string
  ct_channel_key :: string
  ct_endpoint_key :: string
  ct_connector_id :: string
  ct_credential_id :: string

definition durable_scope_key :: "string \<Rightarrow> control_target \<Rightarrow> string" where
  "durable_scope_key scope t =
     (if scope = ''workspace'' then ''workspace''
      else if scope = ''agent'' then strip (ct_agent_install_id t)
      else if scope = ''channel'' then scoped_key [ct_channel_key t, ct_endpoint_key t]
      else scoped_key [ct_connector_id t, ct_credential_id t])"

definition persist_status :: "bool \<Rightarrow> pydict \<Rightarrow> string" where
  "persist_status on metadata =
     (let d = (if on then ''active'' else ''inactive'') in sor (lower (strip (py_str (por (dget metadata ''status'') (PStr d))))) d)"

definition persist_args :: "string \<Rightarrow> bool \<Rightarrow> string \<Rightarrow> pydict \<Rightarrow> string \<Rightarrow> control_target \<Rightarrow> upsert_args" where
  "persist_args scope on reason metadata control_kind t =
     \<lparr>up_tenant_id = scope_token (ct_tenant_id t), up_workspace_id = scope_token (ct_workspace_id t),
      up_scope_type = scope, up_control_kind = control_kind, up_scope_key = durable_scope_key scope t,
      up_enabled = on, up_status = persist_status on metadata, up_reason = strip reason, up_metadata = metadata,
      up_agent_install_id = strip (ct_agent_install_id t), up_channel_key = scope_token (ct_channel_key t),
      up_endpoint_key = scope_token (ct_endpoint_key t), up_connector_id = scope_token (ct_connector_id t),
      up_credential_id = strip (ct_credential_id t), up_created_by_user_id = actor_user_id metadata,
      up_action = write_action on metadata\<rparr>"

definition persist_security_control_state ::
    "kernel_env \<Rightarrow> control_write_io \<Rightarrow> string \<Rightarrow> bool \<Rightarrow> string \<Rightarrow> pydict \<Rightarrow> string \<Rightarrow> control_target \<Rightarrow> control_world \<Rightarrow>
     (control_error + control_row option) \<times> control_world" where
  "persist_security_control_state env io scope on reason metadata control_kind t w =
     (let scope_t = scope_token scope; tenant = scope_token (ct_tenant_id t); workspace = scope_token (ct_workspace_id t) in
      if scope_t \<notin> set DURABLE_SCOPE_TYPES then (Inr None, w)
      else if tenant = [] \<or> workspace = [] then (Inr None, w)
      else if durable_scope_key scope_t t = [] then (Inr None, w)
      else
        (case enforce_security_control_state_decision env ''upsert_security_control_state''
                \<lparr>cc_scope = scope_t, cc_enabled = on, cc_tenant_id = tenant, cc_workspace_id = workspace, cc_reason = reason,
                 cc_metadata = metadata, cc_control_kind = control_kind, cc_scope_key = durable_scope_key scope_t t\<rparr> of
           Inl e \<Rightarrow> (Inl e, w)
         | Inr _ \<Rightarrow>
        (case upsert_security_control_state env (wr_link io) (wr_now io) (wr_state_id io) (wr_event_id io)
                (persist_args scope_t on reason metadata control_kind t) (control_plane w) of
           (Inl _, _) \<Rightarrow> (Inr None, w)
         | (Inr row, db) \<Rightarrow> (Inr row, invalidate_durable_cache tenant workspace (w\<lparr>control_plane := db\<rparr>)))))"

section \<open>Setting controls\<close>

definition put_safe_mode :: "string \<Rightarrow> safe_mode_state \<Rightarrow> (string \<times> safe_mode_state) list \<Rightarrow> (string \<times> safe_mode_state) list" where
  "put_safe_mode key st d = (if sm_enabled st then dset key st d else dpop key d)"

definition put_kill_switch :: "string \<Rightarrow> kill_switch_state \<Rightarrow> (string \<times> kill_switch_state) list \<Rightarrow> (string \<times> kill_switch_state) list" where
  "put_kill_switch key st d = (if ks_enabled st then dset key st d else dpop key d)"

definition put_incident ::
    "string \<Rightarrow> incident_control_state \<Rightarrow> (string \<times> incident_control_state) list \<Rightarrow> (string \<times> incident_control_state) list" where
  "put_incident key st d = (if ic_mode st = ''active'' then dpop key d else dset key st d)"

text \<open>The scope a safe-mode change applies to: the most specific test comes last.\<close>

definition safe_mode_scope :: "control_target \<Rightarrow> string \<times> string" where
  "safe_mode_scope t =
     (if scope_token (ct_tenant_id t) \<noteq> [] then (''tenant'', scope_token (ct_tenant_id t))
      else if scope_token (ct_workspace_id t) \<noteq> [] then (''workspace'', scope_token (ct_workspace_id t))
      else if scope_token (ct_machine_id t) \<noteq> [] then (''machine'', scope_token (ct_machine_id t))
      else (''global'', ''global''))"

definition safe_mode_memory :: "control_target \<Rightarrow> safe_mode_state \<Rightarrow> safe_globals \<Rightarrow> safe_globals" where
  "safe_mode_memory t st g =
     (let (scope, key) = safe_mode_scope t in
      if scope = ''tenant'' then g\<lparr>tenant_safe_mode := put_safe_mode key st (tenant_safe_mode g)\<rparr>
      else if scope = ''workspace'' then g\<lparr>workspace_safe_mode := put_safe_mode key st (workspace_safe_mode g)\<rparr>
      else if scope = ''machine'' then g\<lparr>machine_safe_mode := put_safe_mode key st (machine_safe_mode g)\<rparr>
      else g\<lparr>global_safe_mode := st\<rparr>)"

definition set_safe_mode ::
    "kernel_env \<Rightarrow> control_write_io \<Rightarrow> bool \<Rightarrow> string \<Rightarrow> pydict \<Rightarrow> control_target \<Rightarrow> control_world \<Rightarrow>
     (control_error + pydict) \<times> control_world" where
  "set_safe_mode env io on reason metadata t w =
     (let blocked = (if on then safe_mode_blocked_capabilities else []);
          st = \<lparr>sm_enabled = on, sm_reason = reason, sm_blocked_capabilities = blocked, sm_metadata = metadata\<rparr>;
          (scope, key) = safe_mode_scope t
      in (case enforce_security_control_state_decision env ''set_safe_mode_state''
                 \<lparr>cc_scope = scope, cc_enabled = on, cc_tenant_id = scope_token (ct_tenant_id t),
                  cc_workspace_id = scope_token (ct_workspace_id t), cc_reason = reason, cc_metadata = metadata,
                  cc_control_kind = ''safe_mode'', cc_scope_key = key\<rparr> of
            Inl e \<Rightarrow> (Inl e, w)
          | Inr _ \<Rightarrow>
              let w1 = w\<lparr>safe_memory := safe_mode_memory t st (safe_memory w)\<rparr>;
                  answer = (\<lambda>ids. (''scope'', PStr scope) # ids @ [(''state'', PDict (clone_safe_mode st))])
              in if scope = ''tenant'' then (Inr (answer [(''tenant_id'', PStr key)]), w1)
                 else if scope = ''machine'' then (Inr (answer [(''machine_id'', PStr key)]), w1)
                 else if scope = ''global'' then (Inr (answer []), w1)
                 else
                   (case persist_security_control_state env io ''workspace'' on reason
                           (dset ''blocked_capabilities'' (PList (map PStr blocked)) metadata) ''safe_mode''
                           \<lparr>ct_tenant_id = scope_token (ct_tenant_id t), ct_workspace_id = scope_token (ct_workspace_id t),
                            ct_machine_id = [], ct_capability_id = [], ct_agent_install_id = [], ct_channel_key = [],
                            ct_endpoint_key = [], ct_connector_id = [], ct_credential_id = []\<rparr> w1 of
                      (Inl e, w2) \<Rightarrow> (Inl e, w2)
                    | (Inr _, w2) \<Rightarrow> (Inr (answer [(''workspace_id'', PStr key)]), w2))))"

text \<open>The tokens of a kill-switch or incident target; the credential keeps its case.\<close>

definition target_tokens :: "control_target \<Rightarrow> control_target" where
  "target_tokens t =
     \<lparr>ct_tenant_id = scope_token (ct_tenant_id t), ct_workspace_id = scope_token (ct_workspace_id t),
      ct_machine_id = scope_token (ct_machine_id t), ct_capability_id = scope_token (ct_capability_id t),
      ct_agent_install_id = scope_token (ct_agent_install_id t), ct_channel_key = scope_token (ct_channel_key t),
      ct_endpoint_key = scope_token (ct_endpoint_key t), ct_connector_id = scope_token (ct_connector_id t),
      ct_credential_id = strip (ct_credential_id t)\<rparr>"

text \<open>The change of the dictionaries, \<open>t\<close> already in tokens.\<close>

definition kill_switch_memory :: "string \<Rightarrow> kill_switch_state \<Rightarrow> control_target \<Rightarrow> safe_globals \<Rightarrow> control_error + safe_globals" where
  "kill_switch_memory scope st t g =
     (if scope = ''tenant'' then
        (if ct_tenant_id t = [] then Inl (ControlValueError ''tenant_id is required for tenant kill switches.'')
         else Inr (g\<lparr>tenant_kill_switches := put_kill_switch (ct_tenant_id t) st (tenant_kill_switches g)\<rparr>))
      else if scope = ''workspace'' then
        (if ct_workspace_id t = [] then Inl (ControlValueError ''workspace_id is required for workspace kill switches.'')
         else Inr (g\<lparr>workspace_kill_switches := put_kill_switch (ct_workspace_id t) st (workspace_kill_switches g)\<rparr>))
      else if scope = ''machine'' then
        (if ct_machine_id t = [] then Inl (ControlValueError ''machine_id is required for machine kill switches.'')
         else Inr (g\<lparr>machine_kill_switches := put_kill_switch (ct_machine_id t) st (machine_kill_switches g)\<rparr>))
      else if scope = ''capability'' then
        (if ct_capability_id t = [] then Inl (ControlValueError ''capability_id is required for capability kill switches.'')
         else Inr (g\<lparr>capability_kill_switches := put_kill_switch (ct_capability_id t) st (capability_kill_switches g)\<rparr>))
      else if scope = ''agent'' then
        (if ct_workspace_id t = [] \<or> ct_agent_install_id t = []
         then Inl (ControlValueError ''workspace_id and agent_install_id are required for agent kill switches.'')
         else Inr (g\<lparr>agent_kill_switches :=
           put_kill_switch (agent_key (ct_workspace_id t) (ct_agent_install_id t)) st (agent_kill_switches g)\<rparr>))
      else if scope = ''channel'' then
        (if ct_workspace_id t = [] \<or> ct_channel_key t = []
         then Inl (ControlValueError ''workspace_id and channel_key are required for channel kill switches.'')
         else Inr (g\<lparr>channel_kill_switches :=
           put_kill_switch (channel_key (ct_workspace_id t) (ct_channel_key t) (ct_endpoint_key t)) st (channel_kill_switches g)\<rparr>))
      else if scope = ''connector'' then
        (if ct_workspace_id t = [] \<or> ct_connector_id t = []
         then Inl (ControlValueError ''workspace_id and connector_id are required for connector kill switches.'')
         else Inr (g\<lparr>connector_kill_switches :=
           put_kill_switch (connector_key (ct_workspace_id t) (ct_connector_id t) (ct_credential_id t)) st (connector_kill_switches g)\<rparr>))
      else Inr (g\<lparr>global_kill_switch := st\<rparr>))"

text \<open>The identifying fields of the answer.\<close>

definition target_answer :: "string \<Rightarrow> control_target \<Rightarrow> pydict" where
  "target_answer scope t =
     (if scope = ''tenant'' then [(''tenant_id'', PStr (ct_tenant_id t))]
      else if scope = ''workspace'' then [(''workspace_id'', PStr (ct_workspace_id t))]
      else if scope = ''machine'' then [(''machine_id'', PStr (ct_machine_id t))]
      else if scope = ''capability'' then [(''capability_id'', PStr (ct_capability_id t))]
      else if scope = ''agent'' then
        [(''workspace_id'', PStr (ct_workspace_id t)), (''agent_install_id'', PStr (ct_agent_install_id t))]
      else if scope = ''channel'' then
        [(''workspace_id'', PStr (ct_workspace_id t)), (''channel_key'', PStr (ct_channel_key t)),
         (''endpoint_key'', opt_str (snone (ct_endpoint_key t)))]
      else if scope = ''connector'' then
        [(''workspace_id'', PStr (ct_workspace_id t)), (''connector_id'', PStr (ct_connector_id t)),
         (''credential_id'', opt_str (snone (ct_credential_id t)))]
      else [])"

definition durable_answer :: "control_row option \<Rightarrow> pydict" where
  "durable_answer row =
     (case row of None \<Rightarrow> [] | Some r \<Rightarrow> [(''durable'', PBool True), (''control_state_id'', PStr (cr_id r))])"

definition set_scoped_kill_switch ::
    "kernel_env \<Rightarrow> control_write_io \<Rightarrow> string \<Rightarrow> bool \<Rightarrow> string \<Rightarrow> pydict \<Rightarrow> control_target \<Rightarrow> control_world \<Rightarrow>
     (control_error + pydict) \<times> control_world" where
  "set_scoped_kill_switch env io scope on reason metadata target w =
     (let clean_scope = sor (scope_token scope) ''global'';
          t = target_tokens target;
          st = \<lparr>ks_enabled = on, ks_reason = reason, ks_metadata = metadata\<rparr>
      in (case kill_switch_memory clean_scope st t (safe_memory w) of
            Inl e \<Rightarrow> (Inl e, w)
          | Inr g \<Rightarrow>
              let w1 = w\<lparr>safe_memory := g\<rparr>; state = (''state'', PDict (clone_kill_switch st)) in
              if clean_scope \<notin> set DURABLE_SCOPE_TYPES
              then (Inr ((''scope'', PStr (if clean_scope \<in> set [''tenant'', ''machine'', ''capability''] then clean_scope else ''global''))
                          # target_answer clean_scope t @ [state]), w1)
              else
                (case persist_security_control_state env io clean_scope on reason metadata ''kill_switch'' t w1 of
                   (Inl e, w2) \<Rightarrow> (Inl e, w2)
                 | (Inr row, w2) \<Rightarrow>
                     (Inr ([(''scope'', PStr clean_scope), state] @ target_answer clean_scope t @ durable_answer row), w2))))"

text \<open>The change of the incident dictionaries, \<open>t\<close> already in tokens.\<close>

definition incident_memory :: "string \<Rightarrow> incident_control_state \<Rightarrow> control_target \<Rightarrow> safe_globals \<Rightarrow> control_error + safe_globals" where
  "incident_memory scope st t g =
     (if scope = ''workspace'' then
        Inr (g\<lparr>workspace_incident_controls := put_incident (ct_workspace_id t) st (workspace_incident_controls g)\<rparr>)
      else if scope = ''channel'' then
        (if ct_channel_key t = [] then Inl (ControlValueError ''channel_key is required for channel incident controls.'')
         else Inr (g\<lparr>channel_incident_controls :=
           put_incident (channel_key (ct_workspace_id t) (ct_channel_key t) (ct_endpoint_key t)) st (channel_incident_controls g)\<rparr>))
      else
        (if ct_connector_id t = [] then Inl (ControlValueError ''connector_id is required for connector incident controls.'')
         else Inr (g\<lparr>connector_incident_controls :=
           put_incident (connector_key (ct_workspace_id t) (ct_connector_id t) (ct_credential_id t)) st
             (connector_incident_controls g)\<rparr>)))"

definition set_incident_control ::
    "kernel_env \<Rightarrow> control_write_io \<Rightarrow> string \<Rightarrow> string \<Rightarrow> string \<Rightarrow> pydict \<Rightarrow> control_target \<Rightarrow> control_world \<Rightarrow>
     (control_error + pydict) \<times> control_world" where
  "set_incident_control env io scope mode reason metadata target w =
     (let clean_scope = scope_token scope;
          t = target_tokens target;
          m = normalize_incident_mode (PStr mode);
          st = \<lparr>ic_mode = m, ic_reason = reason, ic_metadata = metadata\<rparr>
      in if clean_scope \<notin> set [''workspace'', ''channel'', ''connector'']
         then (Inl (ControlValueError ''Incident controls currently support workspace, channel, and connector scopes only.''), w)
         else if ct_workspace_id t = [] then (Inl (ControlValueError ''workspace_id is required for incident controls.''), w)
         else (case incident_memory clean_scope st t (safe_memory w) of
                 Inl e \<Rightarrow> (Inl e, w)
               | Inr g \<Rightarrow>
                   (case persist_security_control_state env io clean_scope (m \<noteq> ''active'') reason
                           (dset ''status'' (PStr (incident_mode_status m)) (dset ''mode'' (PStr m) metadata)) ''incident_control''
                           (t\<lparr>ct_agent_install_id := []\<rparr>) (w\<lparr>safe_memory := g\<rparr>) of
                      (Inl e, w2) \<Rightarrow> (Inl e, w2)
                    | (Inr row, w2) \<Rightarrow>
                        (Inr ([(''scope'', PStr clean_scope), (''mode'', PStr m), (''active'', PBool (m \<noteq> ''active'')),
                               (''state'', PDict (clone_incident_control st)), (''workspace_id'', PStr (ct_workspace_id t))] @
                              (if clean_scope = ''workspace'' then [] else tl (target_answer clean_scope t)) @
                              durable_answer row), w2))))"

definition connector_target :: "string \<Rightarrow> string \<Rightarrow> string \<Rightarrow> string \<Rightarrow> control_target" where
  "connector_target tenant_id workspace_id connector_id credential_id =
     \<lparr>ct_tenant_id = tenant_id, ct_workspace_id = workspace_id, ct_machine_id = [], ct_capability_id = [],
      ct_agent_install_id = [], ct_channel_key = [], ct_endpoint_key = [], ct_connector_id = connector_id,
      ct_credential_id = credential_id\<rparr>"

definition reason_or :: "string \<Rightarrow> string \<Rightarrow> string" where
  "reason_or reason d = sor (strip (sor reason d)) d"

definition revoke_connector_access ::
    "kernel_env \<Rightarrow> control_write_io \<Rightarrow> string \<Rightarrow> string \<Rightarrow> string \<Rightarrow> string \<Rightarrow> string \<Rightarrow> pydict \<Rightarrow> control_world \<Rightarrow>
     (control_error + pydict) \<times> control_world" where
  "revoke_connector_access env io tenant_id workspace_id connector_id credential_id reason metadata w =
     (let payload = dmerge metadata [(''status'', PStr ''revoked''), (''requires_rotation'', PBool True),
            (''connector_id'', PStr (scope_token connector_id)), (''credential_id'', PStr (strip credential_id))]
      in (case set_scoped_kill_switch env io ''connector'' True (reason_or reason ''Compromised connector access revoked.'') payload
                 (connector_target tenant_id workspace_id connector_id credential_id) w of
            (Inl e, w') \<Rightarrow> (Inl e, w')
          | (Inr result, w') \<Rightarrow> (Inr (dset ''action'' (PStr ''revoked'') result), w')))"

definition rotate_connector_access ::
    "kernel_env \<Rightarrow> control_write_io \<Rightarrow> string \<Rightarrow> string \<Rightarrow> string \<Rightarrow> string \<Rightarrow> string \<Rightarrow> string \<Rightarrow> pydict \<Rightarrow> control_world \<Rightarrow>
     (control_error + pydict) \<times> control_world" where
  "rotate_connector_access env io tenant_id workspace_id connector_id previous_credential_id replacement_credential_id reason metadata w =
     (let payload = dmerge metadata [(''status'', PStr ''rotated''), (''requires_rotation'', PBool False),
            (''connector_id'', PStr (scope_token connector_id)), (''credential_id'', PStr (strip previous_credential_id)),
            (''rotated_to_credential_id'', PStr (strip replacement_credential_id))]
      in (case set_scoped_kill_switch env io ''connector'' True
                 (reason_or reason ''Compromised connector credential rotated out of service.'') payload
                 (connector_target tenant_id workspace_id connector_id previous_credential_id) w of
            (Inl e, w') \<Rightarrow> (Inl e, w')
          | (Inr result, w') \<Rightarrow>
              (Inr (dset ''replacement_credential_id'' (PStr (strip replacement_credential_id))
                     (dset ''action'' (PStr ''rotated'') result)), w')))"

text \<open>The module as it is loaded: every dictionary empty, nothing enabled.\<close>

definition fresh_globals :: safe_globals where
  "fresh_globals =
     \<lparr>global_safe_mode = \<lparr>sm_enabled = False, sm_reason = [], sm_blocked_capabilities = [], sm_metadata = []\<rparr>,
      tenant_safe_mode = [], workspace_safe_mode = [], machine_safe_mode = [],
      global_kill_switch = \<lparr>ks_enabled = False, ks_reason = [], ks_metadata = []\<rparr>,
      tenant_kill_switches = [], workspace_kill_switches = [], machine_kill_switches = [], capability_kill_switches = [],
      agent_kill_switches = [], channel_kill_switches = [], connector_kill_switches = [],
      workspace_incident_controls = [], channel_incident_controls = [], connector_incident_controls = []\<rparr>"

text \<open>A restart of the process: what is left is the database.\<close>

definition restart_controls :: "control_world \<Rightarrow> control_world" where
  "restart_controls w = w\<lparr>safe_memory := fresh_globals, durable_control_cache := []\<rparr>"

definition reset_state_for_tests :: "db_link \<Rightarrow> bool \<Rightarrow> control_world \<Rightarrow> control_world" where
  "reset_state_for_tests link clear_durable w =
     (let w1 = restart_controls w in
      if clear_durable
      then (case clear_security_control_state_for_tests link (control_plane w1) of
              Inl _ \<Rightarrow> w1 | Inr db \<Rightarrow> w1\<lparr>control_plane := db\<rparr>)
      else w1)"

section \<open>Reading controls\<close>

text \<open>An entry of a chain: a control that applies, with what identifies its scope.\<close>

definition chain_entry :: "string \<Rightarrow> string \<Rightarrow> string \<Rightarrow> pydict \<Rightarrow> pydict \<Rightarrow> pydict" where
  "chain_entry kind scope reason metadata extra =
     [(''type'', PStr kind), (''scope'', PStr scope), (''reason'', PStr reason), (''metadata'', PDict metadata)] @ extra"

definition safe_entry :: "string \<Rightarrow> pydict \<Rightarrow> safe_mode_state option \<Rightarrow> pydict list" where
  "safe_entry scope extra st =
     (case st of None \<Rightarrow> []
      | Some s \<Rightarrow> if sm_enabled s then [chain_entry ''safe_mode'' scope (sm_reason s) (sm_metadata s) extra] else [])"

definition kill_entry :: "string \<Rightarrow> pydict \<Rightarrow> kill_switch_state option \<Rightarrow> pydict list" where
  "kill_entry scope extra st =
     (case st of None \<Rightarrow> []
      | Some s \<Rightarrow> if ks_enabled s then [chain_entry ''kill_switch'' scope (ks_reason s) (ks_metadata s) extra] else [])"

definition incident_entry :: "string \<Rightarrow> string \<Rightarrow> string \<Rightarrow> pydict \<Rightarrow> pydict \<Rightarrow> pydict list" where
  "incident_entry scope mode reason metadata extra =
     (if mode = ''active'' then []
      else [[(''type'', PStr ''incident_control''), (''scope'', PStr scope), (''mode'', PStr mode), (''reason'', PStr reason),
             (''metadata'', PDict metadata)] @ extra])"

definition incident_memory_entry :: "string \<Rightarrow> pydict \<Rightarrow> incident_control_state option \<Rightarrow> pydict list" where
  "incident_memory_entry scope extra st =
     (case st of None \<Rightarrow> []
      | Some s \<Rightarrow> incident_entry scope (normalize_incident_mode (PStr (ic_mode s))) (ic_reason s) (ic_metadata s) extra)"

definition row_entry :: "string \<Rightarrow> string \<Rightarrow> pydict \<Rightarrow> pydict \<Rightarrow> pydict" where
  "row_entry kind scope extra row =
     chain_entry kind scope (raw_text (dget row ''reason'')) (as_dict (dget row ''metadata'')) extra"

definition incident_row_entry :: "string \<Rightarrow> pydict \<Rightarrow> pydict \<Rightarrow> pydict list" where
  "incident_row_entry scope extra row =
     incident_entry scope
       (normalize_incident_mode (por (dget row ''status'') (dget (as_dict (dget row ''metadata'')) ''mode'')))
       (raw_text (dget row ''reason'')) (as_dict (dget row ''metadata'')) extra"

text \<open>\<^verbatim>\<open>D.get(key) if key else None\<close>.\<close>

definition lookup_token :: "(string \<times> 'a) list \<Rightarrow> string \<Rightarrow> 'a option" where
  "lookup_token d key = (if key = [] then None else map_of d key)"

subsection \<open>Capabilities\<close>

definition capability_memory_chain :: "string \<Rightarrow> string \<Rightarrow> string \<Rightarrow> string \<Rightarrow> safe_globals \<Rightarrow> pydict list" where
  "capability_memory_chain token tenant workspace machine g =
     (let unsafe = is_unsafe_capability token; cap = (''capability_id'', PStr token) in
      kill_entry ''global'' [] (Some (global_kill_switch g)) @
      (if unsafe then safe_entry ''global'' [cap] (Some (global_safe_mode g)) else []) @
      kill_entry ''tenant'' [(''tenant_id'', PStr tenant)] (lookup_token (tenant_kill_switches g) tenant) @
      (if unsafe then safe_entry ''tenant'' [(''tenant_id'', PStr tenant), cap] (lookup_token (tenant_safe_mode g) tenant) else []) @
      kill_entry ''workspace'' [(''workspace_id'', PStr workspace)] (lookup_token (workspace_kill_switches g) workspace) @
      (if unsafe then safe_entry ''workspace'' [(''workspace_id'', PStr workspace), cap]
                        (lookup_token (workspace_safe_mode g) workspace) else []) @
      kill_entry ''machine'' [(''machine_id'', PStr machine)] (lookup_token (machine_kill_switches g) machine) @
      (if unsafe then safe_entry ''machine'' [(''machine_id'', PStr machine), cap] (lookup_token (machine_safe_mode g) machine) else []) @
      kill_entry ''capability'' [cap] (map_of (capability_kill_switches g) token))"

definition capability_chain ::
    "(pydict \<Rightarrow> pyval) \<Rightarrow> read_io \<Rightarrow> read_io \<Rightarrow> string \<Rightarrow> string \<Rightarrow> string \<Rightarrow> string \<Rightarrow> control_world \<Rightarrow> pydict list \<times> control_world" where
  "capability_chain jsonb io1 io2 token tenant workspace machine w =
     (let ws = (''workspace_id'', PStr workspace);
          (safe_rows, w1) = (if is_unsafe_capability token
             then load_matching_durable_controls jsonb io1 tenant workspace ''safe_mode'' ''workspace'' w else ([], w));
          (kill_rows, w2) = load_matching_durable_controls jsonb io2 tenant workspace ''kill_switch'' ''workspace'' w1
      in (capability_memory_chain token tenant workspace machine (safe_memory w) @
          map (row_entry ''safe_mode'' ''workspace'' [ws, (''capability_id'', PStr token)]) safe_rows @
          map (row_entry ''kill_switch'' ''workspace'' [ws]) kill_rows, w2))"

definition safe_mode_payload :: "string \<Rightarrow> string \<Rightarrow> string \<Rightarrow> string \<Rightarrow> pydict list \<Rightarrow> pydict" where
  "safe_mode_payload token tenant workspace machine chain =
     [(''capability'', PStr token), (''capability_id'', PStr token),
      (''safe_mode_enabled'', PBool (list_ex (\<lambda>e. dget e ''type'' = PStr ''safe_mode'') chain)),
      (''kill_switch_enabled'', PBool (list_ex (\<lambda>e. dget e ''type'' = PStr ''kill_switch'') chain)),
      (''tenant_id'', opt_str (snone tenant)), (''workspace_id'', opt_str (snone workspace)),
      (''machine_id'', opt_str (snone machine)), (''matched_chain'', PList (map PDict chain))]"

definition safe_mode_next_action :: "pyval \<Rightarrow> string" where
  "safe_mode_next_action decision =
     (let d = token_of decision in
      if d = ''allow'' then ''allow_safe_mode_capability''
      else if d = ''degrade'' then ''degrade_safe_mode_capability''
      else if d = ''block'' then ''disable_safe_mode_capability''
      else [])"

definition disabled_answer :: "pydict list \<Rightarrow> pydict \<Rightarrow> string \<Rightarrow> pydict" where
  "disabled_answer chain decision reason =
     [(''disabled'', PBool True), (''reason'', PStr reason),
      (''scope'', PStr (text_default (por (dget decision ''control_scope'') (dget (last chain) ''scope'')) ''rust_kernel'')),
      (''type'', PStr (text_default (por (dget decision ''control_type'') (dget (last chain) ''type'')) ''safe_mode'')),
      (''matched_chain'', PList (map PDict chain)), (''rust_decision'', PDict decision)]"

text \<open>\<^verbatim>\<open>exc.decision\<close>.\<close>

fun error_decision :: "kernel_error \<Rightarrow> pydict" where
  "error_decision (DecisionError d) = d"
| "error_decision (ApprovalRequired d) = d"

definition capability_verdict :: "kernel_env \<Rightarrow> string \<Rightarrow> string \<Rightarrow> string \<Rightarrow> string \<Rightarrow> pydict list \<Rightarrow> pydict" where
  "capability_verdict env token tenant workspace machine chain =
     (case run_runtime_kernel_enforced env ''safe-mode-decision'' (safe_mode_payload token tenant workspace machine chain) False of
        Inl e \<Rightarrow>
          let d = error_decision e; expected = safe_mode_next_action (dget d ''decision'') in
          if expected \<noteq> [] \<and> text_of (dget d ''next_action'') \<noteq> expected
          then disabled_answer chain d (''unexpected_next_action:'' @ expected)
          else disabled_answer chain d
                 (text_of (por (por (dget d ''control_reason'') (dget (last chain) ''reason'')) (PStr (error_reason e))))
      | Inr d \<Rightarrow>
          let expected = safe_mode_next_action (dget d ''decision'') in
          if expected \<noteq> [] \<and> text_of (dget d ''next_action'') \<noteq> expected
          then disabled_answer chain d (''unexpected_next_action:'' @ expected)
          else if dget d ''decision'' \<noteq> PStr ''block''
          then [(''disabled'', PBool False), (''reason'', PStr []), (''scope'', PNone),
                (''matched_chain'', PList (map PDict chain)), (''rust_decision'', PDict d)]
          else disabled_answer chain d (text_of (por (dget d ''control_reason'') (dget (last chain) ''reason''))))"

definition capability_clear :: pydict where
  "capability_clear = [(''disabled'', PBool False), (''reason'', PStr []), (''scope'', PNone), (''matched_chain'', PList [])]"

definition resolve_capability_disable_state ::
    "kernel_env \<Rightarrow> (pydict \<Rightarrow> pyval) \<Rightarrow> read_io \<Rightarrow> read_io \<Rightarrow> string \<Rightarrow> string \<Rightarrow> string \<Rightarrow> string \<Rightarrow> control_world \<Rightarrow>
     pydict \<times> control_world" where
  "resolve_capability_disable_state env jsonb io1 io2 capability_id tenant_id workspace_id machine_id w =
     (let token = scope_token capability_id; tenant = scope_token tenant_id; workspace = scope_token workspace_id;
          machine = scope_token machine_id
      in if token = [] then (capability_clear, w)
         else
           let (chain, w') = capability_chain jsonb io1 io2 token tenant workspace machine w in
           (if chain = [] then capability_clear else capability_verdict env token tenant workspace machine chain, w'))"

definition is_capability_disabled ::
    "kernel_env \<Rightarrow> (pydict \<Rightarrow> pyval) \<Rightarrow> read_io \<Rightarrow> read_io \<Rightarrow> string \<Rightarrow> string \<Rightarrow> string \<Rightarrow> string \<Rightarrow> control_world \<Rightarrow> bool" where
  "is_capability_disabled env jsonb io1 io2 capability_id tenant_id workspace_id machine_id w =
     truthy (dget (fst (resolve_capability_disable_state env jsonb io1 io2 capability_id tenant_id workspace_id machine_id w)) ''disabled'')"

subsection \<open>Machines\<close>

definition summarize_policy :: "pydict list \<Rightarrow> pydict" where
  "summarize_policy chain =
     (if chain = [] then [(''active'', PBool False), (''scope'', PNone), (''reason'', PStr []), (''matched_chain'', PList [])]
      else [(''active'', PBool True), (''scope'', dget (last chain) ''scope''), (''reason'', PStr (raw_text (dget (last chain) ''reason''))),
            (''matched_chain'', PList (map PDict chain))])"

definition machine_safe_chain :: "string \<Rightarrow> string \<Rightarrow> string \<Rightarrow> safe_globals \<Rightarrow> pydict list" where
  "machine_safe_chain tenant workspace machine g =
     safe_entry ''global'' [] (Some (global_safe_mode g)) @
     safe_entry ''tenant'' [(''tenant_id'', PStr tenant)] (lookup_token (tenant_safe_mode g) tenant) @
     safe_entry ''workspace'' [(''workspace_id'', PStr workspace)] (lookup_token (workspace_safe_mode g) workspace) @
     safe_entry ''machine'' [(''machine_id'', PStr machine)] (lookup_token (machine_safe_mode g) machine)"

definition machine_kill_chain :: "string \<Rightarrow> string \<Rightarrow> string \<Rightarrow> string list \<Rightarrow> safe_globals \<Rightarrow> pydict list" where
  "machine_kill_chain tenant workspace machine capabilities g =
     kill_entry ''global'' [] (Some (global_kill_switch g)) @
     kill_entry ''tenant'' [(''tenant_id'', PStr tenant)] (lookup_token (tenant_kill_switches g) tenant) @
     kill_entry ''workspace'' [(''workspace_id'', PStr workspace)] (lookup_token (workspace_kill_switches g) workspace) @
     kill_entry ''machine'' [(''machine_id'', PStr machine)] (lookup_token (machine_kill_switches g) machine) @
     concat (map (\<lambda>c. kill_entry ''capability'' [(''capability_id'', PStr c)] (map_of (capability_kill_switches g) c)) capabilities)"

definition resolve_machine_policy ::
    "(pydict \<Rightarrow> pyval) \<Rightarrow> read_io \<Rightarrow> read_io \<Rightarrow> string \<Rightarrow> string \<Rightarrow> string \<Rightarrow> string list \<Rightarrow> control_world \<Rightarrow> pydict \<times> control_world" where
  "resolve_machine_policy jsonb io1 io2 tenant_id workspace_id machine_id capability_ids w =
     (let tenant = scope_token tenant_id; workspace = scope_token workspace_id; machine = scope_token machine_id;
          capabilities = filter (\<lambda>c. c \<noteq> []) (map scope_token capability_ids);
          ws = [(''workspace_id'', PStr workspace)];
          (safe_rows, w1) = load_matching_durable_controls jsonb io1 tenant workspace ''safe_mode'' ''workspace'' w;
          (kill_rows, w2) = load_matching_durable_controls jsonb io2 tenant workspace ''kill_switch'' ''workspace'' w1
      in ([(''safe_mode'', PDict (summarize_policy (machine_safe_chain tenant workspace machine (safe_memory w) @
                                              map (row_entry ''safe_mode'' ''workspace'' ws) safe_rows))),
           (''kill_switch'', PDict (summarize_policy (machine_kill_chain tenant workspace machine capabilities (safe_memory w) @
                                                map (row_entry ''kill_switch'' ''workspace'' ws) kill_rows)))], w2))"

subsection \<open>Agents, channels and connectors\<close>

definition base_kill_chain ::
    "(pydict \<Rightarrow> pyval) \<Rightarrow> read_io \<Rightarrow> string \<Rightarrow> string \<Rightarrow> control_world \<Rightarrow> pydict list \<times> control_world" where
  "base_kill_chain jsonb io tenant_id workspace_id w =
     (let tenant = scope_token tenant_id; workspace = scope_token workspace_id; ws = [(''workspace_id'', PStr workspace)];
          (rows, w') = load_matching_durable_controls jsonb io tenant workspace ''kill_switch'' ''workspace'' w
      in (kill_entry ''global'' [] (Some (global_kill_switch (safe_memory w))) @
          kill_entry ''tenant'' [(''tenant_id'', PStr tenant)] (lookup_token (tenant_kill_switches (safe_memory w)) tenant) @
          kill_entry ''workspace'' ws (lookup_token (workspace_kill_switches (safe_memory w)) workspace) @
          map (row_entry ''kill_switch'' ''workspace'' ws) rows, w'))"

text \<open>\<^verbatim>\<open>_summarize_kill_chain\<close> and \<^verbatim>\<open>_summarize_incident_chain\<close>.\<close>

definition summarize_kill_chain :: "pydict list \<Rightarrow> pydict" where
  "summarize_kill_chain chain =
     (if chain = [] then [(''active'', PBool False), (''reason'', PStr []), (''scope'', PNone), (''matched_chain'', PList [])]
      else [(''active'', PBool True), (''reason'', PStr (raw_text (dget (last chain) ''reason''))), (''scope'', dget (last chain) ''scope''),
            (''matched_chain'', PList (map PDict chain))])"

definition base_incident_chain ::
    "(pydict \<Rightarrow> pyval) \<Rightarrow> read_io \<Rightarrow> string \<Rightarrow> string \<Rightarrow> control_world \<Rightarrow> pydict list \<times> control_world" where
  "base_incident_chain jsonb io tenant_id workspace_id w =
     (let tenant = scope_token tenant_id; workspace = scope_token workspace_id; ws = [(''workspace_id'', PStr workspace)] in
      if workspace = [] then ([], w)
      else
        let (rows, w') = load_matching_durable_controls jsonb io tenant workspace ''incident_control'' ''workspace'' w in
        (incident_memory_entry ''workspace'' ws (map_of (workspace_incident_controls (safe_memory w)) workspace) @
         concat (map (incident_row_entry ''workspace'' ws) rows), w'))"

definition summarize_incident_chain :: "pydict list \<Rightarrow> pydict" where
  "summarize_incident_chain chain =
     (if chain = [] then [(''active'', PBool False), (''mode'', PStr ''active''), (''reason'', PStr []), (''scope'', PNone),
                          (''matched_chain'', PList [])]
      else [(''active'', PBool True), (''mode'', PStr (normalize_incident_mode (dget (last chain) ''mode''))),
            (''reason'', PStr (raw_text (dget (last chain) ''reason''))), (''scope'', dget (last chain) ''scope''),
            (''matched_chain'', PList (map PDict chain))])"

text \<open>The rows that apply to a channel endpoint or to a connector credential, and how an entry names them.\<close>

definition channel_row_applies :: "string \<Rightarrow> string \<Rightarrow> pydict \<Rightarrow> bool" where
  "channel_row_applies channel endpoint row =
     (token_of (dget row ''channel_key'') = channel \<and>
      (token_of (dget row ''endpoint_key'') = [] \<or> token_of (dget row ''endpoint_key'') = endpoint))"

definition connector_row_applies :: "string \<Rightarrow> string \<Rightarrow> pydict \<Rightarrow> bool" where
  "connector_row_applies connector credential row =
     (token_of (dget row ''connector_id'') = connector \<and>
      (text_of (dget row ''credential_id'') = [] \<or> text_of (dget row ''credential_id'') = credential))"

definition channel_ids :: "string \<Rightarrow> string \<Rightarrow> string \<Rightarrow> pydict" where
  "channel_ids workspace channel endpoint =
     [(''workspace_id'', PStr workspace), (''channel_key'', PStr channel), (''endpoint_key'', opt_str (snone endpoint))]"

definition connector_ids :: "string \<Rightarrow> string \<Rightarrow> string \<Rightarrow> pydict" where
  "connector_ids workspace connector credential =
     [(''workspace_id'', PStr workspace), (''connector_id'', PStr connector), (''credential_id'', opt_str (snone credential))]"

definition resolve_workspace_incident_state ::
    "(pydict \<Rightarrow> pyval) \<Rightarrow> read_io \<Rightarrow> string \<Rightarrow> string \<Rightarrow> control_world \<Rightarrow> pydict \<times> control_world" where
  "resolve_workspace_incident_state jsonb io tenant_id workspace_id w =
     (let (chain, w') = base_incident_chain jsonb io tenant_id workspace_id w in (summarize_incident_chain chain, w'))"

definition resolve_channel_incident_state ::
    "(pydict \<Rightarrow> pyval) \<Rightarrow> read_io \<Rightarrow> read_io \<Rightarrow> string \<Rightarrow> string \<Rightarrow> string \<Rightarrow> string \<Rightarrow> control_world \<Rightarrow> pydict \<times> control_world" where
  "resolve_channel_incident_state jsonb io1 io2 tenant_id workspace_id channel_id endpoint_id w =
     (let workspace = scope_token workspace_id; channel = scope_token channel_id; endpoint = scope_token endpoint_id;
          (chain, w1) = base_incident_chain jsonb io1 tenant_id workspace_id w;
          d = channel_incident_controls (safe_memory w); ids = channel_ids workspace channel endpoint
      in if workspace = [] \<or> channel = [] then (summarize_incident_chain chain, w1)
         else
           let (rows, w2) = load_matching_durable_controls jsonb io2 tenant_id workspace ''incident_control'' ''channel'' w1 in
           (summarize_incident_chain (chain @
              incident_memory_entry ''channel'' ids (map_of d (channel_key workspace channel [])) @
              (if endpoint = [] then [] else incident_memory_entry ''channel'' ids (map_of d (channel_key workspace channel endpoint))) @
              concat (map (\<lambda>row. incident_row_entry ''channel''
                             (channel_ids workspace channel (sor (token_of (dget row ''endpoint_key'')) endpoint)) row)
                        (filter (channel_row_applies channel endpoint) rows))), w2))"

definition resolve_connector_incident_state ::
    "(pydict \<Rightarrow> pyval) \<Rightarrow> read_io \<Rightarrow> read_io \<Rightarrow> string \<Rightarrow> string \<Rightarrow> string \<Rightarrow> string \<Rightarrow> control_world \<Rightarrow> pydict \<times> control_world" where
  "resolve_connector_incident_state jsonb io1 io2 tenant_id workspace_id connector_id credential_id w =
     (let workspace = scope_token workspace_id; connector = scope_token connector_id; credential = strip credential_id;
          (chain, w1) = base_incident_chain jsonb io1 tenant_id workspace_id w;
          d = connector_incident_controls (safe_memory w); ids = connector_ids workspace connector credential
      in if workspace = [] \<or> connector = [] then (summarize_incident_chain chain, w1)
         else
           let (rows, w2) = load_matching_durable_controls jsonb io2 tenant_id workspace ''incident_control'' ''connector'' w1 in
           (summarize_incident_chain (chain @
              incident_memory_entry ''connector'' ids (map_of d (connector_key workspace connector [])) @
              (if credential = [] then []
               else incident_memory_entry ''connector'' ids (map_of d (connector_key workspace connector credential))) @
              concat (map (\<lambda>row. incident_row_entry ''connector''
                             (connector_ids workspace connector (sor (text_of (dget row ''credential_id'')) credential)) row)
                        (filter (connector_row_applies connector credential) rows))), w2))"

definition resolve_agent_disable ::
    "(pydict \<Rightarrow> pyval) \<Rightarrow> read_io \<Rightarrow> read_io \<Rightarrow> string \<Rightarrow> string \<Rightarrow> string \<Rightarrow> control_world \<Rightarrow> pydict \<times> control_world" where
  "resolve_agent_disable jsonb io1 io2 tenant_id workspace_id agent_install_id w =
     (let workspace = scope_token workspace_id; agent = strip agent_install_id;
          (chain, w1) = base_kill_chain jsonb io1 tenant_id workspace_id w;
          ids = [(''workspace_id'', PStr workspace), (''agent_install_id'', PStr agent)]
      in if workspace = [] \<or> agent = [] then (summarize_kill_chain chain, w1)
         else
           let (rows, w2) = load_matching_durable_controls jsonb io2 tenant_id workspace ''kill_switch'' ''agent'' w1 in
           (summarize_kill_chain (chain @
              kill_entry ''agent'' ids (map_of (agent_kill_switches (safe_memory w)) (agent_key workspace agent)) @
              map (row_entry ''kill_switch'' ''agent'' ids)
                (filter (\<lambda>row. text_of (dget row ''agent_install_id'') = agent) rows)), w2))"

definition resolve_channel_disable_state ::
    "(pydict \<Rightarrow> pyval) \<Rightarrow> read_io \<Rightarrow> read_io \<Rightarrow> string \<Rightarrow> string \<Rightarrow> string \<Rightarrow> string \<Rightarrow> control_world \<Rightarrow> pydict \<times> control_world" where
  "resolve_channel_disable_state jsonb io1 io2 tenant_id workspace_id channel_id endpoint_id w =
     (let workspace = scope_token workspace_id; channel = scope_token channel_id; endpoint = scope_token endpoint_id;
          (chain, w1) = base_kill_chain jsonb io1 tenant_id workspace_id w;
          d = channel_kill_switches (safe_memory w); ids = channel_ids workspace channel endpoint
      in if workspace = [] \<or> channel = [] then (summarize_kill_chain chain, w1)
         else
           let (rows, w2) = load_matching_durable_controls jsonb io2 tenant_id workspace ''kill_switch'' ''channel'' w1 in
           (summarize_kill_chain (chain @
              kill_entry ''channel'' ids (map_of d (channel_key workspace channel [])) @
              (if endpoint = [] then [] else kill_entry ''channel'' ids (map_of d (channel_key workspace channel endpoint))) @
              map (\<lambda>row. row_entry ''kill_switch'' ''channel''
                     (channel_ids workspace channel (sor (token_of (dget row ''endpoint_key'')) endpoint)) row)
                (filter (channel_row_applies channel endpoint) rows)), w2))"

definition resolve_connector_disable_state ::
    "(pydict \<Rightarrow> pyval) \<Rightarrow> read_io \<Rightarrow> read_io \<Rightarrow> string \<Rightarrow> string \<Rightarrow> string \<Rightarrow> string \<Rightarrow> control_world \<Rightarrow> pydict \<times> control_world" where
  "resolve_connector_disable_state jsonb io1 io2 tenant_id workspace_id connector_id credential_id w =
     (let workspace = scope_token workspace_id; connector = scope_token connector_id; credential = strip credential_id;
          (chain, w1) = base_kill_chain jsonb io1 tenant_id workspace_id w;
          d = connector_kill_switches (safe_memory w); ids = connector_ids workspace connector credential
      in if workspace = [] \<or> connector = [] then (summarize_kill_chain chain, w1)
         else
           let (rows, w2) = load_matching_durable_controls jsonb io2 tenant_id workspace ''kill_switch'' ''connector'' w1 in
           (summarize_kill_chain (chain @
              kill_entry ''connector'' ids (map_of d (connector_key workspace connector [])) @
              (if credential = [] then [] else kill_entry ''connector'' ids (map_of d (connector_key workspace connector credential))) @
              map (\<lambda>row. row_entry ''kill_switch'' ''connector''
                     (connector_ids workspace connector (sor (text_of (dget row ''credential_id'')) credential)) row)
                (filter (connector_row_applies connector credential) rows)), w2))"

definition is_active_state :: "pydict \<times> control_world \<Rightarrow> bool" where
  "is_active_state answer = truthy (dget (fst answer) ''active'')"

section \<open>The kernel's decision on a capability\<close>

definition RUST_UNSAFE_EXACT :: "string list" where
  "RUST_UNSAFE_EXACT = [''shell.execute'', ''shell_execute'', ''shell_command'']"

definition safe_mode_boolish :: "pydict \<Rightarrow> string \<Rightarrow> bool" where
  "safe_mode_boolish input key =
     (case dget input key of
        PBool b \<Rightarrow> b
      | PStr s \<Rightarrow> token_norm s \<in> set [''1'', ''true'', ''yes'', ''on'', ''enabled'', ''active'']
      | PInt i \<Rightarrow> (case as_u64 (PInt i) of Some n \<Rightarrow> 0 < n | None \<Rightarrow> False)
      | _ \<Rightarrow> False)"

definition rust_incident_mode :: "string \<Rightarrow> string" where
  "rust_incident_mode v =
     (let t = token_norm v in
      if t = ''paused'' then ''pause'' else if t = ''draining'' then ''drain'' else if t = ''rejected'' then ''reject''
      else if t \<in> set [''pause'', ''drain'', ''reject''] then t else ''active'')"

definition rust_is_unsafe_capability :: "string \<Rightarrow> bool" where
  "rust_is_unsafe_capability v =
     (let token = token_norm v in
      token \<in> set RUST_UNSAFE_EXACT \<or> list_ex (\<lambda>p. token = p \<or> startswith token (p @ ''_'')) UNSAFE_PREFIXES)"

definition control_field :: "pydict \<Rightarrow> string \<Rightarrow> pyval" where
  "control_field entry key =
     (case dget entry key of PStr s \<Rightarrow> (if rust_trim s = [] then PNone else PStr s) | _ \<Rightarrow> PNone)"

text \<open>The last entry of the chain, empty when there is none: its fields are then null.\<close>

definition controlling_match :: "pydict \<Rightarrow> pydict" where
  "controlling_match input =
     (case dget input ''matched_chain'' of
        PList chain \<Rightarrow> if chain = [] then [] else as_dict (last chain)
      | _ \<Rightarrow> [])"

record safe_mode_input =
  si_capability :: "string option"
  si_match :: pydict
  si_safe_mode :: bool
  si_maintenance :: bool
  si_incident :: string
  si_health :: string

definition safe_mode_response :: "string \<Rightarrow> string \<Rightarrow> safe_mode_input \<Rightarrow> pydict" where
  "safe_mode_response decision reason x =
     [(''ok'', PBool (decision \<noteq> ''block'')), (''decision'', PStr decision), (''reason'', PStr reason),
      (''next_action'', PStr (if decision = ''allow'' then ''allow_safe_mode_capability''
                             else if decision = ''degrade'' then ''degrade_safe_mode_capability''
                             else ''disable_safe_mode_capability'')),
      (''capability'', opt_str (si_capability x)), (''safe_mode_active'', PBool (si_safe_mode x \<or> si_maintenance x)),
      (''maintenance_mode'', PBool (si_maintenance x)), (''incident_mode'', PStr (si_incident x)),
      (''health_state'', PStr (si_health x)), (''control_type'', control_field (si_match x) ''type''),
      (''control_scope'', control_field (si_match x) ''scope''), (''control_reason'', control_field (si_match x) ''reason''),
      (''blocked_capabilities'', PList (map PStr safe_mode_blocked_capabilities)),
      (''runtime_mode'', PStr (if decision = ''allow'' then ''normal'' else ''safe'')),
      (''audit_visibility'', PStr (if decision = ''allow'' then ''standard'' else ''security'')),
      (''cacheable'', PBool (decision = ''allow''))]"

definition safe_mode_input_of :: "pydict \<Rightarrow> safe_mode_input" where
  "safe_mode_input_of input =
     \<lparr>si_capability = or_else (string_field input ''capability'') (string_field input ''capability_id''),
      si_match = controlling_match input,
      si_safe_mode = (safe_mode_boolish input ''safe_mode_enabled'' \<or> safe_mode_boolish input ''forced_safe_mode''),
      si_maintenance = safe_mode_boolish input ''maintenance_mode'',
      si_incident = rust_incident_mode (opt_string (string_field input ''incident_mode'') ''active''),
      si_health = token_norm (opt_string (or_else (string_field input ''health_state'')
        (string_field (as_dict (dget input ''computer_profile'')) ''health_state'')) ''healthy'')\<rparr>"

definition safe_mode_decision_command :: "pydict \<Rightarrow> pydict" where
  "safe_mode_decision_command input =
     (let x = safe_mode_input_of input in
      if safe_mode_boolish input ''kill_switch_enabled'' then safe_mode_response ''block'' ''kill_switch_enabled'' x
      else if si_health x \<in> set [''unhealthy'', ''offline'', ''disabled'', ''locked'', ''failed'']
      then safe_mode_response ''block'' ''computer_profile_unhealthy'' x
      else if si_incident x = ''reject'' then safe_mode_response ''block'' ''incident_reject_mode'' x
      else if si_incident x = ''pause'' then safe_mode_response ''block'' ''incident_pause_mode'' x
      else if si_incident x = ''drain'' then safe_mode_response ''degrade'' ''incident_drain_mode'' x
      else if si_safe_mode x \<or> si_maintenance x then
        (if (case si_capability x of None \<Rightarrow> False | Some c \<Rightarrow> rust_is_unsafe_capability c)
         then safe_mode_response ''block'' ''capability_blocked_by_safe_mode'' x
         else safe_mode_response ''degrade'' ''safe_mode_active'' x)
      else safe_mode_response ''allow'' ''safe_mode_clear'' x)"

text \<open>The kernel process answers the request with this decision.\<close>

definition answers_safe_mode :: "kernel_env \<Rightarrow> pydict \<Rightarrow> bool" where
  "answers_safe_mode env input =
     (has_binary env \<and>
      (\<exists>out. spawn env ''safe-mode-decision'' input = Completed out 0 \<and> strip out \<noteq> [] \<and>
         json_loads env (strip out) = Some (PDict (safe_mode_decision_command input))))"

end
