(* ===== verification/Safe_Mode_Capability.thy ===== *)
theory Safe_Mode_Capability
  imports Safe_Mode
begin

text \<open>
  Capability checks of the safe-mode service: the kernel's list of unsafe capabilities covers the
  service's, a failing kernel keeps a stopped capability stopped, and with the kernel in place the
  answer is exact.
\<close>

section \<open>The two lists of unsafe capabilities\<close>

lemma takeWhile_word: "CHR ''_'' \<notin> set s \<Longrightarrow> takeWhile (\<lambda>d. d \<noteq> CHR ''_'') (s @ CHR ''_'' # rest) = s"
  by (induction s) auto

lemma squeeze_word:
  "s \<noteq> [] \<Longrightarrow> CHR ''_'' \<notin> set s \<Longrightarrow>
     squeeze pend (s @ CHR ''_'' # rest) = (if pend then ''_'' else []) @ s @ squeeze True rest"
  by (cases s) (auto simp: takeWhile_word Let_def)

lemma squeeze_True_cases: "squeeze True s = [] \<or> (\<exists>r. squeeze True s = CHR ''_'' # r)"
  by (induction s) (auto simp: Let_def)

lemma squeeze_two_words:
  assumes "a \<noteq> []" "CHR ''_'' \<notin> set a" "b \<noteq> []" "CHR ''_'' \<notin> set b"
  shows "squeeze False (a @ CHR ''_'' # b @ CHR ''_'' # rest) = a @ CHR ''_'' # b \<or>
    startswith (squeeze False (a @ CHR ''_'' # b @ CHR ''_'' # rest)) (a @ CHR ''_'' # b @ ''_'')"
proof -
  have s: "squeeze False (a @ CHR ''_'' # b @ CHR ''_'' # rest) = a @ CHR ''_'' # b @ squeeze True rest"
    using assms by (simp add: squeeze_word)
  from squeeze_True_cases [of rest] show ?thesis
    by (elim disjE exE) (simp_all add: s startswith_def)
qed

lemma scope_token_again [simp]: "scope_token (scope_token s) = scope_token s"
  by (simp add: scope_token_def strip_lower)

lemma scope_token_Nil [simp]: "scope_token [] = []"
  by (simp add: scope_token_def)

lemma rust_trim_token: "rust_trim (scope_token s) = scope_token s"
  unfolding scope_token_def by (metis rust_trim_strip strip_lower)

lemma token_norm_prefix:
  assumes "rust_trim (p @ ''.'' @ r) = p @ ''.'' @ r" and p: "p = ''computer_control'' \<or> p = ''browser_automation''"
  shows "token_norm (p @ ''.'' @ r) = p \<or> startswith (token_norm (p @ ''.'' @ r)) (p @ ''_'')"
proof -
  let ?f = "\<lambda>c. if c \<in> set ''- /.'' then CHR ''_'' else c"
  have n: "token_norm (p @ ''.'' @ r) = squeeze False (map ?f (map ascii_lower p) @ CHR ''_'' # map ?f (map ascii_lower r))"
    using assms(1) by (simp add: token_norm_def ascii_lower_def)
  have "\<exists>a b. p = a @ CHR ''_'' # b \<and> a \<noteq> [] \<and> b \<noteq> [] \<and> CHR ''_'' \<notin> set a \<and> CHR ''_'' \<notin> set b"
    using p
  proof
    assume "p = ''computer_control''"
    then show ?thesis by (intro exI [of _ "''computer''"] exI [of _ "''control''"]) simp
  next
    assume "p = ''browser_automation''"
    then show ?thesis by (intro exI [of _ "''browser''"] exI [of _ "''automation''"]) simp
  qed
  then obtain a b where ab: "p = a @ CHR ''_'' # b" "a \<noteq> []" "b \<noteq> []" "CHR ''_'' \<notin> set a" "CHR ''_'' \<notin> set b" by blast
  have "map ?f (map ascii_lower ''computer_control'') = ''computer_control''"
    "map ?f (map ascii_lower ''browser_automation'') = ''browser_automation''"
    by (simp_all add: ascii_lower_def)
  with p have "map ?f (map ascii_lower p) = p" by blast
  with n ab squeeze_two_words [of a b "map ?f (map ascii_lower r)"] show ?thesis by simp
qed

lemma unsafe_in_both:
  assumes "is_unsafe_capability c"
  shows "rust_is_unsafe_capability (scope_token c)"
proof -
  let ?t = "scope_token c"
  from assms have "?t = ''shell.execute'' \<or>
      (\<exists>p. (p = ''computer_control'' \<or> p = ''browser_automation'') \<and> (?t = p \<or> startswith ?t (p @ ''.'')))"
    unfolding is_unsafe_capability_def Let_def UNSAFE_EXACT_def UNSAFE_PREFIXES_def list_ex_iff list.set by blast
  then consider "?t = ''shell.execute''" | p where "p = ''computer_control'' \<or> p = ''browser_automation''" "?t = p"
    | p r where "p = ''computer_control'' \<or> p = ''browser_automation''" "?t = p @ ''.'' @ r"
    unfolding startswith_iff append_assoc by blast
  then show ?thesis
  proof cases
    case 1
    have "rust_is_unsafe_capability ''shell.execute''" by code_simp
    with 1 show ?thesis by simp
  next
    case 2
    have "rust_is_unsafe_capability ''computer_control''" "rust_is_unsafe_capability ''browser_automation''" by code_simp+
    with 2 show ?thesis by auto
  next
    case (3 p r)
    have "token_norm ?t = p \<or> startswith (token_norm ?t) (p @ ''_'')"
      using token_norm_prefix [of p r] rust_trim_token [of c] 3 by simp
    with 3(1) show ?thesis
      unfolding rust_is_unsafe_capability_def Let_def UNSAFE_PREFIXES_def list_ex_iff list.set by blast
  qed
qed

section \<open>Capabilities\<close>

text \<open>The only kernel answers that leave a matched capability enabled.\<close>

definition kernel_clears :: "kernel_env \<Rightarrow> pydict \<Rightarrow> bool" where
  "kernel_clears env payload =
     (\<exists>response. kernel_permits env ''safe-mode-decision'' payload response \<and> \<not> needs_approval response \<and>
        safe_mode_next_action (PStr (verdict response)) \<in> {[], text_of (dget response ''next_action'')})"

lemma disabled_answer_field [simp]: "dget (disabled_answer chain d r) ''disabled'' = PBool True"
  by (simp add: disabled_answer_def dget_Cons)

lemma enforced_clears:
  "(\<exists>d. run_runtime_kernel_enforced env ''safe-mode-decision'' payload False = Inr d \<and>
     safe_mode_next_action (dget d ''decision'') \<in> {[], text_of (dget d ''next_action'')}) \<longleftrightarrow> kernel_clears env payload"
  (is "?L \<longleftrightarrow> ?R")
proof
  assume ?L
  then obtain d where d: "run_runtime_kernel_enforced env ''safe-mode-decision'' payload False = Inr d"
    "safe_mode_next_action (dget d ''decision'') \<in> {[], text_of (dget d ''next_action'')}" by blast
  from d(1) have "truthy (dget (run_runtime_kernel env ''safe-mode-decision'' payload) ''ok'')"
    unfolding run_runtime_kernel_enforced_def using enforce_Inr_iff by blast
  then obtain response where r: "kernel_permits env ''safe-mode-decision'' payload response"
    unfolding run_kernel_permits(1) by blast
  note n = run_kernel_permits(2) [OF r]
  from d(1) n have e: "enforce_kernel_decision env ''safe-mode-decision'' (normalize_kernel_decision env ''safe-mode-decision'' response) False = Inr d"
    by (simp add: run_runtime_kernel_enforced_def)
  from e have "\<not> needs_approval response"
    using enforce_Inr_iff [of env "''safe-mode-decision''"] needs_approval_normalized by blast
  with d(2) r enforce_Inr_value [OF e] show ?R
    unfolding kernel_clears_def
    by (intro exI [of _ response]) (simp add: normalized_fields verdict_normalized)
next
  assume ?R
  then obtain response where r: "kernel_permits env ''safe-mode-decision'' payload response" "\<not> needs_approval response"
    "safe_mode_next_action (PStr (verdict response)) \<in> {[], text_of (dget response ''next_action'')}"
    unfolding kernel_clears_def by blast
  have "truthy (dget response ''ok'')" "verdict response \<noteq> ''block''"
    using r(1) by (auto simp: kernel_permits_def)
  with r(2) obtain d where "run_runtime_kernel_enforced env ''safe-mode-decision'' payload False = Inr d"
    using enforce_Inr_iff [of env "''safe-mode-decision''" "normalize_kernel_decision env ''safe-mode-decision'' response" False]
    by (auto simp: run_runtime_kernel_enforced_def run_kernel_permits(2) [OF r(1)] normalized_fields verdict_normalized
        needs_approval_normalized)
  moreover from this have "d = normalize_kernel_decision env ''safe-mode-decision'' (normalize_kernel_decision env ''safe-mode-decision'' response)"
    unfolding run_runtime_kernel_enforced_def run_kernel_permits(2) [OF r(1)] by (rule enforce_Inr_value)
  ultimately show ?L
    using r(3) by (intro exI [of _ d]) (simp add: normalized_fields verdict_normalized)
qed

lemma enforced_not_block:
  "run_runtime_kernel_enforced env c payload False = Inr d \<Longrightarrow> dget d ''decision'' \<noteq> PStr ''block''"
  by (auto simp: run_runtime_kernel_enforced_def enforce_kernel_decision_def Let_def split: if_splits)

lemma verdict_disabled:
  "truthy (dget (capability_verdict env token tenant workspace machine chain) ''disabled'') \<longleftrightarrow>
     \<not> kernel_clears env (safe_mode_payload token tenant workspace machine chain)"
proof (cases "run_runtime_kernel_enforced env ''safe-mode-decision'' (safe_mode_payload token tenant workspace machine chain) False")
  case (Inl e)
  then show ?thesis
    unfolding enforced_clears [symmetric] by (simp add: capability_verdict_def Let_def)
next
  case (Inr d)
  then show ?thesis
    unfolding enforced_clears [symmetric] using enforced_not_block [OF Inr]
    by (auto simp: capability_verdict_def Let_def dget_Cons)
qed

text \<open>Which controls stop a capability, and which entries the chain then holds.\<close>

definition switch_on :: "(string \<times> kill_switch_state) list \<Rightarrow> string \<Rightarrow> bool" where
  "switch_on d key = (key \<noteq> [] \<and> (case map_of d key of None \<Rightarrow> False | Some st \<Rightarrow> ks_enabled st))"

definition mode_on :: "(string \<times> safe_mode_state) list \<Rightarrow> string \<Rightarrow> bool" where
  "mode_on d key = (key \<noteq> [] \<and> (case map_of d key of None \<Rightarrow> False | Some st \<Rightarrow> sm_enabled st))"

definition stopped_in_memory :: "string \<Rightarrow> string \<Rightarrow> string \<Rightarrow> string \<Rightarrow> safe_globals \<Rightarrow> bool" where
  "stopped_in_memory token tenant workspace machine g =
     (ks_enabled (global_kill_switch g) \<or> switch_on (tenant_kill_switches g) tenant \<or>
      switch_on (workspace_kill_switches g) workspace \<or> switch_on (machine_kill_switches g) machine \<or>
      switch_on (capability_kill_switches g) token \<or>
      (is_unsafe_capability token \<and>
        (sm_enabled (global_safe_mode g) \<or> mode_on (tenant_safe_mode g) tenant \<or>
         mode_on (workspace_safe_mode g) workspace \<or> mode_on (machine_safe_mode g) machine)))"

lemma kill_entry_lookup: "kill_entry scope extra (lookup_token d key) = [] \<longleftrightarrow> \<not> switch_on d key"
  by (simp add: kill_entry_def lookup_token_def switch_on_def split: option.split)

lemma kill_entry_map_of: "key \<noteq> [] \<Longrightarrow> kill_entry scope extra (map_of d key) = [] \<longleftrightarrow> \<not> switch_on d key"
  by (simp add: kill_entry_def switch_on_def split: option.split)

lemma kill_entry_Some: "kill_entry scope extra (Some st) = [] \<longleftrightarrow> \<not> ks_enabled st"
  by (simp add: kill_entry_def)

lemma safe_entry_lookup: "safe_entry scope extra (lookup_token d key) = [] \<longleftrightarrow> \<not> mode_on d key"
  by (simp add: safe_entry_def lookup_token_def mode_on_def split: option.split)

lemma safe_entry_Some: "safe_entry scope extra (Some st) = [] \<longleftrightarrow> \<not> sm_enabled st"
  by (simp add: safe_entry_def)

lemmas entry_empty = kill_entry_lookup kill_entry_map_of kill_entry_Some safe_entry_lookup safe_entry_Some

lemma capability_memory_chain_empty:
  "token \<noteq> [] \<Longrightarrow>
     capability_memory_chain token tenant workspace machine g = [] \<longleftrightarrow> \<not> stopped_in_memory token tenant workspace machine g"
  by (auto simp: capability_memory_chain_def stopped_in_memory_def Let_def entry_empty)

definition typed_chain :: "bool \<Rightarrow> pydict list \<Rightarrow> bool" where
  "typed_chain unsafe chain =
     list_all (\<lambda>e. dget e ''type'' = PStr ''kill_switch'' \<or> (unsafe \<and> dget e ''type'' = PStr ''safe_mode'')) chain"

lemma chain_entry_type [simp]: "dget (chain_entry kind scope r m x) ''type'' = PStr kind"
  by (simp add: chain_entry_def dget_Cons)

lemma typed_entries [simp]:
  "typed_chain u (kill_entry scope extra st)" "typed_chain True (safe_entry scope extra st')"
  "typed_chain u (map (row_entry ''kill_switch'' scope extra) rows)"
  "typed_chain True (map (row_entry ''safe_mode'' scope extra) rows)"
  by (auto simp: typed_chain_def kill_entry_def safe_entry_def row_entry_def list_all_iff split: option.splits)

lemma typed_append [simp]: "typed_chain u (a @ b) \<longleftrightarrow> typed_chain u a \<and> typed_chain u b" "typed_chain u []"
  by (simp_all add: typed_chain_def)

lemma typed_capability_memory_chain: "typed_chain (is_unsafe_capability token) (capability_memory_chain token tenant workspace machine g)"
  by (simp add: capability_memory_chain_def Let_def)

text \<open>The rows a capability check finds in the table.\<close>

definition safe_rows :: "(pydict \<Rightarrow> pyval) \<Rightarrow> read_io \<Rightarrow> string \<Rightarrow> string \<Rightarrow> string \<Rightarrow> control_world \<Rightarrow> pydict list \<times> control_world" where
  "safe_rows jsonb io token tenant workspace w =
     (if is_unsafe_capability token
      then load_matching_durable_controls jsonb io tenant workspace ''safe_mode'' ''workspace'' w else ([], w))"

definition kill_rows :: "(pydict \<Rightarrow> pyval) \<Rightarrow> read_io \<Rightarrow> string \<Rightarrow> string \<Rightarrow> control_world \<Rightarrow> pydict list \<times> control_world" where
  "kill_rows jsonb io tenant workspace w = load_matching_durable_controls jsonb io tenant workspace ''kill_switch'' ''workspace'' w"

lemma capability_chain_eq:
  "fst (capability_chain jsonb io1 io2 token tenant workspace machine w) =
     capability_memory_chain token tenant workspace machine (safe_memory w) @
     map (row_entry ''safe_mode'' ''workspace'' [(''workspace_id'', PStr workspace), (''capability_id'', PStr token)])
       (fst (safe_rows jsonb io1 token tenant workspace w)) @
     map (row_entry ''kill_switch'' ''workspace'' [(''workspace_id'', PStr workspace)])
       (fst (kill_rows jsonb io2 tenant workspace (snd (safe_rows jsonb io1 token tenant workspace w))))"
  by (simp add: capability_chain_def safe_rows_def kill_rows_def case_prod_beta Let_def)

lemma typed_capability_chain: "typed_chain (is_unsafe_capability token) (fst (capability_chain jsonb io1 io2 token tenant workspace machine w))"
  using typed_capability_memory_chain [of token tenant workspace machine "safe_memory w"]
  by (cases "is_unsafe_capability token") (simp_all add: capability_chain_eq safe_rows_def)

lemma capability_disabled_eq:
  "scope_token cap \<noteq> [] \<Longrightarrow>
   is_capability_disabled env jsonb io1 io2 cap tenant workspace machine w \<longleftrightarrow>
     (let chain = fst (capability_chain jsonb io1 io2 (scope_token cap) (scope_token tenant) (scope_token workspace) (scope_token machine) w)
      in chain \<noteq> [] \<and>
         \<not> kernel_clears env (safe_mode_payload (scope_token cap) (scope_token tenant) (scope_token workspace) (scope_token machine) chain))"
  by (simp add: is_capability_disabled_def resolve_capability_disable_state_def case_prod_beta Let_def verdict_disabled
      capability_clear_def dget_Cons)

lemma payload_fields:
  "dget (safe_mode_payload token tenant workspace machine chain) ''capability'' = PStr token"
  "dget (safe_mode_payload token tenant workspace machine chain) ''safe_mode_enabled'' =
     PBool (list_ex (\<lambda>e. dget e ''type'' = PStr ''safe_mode'') chain)"
  "dget (safe_mode_payload token tenant workspace machine chain) ''kill_switch_enabled'' =
     PBool (list_ex (\<lambda>e. dget e ''type'' = PStr ''kill_switch'') chain)"
  "dget (safe_mode_payload token tenant workspace machine chain) ''incident_mode'' = PNone"
  "dget (safe_mode_payload token tenant workspace machine chain) ''health_state'' = PNone"
  "dget (safe_mode_payload token tenant workspace machine chain) ''computer_profile'' = PNone"
  by (simp_all add: safe_mode_payload_def dget_Cons)

lemma safe_mode_response_decision [simp]: "dget (safe_mode_response v r x) ''decision'' = PStr v"
  by (simp add: safe_mode_response_def dget_Cons)

lemma rust_blocks:
  assumes typed: "typed_chain (is_unsafe_capability token) chain" and "chain \<noteq> []"
    and token: "scope_token token = token" "token \<noteq> []"
  shows "dget (safe_mode_decision_command (safe_mode_payload token tenant workspace machine chain)) ''decision'' = PStr ''block''"
proof (cases "list_ex (\<lambda>e. dget e ''type'' = PStr ''kill_switch'') chain")
  case True
  then show ?thesis
    by (simp add: safe_mode_decision_command_def Let_def safe_mode_boolish_def payload_fields)
next
  case False
  let ?p = "safe_mode_payload token tenant workspace machine chain"
  obtain e where "e \<in> set chain" using \<open>chain \<noteq> []\<close> by (cases chain) auto
  with typed False have u: "is_unsafe_capability token" and s: "list_ex (\<lambda>e. dget e ''type'' = PStr ''safe_mode'') chain"
    by (auto simp: typed_chain_def list_all_iff list_ex_iff)
  have trim: "rust_trim token = token" using rust_trim_token [of token] token by simp
  have norms: "rust_incident_mode ''active'' = ''active''" "token_norm ''healthy'' = ''healthy''" by code_simp+
  have x: "si_capability (safe_mode_input_of ?p) = Some token" "si_safe_mode (safe_mode_input_of ?p)"
    "si_incident (safe_mode_input_of ?p) = ''active''" "si_health (safe_mode_input_of ?p) = ''healthy''"
    using s norms token(2)
    by (simp_all add: safe_mode_input_of_def trim or_else_def safe_mode_boolish_def payload_fields string_field_def opt_string_def)
  have "rust_is_unsafe_capability token" using unsafe_in_both [OF u] token by simp
  with False x show ?thesis
    by (simp add: safe_mode_decision_command_def Let_def safe_mode_boolish_def payload_fields)
qed

lemma rust_never_clears:
  assumes "answers_safe_mode env payload" and "dget (safe_mode_decision_command payload) ''decision'' = PStr ''block''"
  shows "\<not> kernel_clears env payload"
proof
  assume "kernel_clears env payload"
  then obtain response where "kernel_permits env ''safe-mode-decision'' payload response"
    unfolding kernel_clears_def by blast
  moreover obtain out where "spawn env ''safe-mode-decision'' payload = Completed out 0"
    "json_loads env (strip out) = Some (PDict (safe_mode_decision_command payload))"
    using assms(1) unfolding answers_safe_mode_def by blast
  ultimately have "response = safe_mode_decision_command payload" "verdict response \<noteq> ''block''"
    by (auto simp: kernel_permits_def)
  moreover have "strip ''block'' = ''block''" by code_simp
  ultimately show False using verdict_idem [OF assms(2)] by simp
qed

section \<open>Properties of the capability check\<close>

text \<open>C10. For every behaviour of the kernel process, a capability that some control matches is reported disabled
  unless the kernel ran, answered with a permission that needs no approval, and named the next action
  that goes with its verdict: no failure of the kernel re-enables a stopped capability.\<close>

theorem capability_stop_fails_closed:
  assumes "scope_token cap \<noteq> []"
  shows "is_capability_disabled env jsonb io1 io2 cap tenant workspace machine w \<longleftrightarrow>
     (let chain = fst (capability_chain jsonb io1 io2 (scope_token cap) (scope_token tenant) (scope_token workspace) (scope_token machine) w)
      in chain \<noteq> [] \<and>
         \<not> kernel_clears env (safe_mode_payload (scope_token cap) (scope_token tenant) (scope_token workspace) (scope_token machine) chain))"
  by (rule capability_disabled_eq [OF assms])

text \<open>C9. With the Rust kernel in place the check is exact: a capability is disabled precisely when a kill switch of the
  platform, its tenant, workspace, machine or the capability itself is on, or the table has one for the
  workspace, or the capability is unsafe and one of the matching safe modes is on.\<close>

theorem capability_disabled_exactly:
  fixes cap tenant_id workspace_id machine_id :: string
  defines "token \<equiv> scope_token cap" and "tenant \<equiv> scope_token tenant_id" and "workspace \<equiv> scope_token workspace_id"
    and "machine \<equiv> scope_token machine_id"
  assumes "answers_safe_mode env (safe_mode_payload token tenant workspace machine
      (fst (capability_chain jsonb io1 io2 token tenant workspace machine w)))" and "token \<noteq> []"
  shows "is_capability_disabled env jsonb io1 io2 cap tenant_id workspace_id machine_id w \<longleftrightarrow>
     stopped_in_memory token tenant workspace machine (safe_memory w) \<or>
     fst (safe_rows jsonb io1 token tenant workspace w) \<noteq> [] \<or>
     fst (kill_rows jsonb io2 tenant workspace (snd (safe_rows jsonb io1 token tenant workspace w))) \<noteq> []"
proof -
  let ?chain = "fst (capability_chain jsonb io1 io2 token tenant workspace machine w)"
  have "?chain \<noteq> [] \<Longrightarrow> \<not> kernel_clears env (safe_mode_payload token tenant workspace machine ?chain)"
    using assms(5,6) by (intro rust_never_clears rust_blocks typed_capability_chain) (simp_all add: token_def)
  then have "is_capability_disabled env jsonb io1 io2 cap tenant_id workspace_id machine_id w \<longleftrightarrow> ?chain \<noteq> []"
    using assms(6) by (simp add: capability_disabled_eq token_def tenant_def workspace_def machine_def Let_def) blast
  also have "\<dots> \<longleftrightarrow> stopped_in_memory token tenant workspace machine (safe_memory w) \<or>
     fst (safe_rows jsonb io1 token tenant workspace w) \<noteq> [] \<or>
     fst (kill_rows jsonb io2 tenant workspace (snd (safe_rows jsonb io1 token tenant workspace w))) \<noteq> []"
    using assms(6) by (auto simp: capability_chain_eq capability_memory_chain_empty)
  finally show ?thesis .
qed

section \<open>Witnesses\<close>

definition safe_demo_kernel :: "pydict \<Rightarrow> kernel_env" where
  "safe_demo_kernel answer =
     \<lparr>has_binary = True, spawn = (\<lambda>_ _. Completed ''answer'' 0), json_loads = (\<lambda>_. Some (PDict answer)), digest16 = (\<lambda>_. ''0'')\<rparr>"

definition safe_no_kernel :: kernel_env where
  "safe_no_kernel = \<lparr>has_binary = False, spawn = (\<lambda>_ _. TimedOut), json_loads = (\<lambda>_. None), digest16 = (\<lambda>_. ''0'')\<rparr>"

definition safe_demo_world :: control_world where
  "safe_demo_world =
     \<lparr>safe_memory = fresh_globals\<lparr>workspace_safe_mode :=
        [(''w1'', \<lparr>sm_enabled = True, sm_reason = ''incident'', sm_blocked_capabilities = [], sm_metadata = []\<rparr>)]\<rparr>,
      durable_control_cache = [],
      control_plane = \<lparr>security_control_states = [], security_control_events = [], workspace_agent_installs = [''agent-x'']\<rparr>\<rparr>"

definition safe_demo_read :: read_io where
  "safe_demo_read = \<lparr>rd_now = 5, rd_link = Connected\<rparr>"

lemma demo_kernel_answers: "answers_safe_mode (safe_demo_kernel (safe_mode_decision_command p)) p"
proof -
  have "strip ''answer'' = ''answer''" by code_simp
  then show ?thesis by (simp add: answers_safe_mode_def safe_demo_kernel_def)
qed

lemma demo_token: "scope_token ''browser_automation.click'' = ''browser_automation.click''" "scope_token ''t1'' = ''t1''" "scope_token ''w1'' = ''w1''"
  by code_simp+

lemma demo_stopped: "stopped_in_memory ''browser_automation.click'' ''t1'' ''w1'' [] (safe_memory safe_demo_world)"
  by code_simp

theorem capability_disabled_exactly_witness:
  "\<exists>env. is_capability_disabled env PDict safe_demo_read safe_demo_read ''browser_automation.click'' ''t1'' ''w1'' [] safe_demo_world"
proof -
  let ?p = "safe_mode_payload ''browser_automation.click'' ''t1'' ''w1'' []
    (fst (capability_chain PDict safe_demo_read safe_demo_read ''browser_automation.click'' ''t1'' ''w1'' [] safe_demo_world))"
  show ?thesis
    using capability_disabled_exactly [of "safe_demo_kernel (safe_mode_decision_command ?p)" "''browser_automation.click''" "''t1''" "''w1''" "[]"
        PDict safe_demo_read safe_demo_read safe_demo_world] demo_kernel_answers [of ?p] demo_token demo_stopped
    by auto
qed

theorem capability_stop_fails_closed_witness:
  "is_capability_disabled safe_no_kernel PDict safe_demo_read safe_demo_read ''browser_automation.click'' ''t1'' ''w1'' [] safe_demo_world"
proof -
  have "\<not> kernel_clears safe_no_kernel p" for p
    by (simp add: kernel_clears_def kernel_permits_def safe_no_kernel_def)
  moreover have "capability_memory_chain ''browser_automation.click'' ''t1'' ''w1'' [] (safe_memory safe_demo_world) \<noteq> []"
    using demo_stopped by (simp add: capability_memory_chain_empty)
  ultimately show ?thesis
    using capability_stop_fails_closed [of "''browser_automation.click''" safe_no_kernel PDict safe_demo_read safe_demo_read "''t1''" "''w1''" "[]" safe_demo_world]
    by (simp add: demo_token capability_chain_eq Let_def)
qed

end
