(* ===== verification/Safe_Mode_Switches.thy ===== *)
theory Safe_Mode_Switches
  imports Safe_Mode_Capability
begin

text \<open>
  Kill switches of the safe-mode service: they take effect at once, survive a restart through the
  table when the answer says so, stay inside their workspace; safe modes never reach the table, and a
  switch on an agent with capital letters in its identifier is lost at a restart.
\<close>

section \<open>A kill switch takes effect\<close>

lemma switch_on_put: "key \<noteq> [] \<Longrightarrow> ks_enabled st \<Longrightarrow> switch_on (put_kill_switch key st d) key"
  by (simp add: switch_on_def put_kill_switch_def map_of_dset)

lemma invalidate_frame [simp]:
  "safe_memory (invalidate_durable_cache tenant workspace w) = safe_memory w"
  "control_plane (invalidate_durable_cache tenant workspace w) = control_plane w"
  by (simp_all add: invalidate_durable_cache_def Let_def)

lemma persist_memory [simp]: "safe_memory (snd (persist_security_control_state env io scope on reason md kind t w)) = safe_memory w"
  by (simp add: persist_security_control_state_def Let_def split: sum.split prod.split)

text \<open>The dictionaries change whatever the kernel and the database answer.\<close>

lemma set_kill_switch_memory:
  assumes "kill_switch_memory (sor (scope_token scope) ''global'') \<lparr>ks_enabled = on, ks_reason = reason, ks_metadata = md\<rparr>
      (target_tokens t) (safe_memory w) = Inr g"
  shows "safe_memory (snd (set_scoped_kill_switch env io scope on reason md t w)) = g"
proof -
  have "safe_memory w2 = safe_memory (w\<lparr>safe_memory := g\<rparr>)"
    if "persist_security_control_state env io (sor (scope_token scope) ''global'') on reason md ''kill_switch'' (target_tokens t)
          (w\<lparr>safe_memory := g\<rparr>) = (r, w2)" for r w2
    using that persist_memory by (metis snd_conv)
  then show ?thesis
    by (simp add: set_scoped_kill_switch_def Let_def assms split: sum.split prod.split)
qed

lemma load_memory [simp]: "safe_memory (snd (load_matching_durable_controls jsonb io tenant workspace kind scope w)) = safe_memory w"
  by (simp add: load_matching_durable_controls_def load_durable_workspace_controls_def Let_def case_prod_beta
      split: option.split sum.split)

text \<open>The question a caller asks about a scope.\<close>

definition kill_in_force :: "(pydict \<Rightarrow> pyval) \<Rightarrow> read_io \<Rightarrow> read_io \<Rightarrow> string \<Rightarrow> control_target \<Rightarrow> control_world \<Rightarrow> bool" where
  "kill_in_force jsonb io1 io2 scope t w =
     (if scope = ''agent''
      then is_active_state (resolve_agent_disable jsonb io1 io2 (ct_tenant_id t) (ct_workspace_id t) (ct_agent_install_id t) w)
      else if scope = ''channel''
      then is_active_state (resolve_channel_disable_state jsonb io1 io2 (ct_tenant_id t) (ct_workspace_id t) (ct_channel_key t) (ct_endpoint_key t) w)
      else if scope = ''connector''
      then is_active_state (resolve_connector_disable_state jsonb io1 io2 (ct_tenant_id t) (ct_workspace_id t) (ct_connector_id t) (ct_credential_id t) w)
      else truthy (dget (as_dict (dget (fst (resolve_machine_policy jsonb io1 io2 (ct_tenant_id t) (ct_workspace_id t) (ct_machine_id t)
                                              [ct_capability_id t] w)) ''kill_switch'')) ''active''))"

lemma summarize_active:
  "truthy (dget (summarize_policy chain) ''active'') \<longleftrightarrow> chain \<noteq> []"
  "truthy (dget (summarize_kill_chain chain) ''active'') \<longleftrightarrow> chain \<noteq> []"
  by (simp_all add: summarize_policy_def summarize_kill_chain_def dget_Cons)

lemma machine_kill_active:
  "truthy (dget (as_dict (dget (fst (resolve_machine_policy jsonb io1 io2 tenant workspace machine caps w)) ''kill_switch'')) ''active'') \<longleftrightarrow>
     machine_kill_chain (scope_token tenant) (scope_token workspace) (scope_token machine)
       (filter (\<lambda>c. c \<noteq> []) (map scope_token caps)) (safe_memory w) \<noteq> [] \<or>
     fst (kill_rows jsonb io2 (scope_token tenant) (scope_token workspace)
       (snd (load_matching_durable_controls jsonb io1 (scope_token tenant) (scope_token workspace) ''safe_mode'' ''workspace'' w))) \<noteq> []"
  by (simp add: resolve_machine_policy_def Let_def case_prod_beta dget_Cons summarize_active kill_rows_def)

lemma scope_token_strip [simp]: "scope_token (strip s) = scope_token s"
  by (simp add: scope_token_def)

lemma scope_token_empty: "scope_token s = [] \<longleftrightarrow> strip s = []"
  by (simp add: scope_token_def)

lemma key_tokens [simp]:
  "agent_key (scope_token a) b = agent_key a b" "agent_key a (scope_token b) = agent_key a b" "agent_key a (strip b) = agent_key a b"
  "channel_key (scope_token a) b c = channel_key a b c" "channel_key a (scope_token b) c = channel_key a b c"
  "channel_key a b (scope_token c) = channel_key a b c"
  "connector_key (scope_token a) b c = connector_key a b c" "connector_key a (scope_token b) c = connector_key a b c"
  "connector_key a b (strip c) = connector_key a b c"
  by (simp_all add: agent_key_def channel_key_def connector_key_def scoped_key_def)

lemma join_Nil: "join sep xs = [] \<Longrightarrow> list_all (\<lambda>x. x \<noteq> []) xs \<Longrightarrow> xs = []"
  by (induction sep xs rule: join.induct) auto

lemma scoped_key_Cons: "scope_token s \<noteq> [] \<Longrightarrow> scoped_key (s # ss) \<noteq> []"
  using join_Nil [of "''::''" "filter (\<lambda>t. t \<noteq> []) (map scope_token (s # ss))"]
  by (auto simp: scoped_key_def list_all_iff)

lemma keys_nonempty:
  "scope_token a \<noteq> [] \<Longrightarrow> agent_key a b \<noteq> []" "scope_token a \<noteq> [] \<Longrightarrow> channel_key a b c \<noteq> []"
  "scope_token a \<noteq> [] \<Longrightarrow> connector_key a b c \<noteq> []"
  by (simp_all add: agent_key_def channel_key_def connector_key_def scoped_key_Cons)

lemma machine_kill_chain_empty:
  assumes "[] \<notin> set caps"
  shows "machine_kill_chain tenant workspace machine caps g \<noteq> [] \<longleftrightarrow>
     ks_enabled (global_kill_switch g) \<or> switch_on (tenant_kill_switches g) tenant \<or> switch_on (workspace_kill_switches g) workspace \<or>
     switch_on (machine_kill_switches g) machine \<or> list_ex (switch_on (capability_kill_switches g)) caps"
  using assms by (auto simp: machine_kill_chain_def entry_empty list_ex_iff)
    (metis kill_entry_map_of)+

lemma memory_scopes:
  assumes "kill_switch_memory scope st t g = Inr g'" and "ks_enabled st"
  shows "scope = ''tenant'' \<Longrightarrow> switch_on (tenant_kill_switches g') (ct_tenant_id t)"
    and "scope = ''workspace'' \<Longrightarrow> switch_on (workspace_kill_switches g') (ct_workspace_id t)"
    and "scope = ''machine'' \<Longrightarrow> switch_on (machine_kill_switches g') (ct_machine_id t)"
    and "scope = ''capability'' \<Longrightarrow> switch_on (capability_kill_switches g') (ct_capability_id t)"
    and "scope = ''agent'' \<Longrightarrow> ct_workspace_id t \<noteq> [] \<and> ct_agent_install_id t \<noteq> [] \<and>
      agent_kill_switches g' = put_kill_switch (agent_key (ct_workspace_id t) (ct_agent_install_id t)) st (agent_kill_switches g)"
    and "scope = ''channel'' \<Longrightarrow> ct_workspace_id t \<noteq> [] \<and> ct_channel_key t \<noteq> [] \<and>
      channel_kill_switches g' = put_kill_switch (channel_key (ct_workspace_id t) (ct_channel_key t) (ct_endpoint_key t)) st (channel_kill_switches g)"
    and "scope = ''connector'' \<Longrightarrow> ct_workspace_id t \<noteq> [] \<and> ct_connector_id t \<noteq> [] \<and>
      connector_kill_switches g' = put_kill_switch (connector_key (ct_workspace_id t) (ct_connector_id t) (ct_credential_id t)) st (connector_kill_switches g)"
    and "scope \<notin> set (DURABLE_SCOPE_TYPES @ [''tenant'', ''machine'', ''capability'']) \<Longrightarrow> ks_enabled (global_kill_switch g')"
  using assms
  by (simp_all add: kill_switch_memory_def DURABLE_SCOPE_TYPES_def split: if_splits)
    (auto simp: switch_on_put)

lemma put_kill_entry: "key \<noteq> [] \<Longrightarrow> ks_enabled st \<Longrightarrow> kill_entry scope extra (map_of (put_kill_switch key st d) key) \<noteq> []"
  by (simp add: kill_entry_map_of switch_on_put)

text \<open>What the three resolvers look at.\<close>

definition stored_on :: "(string \<times> kill_switch_state) list \<Rightarrow> string \<Rightarrow> bool" where
  "stored_on d key = (case map_of d key of None \<Rightarrow> False | Some st \<Rightarrow> ks_enabled st)"

lemma kill_entry_stored: "kill_entry scope extra (map_of d key) = [] \<longleftrightarrow> \<not> stored_on d key"
  by (simp add: kill_entry_def stored_on_def split: option.split)

lemma stored_on_put: "ks_enabled st \<Longrightarrow> stored_on (put_kill_switch key st d) key"
  by (simp add: stored_on_def put_kill_switch_def map_of_dset)

definition scope_rows ::
    "(pydict \<Rightarrow> pyval) \<Rightarrow> read_io \<Rightarrow> read_io \<Rightarrow> string \<Rightarrow> string \<Rightarrow> string \<Rightarrow> control_world \<Rightarrow> pydict list" where
  "scope_rows jsonb io1 io2 tenant workspace scope w =
     fst (load_matching_durable_controls jsonb io2 tenant (scope_token workspace) ''kill_switch'' scope
       (snd (base_kill_chain jsonb io1 tenant workspace w)))"

lemma agent_kill_active:
  "is_active_state (resolve_agent_disable jsonb io1 io2 tenant workspace agent w) \<longleftrightarrow>
     fst (base_kill_chain jsonb io1 tenant workspace w) \<noteq> [] \<or>
     (scope_token workspace \<noteq> [] \<and> strip agent \<noteq> [] \<and>
       (stored_on (agent_kill_switches (safe_memory w)) (agent_key workspace agent) \<or>
        filter (\<lambda>row. text_of (dget row ''agent_install_id'') = strip agent)
          (scope_rows jsonb io1 io2 tenant workspace ''agent'' w) \<noteq> []))"
  by (simp add: is_active_state_def resolve_agent_disable_def Let_def case_prod_beta summarize_active kill_entry_stored scope_rows_def)

lemma channel_kill_active:
  "is_active_state (resolve_channel_disable_state jsonb io1 io2 tenant workspace channel endpoint w) \<longleftrightarrow>
     fst (base_kill_chain jsonb io1 tenant workspace w) \<noteq> [] \<or>
     (scope_token workspace \<noteq> [] \<and> scope_token channel \<noteq> [] \<and>
       (stored_on (channel_kill_switches (safe_memory w)) (channel_key workspace channel []) \<or>
        (scope_token endpoint \<noteq> [] \<and> stored_on (channel_kill_switches (safe_memory w)) (channel_key workspace channel endpoint)) \<or>
        filter (channel_row_applies (scope_token channel) (scope_token endpoint))
          (scope_rows jsonb io1 io2 tenant workspace ''channel'' w) \<noteq> []))"
  by (simp add: is_active_state_def resolve_channel_disable_state_def Let_def case_prod_beta summarize_active kill_entry_stored scope_rows_def) blast

lemma connector_kill_active:
  "is_active_state (resolve_connector_disable_state jsonb io1 io2 tenant workspace connector credential w) \<longleftrightarrow>
     fst (base_kill_chain jsonb io1 tenant workspace w) \<noteq> [] \<or>
     (scope_token workspace \<noteq> [] \<and> scope_token connector \<noteq> [] \<and>
       (stored_on (connector_kill_switches (safe_memory w)) (connector_key workspace connector []) \<or>
        (strip credential \<noteq> [] \<and> stored_on (connector_kill_switches (safe_memory w)) (connector_key workspace connector credential)) \<or>
        filter (connector_row_applies (scope_token connector) (strip credential))
          (scope_rows jsonb io1 io2 tenant workspace ''connector'' w) \<noteq> []))"
  by (simp add: is_active_state_def resolve_connector_disable_state_def Let_def case_prod_beta summarize_active kill_entry_stored scope_rows_def) blast

lemma key_no_part:
  "scope_token c = [] \<Longrightarrow> channel_key a b c = channel_key a b []" "strip c = [] \<Longrightarrow> connector_key a b c = connector_key a b []"
  by (simp_all add: channel_key_def connector_key_def scoped_key_def scope_token_def)

lemma target_fields [simp]:
  "ct_tenant_id (target_tokens t) = scope_token (ct_tenant_id t)" "ct_workspace_id (target_tokens t) = scope_token (ct_workspace_id t)"
  "ct_machine_id (target_tokens t) = scope_token (ct_machine_id t)" "ct_capability_id (target_tokens t) = scope_token (ct_capability_id t)"
  "ct_agent_install_id (target_tokens t) = scope_token (ct_agent_install_id t)"
  "ct_channel_key (target_tokens t) = scope_token (ct_channel_key t)" "ct_endpoint_key (target_tokens t) = scope_token (ct_endpoint_key t)"
  "ct_connector_id (target_tokens t) = scope_token (ct_connector_id t)" "ct_credential_id (target_tokens t) = strip (ct_credential_id t)"
  by (simp_all add: target_tokens_def)

text \<open>The switch is on in the dictionaries: the caller's question is answered yes.\<close>

lemma memory_in_force:
  assumes m: "kill_switch_memory scope st (target_tokens t) g = Inr (safe_memory w)" and on: "ks_enabled st"
  shows "kill_in_force jsonb io1 io2 scope t w"
proof -
  note s = memory_scopes [OF m on, simplified]
  consider "scope = ''agent''" | "scope = ''channel''" | "scope = ''connector''"
    | "scope \<notin> {''agent'', ''channel'', ''connector''}" by blast
  then show ?thesis
  proof cases
    case 1
    with s(5) on show ?thesis
      by (simp add: kill_in_force_def agent_kill_active scope_token_empty stored_on_put)
  next
    case 2
    have "stored_on (channel_kill_switches (safe_memory w)) (channel_key (ct_workspace_id t) (ct_channel_key t) (ct_endpoint_key t))"
      using s(6) 2 on by (simp add: stored_on_put)
    with s(6) 2 key_no_part(1) [of "ct_endpoint_key t"] show ?thesis
      by (cases "scope_token (ct_endpoint_key t) = []") (simp_all add: kill_in_force_def channel_kill_active)
  next
    case 3
    have "stored_on (connector_kill_switches (safe_memory w)) (connector_key (ct_workspace_id t) (ct_connector_id t) (ct_credential_id t))"
      using s(7) 3 on by (simp add: stored_on_put)
    with s(7) 3 key_no_part(2) [of "ct_credential_id t"] show ?thesis
      by (cases "strip (ct_credential_id t) = []") (simp_all add: kill_in_force_def connector_kill_active)
  next
    case 4
    have "machine_kill_chain (scope_token (ct_tenant_id t)) (scope_token (ct_workspace_id t)) (scope_token (ct_machine_id t))
        (filter (\<lambda>c. c \<noteq> []) (map scope_token [ct_capability_id t])) (safe_memory w) \<noteq> []"
      using 4 s(1-4,8) by (subst machine_kill_chain_empty) (auto simp: DURABLE_SCOPE_TYPES_def switch_on_def)
    with 4 show ?thesis by (simp add: kill_in_force_def machine_kill_active)
  qed
qed

lemma memory_error: "kill_switch_memory scope st t g = Inl e \<Longrightarrow> \<exists>m. e = ControlValueError m"
  by (auto simp: kill_switch_memory_def split: if_splits)

lemma set_accepted:
  assumes "\<And>m. fst (set_scoped_kill_switch env io scope on reason md t w) \<noteq> Inl (ControlValueError m)"
  shows "\<exists>g. kill_switch_memory (sor (scope_token scope) ''global'') \<lparr>ks_enabled = on, ks_reason = reason, ks_metadata = md\<rparr>
    (target_tokens t) (safe_memory w) = Inr g"
proof (cases "kill_switch_memory (sor (scope_token scope) ''global'') \<lparr>ks_enabled = on, ks_reason = reason, ks_metadata = md\<rparr>
    (target_tokens t) (safe_memory w)")
  case (Inl e)
  then have "fst (set_scoped_kill_switch env io scope on reason md t w) = Inl e"
    by (simp add: set_scoped_kill_switch_def Let_def)
  with assms memory_error [OF Inl] show ?thesis by metis
qed simp

text \<open>Switching a kill switch on stops its scope at once, whatever the kernel and the database do: unless the
  call is refused because an identifier is missing, the resolver for that scope reports it stopped
  afterwards, also when the call raised because the kernel denied the change.\<close>

lemma set_in_force:
  assumes "\<And>m. fst (set_scoped_kill_switch env io scope True reason md t w) \<noteq> Inl (ControlValueError m)"
  shows "kill_in_force jsonb io1 io2 (sor (scope_token scope) ''global'') t (snd (set_scoped_kill_switch env io scope True reason md t w))"
proof -
  let ?st = "\<lparr>ks_enabled = True, ks_reason = reason, ks_metadata = md\<rparr>"
  obtain g where g: "kill_switch_memory (sor (scope_token scope) ''global'') ?st (target_tokens t) (safe_memory w) = Inr g"
    using set_accepted [OF assms] by blast
  with set_kill_switch_memory [OF g] show ?thesis
    by (intro memory_in_force [where st = ?st and g = "safe_memory w"]) simp_all
qed

section \<open>Writing and listing rows\<close>

text \<open>The row in the table holds what an upsert sent.\<close>

definition carries :: "control_row \<Rightarrow> control_row \<Rightarrow> bool" where
  "carries new r =
     (same_control new r \<and> cr_agent_install_id r = cr_agent_install_id new \<and> cr_channel_key r = cr_channel_key new \<and>
      cr_endpoint_key r = cr_endpoint_key new \<and> cr_connector_id r = cr_connector_id new \<and>
      cr_credential_id r = cr_credential_id new \<and> cr_enabled r = cr_enabled new \<and> cr_updated_at r = cr_updated_at new)"

lemma carries_self: "carries new new"
  by (simp add: carries_def)

lemma carries_updated: "same_control new r \<Longrightarrow> carries new (updated_row new r)"
  unfolding carries_def by (simp add: updated_row_def same_control_def)

lemma write_row_member: "r \<in> set (write_row new rows) \<Longrightarrow> r \<in> set rows \<or> carries new r"
  by (auto simp: write_row_def carries_self carries_updated split: if_splits)

lemma write_row_has: "\<exists>r \<in> set (write_row new rows). carries new r"
proof (cases "list_ex (same_control new) rows")
  case True
  then obtain r where r: "r \<in> set rows" "same_control new r" by (auto simp: list_ex_iff)
  then have "updated_row new r \<in> set (write_row new rows)"
    using True by (auto simp: write_row_def intro!: image_eqI [where x = r])
  with carries_updated [OF r(2)] show ?thesis by blast
next
  case False
  then show ?thesis by (auto simp: write_row_def carries_self)
qed

lemma newer_trans_not: "\<not> newer s h \<Longrightarrow> newer t h \<Longrightarrow> newer t s"
  by (auto simp: newer_def)

lemma newest_first_head:
  "rows \<noteq> [] \<Longrightarrow> \<exists>h rest. newest_first rows = h # rest \<and> h \<in> set rows \<and> (\<forall>s \<in> set rows. \<not> newer s h)"
proof (induction rows)
  case Nil
  then show ?case by simp
next
  case (Cons r rows)
  have nf: "newest_first (r # rows) = insert_newest r (newest_first rows)" by (simp add: newest_first_def)
  show ?case
  proof (cases "rows = []")
    case True
    then show ?thesis by (simp add: newest_first_def newer_irrefl)
  next
    case False
    then obtain h rest where h: "newest_first rows = h # rest" "h \<in> set rows" "\<forall>s \<in> set rows. \<not> newer s h"
      using Cons.IH by blast
    show ?thesis
    proof (cases "newer h r")
      case True
      then have "newest_first (r # rows) = h # insert_newest r rest" using nf h(1) by simp
      moreover have "\<forall>s \<in> set (r # rows). \<not> newer s h" using h(3) newer_asym [OF True] by simp
      ultimately show ?thesis using h(2) by (intro exI conjI) simp_all
    next
      case False
      then have "newest_first (r # rows) = r # h # rest" using nf h(1) by simp
      moreover have "\<forall>s \<in> set (r # rows). \<not> newer s r"
        using h(3) False newer_trans_not newer_irrefl by (metis set_ConsD)
      ultimately show ?thesis by (intro exI conjI) simp_all
    qed
  qed
qed

text \<open>What the service reads.\<close>

abbreviation active_controls :: "string \<Rightarrow> string \<Rightarrow> control_db \<Rightarrow> string + control_row list" where
  "active_controls tenant workspace db \<equiv>
     list_security_control_states Connected tenant workspace DURABLE_SCOPE_TYPES [] True 500 db"

lemma durable_types:
  "filter (\<lambda>t. t \<noteq> []) (map (\<lambda>t. lower (strip t)) DURABLE_SCOPE_TYPES) = DURABLE_SCOPE_TYPES"
  by code_simp

lemma active_controls_eq:
  assumes "require_scope_token tenant ''tenant_id'' = Inr tenant" "require_scope_token workspace ''workspace_id'' = Inr workspace"
  shows "active_controls tenant workspace db =
    Inr (take 500 (newest_first (filter (\<lambda>r. cr_tenant_id r = tenant \<and> cr_workspace_id r = workspace \<and>
      cr_scope_type r \<in> set DURABLE_SCOPE_TYPES \<and> cr_enabled r) (security_control_states db))))"
  by (simp add: list_security_control_states_def assms Let_def durable_types DURABLE_SCOPE_TYPES_def [THEN arg_cong [of _ _ "\<lambda>x. x = []"]])

text \<open>A row written later than every other row heads the listing.\<close>

lemma written_row_listed:
  assumes "require_scope_token (cr_tenant_id new) ''tenant_id'' = Inr (cr_tenant_id new)"
    and "require_scope_token (cr_workspace_id new) ''workspace_id'' = Inr (cr_workspace_id new)"
    and "cr_scope_type new \<in> set DURABLE_SCOPE_TYPES" and "cr_enabled new"
    and "security_control_states db' = write_row new (security_control_states db)"
    and "\<And>r. r \<in> set (security_control_states db) \<Longrightarrow> cr_updated_at r < cr_updated_at new"
  shows "\<exists>h rest. active_controls (cr_tenant_id new) (cr_workspace_id new) db' = Inr (h # rest) \<and> carries new h"
proof -
  let ?keep = "\<lambda>r. cr_tenant_id r = cr_tenant_id new \<and> cr_workspace_id r = cr_workspace_id new \<and>
      cr_scope_type r \<in> set DURABLE_SCOPE_TYPES \<and> cr_enabled r"
  let ?rows = "filter ?keep (security_control_states db')"
  obtain r where r: "r \<in> set (security_control_states db')" "carries new r"
    using write_row_has [of new] assms(5) by metis
  then have "r \<in> set ?rows" using assms(3,4) by (auto simp: carries_def same_control_def)
  then obtain h rest where h: "newest_first ?rows = h # rest" "h \<in> set ?rows" "\<not> newer r h"
    using newest_first_head [of ?rows] by fastforce
  have "cr_updated_at new \<le> cr_updated_at h" using h(3) r(2) by (auto simp: newer_def carries_def)
  then have "h \<notin> set (security_control_states db)" using assms(6) by fastforce
  then have "carries new h" using h(2) assms(5) write_row_member by auto
  moreover have "take 500 (h # rest) = h # take 499 rest" by (simp add: take_Cons')
  ultimately show ?thesis using active_controls_eq [OF assms(1,2), of db'] h(1) by auto
qed

section \<open>Reading after a restart\<close>

abbreviation read_rows :: "(pydict \<Rightarrow> pyval) \<Rightarrow> control_row list \<Rightarrow> pydict list" where
  "read_rows jsonb rows \<equiv> map (\<lambda>r. normalize_control_row (row_dict jsonb r)) rows"

lemma cache_key_tokens [simp]: "workspace_cache_key (scope_token a) (scope_token b) = workspace_cache_key a b"
  by (simp add: workspace_cache_key_def scoped_key_def)

text \<open>A state in which the cache holds nothing or just what the table holds.\<close>

definition cache_current :: "(pydict \<Rightarrow> pyval) \<Rightarrow> string \<Rightarrow> string \<Rightarrow> control_row list \<Rightarrow> control_world \<Rightarrow> bool" where
  "cache_current jsonb tenant workspace rows w =
     (active_controls (scope_token tenant) (scope_token workspace) (control_plane w) = Inr rows \<and>
      (case map_of (durable_control_cache w) (workspace_cache_key tenant workspace) of
         None \<Rightarrow> True | Some entry \<Rightarrow> cached_items entry = read_rows jsonb rows))"

lemma load_current:
  assumes "cache_current jsonb tenant workspace rows w" and "rd_link io = Connected"
    and "scope_token tenant \<noteq> []" "scope_token workspace \<noteq> []"
  shows "fst (load_durable_workspace_controls jsonb io tenant workspace w) = read_rows jsonb rows \<and>
    cache_current jsonb tenant workspace rows (snd (load_durable_workspace_controls jsonb io tenant workspace w))"
  using assms
  by (auto simp: load_durable_workspace_controls_def cache_current_def Let_def map_of_dset split: option.split)

lemma load_matching_current:
  assumes "cache_current jsonb tenant workspace rows w" and "rd_link io = Connected"
    and "scope_token tenant \<noteq> []" "scope_token workspace \<noteq> []"
  shows "fst (load_matching_durable_controls jsonb io tenant workspace kind scope w) =
      filter (\<lambda>row. token_of (dget row ''control_kind'') = scope_token kind \<and>
                     token_of (dget row ''scope_type'') = scope_token scope \<and> truthy (dget row ''enabled'')) (read_rows jsonb rows)"
    and "cache_current jsonb tenant workspace rows (snd (load_matching_durable_controls jsonb io tenant workspace kind scope w))"
  using load_current [OF assms] by (simp_all add: load_matching_durable_controls_def case_prod_beta)

lemma current_tokens: "cache_current jsonb (scope_token a) (scope_token b) rows w \<longleftrightarrow> cache_current jsonb a b rows w"
  "cache_current jsonb a (scope_token b) rows w \<longleftrightarrow> cache_current jsonb a b rows w"
  by (simp_all add: cache_current_def workspace_cache_key_def scoped_key_def)

lemma load_tokens:
  "load_matching_durable_controls jsonb io a (scope_token b) kind scope w = load_matching_durable_controls jsonb io a b kind scope w"
  "load_matching_durable_controls jsonb io (scope_token a) b kind scope w = load_matching_durable_controls jsonb io a b kind scope w"
  by (simp_all add: load_matching_durable_controls_def load_durable_workspace_controls_def)

lemma base_chain_current:
  assumes "cache_current jsonb tenant workspace rows w" and "rd_link io = Connected"
    and "scope_token tenant \<noteq> []" "scope_token workspace \<noteq> []"
  shows "cache_current jsonb tenant workspace rows (snd (base_kill_chain jsonb io tenant workspace w))"
  using load_matching_current(2) [OF assms] by (simp add: base_kill_chain_def Let_def case_prod_beta load_tokens)

lemma row_fields:
  "dget (normalize_control_row (row_dict jsonb r)) ''control_kind'' = PStr (scope_token (cr_control_kind r))"
  "dget (normalize_control_row (row_dict jsonb r)) ''scope_type'' = PStr (scope_token (cr_scope_type r))"
  "dget (normalize_control_row (row_dict jsonb r)) ''enabled'' = PBool (cr_enabled r)"
  "dget (normalize_control_row (row_dict jsonb r)) ''agent_install_id'' = PStr (text_of (opt_str (cr_agent_install_id r)))"
  "dget (normalize_control_row (row_dict jsonb r)) ''channel_key'' = PStr (token_of (opt_str (cr_channel_key r)))"
  "dget (normalize_control_row (row_dict jsonb r)) ''endpoint_key'' = PStr (token_of (opt_str (cr_endpoint_key r)))"
  "dget (normalize_control_row (row_dict jsonb r)) ''connector_id'' = PStr (token_of (opt_str (cr_connector_id r)))"
  "dget (normalize_control_row (row_dict jsonb r)) ''credential_id'' = PStr (text_of (opt_str (cr_credential_id r)))"
  by (simp_all add: normalize_control_row_def dget_dmerge row_dict_def dget_Cons scope_token_def token_of_PStr del: dmerge_Cons)

lemma opt_str_text: "text_of (opt_str (snone s)) = strip s" "token_of (opt_str (snone s)) = scope_token s"
  by (simp_all add: snone_def opt_str_def str_simps scope_token_def lower_def)

section \<open>Persisting a switch\<close>

lemma strip_scope_token [simp]: "strip (scope_token s) = scope_token s" "lower (scope_token s) = scope_token s"
  by (simp_all add: scope_token_def strip_lower)

lemma require_token: "require_scope_token (scope_token s) l = Inr x \<Longrightarrow> x = scope_token s"
  by (simp add: require_scope_token_def Let_def split: if_splits)

lemma upsert_Some:
  assumes "upsert_security_control_state env link now sid eid a db = (Inr (Some row), db')"
  shows "\<exists>tenant workspace. require_scope_token (up_tenant_id a) ''tenant_id'' = Inr tenant \<and>
     require_scope_token (up_workspace_id a) ''workspace_id'' = Inr workspace \<and>
     security_control_states db' = write_row (upsert_row now sid tenant workspace a) (security_control_states db)"
  using assms by (auto simp: upsert_security_control_state_def Let_def split: sum.splits db_link.splits if_splits option.splits)

definition persisted_row :: "control_write_io \<Rightarrow> string \<Rightarrow> bool \<Rightarrow> string \<Rightarrow> pydict \<Rightarrow> string \<Rightarrow> control_target \<Rightarrow> control_row" where
  "persisted_row io scope on reason md kind t =
     upsert_row (wr_now io) (wr_state_id io) (scope_token (ct_tenant_id t)) (scope_token (ct_workspace_id t))
       (persist_args (scope_token scope) on reason md kind t)"

lemma persist_Some:
  assumes "persist_security_control_state env io scope on reason md kind t w = (Inr (Some row), w')"
  shows "scope_token scope \<in> set DURABLE_SCOPE_TYPES" "scope_token (ct_tenant_id t) \<noteq> []" "scope_token (ct_workspace_id t) \<noteq> []"
    and "require_scope_token (scope_token (ct_tenant_id t)) ''tenant_id'' = Inr (scope_token (ct_tenant_id t))"
    and "require_scope_token (scope_token (ct_workspace_id t)) ''workspace_id'' = Inr (scope_token (ct_workspace_id t))"
    and "security_control_states (control_plane w') =
      write_row (persisted_row io scope on reason md kind t) (security_control_states (control_plane w))"
proof -
  show "scope_token scope \<in> set DURABLE_SCOPE_TYPES" "scope_token (ct_tenant_id t) \<noteq> []" "scope_token (ct_workspace_id t) \<noteq> []"
    using assms by (auto simp: persist_security_control_state_def Let_def split: if_splits)
  obtain db where u: "upsert_security_control_state env (wr_link io) (wr_now io) (wr_state_id io) (wr_event_id io)
      (persist_args (scope_token scope) on reason md kind t) (control_plane w) = (Inr (Some row), db)" "control_plane w' = db"
    using assms by (auto simp: persist_security_control_state_def Let_def split: if_splits sum.splits prod.splits)
  obtain tenant workspace where r: "require_scope_token (scope_token (ct_tenant_id t)) ''tenant_id'' = Inr tenant"
    "require_scope_token (scope_token (ct_workspace_id t)) ''workspace_id'' = Inr workspace"
    "security_control_states db = write_row (upsert_row (wr_now io) (wr_state_id io) tenant workspace
       (persist_args (scope_token scope) on reason md kind t)) (security_control_states (control_plane w))"
    using upsert_Some [OF u(1)] by (auto simp: persist_args_def)
  show "require_scope_token (scope_token (ct_tenant_id t)) ''tenant_id'' = Inr (scope_token (ct_tenant_id t))"
    and "require_scope_token (scope_token (ct_workspace_id t)) ''workspace_id'' = Inr (scope_token (ct_workspace_id t))"
    and "security_control_states (control_plane w') =
      write_row (persisted_row io scope on reason md kind t) (security_control_states (control_plane w))"
    using r u(2) require_token [OF r(1)] require_token [OF r(2)] by (simp_all add: persisted_row_def)
qed

lemma kinds: "sor (lower (strip (sor ''kill_switch'' ''kill_switch''))) ''kill_switch'' = ''kill_switch''"
  "scope_token ''kill_switch'' = ''kill_switch''" "scope_token ''workspace'' = ''workspace''" "scope_token ''agent'' = ''agent''"
  "scope_token ''channel'' = ''channel''" "scope_token ''connector'' = ''connector''" "scope_token ''safe_mode'' = ''safe_mode''"
  by code_simp+

lemma persisted_fields:
  "cr_tenant_id (persisted_row io scope on reason md kind t) = scope_token (ct_tenant_id t)"
  "cr_workspace_id (persisted_row io scope on reason md kind t) = scope_token (ct_workspace_id t)"
  "cr_scope_type (persisted_row io scope on reason md kind t) = scope_token scope"
  "cr_control_kind (persisted_row io scope on reason md ''kill_switch'' t) = ''kill_switch''"
  "cr_agent_install_id (persisted_row io scope on reason md kind t) = snone (strip (ct_agent_install_id t))"
  "cr_channel_key (persisted_row io scope on reason md kind t) = snone (scope_token (ct_channel_key t))"
  "cr_endpoint_key (persisted_row io scope on reason md kind t) = snone (scope_token (ct_endpoint_key t))"
  "cr_connector_id (persisted_row io scope on reason md kind t) = snone (scope_token (ct_connector_id t))"
  "cr_credential_id (persisted_row io scope on reason md kind t) = snone (strip (ct_credential_id t))"
  "cr_enabled (persisted_row io scope on reason md kind t) = on"
  "cr_updated_at (persisted_row io scope on reason md kind t) = wr_now io"
  by (simp_all add: persisted_row_def upsert_row_def persist_args_def kinds)

text \<open>What a durable answer says about the call.\<close>

lemma durable_answered:
  assumes "set_scoped_kill_switch env io scope on reason md t w = (Inr answer, w')" and "dget answer ''durable'' = PBool True"
  shows "\<exists>g row. kill_switch_memory (scope_token scope) \<lparr>ks_enabled = on, ks_reason = reason, ks_metadata = md\<rparr>
      (target_tokens t) (safe_memory w) = Inr g \<and>
    persist_security_control_state env io (scope_token scope) on reason md ''kill_switch'' (target_tokens t)
      (w\<lparr>safe_memory := g\<rparr>) = (Inr (Some row), w')"
proof -
  have no: "dget (target_answer s t' @ x) ''durable'' = dget x ''durable''" "dget (target_answer s t') ''durable'' = PNone" for s t' x
    by (simp_all add: target_answer_def dget_Cons)
  have "sor (scope_token scope) ''global'' = scope_token scope" if "sor (scope_token scope) ''global'' \<in> set DURABLE_SCOPE_TYPES"
    using that by (auto simp: sor_def DURABLE_SCOPE_TYPES_def)
  with assms show ?thesis
    by (auto simp: set_scoped_kill_switch_def Let_def dget_Cons no durable_answer_def split: sum.splits prod.splits if_splits option.splits)
qed

lemma token_PStr: "token_of (PStr s) = scope_token s"
  by (simp add: token_of_PStr scope_token_def)

text \<open>The first row read answers the question about its scope.\<close>

lemma row_in_force:
  assumes cur: "cache_current jsonb (ct_tenant_id t) (ct_workspace_id t) (h # rest) w"
    and h: "carries (persisted_row io (scope_token scope) True reason md ''kill_switch'' (target_tokens t)) h"
    and scope: "scope_token scope \<in> set DURABLE_SCOPE_TYPES"
    and ids: "scope_token (ct_tenant_id t) \<noteq> []" "scope_token (ct_workspace_id t) \<noteq> []"
      "kill_switch_memory (scope_token scope) st (target_tokens t) g = Inr g'"
    and links: "rd_link io1 = Connected" "rd_link io2 = Connected"
    and agent: "scope_token scope = ''agent'' \<Longrightarrow> strip (ct_agent_install_id t) = scope_token (ct_agent_install_id t)"
  shows "kill_in_force jsonb io1 io2 (scope_token scope) t w"
proof -
  let ?D = "normalize_control_row (row_dict jsonb h)" and ?s = "scope_token scope"
  let ?ok = "\<lambda>row. token_of (dget row ''control_kind'') = scope_token ''kill_switch'' \<and>
                     token_of (dget row ''scope_type'') = scope_token ?s \<and> truthy (dget row ''enabled'')"
  have f: "cr_control_kind h = ''kill_switch''" "cr_scope_type h = ?s" "cr_enabled h"
    "cr_agent_install_id h = snone (scope_token (ct_agent_install_id t))" "cr_channel_key h = snone (scope_token (ct_channel_key t))"
    "cr_endpoint_key h = snone (scope_token (ct_endpoint_key t))" "cr_connector_id h = snone (scope_token (ct_connector_id t))"
    "cr_credential_id h = snone (strip (ct_credential_id t))"
    using h by (simp_all add: carries_def same_control_def persisted_fields)
  have ok: "?ok ?D" by (simp add: row_fields f token_PStr kinds)
  have second: "?D \<in> set (scope_rows jsonb io1 io2 (ct_tenant_id t) (ct_workspace_id t) ?s w)"
    using ok load_matching_current(1) [OF base_chain_current [OF cur links(1) ids(1,2)] links(2) ids(1,2), of "''kill_switch''" ?s]
    by (simp add: scope_rows_def load_tokens)
  from scope consider "?s = ''workspace''" | "?s = ''agent''" | "?s = ''channel''" | "?s = ''connector''"
    by (auto simp: DURABLE_SCOPE_TYPES_def)
  then show ?thesis
  proof cases
    case 1
    have "?D \<in> set (fst (kill_rows jsonb io2 (ct_tenant_id t) (ct_workspace_id t)
        (snd (load_matching_durable_controls jsonb io1 (ct_tenant_id t) (ct_workspace_id t) ''safe_mode'' ''workspace'' w))))"
      using ok 1 load_matching_current(1) [OF load_matching_current(2) [OF cur links(1) ids(1,2)] links(2) ids(1,2), of "''kill_switch''" ?s]
      by (simp add: kill_rows_def)
    then show ?thesis
      using 1 by (auto simp: kill_in_force_def machine_kill_active load_tokens kill_rows_def)
  next
    case 2
    have "strip (ct_agent_install_id t) \<noteq> []"
      using memory_scopes(5) [OF ids(3)] ids(3) 2 by (auto simp: kill_switch_memory_def scope_token_empty split: if_splits)
    moreover have "text_of (dget ?D ''agent_install_id'') = strip (ct_agent_install_id t)"
      using agent 2 by (simp add: row_fields f opt_str_text str_simps)
    ultimately show ?thesis
      using second 2 ids(2) by (auto simp: kill_in_force_def agent_kill_active filter_empty_conv)
  next
    case 3
    have "scope_token (ct_channel_key t) \<noteq> []"
      using ids(3) 3 by (auto simp: kill_switch_memory_def split: if_splits)
    moreover have "channel_row_applies (scope_token (ct_channel_key t)) (scope_token (ct_endpoint_key t)) ?D"
      by (simp add: channel_row_applies_def row_fields f opt_str_text str_simps)
    ultimately show ?thesis
      using second 3 ids(2) by (auto simp: kill_in_force_def channel_kill_active filter_empty_conv)
  next
    case 4
    have "scope_token (ct_connector_id t) \<noteq> []"
      using ids(3) 4 by (auto simp: kill_switch_memory_def split: if_splits)
    moreover have "connector_row_applies (scope_token (ct_connector_id t)) (strip (ct_credential_id t)) ?D"
      by (simp add: connector_row_applies_def row_fields f opt_str_text str_simps)
    ultimately show ?thesis
      using second 4 ids(2) by (auto simp: kill_in_force_def connector_kill_active filter_empty_conv)
  qed
qed


lemma persist_no_tenant: "scope_token (ct_tenant_id t) = [] \<Longrightarrow> persist_security_control_state env io scope on reason md kind t w = (Inr None, w)"
  by (simp add: persist_security_control_state_def Let_def)

lemma restart_controls_cong: "control_plane w = control_plane w' \<Longrightarrow> restart_controls w = restart_controls w'"
  by (cases w; cases w') (simp add: restart_controls_def)

lemma safe_mode_scopes:
  obtains "fst (safe_mode_scope t) = ''tenant''" | "fst (safe_mode_scope t) = ''machine''" | "fst (safe_mode_scope t) = ''global''"
  | "fst (safe_mode_scope t) = ''workspace''" "scope_token (ct_tenant_id t) = []"
  by (cases "scope_token (ct_tenant_id t) = []"; cases "scope_token (ct_workspace_id t) = []"; cases "scope_token (ct_machine_id t) = []")
    (simp_all add: safe_mode_scope_def)

lemma set_safe_mode_plane: "control_plane (snd (set_safe_mode env io on reason md t w)) = control_plane w"
proof (cases t rule: safe_mode_scopes)
  case 4
  then show ?thesis
    unfolding set_safe_mode_def Let_def case_prod_beta by (simp add: persist_no_tenant split: sum.split)
qed (unfold set_safe_mode_def Let_def case_prod_beta, simp_all split: sum.split)

text \<open>C26. A safe mode never reaches the table: whatever its scope, setting it leaves the database as it was, and a restart
  forgets it. The branch of the code that persists a workspace's safe mode is only reached without a
  tenant, and without a tenant nothing is persisted.\<close>

theorem safe_mode_never_persisted:
  "control_plane (snd (set_safe_mode env io on reason md t w)) = control_plane w \<and>
   restart_controls (snd (set_safe_mode env io on reason md t w)) = restart_controls w"
  using set_safe_mode_plane restart_controls_cong by blast

section \<open>A switch on an agent with capital letters\<close>

text \<open>A property of every row in the table and of every row in the cache.\<close>

definition rows_all :: "(pydict \<Rightarrow> bool) \<Rightarrow> (pydict \<Rightarrow> pyval) \<Rightarrow> control_world \<Rightarrow> bool" where
  "rows_all P jsonb w =
     (list_all P (read_rows jsonb (security_control_states (control_plane w))) \<and>
      list_all (\<lambda>(key, entry). list_all P (cached_items entry)) (durable_control_cache w))"

lemma list_all_dset: "list_all P d \<Longrightarrow> P (k, v) \<Longrightarrow> list_all P (dset k v d)"
  by (induction d) auto

lemma listed_rows: "list_security_control_states link tenant workspace types kind act n db = Inr rows \<Longrightarrow> set rows \<subseteq> set (security_control_states db)"
  by (auto simp: list_security_control_states_def Let_def set_newest_first dest: in_set_takeD split: sum.splits db_link.splits)

lemma load_all:
  assumes "rows_all P jsonb w"
  shows "list_all P (fst (load_durable_workspace_controls jsonb io tenant workspace w)) \<and>
    rows_all P jsonb (snd (load_durable_workspace_controls jsonb io tenant workspace w))"
proof -
  have listed: "list_all P (read_rows jsonb rows)"
    if "list_security_control_states link a b types kind act n (control_plane w) = Inr rows" for link a b types kind act n rows
    using assms listed_rows [OF that] by (auto simp: rows_all_def list_all_iff)
  have cached: "list_all P (cached_items entry)" if "map_of (durable_control_cache w) key = Some entry" for key entry
    using assms map_of_SomeD [OF that] by (auto simp: rows_all_def list_all_iff)
  show ?thesis
    using assms listed cached
    by (auto simp: load_durable_workspace_controls_def Let_def rows_all_def intro!: list_all_dset split: option.splits sum.splits)
qed

lemma load_matching_all:
  assumes "rows_all P jsonb w"
  shows "list_all P (fst (load_matching_durable_controls jsonb io tenant workspace kind scope w)) \<and>
    rows_all P jsonb (snd (load_matching_durable_controls jsonb io tenant workspace kind scope w))"
  using load_all [OF assms, of io tenant workspace]
  by (simp add: load_matching_durable_controls_def case_prod_beta list_all_iff)

lemma load_matching_scope:
  "row \<in> set (fst (load_matching_durable_controls jsonb io tenant workspace kind scope w)) \<Longrightarrow>
     token_of (dget row ''scope_type'') = scope_token scope"
  by (auto simp: load_matching_durable_controls_def case_prod_beta)

lemma upsert_rows:
  "\<exists>tenant workspace. security_control_states (snd (upsert_security_control_state env link now sid eid a db)) \<in>
     {security_control_states db, write_row (upsert_row now sid tenant workspace a) (security_control_states db)}"
  by (auto simp: upsert_security_control_state_def Let_def split: sum.splits db_link.splits option.splits)

lemma persist_rows:
  "\<exists>tenant workspace. security_control_states (control_plane (snd (persist_security_control_state env io scope on reason md kind t w))) \<in>
     {security_control_states (control_plane w),
      write_row (upsert_row (wr_now io) (wr_state_id io) tenant workspace (persist_args (scope_token scope) on reason md kind t))
        (security_control_states (control_plane w))}"
proof -
  obtain r db where u: "upsert_security_control_state env (wr_link io) (wr_now io) (wr_state_id io) (wr_event_id io)
      (persist_args (scope_token scope) on reason md kind t) (control_plane w) = (r, db)" by fastforce
  from upsert_rows [of env "wr_link io" "wr_now io" "wr_state_id io" "wr_event_id io"
      "persist_args (scope_token scope) on reason md kind t" "control_plane w"] show ?thesis
    unfolding persist_security_control_state_def Let_def u by (auto split: sum.splits)
qed

lemma set_kill_switch_rows:
  "\<exists>tenant workspace. security_control_states (control_plane (snd (set_scoped_kill_switch env io scope on reason md t w))) \<in>
     {security_control_states (control_plane w),
      write_row (upsert_row (wr_now io) (wr_state_id io) tenant workspace
        (persist_args (scope_token (sor (scope_token scope) ''global'')) on reason md ''kill_switch'' (target_tokens t)))
        (security_control_states (control_plane w))}"
proof (cases "kill_switch_memory (sor (scope_token scope) ''global'') \<lparr>ks_enabled = on, ks_reason = reason, ks_metadata = md\<rparr>
    (target_tokens t) (safe_memory w)")
  case (Inl e)
  then show ?thesis by (simp add: set_scoped_kill_switch_def Let_def)
next
  case (Inr g)
  have "control_plane (w\<lparr>safe_memory := g\<rparr>) = control_plane w" by simp
  with Inr persist_rows [of env io "sor (scope_token scope) ''global''" on reason md "''kill_switch''" "target_tokens t" "w\<lparr>safe_memory := g\<rparr>"]
  show ?thesis
    by (simp add: set_scoped_kill_switch_def Let_def case_prod_beta split: sum.split)
qed

lemma fresh_base_chain:
  assumes "rows_all (\<lambda>row. token_of (dget row ''scope_type'') = ''agent'') jsonb w" and "safe_memory w = fresh_globals"
  shows "fst (base_kill_chain jsonb io tenant workspace w) = []"
proof -
  have "fst (load_matching_durable_controls jsonb io tenant workspace ''kill_switch'' ''workspace'' w) = []"
    using load_matching_all [OF assms(1), of io tenant workspace "''kill_switch''" "''workspace''"]
      load_matching_scope [of _ jsonb io tenant workspace "''kill_switch''" "''workspace''" w]
    by (auto simp: kinds list_all_iff intro: ccontr)
  then show ?thesis
    by (simp add: base_kill_chain_def Let_def case_prod_beta assms(2) fresh_globals_def kill_entry_def lookup_token_def load_tokens)
qed

text \<open>An agent whose identifier has a capital letter is not protected across a restart: its kill switch is stored under
  the lower-case identifier and looked up under the original one.\<close>

theorem mixed_case_agent_switch_lost:
  assumes scope: "scope_token scope = ''agent''" and mixed: "strip (ct_agent_install_id t) \<noteq> scope_token (ct_agent_install_id t)"
    and empty: "security_control_states (control_plane w) = []"
  shows "\<not> kill_in_force jsonb io1 io2 ''agent'' t (restart_controls (snd (set_scoped_kill_switch env io scope True reason md t w)))"
proof -
  let ?w = "restart_controls (snd (set_scoped_kill_switch env io scope True reason md t w))" and ?id = "strip (ct_agent_install_id t)"
  let ?P = "\<lambda>row. token_of (dget row ''scope_type'') = ''agent'' \<and> text_of (dget row ''agent_install_id'') \<noteq> ?id"
  have all: "rows_all ?P jsonb ?w"
    using set_kill_switch_rows [of env io scope True reason md t w] scope mixed
    by (auto simp: rows_all_def restart_controls_def empty write_row_def sor_def row_fields upsert_row_def persist_args_def
        token_PStr opt_str_text kinds kinds(4) [unfolded scope_token_def] text_of_PStr)
  then have "rows_all (\<lambda>row. token_of (dget row ''scope_type'') = ''agent'') jsonb ?w"
    by (auto simp: rows_all_def list_all_iff)
  then have base: "fst (base_kill_chain jsonb io1 (ct_tenant_id t) (ct_workspace_id t) ?w) = []"
    by (rule fresh_base_chain) (simp add: restart_controls_def)
  have "rows_all ?P jsonb (snd (base_kill_chain jsonb io1 (ct_tenant_id t) (ct_workspace_id t) ?w))"
    using load_matching_all [OF all] by (simp add: base_kill_chain_def Let_def case_prod_beta)
  from load_matching_all [OF this] have "list_all ?P (scope_rows jsonb io1 io2 (ct_tenant_id t) (ct_workspace_id t) ''agent'' ?w)"
    by (simp add: scope_rows_def)
  then show ?thesis
    using base by (simp add: kill_in_force_def agent_kill_active stored_on_def restart_controls_def fresh_globals_def list_all_iff)
qed

section \<open>Workspaces do not see each other's switches\<close>

definition no_colon :: "string \<Rightarrow> bool" where
  "no_colon s = (CHR '':'' \<notin> set s)"

text \<open>Up to the first colon a key is its first part.\<close>

lemma takeWhile_colon: "no_colon a \<Longrightarrow> takeWhile (\<lambda>c. c \<noteq> CHR '':'') (a @ x) = a @ takeWhile (\<lambda>c. c \<noteq> CHR '':'') x"
  by (auto simp: no_colon_def takeWhile_append)

lemma key_head:
  assumes "scope_token a \<noteq> []" and "no_colon (scope_token a)"
  shows "takeWhile (\<lambda>c. c \<noteq> CHR '':'') (scoped_key (a # parts)) = scope_token a"
proof (cases "filter (\<lambda>t. t \<noteq> []) (map scope_token parts)")
  case Nil
  with assms show ?thesis using takeWhile_colon [of "scope_token a" "[]"] by (simp add: scoped_key_def)
next
  case (Cons p ps)
  with assms show ?thesis by (simp add: scoped_key_def takeWhile_colon)
qed

lemma keys_differ:
  assumes "scope_token a \<noteq> scope_token b" "scope_token a \<noteq> []" "scope_token b \<noteq> []" "no_colon (scope_token a)" "no_colon (scope_token b)"
  shows "scoped_key (a # ps) \<noteq> scoped_key (b # qs)"
  using assms key_head by metis

lemma cache_keys_differ:
  assumes "scope_token u \<noteq> scope_token v" "scope_token t \<noteq> []" "scope_token t' \<noteq> []" "no_colon (scope_token t)" "no_colon (scope_token t')"
    and "scope_token u \<noteq> []" "scope_token v \<noteq> []"
  shows "workspace_cache_key t u \<noteq> workspace_cache_key t' v"
proof
  assume eq: "workspace_cache_key t u = workspace_cache_key t' v"
  then have "scope_token t = scope_token t'"
    using key_head [of t "[u]"] key_head [of t' "[v]"] assms by (simp add: workspace_cache_key_def)
  with eq assms show False by (simp add: workspace_cache_key_def scoped_key_def)
qed

subsection \<open>What a workspace sees of the table\<close>

definition same_table :: "string \<Rightarrow> string \<Rightarrow> control_world \<Rightarrow> control_world \<Rightarrow> bool" where
  "same_table tenant workspace w w' =
     ((scope_token tenant \<noteq> [] \<longrightarrow> scope_token workspace \<noteq> [] \<longrightarrow>
        map_of (durable_control_cache w) (workspace_cache_key tenant workspace) =
        map_of (durable_control_cache w') (workspace_cache_key tenant workspace)) \<and>
      (\<forall>link. list_security_control_states link (scope_token tenant) (scope_token workspace) DURABLE_SCOPE_TYPES [] True 500 (control_plane w) =
         list_security_control_states link (scope_token tenant) (scope_token workspace) DURABLE_SCOPE_TYPES [] True 500 (control_plane w')))"

lemma same_table_refl: "same_table tenant workspace w w"
  by (simp add: same_table_def)

lemma load_same:
  assumes "same_table tenant workspace w w'"
  shows "fst (load_durable_workspace_controls jsonb io tenant workspace w) = fst (load_durable_workspace_controls jsonb io tenant workspace w') \<and>
    same_table tenant workspace (snd (load_durable_workspace_controls jsonb io tenant workspace w))
      (snd (load_durable_workspace_controls jsonb io tenant workspace w'))"
  using assms
  by (auto simp: load_durable_workspace_controls_def same_table_def Let_def map_of_dset split: option.splits sum.splits)

lemma load_matching_same:
  assumes "same_table tenant workspace w w'"
  shows "fst (load_matching_durable_controls jsonb io tenant workspace kind scope w) =
      fst (load_matching_durable_controls jsonb io tenant workspace kind scope w')"
    and "same_table tenant workspace (snd (load_matching_durable_controls jsonb io tenant workspace kind scope w))
      (snd (load_matching_durable_controls jsonb io tenant workspace kind scope w'))"
  using load_same [OF assms, of jsonb io] by (simp_all add: load_matching_durable_controls_def case_prod_beta)

lemma filter_write_row:
  assumes "\<not> P new" and "\<And>r. same_control new r \<Longrightarrow> \<not> P r \<and> \<not> P (updated_row new r)"
  shows "filter P (write_row new rows) = filter P rows"
proof -
  have "filter P (map (\<lambda>r. if same_control new r then updated_row new r else r) rows) = filter P rows"
    by (induction rows) (auto simp: assms)
  then show ?thesis using assms(1) by (simp add: write_row_def)
qed

lemma list_other_workspace:
  assumes "cr_workspace_id new \<noteq> strip workspace"
  shows "list_security_control_states link tenant workspace types kind act n (db\<lparr>security_control_states := write_row new (security_control_states db),
      security_control_events := ev\<rparr>) = list_security_control_states link tenant workspace types kind act n db"
proof -
  have "filter (\<lambda>r. cr_tenant_id r = a \<and> cr_workspace_id r = strip workspace \<and> Q r) (write_row new (security_control_states db)) =
      filter (\<lambda>r. cr_tenant_id r = a \<and> cr_workspace_id r = strip workspace \<and> Q r) (security_control_states db)" for a Q
    using assms by (intro filter_write_row) (auto simp: same_control_def updated_row_def)
  then show ?thesis
    by (simp add: list_security_control_states_def Let_def require_scope_token_def split: db_link.split)
qed

lemma upsert_db:
  assumes "snd (upsert_security_control_state env link now sid eid a db) \<noteq> db"
  shows "\<exists>new ev. cr_workspace_id new = strip (up_workspace_id a) \<and>
    snd (upsert_security_control_state env link now sid eid a db) =
      db\<lparr>security_control_states := write_row new (security_control_states db), security_control_events := ev\<rparr>"
proof -
  have w: "require_scope_token v l = Inr x \<Longrightarrow> x = strip v" for v l x
    by (simp add: require_scope_token_def Let_def split: if_splits)
  have e: "\<exists>ev. db\<lparr>security_control_states := rows\<rparr> = db\<lparr>security_control_states := rows, security_control_events := ev\<rparr>" for rows
    by (rule exI [of _ "security_control_events db"]) (cases db, simp)
  obtain tenant workspace where r: "require_scope_token (up_tenant_id a) ''tenant_id'' = Inr tenant"
    "require_scope_token (up_workspace_id a) ''workspace_id'' = Inr workspace"
    using assms by (auto simp: upsert_security_control_state_def split: sum.splits)
  let ?new = "upsert_row now sid tenant workspace a"
  have "\<exists>ev. snd (upsert_security_control_state env link now sid eid a db) =
      db\<lparr>security_control_states := write_row ?new (security_control_states db), security_control_events := ev\<rparr>"
    using assms r
    by (auto intro: e simp: upsert_security_control_state_def Let_def split: sum.splits db_link.splits if_splits option.splits)
  moreover have "cr_workspace_id ?new = strip (up_workspace_id a)" using w [OF r(2)] by (simp add: upsert_row_def)
  ultimately show ?thesis by blast
qed

lemma persist_same:
  assumes "scope_token workspace \<noteq> scope_token (ct_workspace_id t)"
    and "no_colon (scope_token tenant)" "no_colon (scope_token (ct_tenant_id t))"
  shows "same_table tenant workspace (snd (persist_security_control_state env io scope on reason md kind t w)) w"
proof -
  let ?a = "persist_args (scope_token scope) on reason md kind t"
  obtain r db where u: "upsert_security_control_state env (wr_link io) (wr_now io) (wr_state_id io) (wr_event_id io) ?a (control_plane w) = (r, db)"
    by fastforce
  have lists: "list_security_control_states link (scope_token tenant) (scope_token workspace) types [] True 500 db =
      list_security_control_states link (scope_token tenant) (scope_token workspace) types [] True 500 (control_plane w)" for link types
  proof (cases "db = control_plane w")
    case False
    then obtain new ev where new: "cr_workspace_id new = strip (up_workspace_id ?a)"
      and db: "db = (control_plane w)\<lparr>security_control_states := write_row new (security_control_states (control_plane w)), security_control_events := ev\<rparr>"
      using upsert_db [of env "wr_link io" "wr_now io" "wr_state_id io" "wr_event_id io" ?a "control_plane w"] u by auto
    have "cr_workspace_id new \<noteq> strip (scope_token workspace)"
      using new assms(1) by (simp add: persist_args_def)
    then show ?thesis unfolding db by (rule list_other_workspace)
  qed simp
  have key: "workspace_cache_key tenant workspace \<noteq> workspace_cache_key (ct_tenant_id t) (ct_workspace_id t)"
    if "scope_token tenant \<noteq> []" "scope_token workspace \<noteq> []" "scope_token (ct_tenant_id t) \<noteq> []" "scope_token (ct_workspace_id t) \<noteq> []"
    using cache_keys_differ [of workspace "ct_workspace_id t" tenant "ct_tenant_id t"] assms that by simp
  show ?thesis
    unfolding persist_security_control_state_def Let_def u
    using lists key by (auto simp: same_table_refl same_table_def invalidate_durable_cache_def Let_def map_of_dpop split: sum.split)
qed

subsection \<open>What a workspace sees of the dictionaries\<close>

definition same_memory :: "string \<Rightarrow> safe_globals \<Rightarrow> safe_globals \<Rightarrow> bool" where
  "same_memory workspace g g' =
     (global_kill_switch g = global_kill_switch g' \<and> tenant_kill_switches g = tenant_kill_switches g' \<and>
      machine_kill_switches g = machine_kill_switches g' \<and> capability_kill_switches g = capability_kill_switches g' \<and>
      (scope_token workspace \<noteq> [] \<longrightarrow>
        map_of (workspace_kill_switches g) (scope_token workspace) = map_of (workspace_kill_switches g') (scope_token workspace) \<and>
        (\<forall>a. map_of (agent_kill_switches g) (agent_key workspace a) = map_of (agent_kill_switches g') (agent_key workspace a)) \<and>
        (\<forall>c e. map_of (channel_kill_switches g) (channel_key workspace c e) = map_of (channel_kill_switches g') (channel_key workspace c e)) \<and>
        (\<forall>c e. map_of (connector_kill_switches g) (connector_key workspace c e) = map_of (connector_kill_switches g') (connector_key workspace c e))))"

lemma map_of_put: "map_of (put_kill_switch k st d) k' = (if k' = k then (if ks_enabled st then Some st else None) else map_of d k')"
  by (simp add: put_kill_switch_def map_of_dset map_of_dpop)

lemma memory_same:
  assumes "kill_switch_memory scope st (target_tokens t) g = Inr g'" and "scope \<in> set DURABLE_SCOPE_TYPES"
    and "scope_token workspace \<noteq> scope_token (ct_workspace_id t)"
    and "no_colon (scope_token workspace)" "no_colon (scope_token (ct_workspace_id t))"
  shows "same_memory workspace g' g"
proof -
  have k: "agent_key workspace a \<noteq> agent_key (ct_workspace_id t) b" "channel_key workspace a c \<noteq> channel_key (ct_workspace_id t) b d"
    "connector_key workspace a c \<noteq> connector_key (ct_workspace_id t) b d"
    if "scope_token workspace \<noteq> []" "scope_token (ct_workspace_id t) \<noteq> []" for a b c d
    using keys_differ [of workspace "ct_workspace_id t"] assms(3-5) that
    by (simp_all add: agent_key_def channel_key_def connector_key_def)
  show ?thesis
    using assms(1-3) k
    by (auto simp: kill_switch_memory_def DURABLE_SCOPE_TYPES_def same_memory_def map_of_put split: if_splits)
qed

lemma base_chain_same:
  assumes "same_table tenant workspace w w'" and "same_memory workspace (safe_memory w) (safe_memory w')"
  shows "fst (base_kill_chain jsonb io tenant workspace w) = fst (base_kill_chain jsonb io tenant workspace w')"
    and "same_table tenant workspace (snd (base_kill_chain jsonb io tenant workspace w)) (snd (base_kill_chain jsonb io tenant workspace w'))"
  using load_matching_same [OF assms(1), of jsonb io "''kill_switch''" "''workspace''"] assms(2)
  by (auto simp: base_kill_chain_def Let_def case_prod_beta load_tokens same_memory_def lookup_token_def)

lemma in_force_same:
  assumes t: "same_table (ct_tenant_id u) (ct_workspace_id u) w w'" and m: "same_memory (ct_workspace_id u) (safe_memory w) (safe_memory w')"
  shows "kill_in_force jsonb io1 io2 scp u w = kill_in_force jsonb io1 io2 scp u w'"
proof -
  note b = base_chain_same [OF t m, of jsonb io1]
  have rows: "scope_rows jsonb io1 io2 (ct_tenant_id u) (ct_workspace_id u) s w = scope_rows jsonb io1 io2 (ct_tenant_id u) (ct_workspace_id u) s w'" for s
    using load_matching_same(1) [OF b(2)] by (simp add: scope_rows_def load_tokens)
  have kills: "fst (kill_rows jsonb io2 (scope_token (ct_tenant_id u)) (scope_token (ct_workspace_id u)) (snd (load_matching_durable_controls jsonb io1
        (scope_token (ct_tenant_id u)) (scope_token (ct_workspace_id u)) ''safe_mode'' ''workspace'' w))) =
      fst (kill_rows jsonb io2 (scope_token (ct_tenant_id u)) (scope_token (ct_workspace_id u)) (snd (load_matching_durable_controls jsonb io1
        (scope_token (ct_tenant_id u)) (scope_token (ct_workspace_id u)) ''safe_mode'' ''workspace'' w')))"
    using load_matching_same(1) [OF load_matching_same(2) [OF t]] by (simp add: kill_rows_def load_tokens)
  have chain: "machine_kill_chain (scope_token (ct_tenant_id u)) (scope_token (ct_workspace_id u)) mc caps (safe_memory w) =
      machine_kill_chain (scope_token (ct_tenant_id u)) (scope_token (ct_workspace_id u)) mc caps (safe_memory w')" for mc caps
    using m by (auto simp: machine_kill_chain_def same_memory_def lookup_token_def)
  have on: "scope_token (ct_workspace_id u) \<noteq> [] \<Longrightarrow>
      stored_on (agent_kill_switches (safe_memory w)) (agent_key (ct_workspace_id u) a) =
      stored_on (agent_kill_switches (safe_memory w')) (agent_key (ct_workspace_id u) a)"
    "scope_token (ct_workspace_id u) \<noteq> [] \<Longrightarrow>
      stored_on (channel_kill_switches (safe_memory w)) (channel_key (ct_workspace_id u) a c) =
      stored_on (channel_kill_switches (safe_memory w')) (channel_key (ct_workspace_id u) a c)"
    "scope_token (ct_workspace_id u) \<noteq> [] \<Longrightarrow>
      stored_on (connector_kill_switches (safe_memory w)) (connector_key (ct_workspace_id u) a c) =
      stored_on (connector_kill_switches (safe_memory w')) (connector_key (ct_workspace_id u) a c)" for a c
    using m by (simp_all add: same_memory_def stored_on_def)
  consider "scp = ''agent''" | "scp = ''channel''" | "scp = ''connector''" | "scp \<notin> {''agent'', ''channel'', ''connector''}" by blast
  then show ?thesis
    by cases (simp_all add: kill_in_force_def agent_kill_active channel_kill_active connector_kill_active machine_kill_active
        b(1) rows kills chain on cong: conj_cong)
qed

text \<open>Kill switches of one workspace do not reach another: switching one on or off for a workspace, or for an agent, channel
  or connector in it, changes no answer about a different workspace, in memory or through the table,
  as long as tenant and workspace identifiers contain no colon.\<close>

theorem switches_isolated:
  assumes scope: "scope_token scope \<in> set DURABLE_SCOPE_TYPES"
    and other: "scope_token (ct_workspace_id u) \<noteq> scope_token (ct_workspace_id t)"
    and colons: "no_colon (scope_token (ct_tenant_id t))" "no_colon (scope_token (ct_tenant_id u))"
      "no_colon (scope_token (ct_workspace_id t))" "no_colon (scope_token (ct_workspace_id u))"
  shows "kill_in_force jsonb io1 io2 scp u (snd (set_scoped_kill_switch env io scope on reason md t w)) = kill_in_force jsonb io1 io2 scp u w"
proof -
  have s: "sor (scope_token scope) ''global'' = scope_token scope"
    using scope by (auto simp: sor_def DURABLE_SCOPE_TYPES_def)
  let ?st = "\<lparr>ks_enabled = on, ks_reason = reason, ks_metadata = md\<rparr>"
  show ?thesis
  proof (cases "kill_switch_memory (scope_token scope) ?st (target_tokens t) (safe_memory w)")
    case (Inl e)
    then show ?thesis by (simp add: set_scoped_kill_switch_def Let_def s)
  next
    case (Inr g)
    let ?p = "persist_security_control_state env io (scope_token scope) on reason md ''kill_switch'' (target_tokens t) (w\<lparr>safe_memory := g\<rparr>)"
    have w': "snd (set_scoped_kill_switch env io scope on reason md t w) = snd ?p"
      using scope Inr by (simp add: set_scoped_kill_switch_def Let_def s case_prod_beta split: sum.split)
    have "same_table (ct_tenant_id u) (ct_workspace_id u) (snd ?p) (w\<lparr>safe_memory := g\<rparr>)"
      using other colons by (intro persist_same) simp_all
    then have "same_table (ct_tenant_id u) (ct_workspace_id u) (snd ?p) w"
      by (simp add: same_table_def)
    moreover have "same_memory (ct_workspace_id u) (safe_memory (snd ?p)) (safe_memory w)"
      using memory_same [OF Inr scope other colons(4,3)] by simp
    ultimately show ?thesis unfolding w' by (rule in_force_same)
  qed
qed

section \<open>Witnesses\<close>

definition safe_demo_target :: control_target where
  "safe_demo_target =
     \<lparr>ct_tenant_id = ''t1'', ct_workspace_id = ''w1'', ct_machine_id = [], ct_capability_id = [], ct_agent_install_id = ''Agent-X'',
      ct_channel_key = ''email'', ct_endpoint_key = [], ct_connector_id = [], ct_credential_id = []\<rparr>"

definition safe_demo_write :: control_write_io where
  "safe_demo_write = \<lparr>wr_link = Connected, wr_now = 5, wr_state_id = ''sctl_1'', wr_event_id = ''scev_1''\<rparr>"

text \<open>A kernel that approves control changes.\<close>

definition safe_approving_kernel :: kernel_env where
  "safe_approving_kernel =
     \<lparr>has_binary = True, spawn = (\<lambda>command _. Completed command 0),
      json_loads = (\<lambda>command. Some (PDict [(''ok'', PBool True), (''decision'', PStr ''allow''),
        (''next_action'', PStr (if command = ''control-plane-service-decision'' then ''apply_control_plane_write''
                               else ''upsert_security_control_state''))])),
      digest16 = (\<lambda>_. ''0'')\<rparr>"

lemma durable_demo:
  "case fst (set_scoped_kill_switch safe_approving_kernel safe_demo_write ''channel'' True ''spam'' [] (safe_demo_target\<lparr>ct_agent_install_id := []\<rparr>) safe_demo_world) of
     Inl _ \<Rightarrow> False | Inr answer \<Rightarrow> dget answer ''durable'' = PBool True"
  by code_simp


theorem mixed_case_agent_switch_lost_witness:
  "\<not> kill_in_force PDict safe_demo_read safe_demo_read ''agent'' safe_demo_target
     (restart_controls (snd (set_scoped_kill_switch safe_approving_kernel safe_demo_write ''agent'' True ''spam'' [] safe_demo_target safe_demo_world)))"
proof (rule mixed_case_agent_switch_lost)
  show "scope_token ''agent'' = ''agent''" by (simp add: kinds)
  show "strip (ct_agent_install_id safe_demo_target) \<noteq> scope_token (ct_agent_install_id safe_demo_target)" by code_simp
  show "security_control_states (control_plane safe_demo_world) = []" by (simp add: safe_demo_world_def)
qed

theorem switches_isolated_witness:
  "\<not> kill_in_force PDict safe_demo_read safe_demo_read ''workspace'' (safe_demo_target\<lparr>ct_workspace_id := ''w2''\<rparr>)
     (snd (set_scoped_kill_switch safe_approving_kernel safe_demo_write ''workspace'' True ''spam'' [] safe_demo_target safe_demo_world))"
proof -
  have "\<not> kill_in_force PDict safe_demo_read safe_demo_read ''workspace'' (safe_demo_target\<lparr>ct_workspace_id := ''w2''\<rparr>) safe_demo_world"
    by code_simp
  moreover have "scope_token ''workspace'' \<in> set DURABLE_SCOPE_TYPES" "no_colon (scope_token ''t1'')" "no_colon (scope_token ''w1'')"
    "no_colon (scope_token ''w2'')" "scope_token ''w2'' \<noteq> scope_token ''w1''" by code_simp+
  ultimately show ?thesis
    using switches_isolated [of "''workspace''" "safe_demo_target\<lparr>ct_workspace_id := ''w2''\<rparr>" safe_demo_target PDict safe_demo_read safe_demo_read
        "''workspace''" safe_approving_kernel safe_demo_write True "''spam''" "[]" safe_demo_world]
    by (simp add: safe_demo_target_def)
qed

end
