(* ===== verification/Broker_Guard.thy ===== *)
theory Broker_Guard
  imports Safe_Mode_Switches
begin

text \<open>
  The rate guard of the tool broker, \<^verbatim>\<open>server_modules/tool_broker_guard_service.py\<close>. The deque \<^verbatim>\<open>_EVENTS\<close> is a list, oldest
  first; what happens under the lock is \<open>guard_step\<close>. A denial emits an audit event and, when a circuit
  breaker tripped, sets an incident control of \<open>Safe_Mode\<close>; both are best effort, so the state that
  \<open>set_incident_control\<close> leaves behind is kept whatever it answers. Environment variables are the argument \<open>getenv\<close>.
\<close>

section \<open>Operations\<close>

definition DEFAULT_WINDOW_SECONDS :: int where "DEFAULT_WINDOW_SECONDS = 60"
definition DEFAULT_SESSION_LIMIT :: int where "DEFAULT_SESSION_LIMIT = 80"
definition DEFAULT_TOOL_LIMIT :: int where "DEFAULT_TOOL_LIMIT = 30"
definition DEFAULT_EXECUTE_LIMIT :: int where "DEFAULT_EXECUTE_LIMIT = 10"
definition DEFAULT_CONNECTOR_WRITE_LIMIT :: int where "DEFAULT_CONNECTOR_WRITE_LIMIT = 12"
definition DEFAULT_ACTION_CLASS_LIMIT :: int where "DEFAULT_ACTION_CLASS_LIMIT = 20"

record guard_decision =
  gd_allowed :: bool
  gd_code :: string
  gd_detail :: string
  gd_snapshot :: pydict

record broker_event =
  ev_ts :: rat
  ev_session_key :: string
  ev_tool_key :: string
  ev_action_class :: string
  ev_connector_scope :: string
  ev_surface :: string

type_synonym env_vars = "string \<Rightarrow> string option"

definition env_int :: "env_vars \<Rightarrow> string \<Rightarrow> int \<Rightarrow> int" where
  "env_int getenv name dflt =
     (case getenv name of
        None \<Rightarrow> max 1 dflt
      | Some s \<Rightarrow> (if s = [] then max 1 dflt else (case parse_int s of None \<Rightarrow> dflt | Some i \<Rightarrow> max 1 i)))"

definition guard_token :: "string \<Rightarrow> pyval \<Rightarrow> string" where
  "guard_token dflt v = sor (token_of v) dflt"

definition session_key :: "pydict \<Rightarrow> string" where
  "session_key claims =
     (let grant_id = text_of (dget claims ''grant_id'') in
      if grant_id \<noteq> [] then ''grant:'' @ grant_id
      else join ''::''
        [guard_token ''unknown'' (dget claims ''tenant_id''), guard_token ''unknown'' (dget claims ''workspace_id''),
         guard_token ''unknown'' (dget claims ''manifest_id''), guard_token ''sage'' (dget claims ''agent_install_id'')])"

definition prune_events :: "rat \<Rightarrow> int \<Rightarrow> broker_event list \<Rightarrow> broker_event list" where
  "prune_events now window_seconds evs =
     (let cutoff = now - of_int (max 1 (if window_seconds = 0 then DEFAULT_WINDOW_SECONDS else window_seconds)) in
      dropWhile (\<lambda>e. ev_ts e < cutoff) evs)"

record guard_limits =
  window_seconds :: int
  session_limit :: int
  tool_limit :: int
  execute_limit :: int
  connector_write_limit :: int
  action_class_limit :: int

definition guard_limits_of :: "env_vars \<Rightarrow> guard_limits" where
  "guard_limits_of getenv =
     \<lparr>window_seconds = env_int getenv ''EMPYRALIS_TOOL_BROKER_WINDOW_SECONDS'' DEFAULT_WINDOW_SECONDS,
      session_limit = env_int getenv ''EMPYRALIS_TOOL_BROKER_SESSION_LIMIT'' DEFAULT_SESSION_LIMIT,
      tool_limit = env_int getenv ''EMPYRALIS_TOOL_BROKER_TOOL_LIMIT'' DEFAULT_TOOL_LIMIT,
      execute_limit = env_int getenv ''EMPYRALIS_TOOL_BROKER_EXECUTE_LIMIT'' DEFAULT_EXECUTE_LIMIT,
      connector_write_limit = env_int getenv ''EMPYRALIS_TOOL_BROKER_CONNECTOR_WRITE_LIMIT'' DEFAULT_CONNECTOR_WRITE_LIMIT,
      action_class_limit = env_int getenv ''EMPYRALIS_TOOL_BROKER_ACTION_CLASS_LIMIT'' DEFAULT_ACTION_CLASS_LIMIT\<rparr>"

record tool_call =
  tc_claims :: pydict
  tc_tool_key :: string
  tc_action_class :: string
  tc_connector_scope :: string
  tc_surface :: string

definition call_event :: "rat \<Rightarrow> tool_call \<Rightarrow> broker_event" where
  "call_event now c =
     \<lparr>ev_ts = now, ev_session_key = session_key (tc_claims c), ev_tool_key = guard_token ''unknown'' (PStr (tc_tool_key c)),
      ev_action_class = guard_token ''read'' (PStr (tc_action_class c)), ev_connector_scope = guard_token [] (PStr (tc_connector_scope c)),
      ev_surface = guard_token ''unknown'' (PStr (tc_surface c))\<rparr>"

definition is_connector_write :: "broker_event \<Rightarrow> bool" where
  "is_connector_write e = (ev_surface e = ''connector'' \<and> ev_action_class e \<in> set [''write'', ''execute''])"

text \<open>\<^verbatim>\<open>str.title\<close> on the action class, a lower-case ASCII word.\<close>

fun title :: "bool \<Rightarrow> string \<Rightarrow> string" where
  "title after_letter [] = []"
| "title after_letter (c # cs) =
     (let letter = upper_char c \<noteq> c in (if after_letter then c else upper_char c) # title letter cs)"

text \<open>The counts of the calls of the session still in the window, \<open>e\<close> being the event of the new call.\<close>

definition guard_counts :: "broker_event list \<Rightarrow> broker_event \<Rightarrow> (broker_event \<Rightarrow> bool) \<Rightarrow> int" where
  "guard_counts evs e P = int (length (filter P (filter (\<lambda>x. ev_session_key x = ev_session_key e) evs)))"

definition guard_denial :: "guard_limits \<Rightarrow> broker_event list \<Rightarrow> broker_event \<Rightarrow> (string \<times> string) option" where
  "guard_denial L evs e =
     (if session_limit L \<le> guard_counts evs e (\<lambda>_. True) then
        Some (''broker_session_rate_limited'', ''This agent session made too many tool calls in a short window.'')
      else if tool_limit L \<le> guard_counts evs e (\<lambda>x. ev_tool_key x = ev_tool_key e) then
        Some (''broker_tool_rate_limited'', ''The '' @ ev_tool_key e @ '' tool repeated too many times in a short window.'')
      else if ev_action_class e = ''execute'' \<and> execute_limit L \<le> guard_counts evs e (\<lambda>x. ev_action_class x = ''execute'') then
        Some (''broker_execute_circuit_breaker'', ''Execute-class tool calls tripped the broker circuit breaker.'')
      else if action_class_limit L \<le> guard_counts evs e (\<lambda>x. ev_action_class x = ev_action_class e) then
        Some (''broker_action_class_rate_limited'',
          title False (ev_action_class e) @ ''-class tool calls repeated too many times in a short window.'')
      else if is_connector_write e \<and> connector_write_limit L \<le> guard_counts evs e is_connector_write then
        Some (''broker_connector_write_circuit_breaker'', ''Connector write activity tripped the broker circuit breaker.'')
      else None)"

definition guard_snapshot :: "guard_limits \<Rightarrow> broker_event list \<Rightarrow> broker_event \<Rightarrow> int \<Rightarrow> pydict" where
  "guard_snapshot L evs e one =
     (let n = guard_counts evs e; when = (\<lambda>b. if b then one else 0) in
      [(''window_seconds'', PInt (window_seconds L)),
       (''session_count'', PInt (n (\<lambda>_. True) + one)),
       (''tool_count'', PInt (n (\<lambda>x. ev_tool_key x = ev_tool_key e) + one)),
       (''execute_count'', PInt (n (\<lambda>x. ev_action_class x = ''execute'') + when (ev_action_class e = ''execute''))),
       (''action_class_count'', PInt (n (\<lambda>x. ev_action_class x = ev_action_class e) + one)),
       (''connector_write_count'', PInt (n is_connector_write + when (is_connector_write e))),
       (''session_limit'', PInt (session_limit L)), (''tool_limit'', PInt (tool_limit L)), (''execute_limit'', PInt (execute_limit L)),
       (''action_class_limit'', PInt (action_class_limit L)), (''connector_write_limit'', PInt (connector_write_limit L)),
       (''tool_key'', PStr (ev_tool_key e)), (''action_class'', PStr (ev_action_class e)),
       (''connector_scope'', PStr (ev_connector_scope e)), (''surface'', PStr (ev_surface e))])"

definition guard_step :: "guard_limits \<Rightarrow> rat \<Rightarrow> tool_call \<Rightarrow> broker_event list \<Rightarrow> guard_decision \<times> broker_event list" where
  "guard_step L now c evs =
     (let pruned = prune_events now (window_seconds L) evs; e = call_event now c in
      (case guard_denial L pruned e of
         Some (code, dtl) \<Rightarrow> (\<lparr>gd_allowed = False, gd_code = code, gd_detail = dtl, gd_snapshot = guard_snapshot L pruned e 0\<rparr>, pruned)
       | None \<Rightarrow> (\<lparr>gd_allowed = True, gd_code = [], gd_detail = [], gd_snapshot = guard_snapshot L pruned e 1\<rparr>, pruned @ [e])))"

record guard_world =
  broker_events :: "broker_event list"
  guard_controls :: control_world
  guard_audit :: "pydict list"

record guard_io =
  gi_getenv :: env_vars
  gi_now :: rat
  gi_kernel :: kernel_env
  gi_write :: control_write_io
  gi_seconds :: int

definition workspace_target :: "string \<Rightarrow> string \<Rightarrow> string \<Rightarrow> control_target" where
  "workspace_target tenant workspace connector =
     \<lparr>ct_tenant_id = tenant, ct_workspace_id = workspace, ct_machine_id = [], ct_capability_id = [], ct_agent_install_id = [],
      ct_channel_key = [], ct_endpoint_key = [], ct_connector_id = connector, ct_credential_id = []\<rparr>"

definition emit_denial_side_effects :: "guard_io \<Rightarrow> pydict \<Rightarrow> string \<Rightarrow> string \<Rightarrow> pydict \<Rightarrow> guard_world \<Rightarrow> guard_world" where
  "emit_denial_side_effects io claims code dtl snapshot w =
     (let tenant = text_of (dget claims ''tenant_id''); workspace = text_of (dget claims ''workspace_id'');
          connector = token_of (dget snapshot ''connector_scope'');
          audit = [(''action'', PStr ''tool_broker.guard_denied''), (''status'', PStr ''blocked''),
                   (''tenant_id'', opt_str (snone tenant)), (''workspace_id'', opt_str (snone workspace)), (''detail'', PStr dtl),
                   (''metadata'', PDict [(''code'', PStr code), (''snapshot'', PDict snapshot), (''manifest_id'', dget claims ''manifest_id''),
                                        (''agent_install_id'', dget claims ''agent_install_id'')]),
                   (''idempotency_key'', PStr (''tool_broker.guard_denied:'' @ code @ '':'' @ sor workspace ''default'' @ '':'' @ int_str (gi_seconds io)))];
          w1 = w\<lparr>guard_audit := guard_audit w @ [audit]\<rparr>;
          metadata = [(''source'', PStr ''tool_broker_guard''), (''code'', PStr code), (''snapshot'', PDict snapshot)];
          pause = (\<lambda>scp conn. w1\<lparr>guard_controls :=
            snd (set_incident_control (gi_kernel io) (gi_write io) scp ''pause'' dtl metadata (workspace_target tenant workspace conn)
                   (guard_controls w1))\<rparr>)
      in if workspace = [] \<or> code \<notin> set [''broker_execute_circuit_breaker'', ''broker_connector_write_circuit_breaker''] then w1
         else if code = ''broker_connector_write_circuit_breaker'' \<and> connector \<noteq> [] then pause ''connector'' connector
         else pause ''workspace'' [])"

definition evaluate_tool_call :: "guard_io \<Rightarrow> tool_call \<Rightarrow> guard_world \<Rightarrow> guard_decision \<times> guard_world" where
  "evaluate_tool_call io c w =
     (let (d, evs) = guard_step (guard_limits_of (gi_getenv io)) (gi_now io) c (broker_events w);
          w1 = w\<lparr>broker_events := evs\<rparr>
      in (d, if gd_allowed d then w1
             else emit_denial_side_effects io (tc_claims c) (gd_code d) (gd_detail d) (gd_snapshot d) w1))"

section \<open>Lemmas\<close>

lemma env_int_pos: "1 \<le> dflt \<Longrightarrow> 1 \<le> env_int getenv name dflt"
  by (simp add: env_int_def split: option.split)

lemma limits_pos: "1 \<le> window_seconds (guard_limits_of getenv)"
  by (simp add: guard_limits_of_def env_int_pos DEFAULT_WINDOW_SECONDS_def)

lemma allowed_iff: "gd_allowed (fst (guard_step L now c evs)) \<longleftrightarrow>
    guard_denial L (prune_events now (window_seconds L) evs) (call_event now c) = None"
  by (simp add: guard_step_def Let_def split: option.split)

lemma step_events: "snd (guard_step L now c evs) = prune_events now (window_seconds L) evs @
    (if gd_allowed (fst (guard_step L now c evs)) then [call_event now c] else [])"
  by (simp add: guard_step_def Let_def split: option.split)

lemma side_effects_events [simp]: "broker_events (emit_denial_side_effects io claims code dtl snapshot w) = broker_events w"
  by (simp add: emit_denial_side_effects_def Let_def)

lemma evaluate_step:
  "fst (evaluate_tool_call io c w) = fst (guard_step (guard_limits_of (gi_getenv io)) (gi_now io) c (broker_events w))"
  "broker_events (snd (evaluate_tool_call io c w)) = snd (guard_step (guard_limits_of (gi_getenv io)) (gi_now io) c (broker_events w))"
  by (simp_all add: evaluate_tool_call_def Let_def case_prod_beta)

lemma event_ts [simp]: "ev_ts (call_event now c) = now"
  by (simp add: call_event_def)

lemma prune_pos: "1 \<le> window \<Longrightarrow> prune_events now window evs = dropWhile (\<lambda>e. ev_ts e < now - of_int window) evs"
  by (simp add: prune_events_def Let_def max_def)

lemma dropWhile_dropWhile: "(\<And>x. Q x \<Longrightarrow> P x) \<Longrightarrow> dropWhile P (dropWhile Q xs) = dropWhile P xs"
  by (induction xs) auto

lemma dropWhile_sorted:
  "sorted (map ev_ts evs) \<Longrightarrow> dropWhile (\<lambda>e. ev_ts e < t) evs = filter (\<lambda>e. t \<le> ev_ts e) evs"
proof (induction evs)
  case (Cons e evs)
  then have "\<not> ev_ts e < t \<Longrightarrow> filter (\<lambda>e. t \<le> ev_ts e) evs = evs"
    by (auto simp: filter_id_conv)
  with Cons show ?case by (auto simp: not_less)
qed simp

section \<open>The guard as a log\<close>

text \<open>A history of calls, each with its input; the log keeps every call that was let through, for ever.\<close>

fun guard_run :: "(guard_io \<times> tool_call) list \<Rightarrow> guard_world \<Rightarrow> broker_event list \<Rightarrow> guard_world \<times> broker_event list" where
  "guard_run [] w hist = (w, hist)"
| "guard_run ((io, c) # calls) w hist =
     (let (d, w') = evaluate_tool_call io c w in
      guard_run calls w' (if gd_allowed d then hist @ [call_event (gi_now io) c] else hist))"

definition within_limits :: "guard_limits \<Rightarrow> broker_event list \<Rightarrow> broker_event \<Rightarrow> bool" where
  "within_limits L hist e =
     (let count = (\<lambda>P. int (length (filter (\<lambda>x. ev_session_key x = ev_session_key e \<and> ev_ts e - of_int (window_seconds L) \<le> ev_ts x \<and> P x) hist))) in
      count (\<lambda>_. True) < session_limit L \<and>
      count (\<lambda>x. ev_tool_key x = ev_tool_key e) < tool_limit L \<and>
      count (\<lambda>x. ev_action_class x = ev_action_class e) < action_class_limit L \<and>
      (if ev_action_class e = ''execute'' then count (\<lambda>x. ev_action_class x = ''execute'') < execute_limit L else True) \<and>
      (if is_connector_write e then count is_connector_write < connector_write_limit L else True))"

definition guard_inv :: "int \<Rightarrow> rat \<Rightarrow> broker_event list \<Rightarrow> broker_event list \<Rightarrow> bool" where
  "guard_inv window t evs hist =
     (sorted (map ev_ts hist) \<and> (\<forall>e\<in>set hist. ev_ts e \<le> t) \<and> evs = dropWhile (\<lambda>e. ev_ts e < t - of_int window) hist)"

lemma guard_inv_prune:
  assumes "guard_inv window t evs hist" and "t \<le> now" and "1 \<le> window"
  shows "prune_events now window evs = dropWhile (\<lambda>e. ev_ts e < now - of_int window) hist"
  using assms by (auto simp: guard_inv_def prune_pos intro!: dropWhile_dropWhile)

lemma guard_inv_step:
  assumes "guard_inv window t evs hist" and "t \<le> now" and "1 \<le> window" and "window_seconds L = window"
  shows "guard_inv window now (snd (guard_step L now c evs))
     (if gd_allowed (fst (guard_step L now c evs)) then hist @ [call_event now c] else hist)"
proof -
  have "\<forall>e\<in>set hist. ev_ts e \<le> now" and sorted: "sorted (map ev_ts hist)"
    using assms(1,2) by (auto simp: guard_inv_def)
  moreover have "dropWhile (\<lambda>e. ev_ts e < now - of_int window) (hist @ [call_event now c]) =
      dropWhile (\<lambda>e. ev_ts e < now - of_int window) hist @ [call_event now c]"
    using assms(3) sorted by (auto simp: dropWhile_append dropWhile_eq_Nil_conv)
  ultimately show ?thesis
    using assms guard_inv_prune [OF assms(1-3)] by (auto simp: guard_inv_def step_events sorted_append)
qed

lemma denial_iff_log:
  assumes "guard_inv (window_seconds L) t evs hist" and "t \<le> now" and "1 \<le> window_seconds L"
  shows "guard_denial L (prune_events now (window_seconds L) evs) (call_event now c) = None \<longleftrightarrow> within_limits L hist (call_event now c)"
proof -
  have "guard_counts (prune_events now (window_seconds L) evs) e P =
      int (length (filter (\<lambda>x. ev_session_key x = ev_session_key e \<and> now - of_int (window_seconds L) \<le> ev_ts x \<and> P x) hist))" for e P
    using assms guard_inv_prune [OF assms]
    by (simp add: guard_counts_def guard_inv_def dropWhile_sorted conj_ac)
  then show ?thesis
    by (auto simp: guard_denial_def within_limits_def Let_def not_le)
qed

lemma guard_run_inv:
  assumes "sorted (map (gi_now \<circ> fst) calls)" and "\<forall>(io, c)\<in>set calls. gi_getenv io = env \<and> t \<le> gi_now io \<and> gi_now io \<le> now"
    and "guard_inv (window_seconds (guard_limits_of env)) t (broker_events w) hist" and "t \<le> now"
  shows "\<exists>t'\<le>now. guard_inv (window_seconds (guard_limits_of env)) t' (broker_events (fst (guard_run calls w hist))) (snd (guard_run calls w hist))"
  using assms
proof (induction calls arbitrary: t w hist)
  case (Cons call calls)
  obtain io c where call: "call = (io, c)" by (cases call)
  show ?case
    unfolding call guard_run.simps Let_def case_prod_beta
  proof (rule Cons.IH)
    show "guard_inv (window_seconds (guard_limits_of env)) (gi_now io) (broker_events (snd (evaluate_tool_call io c w)))
        (if gd_allowed (fst (evaluate_tool_call io c w)) then hist @ [call_event (gi_now io) c] else hist)"
      unfolding evaluate_step using Cons.prems call
      by (intro guard_inv_step [where L = "guard_limits_of (gi_getenv io)" and t = t, simplified]) (auto simp: limits_pos)
  qed (use Cons.prems call in auto)
qed auto

section \<open>The breakers\<close>

lemma snd_answer: "snd (case p of (Inl e, w2) \<Rightarrow> (Inl e, w2) | (Inr row, w2) \<Rightarrow> (Inr (f row), w2)) = snd p"
  by (simp split: prod.split sum.split)

lemma set_incident_memory:
  assumes "scope_token scp \<in> {''workspace'', ''channel'', ''connector''}" and "scope_token (ct_workspace_id target) \<noteq> []"
    and "incident_memory (scope_token scp) \<lparr>ic_mode = normalize_incident_mode (PStr md), ic_reason = why, ic_metadata = meta\<rparr>
      (target_tokens target) (safe_memory w) = Inr g"
  shows "safe_memory (snd (set_incident_control env wio scp md why meta target w)) = g"
  using assms by (auto simp: set_incident_control_def Let_def snd_answer)

lemma incident_active: "truthy (dget (summarize_incident_chain chain) ''active'') \<longleftrightarrow> chain \<noteq> []"
  by (simp add: summarize_incident_chain_def dget_Cons)

lemma connector_incident_memory:
  assumes "map_of (connector_incident_controls (safe_memory w)) (connector_key workspace connector []) = Some st"
    and "normalize_incident_mode (PStr (ic_mode st)) \<noteq> ''active''" and "scope_token workspace \<noteq> []" and "scope_token connector \<noteq> []"
  shows "is_active_state (resolve_connector_incident_state jsonb io1 io2 tenant workspace connector credential w)"
  using assms
  by (simp add: is_active_state_def resolve_connector_incident_state_def Let_def case_prod_beta incident_active incident_memory_entry_def
      incident_entry_def)

lemma snapshot_scope: "dget (guard_snapshot L evs e one) ''connector_scope'' = PStr (ev_connector_scope e)"
  by (simp add: guard_snapshot_def Let_def dget_Cons)

lemma event_scope [simp]: "ev_connector_scope (call_event now c) = scope_token (tc_connector_scope c)"
  by (cases "strip (tc_connector_scope c) = []")
    (simp_all add: call_event_def guard_token_def scope_token_def token_of_PStr sor_def lower_def)

lemma denied_snapshot:
  "gd_code (fst (guard_step L now c evs)) \<noteq> [] \<Longrightarrow>
     \<not> gd_allowed (fst (guard_step L now c evs)) \<and>
     dget (gd_snapshot (fst (guard_step L now c evs))) ''connector_scope'' = PStr (scope_token (tc_connector_scope c))"
  by (cases "guard_denial L (prune_events now (window_seconds L) evs) (call_event now c)")
    (auto simp: guard_step_def Let_def snapshot_scope)

lemma pause_mode: "normalize_incident_mode (PStr ''pause'') = ''pause''"
  by code_simp

section \<open>Properties\<close>

definition quiet_guard :: "control_world \<Rightarrow> guard_world" where
  "quiet_guard cw = \<lparr>broker_events = [], guard_controls = cw, guard_audit = []\<rparr>"

text \<open>C18. The guard forgets old events and yet counts right: after any history of calls in the order of the clock, a call is let
  through exactly when the calls let through for its session within the window, out of the whole history, stay below the
  limits on the session, the tool, the action class, execution and connector writes.\<close>

theorem guard_counts_whole_history:
  assumes "sorted (map (gi_now \<circ> fst) calls)"
    and "\<forall>(io', c')\<in>set calls. gi_getenv io' = gi_getenv io \<and> gi_now io' \<le> gi_now io"
  shows "gd_allowed (fst (evaluate_tool_call io c (fst (guard_run calls (quiet_guard cw) [])))) \<longleftrightarrow>
    within_limits (guard_limits_of (gi_getenv io)) (snd (guard_run calls (quiet_guard cw) [])) (call_event (gi_now io) c)"
proof -
  let ?L = "guard_limits_of (gi_getenv io)"
  let ?t = "Min (insert (gi_now io) (gi_now ` fst ` set calls))"
  have "\<exists>t'\<le>gi_now io. guard_inv (window_seconds ?L) t' (broker_events (fst (guard_run calls (quiet_guard cw) []))) (snd (guard_run calls (quiet_guard cw) []))"
  proof (rule guard_run_inv [where t = ?t])
    show "guard_inv (window_seconds ?L) ?t (broker_events (quiet_guard cw)) []"
      by (simp add: guard_inv_def quiet_guard_def)
    show "\<forall>(io', c')\<in>set calls. gi_getenv io' = gi_getenv io \<and> ?t \<le> gi_now io' \<and> gi_now io' \<le> gi_now io"
      using assms(2) by (auto intro!: Min_le rev_image_eqI)
  qed (use assms in auto)
  then show ?thesis
    using denial_iff_log limits_pos by (auto simp: evaluate_step allowed_iff)
qed

text \<open>C20. Two components together: when the guard's breaker on connector writes trips, the connector is paused at once for the
  whole workspace, whatever the kernel and the database answer.\<close>

theorem breaker_pauses_connector:
  assumes "gd_code (fst (evaluate_tool_call io c w)) = ''broker_connector_write_circuit_breaker''"
    and "strip workspace \<noteq> []" and "dget (tc_claims c) ''workspace_id'' = PStr workspace" and "strip (tc_connector_scope c) \<noteq> []"
  shows "is_active_state (resolve_connector_incident_state jsonb io1 io2 tenant workspace (tc_connector_scope c) credential
     (guard_controls (snd (evaluate_tool_call io c w))))"
proof -
  let ?d = "fst (evaluate_tool_call io c w)"
  let ?ws = "strip workspace" and ?conn = "scope_token (tc_connector_scope c)"
  let ?st = "\<lparr>ic_mode = ''pause'', ic_reason = gd_detail ?d,
    ic_metadata = [(''source'', PStr ''tool_broker_guard''), (''code'', PStr (gd_code ?d)), (''snapshot'', PDict (gd_snapshot ?d))]\<rparr>"
  have denied: "\<not> gd_allowed ?d" and scope: "dget (gd_snapshot ?d) ''connector_scope'' = PStr ?conn"
    using assms(1) denied_snapshot [of "guard_limits_of (gi_getenv io)" "gi_now io" c "broker_events w"] by (simp_all add: evaluate_step)
  have named: "scope_token workspace \<noteq> []" "?conn \<noteq> []"
    using assms(2,4) by (simp_all add: scope_token_empty)
  have "guard_controls (snd (evaluate_tool_call io c w)) =
      snd (set_incident_control (gi_kernel io) (gi_write io) ''connector'' ''pause'' (ic_reason ?st) (ic_metadata ?st)
        (workspace_target (text_of (dget (tc_claims c) ''tenant_id'')) ?ws ?conn) (guard_controls w))"
    using denied scope named assms(1-3)
    by (simp add: evaluate_tool_call_def Let_def case_prod_beta emit_denial_side_effects_def text_of_PStr token_of_PStr scope_token_def
        strip_lower)
  then have "safe_memory (guard_controls (snd (evaluate_tool_call io c w))) =
      safe_memory (guard_controls w)\<lparr>connector_incident_controls :=
        put_incident (connector_key workspace (tc_connector_scope c) []) ?st (connector_incident_controls (safe_memory (guard_controls w)))\<rparr>"
    using named
    by (simp add: set_incident_memory [where g = "safe_memory (guard_controls w)\<lparr>connector_incident_controls :=
          put_incident (connector_key workspace (tc_connector_scope c) []) ?st (connector_incident_controls (safe_memory (guard_controls w)))\<rparr>"]
        kinds incident_memory_def workspace_target_def pause_mode)
  then show ?thesis
    using named by (intro connector_incident_memory [where st = ?st]) (simp_all add: put_incident_def map_of_dset pause_mode)
qed

section \<open>Witnesses\<close>

definition guard_demo_io :: "rat \<Rightarrow> guard_io" where
  "guard_demo_io now =
     \<lparr>gi_getenv = (\<lambda>name. if name = ''EMPYRALIS_TOOL_BROKER_CONNECTOR_WRITE_LIMIT'' then Some ''1'' else None), gi_now = now,
      gi_kernel = safe_no_kernel, gi_write = safe_demo_write, gi_seconds = 0\<rparr>"

definition guard_demo_call :: tool_call where
  "guard_demo_call =
     \<lparr>tc_claims = [(''grant_id'', PStr ''g1''), (''workspace_id'', PStr ''w1'')], tc_tool_key = ''slack'', tc_action_class = ''write'',
      tc_connector_scope = ''slack'', tc_surface = ''connector''\<rparr>"

theorem guard_counts_whole_history_witness:
  "gd_allowed (fst (evaluate_tool_call (guard_demo_io 70) guard_demo_call
     (fst (guard_run [(guard_demo_io 5, guard_demo_call)] (quiet_guard safe_demo_world) [])))) \<longleftrightarrow>
   within_limits (guard_limits_of (gi_getenv (guard_demo_io 70)))
     (snd (guard_run [(guard_demo_io 5, guard_demo_call)] (quiet_guard safe_demo_world) [])) (call_event (gi_now (guard_demo_io 70)) guard_demo_call)"
  by (rule guard_counts_whole_history) (simp_all add: guard_demo_io_def)

theorem breaker_pauses_connector_witness:
  "is_active_state (resolve_connector_incident_state PDict safe_demo_read safe_demo_read ''t1'' ''w1'' (tc_connector_scope guard_demo_call) []
     (guard_controls (snd (evaluate_tool_call (guard_demo_io 6) guard_demo_call
       (quiet_guard safe_demo_world\<lparr>broker_events := [call_event 5 guard_demo_call]\<rparr>)))))"
proof (rule breaker_pauses_connector)
  show "gd_code (fst (evaluate_tool_call (guard_demo_io 6) guard_demo_call
      (quiet_guard safe_demo_world\<lparr>broker_events := [call_event 5 guard_demo_call]\<rparr>))) = ''broker_connector_write_circuit_breaker''"
    unfolding evaluate_step by code_simp
  show "strip ''w1'' \<noteq> []" by code_simp
  show "dget (tc_claims guard_demo_call) ''workspace_id'' = PStr ''w1''" by code_simp
  show "strip (tc_connector_scope guard_demo_call) \<noteq> []" by code_simp
qed

end
