(* ===== verification/Token_Codec.thy ===== *)
theory Token_Codec
  imports Py_Prelude
begin

text \<open>
  The encodings below the capability tokens of \<^verbatim>\<open>server_modules/tool_broker.py\<close>: UTF-8, URL-safe Base64 and compact JSON. Bytes are
  natural numbers below 256. Decoding follows \<^verbatim>\<open>binascii.a2b_base64\<close> in its lenient mode, which skips foreign characters and stops
  at a complete padding.
\<close>

section \<open>Operations\<close>

type_synonym bytes = "nat list"

definition utf8_char :: "char \<Rightarrow> bytes" where
  "utf8_char c = (let n = (of_char c :: nat) in if n < 128 then [n] else [192 + n div 64, 128 + n mod 64])"

definition utf8 :: "string \<Rightarrow> bytes" where
  "utf8 s = concat (map utf8_char s)"

definition BASE64_URLSAFE :: string where
  "BASE64_URLSAFE = ''ABCDEFGHIJKLMNOPQRSTUVWXYZabcdefghijklmnopqrstuvwxyz0123456789-_''"

definition b64_char :: "nat \<Rightarrow> char" where
  "b64_char v = BASE64_URLSAFE ! v"

fun urlsafe_b64encode :: "bytes \<Rightarrow> string" where
  "urlsafe_b64encode [] = []"
| "urlsafe_b64encode [a] = [b64_char (a div 4), b64_char (a mod 4 * 16), CHR ''='', CHR ''='']"
| "urlsafe_b64encode [a, b] = [b64_char (a div 4), b64_char (a mod 4 * 16 + b div 16), b64_char (b mod 16 * 4), CHR ''='']"
| "urlsafe_b64encode (a # b # c # bs) =
     [b64_char (a div 4), b64_char (a mod 4 * 16 + b div 16), b64_char (b mod 16 * 4 + c div 64), b64_char (c mod 64)] @ urlsafe_b64encode bs"

definition b64encode :: "bytes \<Rightarrow> string" where
  "b64encode raw = rev (dropWhile (\<lambda>c. c = CHR ''='') (rev (urlsafe_b64encode raw)))"

definition b64_value :: "char \<Rightarrow> nat option" where
  "b64_value c = (if c = CHR ''+'' then Some 62 else if c = CHR ''/'' then Some 63 else map_of (zip BASE64_URLSAFE [0..<64]) c)"

text \<open>\<open>quad\<close> counts the characters of the current group, \<open>left\<close> holds its bits not yet written, \<open>pads\<close> counts padding.\<close>

fun a2b_base64 :: "nat \<Rightarrow> nat \<Rightarrow> nat \<Rightarrow> string \<Rightarrow> bytes option" where
  "a2b_base64 quad left pads [] = (if quad = 0 then Some [] else None)"
| "a2b_base64 quad left pads (c # cs) =
     (if c = CHR ''='' then
        (if 2 \<le> quad then (if 4 \<le> quad + Suc pads then Some [] else a2b_base64 quad left (Suc pads) cs)
         else a2b_base64 quad left pads cs)
      else (case b64_value c of
              None \<Rightarrow> a2b_base64 quad left pads cs
            | Some v \<Rightarrow>
                if quad = 0 then a2b_base64 1 v 0 cs
                else if quad = 1 then map_option (Cons (left * 4 + v div 16)) (a2b_base64 2 (v mod 16) 0 cs)
                else if quad = 2 then map_option (Cons (left * 16 + v div 4)) (a2b_base64 3 (v mod 4) 0 cs)
                else map_option (Cons (left * 64 + v)) (a2b_base64 0 0 0 cs)))"

definition is_ascii :: "string \<Rightarrow> bool" where
  "is_ascii s = list_all (\<lambda>c. (of_char c :: nat) < 128) s"

text \<open>\<open>None\<close> is a \<^verbatim>\<open>ValueError\<close>: text that is not ASCII, or an incomplete last group.\<close>

definition b64decode :: "string \<Rightarrow> bytes option" where
  "b64decode token =
     (if is_ascii token then a2b_base64 0 0 0 (token @ replicate (nat (- int (length token) mod 4)) (CHR ''='')) else None)"

text \<open>\<^verbatim>\<open>json.dumps(value, ensure_ascii=False, separators=(",", ":"), sort_keys=True)\<close>.\<close>

fun json_compact :: "pyval \<Rightarrow> string"
  and json_compact_list :: "pyval list \<Rightarrow> string list"
  and json_compact_items :: "pydict \<Rightarrow> (string \<times> string) list" where
  "json_compact PNone = ''null''"
| "json_compact (PBool b) = (if b then ''true'' else ''false'')"
| "json_compact (PInt i) = int_str i"
| "json_compact (PStr s) = json_str False s"
| "json_compact (PList vs) = ''['' @ join '','' (json_compact_list vs) @ '']''"
| "json_compact (PDict d) =
     ''{'' @ join '','' (map (\<lambda>(k, t). json_str False k @ '':'' @ t) (foldr insert_key (json_compact_items d) [])) @ ''}''"
| "json_compact_list [] = []"
| "json_compact_list (v # vs) = json_compact v # json_compact_list vs"
| "json_compact_items [] = []"
| "json_compact_items ((k, v) # d) = (k, json_compact v) # json_compact_items d"

section \<open>The round trip of Base64\<close>

lemma b64_table: "list_all (\<lambda>v. b64_value (b64_char v) = Some v \<and> b64_char v \<noteq> CHR ''='' \<and> b64_char v \<noteq> CHR ''.'' \<and>
    (of_char (b64_char v) :: nat) < 128 \<and> \<not> is_space (b64_char v)) [0..<64]"
  by code_simp

lemma b64_char_props:
  assumes "v < 64"
  shows "b64_value (b64_char v) = Some v" "b64_char v \<noteq> CHR ''=''" "b64_char v \<noteq> CHR ''.''" "(of_char (b64_char v) :: nat) < 128"
    "\<not> is_space (b64_char v)"
  using b64_table assms by (auto simp: list_all_iff)

definition is_bytes :: "bytes \<Rightarrow> bool" where
  "is_bytes bs = list_all (\<lambda>b. b < 256) bs"

lemma utf8_bytes: "is_bytes (utf8 s)"
proof -
  have "of_char c < (64 * 64 :: nat)" for c :: char
    by (rule order.strict_trans [of _ 256]) simp_all
  then have "of_char c div 64 < (64 :: nat)" for c :: char
    by (rule less_mult_imp_div_less)
  then have "is_bytes (utf8_char c)" for c
    by (auto simp: is_bytes_def utf8_char_def Let_def intro: order.strict_trans2 [OF mod_less_divisor])
  then show ?thesis
    by (induction s) (simp_all add: utf8_def is_bytes_def)
qed

lemma sextets:
  "a < 256 \<Longrightarrow> a div 4 < (64 :: nat)" "b < 256 \<Longrightarrow> a mod 4 * 16 + b div 16 < (64 :: nat)" "c < 256 \<Longrightarrow> b mod 16 * 4 + c div 64 < (64 :: nat)"
  "a mod 4 * 16 < (64 :: nat)" "b mod 16 * 4 < (64 :: nat)"
proof -
  have small: "n mod 4 < 4" "n mod 16 < 16" "n < 256 \<Longrightarrow> n div 16 < 16" "n < 256 \<Longrightarrow> n div 64 < 4" "n < 256 \<Longrightarrow> n div 4 < 64" for n :: nat
    by (simp_all add: less_mult_imp_div_less)
  show "a < 256 \<Longrightarrow> a div 4 < 64" by (rule small)
  show "b < 256 \<Longrightarrow> a mod 4 * 16 + b div 16 < 64" using small(1) [of a] small(3) [of b] by linarith
  show "c < 256 \<Longrightarrow> b mod 16 * 4 + c div 64 < 64" using small(2) [of b] small(4) [of c] by linarith
  show "a mod 4 * 16 < 64" "b mod 16 * 4 < 64" using small(1) [of a] small(2) [of b] by linarith+
qed

lemma regroup:
  "b < 256 \<Longrightarrow> (a div 4) * 4 + (a mod 4 * 16 + b div 16) div 16 = (a :: nat)"
  "b < 256 \<Longrightarrow> c < 256 \<Longrightarrow> (a mod 4 * 16 + b div 16) mod 16 * 16 + (b mod 16 * 4 + c div 64) div 4 = (b :: nat)"
  "c < 256 \<Longrightarrow> (b mod 16 * 4 + c div 64) mod 4 * 64 + c mod 64 = (c :: nat)"
proof -
  have b: "b < 256 \<Longrightarrow> b div 16 < 16" and c: "c < 256 \<Longrightarrow> c div 64 < 4"
    by (simp_all add: less_mult_imp_div_less)
  show "b < 256 \<Longrightarrow> (a div 4) * 4 + (a mod 4 * 16 + b div 16) div 16 = a" using b by simp
  show "b < 256 \<Longrightarrow> c < 256 \<Longrightarrow> (a mod 4 * 16 + b div 16) mod 16 * 16 + (b mod 16 * 4 + c div 64) div 4 = b" using b c by simp
  show "c < 256 \<Longrightarrow> (b mod 16 * 4 + c div 64) mod 4 * 64 + c mod 64 = c" using c by simp
qed

lemma decode_padded: "is_bytes raw \<Longrightarrow> a2b_base64 0 0 0 (urlsafe_b64encode raw) = Some raw"
proof (induction raw rule: urlsafe_b64encode.induct)
  case (2 a)
  then show ?case
    using regroup(1) [of 0 a] by (simp add: b64_char_props sextets is_bytes_def)
next
  case (3 a b)
  then show ?case
    using regroup(1) [of b a] regroup(2) [of b 0 a] by (simp add: b64_char_props sextets is_bytes_def)
next
  case (4 a b c bs)
  then show ?case
    using regroup(1) [of b a] regroup(2) [of b c a] regroup(3) [of c b] by (simp add: b64_char_props sextets is_bytes_def)
qed simp

definition token_chars :: "string \<Rightarrow> bool" where
  "token_chars s = list_all (\<lambda>c. c \<noteq> CHR ''='' \<and> c \<noteq> CHR ''.'' \<and> (of_char c :: nat) < 128 \<and> \<not> is_space c) s"

lemma encoded_shape:
  "is_bytes raw \<Longrightarrow> \<exists>body p. urlsafe_b64encode raw = body @ replicate p (CHR ''='') \<and> p < 4 \<and> (length body + p) mod 4 = 0 \<and> token_chars body"
proof (induction raw rule: urlsafe_b64encode.induct)
  case (2 a)
  then show ?case
    by (intro exI [of _ "[b64_char (a div 4), b64_char (a mod 4 * 16)]"] exI [of _ 2])
      (simp add: b64_char_props sextets is_bytes_def token_chars_def numeral_2_eq_2)
next
  case (3 a b)
  then show ?case
    by (intro exI [of _ "[b64_char (a div 4), b64_char (a mod 4 * 16 + b div 16), b64_char (b mod 16 * 4)]"] exI [of _ 1])
      (simp add: b64_char_props sextets is_bytes_def token_chars_def)
next
  case (4 a b c bs)
  then have c: "a < 256" "b < 256" "c < 256" and "is_bytes bs" by (simp_all add: is_bytes_def)
  with 4 obtain body p where "urlsafe_b64encode bs = body @ replicate p (CHR ''='')" "p < 4" "(length body + p) mod 4 = 0" "token_chars body"
    by auto
  with c show ?case
    by (intro exI [of _ "[b64_char (a div 4), b64_char (a mod 4 * 16 + b div 16), b64_char (b mod 16 * 4 + c div 64), b64_char (c mod 64)] @ body"] exI [of _ p])
      (simp add: b64_char_props sextets token_chars_def)
qed (simp add: token_chars_def)

lemma dropWhile_replicate: "dropWhile (\<lambda>c. c = x) (replicate p x @ ys) = dropWhile (\<lambda>c. c = x) ys"
  by (induction p) simp_all

lemma b64encode_shape:
  assumes "is_bytes raw"
  obtains p where "urlsafe_b64encode raw = b64encode raw @ replicate p (CHR ''='')" "p < 4" "(length (b64encode raw) + p) mod 4 = 0"
    "token_chars (b64encode raw)"
proof -
  obtain body p where shape: "urlsafe_b64encode raw = body @ replicate p (CHR ''='')" "p < 4" "(length body + p) mod 4 = 0" "token_chars body"
    using encoded_shape [OF assms] by auto
  have "dropWhile (\<lambda>c. c = CHR ''='') (rev body) = rev body"
    using shape(4) by (cases body rule: rev_cases) (auto simp: token_chars_def)
  then have "b64encode raw = body"
    by (simp add: b64encode_def shape(1) dropWhile_replicate)
  with shape show ?thesis by (intro that [of p]) simp_all
qed

lemma b64_roundtrip: "is_bytes raw \<Longrightarrow> b64decode (b64encode raw) = Some raw"
proof -
  assume raw: "is_bytes raw"
  then obtain p where p: "urlsafe_b64encode raw = b64encode raw @ replicate p (CHR ''='')" "p < 4" "(length (b64encode raw) + p) mod 4 = 0"
    and chars: "token_chars (b64encode raw)" by (rule b64encode_shape)
  from p(3) obtain k where "length (b64encode raw) + p = 4 * k" by auto
  then have "- int (length (b64encode raw)) = int p + 4 * (- int k)" by linarith
  then have "- int (length (b64encode raw)) mod 4 = int p mod 4" by (simp only: mod_mult_self2)
  then have "nat (- int (length (b64encode raw)) mod 4) = p"
    using p(2) by simp
  with p(1) chars decode_padded [OF raw] show ?thesis
    by (simp add: b64decode_def is_ascii_def token_chars_def list_all_iff)
qed

end
