(* ===== verification/Egress.thy ===== *)
theory Egress
  imports Py_Prelude
begin

text \<open>
  \<^verbatim>\<open>server_modules/egress_policy.py\<close> and \<^verbatim>\<open>server_modules/url_security.py\<close>: which outbound HTTP requests a
  run may make. A policy lists hosts, providers and action classes; policies nest through a context
  variable and are merged with the enclosing one; every request made under a policy is decided and audited.

  A policy is its dictionary. \<^verbatim>\<open>urlparse\<close> is modelled as far as scheme and host name go; the check of the host
  inside brackets (\<^verbatim>\<open>ipaddress\<close>), the classification of addresses (\<^verbatim>\<open>ipaddress\<close>), name resolution
  (\<^verbatim>\<open>socket.getaddrinfo\<close>) and the environment variable that allows private hosts are the fields of \<open>net_env\<close>.
  The audit event handed to the repository is the value \<open>egress_event\<close>; its delivery is not modelled. Policy
  ids come from \<^verbatim>\<open>uuid4\<close> and are arguments.
\<close>

section \<open>URLs\<close>

text \<open>\<^verbatim>\<open>s.partition(c)\<close> before and after the first \<open>c\<close>, and what follows the last one (\<^verbatim>\<open>s.rpartition(c)[2]\<close>).\<close>

definition before_char :: "char \<Rightarrow> string \<Rightarrow> string" where
  "before_char c s = takeWhile (\<lambda>x. x \<noteq> c) s"

definition after_char :: "char \<Rightarrow> string \<Rightarrow> string" where
  "after_char c s = tl (dropWhile (\<lambda>x. x \<noteq> c) s)"

definition after_last :: "char \<Rightarrow> string \<Rightarrow> string" where
  "after_last c s = rev (takeWhile (\<lambda>x. x \<noteq> c) (rev s))"

definition is_alpha :: "char \<Rightarrow> bool" where
  "is_alpha c = (let n = (of_char (lower_char c) :: nat) in 97 \<le> n \<and> n \<le> 122)"

definition is_scheme_char :: "char \<Rightarrow> bool" where
  "is_scheme_char c = (is_alpha c \<or> is_digit c \<or> c \<in> set ''+-.'')"

record url =
  scheme :: string
  netloc :: string

text \<open>\<^verbatim>\<open>urlsplit\<close>: \<open>None\<close> is its \<^verbatim>\<open>ValueError\<close>. Leading control characters and spaces, and tabs and line
  breaks anywhere, are removed first.\<close>

definition clean_url :: "string \<Rightarrow> string" where
  "clean_url s = filter (\<lambda>c. of_char c \<notin> {9 :: nat, 10, 13}) (dropWhile (\<lambda>c. (of_char c :: nat) \<le> 32) s)"

definition split_scheme :: "string \<Rightarrow> string \<times> string" where
  "split_scheme s =
     (let head = before_char (CHR '':'') s in
      if CHR '':'' \<in> set s \<and> head \<noteq> [] \<and> is_alpha (hd head) \<and> list_all is_scheme_char head
      then (lower head, after_char (CHR '':'') s) else ([], s))"

definition netloc_of :: "string \<Rightarrow> string" where
  "netloc_of rest = (if startswith rest ''//'' then takeWhile (\<lambda>c. c \<notin> set ''/?#'') (drop 2 rest) else [])"

definition urlparse :: "(string \<Rightarrow> bool) \<Rightarrow> string \<Rightarrow> url option" where
  "urlparse valid_bracketed s =
     (let (sch, rest) = split_scheme (clean_url s);
          loc = netloc_of rest;
          opened = (CHR ''['' \<in> set loc); closed = (CHR '']'' \<in> set loc)
      in if opened \<noteq> closed \<or> (opened \<and> \<not> valid_bracketed (before_char (CHR '']'') (after_char (CHR ''['') loc))) then None
         else Some \<lparr>scheme = sch, netloc = loc\<rparr>)"

text \<open>\<^verbatim>\<open>parsed.hostname or ""\<close>: the zone of a scoped address keeps its case.\<close>

definition hostname :: "url \<Rightarrow> string" where
  "hostname u =
     (let hostinfo = after_last (CHR ''@'') (netloc u);
          host = (if CHR ''['' \<in> set hostinfo then before_char (CHR '']'') (after_char (CHR ''['') hostinfo)
                  else before_char (CHR '':'') hostinfo)
      in lower (before_char (CHR ''%'') host) @ dropWhile (\<lambda>c. c \<noteq> CHR ''%'') host)"

section \<open>Unsafe destinations\<close>

record ip_flags =
  is_loopback :: bool
  is_link_local :: bool
  is_unspecified :: bool
  is_multicast :: bool
  is_private :: bool
  is_reserved :: bool

record net_env =
  valid_bracketed :: "string \<Rightarrow> bool"
  ip_address :: "string \<Rightarrow> ip_flags option"
  getaddrinfo :: "string \<Rightarrow> string list option"
  allow_private_http_hosts :: bool

definition ip_block_reason :: "net_env \<Rightarrow> string \<Rightarrow> string option" where
  "ip_block_reason env value =
     (case ip_address env (strip value) of
        None \<Rightarrow> None
      | Some ip \<Rightarrow>
          if is_loopback ip then Some ''loopback''
          else if is_link_local ip then Some ''link-local''
          else if is_unspecified ip then Some ''unspecified''
          else if is_multicast ip then Some ''multicast''
          else if is_private ip then Some ''private''
          else if is_reserved ip then Some ''reserved''
          else None)"

definition obvious_private_url_reason :: "net_env \<Rightarrow> string \<Rightarrow> string option" where
  "obvious_private_url_reason env url =
     (case urlparse (valid_bracketed env) (strip url) of
        None \<Rightarrow> Some ''invalid_url''
      | Some parsed \<Rightarrow>
          let host = lower (strip (hostname parsed)) in
          if lower (scheme parsed) \<notin> set [''http'', ''https''] then Some ''unsupported_scheme''
          else if host = [] then Some ''missing_host''
          else if host \<in> set [''localhost'', ''localhost.localdomain''] then Some ''loopback_host''
          else if endswith host ''.local'' \<or> endswith host ''.internal'' then Some ''private_host''
          else ip_block_reason env host)"

text \<open>The message of the \<^verbatim>\<open>RuntimeError\<close>, or \<open>None\<close> when the URL is accepted.\<close>

definition assert_safe_outbound_url :: "net_env \<Rightarrow> string \<Rightarrow> bool \<Rightarrow> string option" where
  "assert_safe_outbound_url env url allow_private_host =
     (if allow_private_host \<or> allow_private_http_hosts env then None
      else case obvious_private_url_reason env url of
        Some reason \<Rightarrow> Some (''Outbound HTTP URL is not allowed: '' @ reason @ ''.'')
      | None \<Rightarrow>
          (case urlparse (valid_bracketed env) (strip url) of
             None \<Rightarrow> Some ''Outbound HTTP URL is missing a host.''
           | Some parsed \<Rightarrow>
               let host = strip (hostname parsed) in
               if host = [] then Some ''Outbound HTTP URL is missing a host.''
               else (case getaddrinfo env host of
                   None \<Rightarrow> Some ''Outbound HTTP URL host could not be resolved safely.''
                 | Some addresses \<Rightarrow>
                     (case List.map_filter (\<lambda>a. ip_block_reason env (strip a)) addresses of
                        [] \<Rightarrow> None
                      | reason # _ \<Rightarrow> Some (''Outbound HTTP URL resolves to a disallowed '' @ reason @ '' address.'')))))"

section \<open>Tables\<close>

definition DEFAULT_ALLOWED_PROVIDER_IDS :: "string list" where
  "DEFAULT_ALLOWED_PROVIDER_IDS = [''openai'', ''anthropic'', ''google'', ''groq'', ''openrouter'', ''xai'', ''azure_openai'', ''deepseek'', ''ollama_cloud'']"

definition PROVIDER_HOST_ALLOWLISTS :: "(string \<times> string list) list" where
  "PROVIDER_HOST_ALLOWLISTS =
     [(''anthropic'', [''api.anthropic.com'']), (''azure_openai'', [''*.openai.azure.com'']), (''deepseek'', [''api.deepseek.com'']),
      (''google'', [''generativelanguage.googleapis.com'', ''aiplatform.googleapis.com'', ''*.aiplatform.googleapis.com'']),
      (''groq'', [''api.groq.com'']), (''openai'', [''api.openai.com'']), (''openrouter'', [''openrouter.ai'', ''api.openrouter.ai'']),
      (''ollama_cloud'', [''ollama.com'']), (''xai'', [''api.x.ai''])]"

definition CONNECTOR_HOST_ALLOWLISTS :: "(string \<times> string list) list" where
  "CONNECTOR_HOST_ALLOWLISTS =
     [(''calendar'', [''www.googleapis.com'', ''graph.microsoft.com'', ''api.nylas.com'']), (''crm'', []),
      (''email'', [''gmail.googleapis.com'', ''graph.microsoft.com'', ''api.mailgun.net'', ''api.sendgrid.com'', ''api.resend.com'', ''api.postmarkapp.com'']),
      (''inventory'', []), (''task_runner'', []), (''web'', [])]"

definition ACTION_CLASS_ORDER :: "(string \<times> int) list" where
  "ACTION_CLASS_ORDER = [(''read'', 0), (''write'', 1), (''execute'', 2)]"

definition HTTP_METHOD_TO_ACTION_CLASS :: "(string \<times> string) list" where
  "HTTP_METHOD_TO_ACTION_CLASS = [(''DELETE'', ''write''), (''GET'', ''read''), (''PATCH'', ''write''), (''POST'', ''write''), (''PUT'', ''write'')]"

section \<open>Helpers\<close>

datatype egress_error = ListError | UrlError | EgressPolicyDeniedError string string

text \<open>\<^verbatim>\<open>list(v or [])\<close>.\<close>

definition list_or_empty :: "pyval \<Rightarrow> egress_error + pyval list" where
  "list_or_empty v =
     (case por v (PList []) of
        PList xs \<Rightarrow> Inr xs
      | PStr s \<Rightarrow> Inr (map (\<lambda>c. PStr [c]) s)
      | PDict d \<Rightarrow> Inr (map (\<lambda>(k, _). PStr k) d)
      | _ \<Rightarrow> Inl ListError)"

fun unique_tokens :: "string list \<Rightarrow> pyval list \<Rightarrow> string list" where
  "unique_tokens seen [] = []"
| "unique_tokens seen (raw # rest) =
     (let token = token_of raw in
      if token = [] \<or> token \<in> set seen then unique_tokens seen rest else token # unique_tokens (token # seen) rest)"

definition ordered_unique :: "pyval list \<Rightarrow> string list" where
  "ordered_unique values = unique_tokens [] values"

definition str_list :: "string list \<Rightarrow> pyval" where
  "str_list xs = PList (map PStr xs)"

definition normalize_host_pattern :: "net_env \<Rightarrow> pyval \<Rightarrow> egress_error + string" where
  "normalize_host_pattern env v =
     (let token = token_of v in
      if startswith token ''https://'' \<or> startswith token ''http://''
      then (case urlparse (valid_bracketed env) token of
              None \<Rightarrow> Inl UrlError
            | Some u \<Rightarrow> Inr (token_of (PStr (sor (hostname u) token))))
      else Inr token)"

definition merge_lists :: "pyval list list \<Rightarrow> string list" where
  "merge_lists values = ordered_unique (concat values)"

definition host_matches_pattern :: "net_env \<Rightarrow> string \<Rightarrow> string \<Rightarrow> egress_error + bool" where
  "host_matches_pattern env host pattern =
     (let normalized_host = lower (strip host) in
      rbind (normalize_host_pattern env (PStr pattern)) (\<lambda>normalized_pattern. Inr (
        if normalized_host = [] \<or> normalized_pattern = [] then False
        else if startswith normalized_pattern ''*.'' then endswith normalized_host (''.'' @ drop 2 normalized_pattern)
        else normalized_host = normalized_pattern \<or> endswith normalized_host (''.'' @ normalized_pattern))))"

definition allow_list :: "(string \<times> string list) list \<Rightarrow> string list \<Rightarrow> string list" where
  "allow_list table keys =
     ordered_unique (concat (map (\<lambda>k. case map_of table (lower (strip k)) of None \<Rightarrow> [] | Some hosts \<Rightarrow> map PStr hosts) keys))"

definition allowed_hosts_for_providers :: "string list \<Rightarrow> string list" where
  "allowed_hosts_for_providers provider_ids = allow_list PROVIDER_HOST_ALLOWLISTS provider_ids"

definition allowed_hosts_for_connector_scopes :: "string list \<Rightarrow> string list" where
  "allowed_hosts_for_connector_scopes scopes = allow_list CONNECTOR_HOST_ALLOWLISTS scopes"

section \<open>Building and nesting policies\<close>

record policy_args =
  pa_tenant_id :: string
  pa_workspace_id :: string
  pa_runtime_mode :: string
  pa_runtime_scope :: pyval
  pa_agent_install_id :: string
  pa_run_id :: string
  pa_tool_name :: string
  pa_provider_id :: string
  pa_connector_scopes :: "string list"
  pa_allowed_action_classes :: "string list"
  pa_metadata :: pyval

text \<open>\<^verbatim>\<open>[f(x) for x in xs]\<close> with an \<open>f\<close> that may raise.\<close>

fun map_result :: "('a \<Rightarrow> 'e + 'b) \<Rightarrow> 'a list \<Rightarrow> 'e + 'b list" where
  "map_result f [] = Inr []"
| "map_result f (x # xs) = rbind (f x) (\<lambda>y. rbind (map_result f xs) (\<lambda>ys. Inr (y # ys)))"

definition opt_text :: "string \<Rightarrow> pyval" where
  "opt_text s = (if s = [] then PNone else PStr s)"

text \<open>The returned dictionary, from the host patterns and providers read from the network policy.\<close>

definition policy_fields :: "string \<Rightarrow> policy_args \<Rightarrow> pydict \<Rightarrow> string list \<Rightarrow> pyval list \<Rightarrow> pydict" where
  "policy_fields uid a network_policy host_patterns providers =
     (let connector_scopes = ordered_unique (map PStr (pa_connector_scopes a));
          configured_allowed_hosts = ordered_unique (map PStr host_patterns);
          configured_provider_ids = ordered_unique providers;
          provider_hosts = allowed_hosts_for_providers configured_provider_ids;
          connector_hosts = allowed_hosts_for_connector_scopes connector_scopes
      in
       [(''policy_id'', PStr (''egp_'' @ uid)),
        (''tenant_id'', PStr (strip (pa_tenant_id a))),
        (''workspace_id'', PStr (strip (pa_workspace_id a))),
        (''agent_install_id'', opt_text (strip (pa_agent_install_id a))),
        (''run_id'', opt_text (strip (pa_run_id a))),
        (''runtime_mode'', PStr (sor (lower (strip (pa_runtime_mode a))) ''hosted_secure'')),
        (''tool_name'', opt_text (lower (strip (pa_tool_name a)))),
        (''provider_id'', opt_text (lower (strip (pa_provider_id a)))),
        (''active_connector_scopes'', str_list connector_scopes),
        (''allowed_action_classes'', str_list (ordered_unique (map PStr (pa_allowed_action_classes a)))),
        (''allow_outbound'', PBool (truthy (dget_default network_policy ''allow_outbound'' (PBool True)))),
        (''allow_private_hosts'', PBool (truthy (dget_default network_policy ''allow_private_hosts'' (PBool False)))),
        (''allowed_hosts'', str_list (merge_lists [map PStr configured_allowed_hosts, map PStr provider_hosts, map PStr connector_hosts])),
        (''allowed_providers'', str_list configured_provider_ids),
        (''metadata'', PDict (as_dict (pa_metadata a))),
        (''policy_snapshot'', PDict
          [(''mode'', PStr (text_default (dget network_policy ''mode'') ''allowlist_hooks'')),
           (''hooks_ready'', PBool (truthy (dget_default network_policy ''hooks_ready'' (PBool False)))),
           (''configured_allowed_hosts'', str_list configured_allowed_hosts),
           (''configured_allowed_providers'', str_list configured_provider_ids)])])"

definition build_egress_policy :: "net_env \<Rightarrow> string \<Rightarrow> policy_args \<Rightarrow> egress_error + pydict" where
  "build_egress_policy env uid a =
     (let network_policy = as_dict (dget (as_dict (pa_runtime_scope a)) ''network_policy'')
      in rbind (list_or_empty (por (dget network_policy ''allowed_hosts'') (dget network_policy ''allowed_domains''))) (\<lambda>hosts.
         rbind (map_result (normalize_host_pattern env) hosts) (\<lambda>host_patterns.
         rbind (list_or_empty (por (dget network_policy ''allowed_providers'') (str_list DEFAULT_ALLOWED_PROVIDER_IDS))) (\<lambda>providers.
           Inr (policy_fields uid a network_policy host_patterns providers)))))"

definition merged_list :: "string \<Rightarrow> pydict \<Rightarrow> pydict \<Rightarrow> egress_error + string list" where
  "merged_list key parent child =
     rbind (list_or_empty (dget parent key)) (\<lambda>xs. rbind (list_or_empty (dget child key)) (\<lambda>ys. Inr (merge_lists [xs, ys])))"

definition either_field :: "string \<Rightarrow> pydict \<Rightarrow> pydict \<Rightarrow> pyval" where
  "either_field key parent child = por (dget child key) (dget parent key)"

definition both_flags :: "string \<Rightarrow> bool \<Rightarrow> pydict \<Rightarrow> pydict \<Rightarrow> bool" where
  "both_flags key dflt parent child =
     (truthy (dget_default parent key (PBool dflt)) \<and> truthy (dget_default child key (PBool dflt)))"

definition merge_policy :: "string \<Rightarrow> pydict option \<Rightarrow> pydict \<Rightarrow> egress_error + pydict" where
  "merge_policy uid parent_policy child =
     (case parent_policy of
        None \<Rightarrow> Inr child
      | Some parent \<Rightarrow>
          if parent = [] then Inr child
          else
            rbind (merged_list ''active_connector_scopes'' parent child) (\<lambda>connector_scopes.
            rbind (merged_list ''allowed_action_classes'' parent child) (\<lambda>action_classes.
            rbind (merged_list ''allowed_hosts'' parent child) (\<lambda>hosts.
            rbind (merged_list ''allowed_providers'' parent child) (\<lambda>providers.
              Inr
                [(''policy_id'', PStr (py_str (por (either_field ''policy_id'' parent child) (PStr (''egp_'' @ uid))))),
                 (''tenant_id'', PStr (text_of (either_field ''tenant_id'' parent child))),
                 (''workspace_id'', PStr (text_of (either_field ''workspace_id'' parent child))),
                 (''agent_install_id'', either_field ''agent_install_id'' parent child),
                 (''run_id'', either_field ''run_id'' parent child),
                 (''runtime_mode'', PStr (py_str (por (either_field ''runtime_mode'' parent child) (PStr ''hosted_secure'')))),
                 (''tool_name'', either_field ''tool_name'' parent child),
                 (''provider_id'', either_field ''provider_id'' parent child),
                 (''active_connector_scopes'', str_list connector_scopes),
                 (''allowed_action_classes'', str_list action_classes),
                 (''allow_outbound'', PBool (both_flags ''allow_outbound'' True parent child)),
                 (''allow_private_hosts'', PBool (both_flags ''allow_private_hosts'' False parent child)),
                 (''allowed_hosts'', str_list hosts),
                 (''allowed_providers'', str_list providers),
                 (''metadata'', PDict (dmerge (as_dict (dget parent ''metadata'')) (as_dict (dget child ''metadata'')))),
                 (''policy_snapshot'', PDict (dmerge (as_dict (dget parent ''policy_snapshot'')) (as_dict (dget child ''policy_snapshot''))))])))))"

text \<open>The value of the context variable inside the \<^verbatim>\<open>with\<close> block; leaving the block restores the value
  before it, so the body is all that sees it.\<close>

definition activate_egress_policy :: "string \<Rightarrow> pydict \<Rightarrow> bool \<Rightarrow> pydict option \<Rightarrow> egress_error + pydict" where
  "activate_egress_policy uid policy merge_with_current current =
     (if merge_with_current then merge_policy uid current policy else Inr policy)"

fun nested_policy :: "string \<Rightarrow> pydict list \<Rightarrow> pydict option \<Rightarrow> egress_error + pydict option" where
  "nested_policy uid [] current = Inr current"
| "nested_policy uid (p # ps) current = rbind (activate_egress_policy uid p True current) (\<lambda>active. nested_policy uid ps (Some active))"

section \<open>Deciding a request\<close>

definition method_token :: "string \<Rightarrow> string" where
  "method_token m = sor (upper (strip (sor m ''GET''))) ''GET''"

definition request_action_class :: "string \<Rightarrow> string" where
  "request_action_class m = (case map_of HTTP_METHOD_TO_ACTION_CLASS (method_token m) of Some c \<Rightarrow> c | None \<Rightarrow> ''execute'')"

definition rank_of :: "int \<Rightarrow> string \<Rightarrow> int" where
  "rank_of dflt token = (case map_of ACTION_CLASS_ORDER token of Some r \<Rightarrow> r | None \<Rightarrow> dflt)"

definition action_allowed :: "pydict \<Rightarrow> string \<Rightarrow> egress_error + bool" where
  "action_allowed policy action_class =
     rbind (list_or_empty (dget policy ''allowed_action_classes'')) (\<lambda>classes.
       let allowed = ordered_unique classes in
       Inr (allowed = [] \<or> rank_of 99 (lower (strip action_class)) \<le> Max (set (map (rank_of (- 1)) allowed))))"

record egress_event =
  ev_tenant_id :: string
  ev_workspace_id :: string
  ev_url :: string
  ev_host :: string
  ev_method :: string
  ev_action_class :: string
  ev_status :: string
  ev_denial_code :: "string option"

text \<open>The repository call; the copies of the policy's lists that go with it are left out (making
  them raises only on a policy whose fields are not lists, which \<open>build_egress_policy\<close> never makes).\<close>

definition audit_outbound_decision :: "pydict \<Rightarrow> string \<Rightarrow> string \<Rightarrow> string \<Rightarrow> string \<Rightarrow> string \<Rightarrow> string option \<Rightarrow> egress_event list" where
  "audit_outbound_decision policy url m host action_class status denial_code =
     (let tenant_id = text_of (dget policy ''tenant_id''); workspace_id = text_of (dget policy ''workspace_id'') in
      if tenant_id = [] \<or> workspace_id = [] then []
      else [\<lparr>ev_tenant_id = tenant_id, ev_workspace_id = workspace_id, ev_url = strip url, ev_host = lower (strip host),
             ev_method = method_token m, ev_action_class = sor (lower (strip action_class)) ''read'',
             ev_status = sor (lower (strip status)) ''allowed'', ev_denial_code = denial_code\<rparr>])"

fun any_match :: "net_env \<Rightarrow> string \<Rightarrow> pyval list \<Rightarrow> egress_error + bool" where
  "any_match env host [] = Inr False"
| "any_match env host (pattern # rest) =
     rbind (host_matches_pattern env host (py_str pattern)) (\<lambda>matches. if matches then Inr True else any_match env host rest)"

definition host_allowed_by_policy :: "net_env \<Rightarrow> pydict \<Rightarrow> string \<Rightarrow> egress_error + bool" where
  "host_allowed_by_policy env policy host =
     (let normalized_host = lower (strip host) in
      if normalized_host = [] then Inr False
      else rbind (list_or_empty (dget policy ''allowed_hosts'')) (any_match env normalized_host))"

text \<open>The audited decision of a request: its events and the policy, \<open>None\<close> when none is active, or what was raised.\<close>

definition enforce_outbound_request ::
    "net_env \<Rightarrow> pydict option \<Rightarrow> string \<Rightarrow> string \<Rightarrow> egress_event list \<times> (egress_error + pydict option)" where
  "enforce_outbound_request env current url m =
     (case current of
        None \<Rightarrow> ([], Inr None)
      | Some policy \<Rightarrow>
          if policy = [] then ([], Inr None)
          else
            let normalized_url = strip url in
            (case urlparse (valid_bracketed env) normalized_url of
              None \<Rightarrow> ([], Inl UrlError)
            | Some parsed \<Rightarrow>
                let host = lower (strip (hostname parsed));
                    normalized_method = method_token m;
                    action_class = request_action_class normalized_method;
                    audit = audit_outbound_decision policy normalized_url normalized_method host action_class;
                    deny = (\<lambda>code detail. (audit ''denied'' (Some code), Inl (EgressPolicyDeniedError code detail)))
                in (case assert_safe_outbound_url env normalized_url (truthy (dget_default policy ''allow_private_hosts'' (PBool False))) of
                     Some message \<Rightarrow> deny ''private_or_invalid_host''
                       (''Outbound request to '' @ [CHR 0x27] @ normalized_url @ [CHR 0x27] @ '' was denied by the egress policy: '' @ message)
                   | None \<Rightarrow>
                       if \<not> truthy (dget_default policy ''allow_outbound'' (PBool True)) then
                         deny ''outbound_disabled'' ''Outbound network access is disabled for this runtime.''
                       else (case action_allowed policy action_class of
                         Inl e \<Rightarrow> ([], Inl e)
                       | Inr False \<Rightarrow> deny ''action_class_not_allowed''
                           (''The active egress policy does not allow '' @ action_class @ '' outbound actions.'')
                       | Inr True \<Rightarrow>
                           (case host_allowed_by_policy env policy host of
                              Inl e \<Rightarrow> ([], Inl e)
                            | Inr False \<Rightarrow> deny ''host_not_allowed''
                                (''Outbound request host '' @ [CHR 0x27] @ sor host normalized_url @ [CHR 0x27] @ '' is not allowed by the active egress policy.'')
                            | Inr True \<Rightarrow> (audit ''allowed'' None, Inr (Some policy)))))))"

section \<open>Lists and patterns\<close>

lemma list_or_empty_str_list [simp]: "list_or_empty (str_list xs) = Inr (map PStr xs)"
  by (cases xs) (simp_all add: list_or_empty_def str_list_def por_def)

lemma set_unique_tokens: "set (unique_tokens seen vs) = token_of ` set vs - {[]} - set seen"
  by (induction seen vs rule: unique_tokens.induct) (auto simp: Let_def)

lemma set_ordered_unique: "set (ordered_unique vs) = token_of ` set vs - {[]}"
  by (simp add: ordered_unique_def set_unique_tokens)

text \<open>A normalised token.\<close>

definition is_token :: "string \<Rightarrow> bool" where
  "is_token s = (s \<noteq> [] \<and> token_of (PStr s) = s)"

lemma ordered_unique_tokens: "list_all is_token (ordered_unique vs)"
  by (auto simp: list_all_iff set_ordered_unique is_token_def)

lemma ordered_unique_of_tokens: "list_all is_token xs \<Longrightarrow> set (ordered_unique (map PStr xs)) = set xs"
proof -
  assume "list_all is_token xs"
  then have "token_of (PStr s) = s" "s \<noteq> []" if "s \<in> set xs" for s using that by (auto simp: list_all_iff is_token_def)
  then have "token_of ` PStr ` set xs = set xs" "[] \<notin> set xs" unfolding image_image by (auto intro: image_cong)
  then show ?thesis by (simp add: set_ordered_unique)
qed

lemma set_merge_lists: "list_all is_token xs \<Longrightarrow> list_all is_token ys \<Longrightarrow> set (merge_lists [map PStr xs, map PStr ys]) = set xs \<union> set ys"
proof -
  assume "list_all is_token xs" "list_all is_token ys"
  then have "list_all is_token (xs @ ys)" by simp
  from ordered_unique_of_tokens [OF this] show ?thesis by (simp add: merge_lists_def)
qed

text \<open>A pattern the matcher can read, and the hosts it stands for.\<close>

definition pattern_ok :: "net_env \<Rightarrow> string \<Rightarrow> bool" where
  "pattern_ok env p = (\<exists>q. normalize_host_pattern env (PStr p) = Inr q)"

definition covers :: "net_env \<Rightarrow> string \<Rightarrow> string \<Rightarrow> bool" where
  "covers env pattern host = (host_matches_pattern env host pattern = Inr True)"

lemma host_matches_ok: "pattern_ok env p \<Longrightarrow> host_matches_pattern env host p = Inr (covers env p host)"
  by (auto simp: pattern_ok_def covers_def host_matches_pattern_def Let_def)

lemma any_match_ok: "list_all (pattern_ok env) ps \<Longrightarrow> any_match env host (map PStr ps) = Inr (\<exists>p\<in>set ps. covers env p host)"
  by (induction ps) (auto simp: host_matches_ok)

section \<open>Well-typed policies\<close>

text \<open>What the parts of a policy say.\<close>

definition policy_list :: "string \<Rightarrow> pydict \<Rightarrow> string list" where
  "policy_list key p = (case dget p key of PList xs \<Rightarrow> map py_str xs | _ \<Rightarrow> [])"

abbreviation policy_hosts :: "pydict \<Rightarrow> string set" where
  "policy_hosts p \<equiv> set (policy_list ''allowed_hosts'' p)"

abbreviation policy_actions :: "pydict \<Rightarrow> string set" where
  "policy_actions p \<equiv> set (policy_list ''allowed_action_classes'' p)"

definition outbound :: "pydict \<Rightarrow> bool" where
  "outbound p = truthy (dget_default p ''allow_outbound'' (PBool True))"

definition private_hosts :: "pydict \<Rightarrow> bool" where
  "private_hosts p = truthy (dget_default p ''allow_private_hosts'' (PBool False))"

definition token_field :: "string \<Rightarrow> pydict \<Rightarrow> bool" where
  "token_field key p = (dget p key = str_list (policy_list key p) \<and> list_all is_token (policy_list key p))"

definition policy_ok :: "net_env \<Rightarrow> pydict \<Rightarrow> bool" where
  "policy_ok env p =
     (p \<noteq> [] \<and> token_field ''allowed_hosts'' p \<and> token_field ''allowed_action_classes'' p \<and> token_field ''allowed_providers'' p \<and>
      token_field ''active_connector_scopes'' p \<and> list_all (pattern_ok env) (policy_list ''allowed_hosts'' p))"

lemma policy_list_str_list: "dget p key = str_list xs \<Longrightarrow> policy_list key p = xs"
  by (simp add: policy_list_def str_list_def comp_def)

lemma token_fieldI: "dget p key = str_list xs \<Longrightarrow> list_all is_token xs \<Longrightarrow> token_field key p"
  by (simp add: token_field_def policy_list_str_list)

lemma list_or_empty_field: "token_field key p \<Longrightarrow> list_or_empty (dget p key) = Inr (map PStr (policy_list key p))"
  by (metis list_or_empty_str_list token_field_def)

lemma merged_list_ok:
  assumes "token_field key parent" and "token_field key child"
  shows "merged_list key parent child = Inr (merge_lists [map PStr (policy_list key parent), map PStr (policy_list key child)])"
  by (simp add: merged_list_def list_or_empty_field [OF assms(1)] list_or_empty_field [OF assms(2)])

lemma merge_lists_tokens: "list_all is_token (merge_lists xss)"
  by (simp add: merge_lists_def ordered_unique_tokens)

lemma merged_field_set:
  assumes "token_field key parent" and "token_field key child"
  shows "set (merge_lists [map PStr (policy_list key parent), map PStr (policy_list key child)]) = set (policy_list key parent) \<union> set (policy_list key child)"
  using assms unfolding token_field_def by (intro set_merge_lists) blast+

text \<open>Merging two well-typed policies.\<close>

lemma merge_policy_ok:
  assumes "policy_ok env parent" and "policy_ok env child"
  obtains p where "merge_policy uid (Some parent) child = Inr p" and "policy_ok env p"
    and "policy_hosts p = policy_hosts parent \<union> policy_hosts child" and "policy_actions p = policy_actions parent \<union> policy_actions child"
    and "outbound p \<longleftrightarrow> outbound parent \<and> outbound child" and "private_hosts p \<longleftrightarrow> private_hosts parent \<and> private_hosts child"
proof -
  let ?m = "\<lambda>key. merge_lists [map PStr (policy_list key parent), map PStr (policy_list key child)]"
  have tf: "token_field ''allowed_hosts'' parent" "token_field ''allowed_action_classes'' parent" "token_field ''allowed_providers'' parent"
      "token_field ''active_connector_scopes'' parent" "token_field ''allowed_hosts'' child" "token_field ''allowed_action_classes'' child"
      "token_field ''allowed_providers'' child" "token_field ''active_connector_scopes'' child"
    using assms by (simp_all add: policy_ok_def)
  obtain p where p: "merge_policy uid (Some parent) child = Inr p" and
    fields: "dget p ''allowed_hosts'' = str_list (?m ''allowed_hosts'')" "dget p ''allowed_action_classes'' = str_list (?m ''allowed_action_classes'')"
      "dget p ''allowed_providers'' = str_list (?m ''allowed_providers'')" "dget p ''active_connector_scopes'' = str_list (?m ''active_connector_scopes'')"
      "dget_default p ''allow_outbound'' (PBool True) = PBool (outbound parent \<and> outbound child)"
      "dget_default p ''allow_private_hosts'' (PBool False) = PBool (private_hosts parent \<and> private_hosts child)" "p \<noteq> []"
    using assms(1)
    by (simp add: merge_policy_def merged_list_ok tf policy_ok_def dget_Cons dget_default_def both_flags_def outbound_def private_hosts_def)
  have "list_all (pattern_ok env) (?m ''allowed_hosts'')"
    using assms merged_field_set [OF tf(1,5)] by (auto simp: policy_ok_def list_all_iff)
  then have "policy_ok env p"
    using fields by (simp add: policy_ok_def token_field_def merge_lists_tokens policy_list_str_list)
  then show thesis
    using that [OF p] fields merged_field_set [OF tf(1,5)] merged_field_set [OF tf(2,6)]
    by (simp add: outbound_def [of p] private_hosts_def [of p] policy_list_str_list)
qed

section \<open>Built policies are well typed\<close>

lemma lower_char_slash:
  assumes "lower_char c = CHR ''/''"
  shows "c = CHR ''/''"
proof (rule ccontr)
  let ?n = "of_char c :: nat"
  assume "c \<noteq> CHR ''/''"
  with assms have "lower_char c = char_of (?n + 32)" and range: "?n \<le> 90 \<and> 65 \<le> ?n \<or> 192 \<le> ?n \<and> ?n \<le> 222"
    by (auto simp: lower_char_def Let_def split: if_splits)
  then have "(of_char (CHR ''/'') :: nat) = (?n + 32) mod 256" using assms by (simp only: of_char_of)
  with range show False by auto
qed

lemma lower_no_slash: "CHR ''/'' \<notin> set s \<Longrightarrow> CHR ''/'' \<notin> set (lower s)"
  unfolding lower_def set_map image_iff using lower_char_slash by metis

lemma strip_subset: "set (strip s) \<subseteq> set s"
  by (auto simp: strip_def dest!: set_dropWhileD)

lemma token_no_slash: "CHR ''/'' \<notin> set s \<Longrightarrow> CHR ''/'' \<notin> set (token_of (PStr s))"
  using strip_subset [of s] lower_no_slash [of "strip s"] by (auto simp: token_of_PStr)

lemma char_parts_subset:
  "set (before_char c t) \<subseteq> set t" "set (after_char c t) \<subseteq> set t" "set (after_last c t) \<subseteq> set t" "set (dropWhile P t) \<subseteq> set t"
proof -
  show drop: "set (dropWhile P t) \<subseteq> set t" for P by (auto dest: set_dropWhileD)
  show "set (before_char c t) \<subseteq> set t" by (auto simp: before_char_def dest: set_takeWhileD)
  show "set (after_last c t) \<subseteq> set t" by (auto simp: after_last_def dest: set_takeWhileD)
  show "set (after_char c t) \<subseteq> set t"
    using drop [of "\<lambda>x. x \<noteq> c"] unfolding after_char_def by (metis list.sel(2) list.set_sel(2) subset_iff)
qed

lemma hostname_no_slash:
  assumes "urlparse vb s = Some u"
  shows "CHR ''/'' \<notin> set (hostname u)"
proof -
  obtain rest where "netloc u = netloc_of rest"
    using assms by (auto simp: urlparse_def Let_def split: prod.splits if_splits)
  then have "CHR ''/'' \<notin> set (netloc u)" by (auto simp: netloc_of_def dest!: set_takeWhileD)
  then have info: "CHR ''/'' \<notin> set (after_last (CHR ''@'') (netloc u))" using char_parts_subset(3) by blast
  let ?i = "after_last (CHR ''@'') (netloc u)"
  let ?h = "if CHR ''['' \<in> set ?i then before_char (CHR '']'') (after_char (CHR ''['') ?i) else before_char (CHR '':'') ?i"
  have "CHR ''/'' \<notin> set ?h" using info char_parts_subset(1,2) by (auto split: if_splits) blast+
  then have "CHR ''/'' \<notin> set (before_char (CHR ''%'') ?h)" "CHR ''/'' \<notin> set (dropWhile (\<lambda>c. c \<noteq> CHR ''%'') ?h)"
    using char_parts_subset(1,4) by blast+
  then show ?thesis unfolding hostname_def Let_def using lower_no_slash by auto
qed

lemma scheme_prefix_slash: "startswith s ''https://'' \<or> startswith s ''http://'' \<Longrightarrow> CHR ''/'' \<in> set s"
  by (auto simp: startswith_iff)

lemma plain_pattern_ok: "\<not> startswith (token_of (PStr p)) ''https://'' \<Longrightarrow> \<not> startswith (token_of (PStr p)) ''http://'' \<Longrightarrow> pattern_ok env p"
  by (simp add: pattern_ok_def normalize_host_pattern_def Let_def)

lemma normalized_pattern_ok:
  assumes "normalize_host_pattern env v = Inr q"
  shows "pattern_ok env q" and "token_of (PStr q) = q"
proof -
  have "pattern_ok env q \<and> token_of (PStr q) = q"
  proof (cases "startswith (token_of v) ''https://'' \<or> startswith (token_of v) ''http://''")
    case False
    then show ?thesis using assms plain_pattern_ok [of q env] by (auto simp: normalize_host_pattern_def Let_def)
  next
    case True
    then obtain u where u: "urlparse (valid_bracketed env) (token_of v) = Some u" and q: "q = token_of (PStr (sor (hostname u) (token_of v)))"
      using assms by (auto simp: normalize_host_pattern_def Let_def split: option.splits)
    show ?thesis
    proof (cases "hostname u = []")
      case True
      with q u show ?thesis by (auto simp: pattern_ok_def normalize_host_pattern_def Let_def)
    next
      case False
      then have "CHR ''/'' \<notin> set q" using q hostname_no_slash [OF u] token_no_slash by (simp add: sor_def)
      then show ?thesis using q scheme_prefix_slash [of q] plain_pattern_ok [of q env] by auto
    qed
  qed
  then show "pattern_ok env q" and "token_of (PStr q) = q" by simp_all
qed

lemma map_result_Inr: "map_result f xs = Inr ys \<Longrightarrow> y \<in> set ys \<Longrightarrow> \<exists>x. f x = Inr y"
  by (induction xs arbitrary: ys) (auto simp: res_simps)

definition plain_host :: "string \<Rightarrow> bool" where
  "plain_host h = (token_of (PStr h) = h \<and> h \<noteq> [] \<and> \<not> startswith h ''https://'' \<and> \<not> startswith h ''http://'')"

lemma table_hosts_plain:
  "list_all (\<lambda>(_, hs). list_all plain_host hs) PROVIDER_HOST_ALLOWLISTS" "list_all (\<lambda>(_, hs). list_all plain_host hs) CONNECTOR_HOST_ALLOWLISTS"
  by code_simp+

lemma allow_list_plain:
  assumes "list_all (\<lambda>(_, hs). list_all plain_host hs) table"
  shows "list_all plain_host (allow_list table keys)"
proof -
  have "plain_host h" if "map_of table k = Some hs" "h \<in> set hs" for k h hs
    using assms that map_of_SomeD [OF that(1)] by (auto simp: list_all_iff)
  moreover have "token_of (PStr h) = h" if "plain_host h" for h using that by (simp add: plain_host_def)
  ultimately show ?thesis
    by (auto simp: allow_list_def set_ordered_unique list_all_iff split: option.splits) metis
qed

lemma policy_fields_lists:
  defines "conns a \<equiv> ordered_unique (map PStr (pa_connector_scopes a))"
  shows "policy_fields uid a np patterns vs \<noteq> []"
    "dget (policy_fields uid a np patterns vs) ''allowed_hosts'' = str_list (merge_lists [map PStr (ordered_unique (map PStr patterns)),
       map PStr (allowed_hosts_for_providers (ordered_unique vs)), map PStr (allowed_hosts_for_connector_scopes (conns a))])"
    "dget (policy_fields uid a np patterns vs) ''allowed_action_classes'' = str_list (ordered_unique (map PStr (pa_allowed_action_classes a)))"
    "dget (policy_fields uid a np patterns vs) ''allowed_providers'' = str_list (ordered_unique vs)"
    "dget (policy_fields uid a np patterns vs) ''active_connector_scopes'' = str_list (conns a)"
  by (simp_all add: policy_fields_def conns_def Let_def dget_Cons)

lemma built_hosts:
  "set (policy_list ''allowed_hosts'' (policy_fields uid a np patterns vs)) \<subseteq> token_of ` PStr ` set patterns \<union> Collect plain_host"
proof -
  let ?X = "set (allowed_hosts_for_providers (ordered_unique vs)) \<union> set (allowed_hosts_for_connector_scopes (ordered_unique (map PStr (pa_connector_scopes a))))"
  have "plain_host h" if "h \<in> ?X" for h
    using that allow_list_plain [OF table_hosts_plain(1)] allow_list_plain [OF table_hosts_plain(2)]
    by (auto simp: allowed_hosts_for_providers_def allowed_hosts_for_connector_scopes_def list_all_iff)
  then have plain: "token_of ` PStr ` ?X \<subseteq> Collect plain_host" by (auto simp: plain_host_def)
  have "set (policy_list ''allowed_hosts'' (policy_fields uid a np patterns vs)) =
      token_of ` (PStr ` set (ordered_unique (map PStr patterns)) \<union> PStr ` ?X) - {[]}"
    unfolding policy_list_str_list [OF policy_fields_lists(2)] merge_lists_def set_ordered_unique [of "concat _"]
    by (simp add: image_Un Un_assoc)
  also have "\<dots> \<subseteq> token_of ` PStr ` token_of ` PStr ` set patterns \<union> token_of ` PStr ` ?X"
    unfolding image_Un set_ordered_unique set_map by (rule subset_trans [OF Diff_subset], rule Un_mono [OF _ order_refl], intro image_mono Diff_subset)
  also have "token_of ` PStr ` token_of ` PStr ` set patterns = token_of ` PStr ` set patterns" by (simp add: image_image)
  finally show ?thesis by (rule subset_trans) (rule Un_mono [OF order_refl plain])
qed

lemma built_policy_ok:
  assumes "build_egress_policy env uid a = Inr p"
  shows "policy_ok env p"
proof -
  obtain np hosts patterns vs where patterns: "map_result (normalize_host_pattern env) hosts = Inr patterns" and p: "p = policy_fields uid a np patterns vs"
    using assms unfolding build_egress_policy_def Let_def rbind_Inr_iff by auto
  have "pattern_ok env h" if "h \<in> set (policy_list ''allowed_hosts'' p)" for h
  proof -
    have "h \<in> token_of ` PStr ` set patterns \<or> plain_host h" using that built_hosts [of uid a np patterns vs] unfolding p by (simp only: subset_iff Un_iff mem_Collect_eq)
    then show ?thesis
    proof
      assume "h \<in> token_of ` PStr ` set patterns"
      then obtain q where "q \<in> set patterns" "h = token_of (PStr q)" by blast
      with map_result_Inr [OF patterns] normalized_pattern_ok show ?thesis by metis
    next
      assume "plain_host h"
      then show ?thesis using plain_pattern_ok [of h env] by (simp add: plain_host_def)
    qed
  qed
  then show ?thesis
    using policy_fields_lists ordered_unique_tokens merge_lists_tokens
    by (simp add: policy_ok_def p token_field_def policy_list_str_list list_all_iff)
qed

section \<open>Deciding under a well-typed policy\<close>

text \<open>The rank of a class of actions against the classes a policy grants; no classes means no restriction.\<close>

definition grants_action :: "string set \<Rightarrow> string \<Rightarrow> bool" where
  "grants_action classes action_class = (classes = {} \<or> rank_of 99 (lower (strip action_class)) \<le> Max (rank_of (- 1) ` classes))"

text \<open>What a request needs: a URL that is safe, and a policy that grants its action class and its host.\<close>

definition request_permitted :: "net_env \<Rightarrow> bool \<Rightarrow> bool \<Rightarrow> string set \<Rightarrow> string set \<Rightarrow> string \<Rightarrow> string \<Rightarrow> string \<Rightarrow> bool" where
  "request_permitted env private out actions hosts url m host =
     (assert_safe_outbound_url env (strip url) private = None \<and> out \<and> grants_action actions (request_action_class (method_token m)) \<and>
      host \<noteq> [] \<and> (\<exists>pattern\<in>hosts. covers env pattern host))"

lemma action_allowed_ok:
  assumes "token_field ''allowed_action_classes'' p"
  shows "action_allowed p c = Inr (grants_action (policy_actions p) c)"
proof -
  let ?cs = "policy_list ''allowed_action_classes'' p"
  have "set (ordered_unique (map PStr ?cs)) = set ?cs" using assms ordered_unique_of_tokens unfolding token_field_def by blast
  moreover from this have "ordered_unique (map PStr ?cs) = [] \<longleftrightarrow> set ?cs = {}" by (metis set_empty)
  ultimately show ?thesis
    by (simp add: action_allowed_def list_or_empty_field [OF assms] Let_def grants_action_def)
qed

lemma host_allowed_ok:
  assumes "policy_ok env p" and "lower (strip host) = host"
  shows "host_allowed_by_policy env p host = Inr (host \<noteq> [] \<and> (\<exists>pattern\<in>policy_hosts p. covers env pattern host))"
proof -
  have "token_field ''allowed_hosts'' p" "list_all (pattern_ok env) (policy_list ''allowed_hosts'' p)" using assms(1) by (simp_all add: policy_ok_def)
  then show ?thesis by (simp add: host_allowed_by_policy_def Let_def assms(2) list_or_empty_field any_match_ok)
qed

definition audited :: "pydict \<Rightarrow> egress_event list \<Rightarrow> string option \<Rightarrow> bool" where
  "audited p events code =
     (if text_of (dget p ''tenant_id'') = [] \<or> text_of (dget p ''workspace_id'') = [] then events = []
      else \<exists>ev. events = [ev] \<and> ev_denial_code ev = code \<and> ev_status ev = (if code = None then ''allowed'' else ''denied''))"

lemma audit_statuses: "sor (lower (strip ''denied'')) ''allowed'' = ''denied''" "sor (lower (strip ''allowed'')) ''allowed'' = ''allowed''"
  by code_simp+

lemma audit_audited:
  "audited p (audit_outbound_decision p url m host c ''denied'' (Some code)) (Some code)"
  "audited p (audit_outbound_decision p url m host c ''allowed'' None) None"
  by (simp_all add: audited_def audit_outbound_decision_def Let_def audit_statuses)

lemma outbound_gate:
  assumes ok: "policy_ok env p" and url: "urlparse (valid_bracketed env) (strip url) = Some u"
  shows "case enforce_outbound_request env (Some p) url m of
      (events, Inr r) \<Rightarrow>
        request_permitted env (private_hosts p) (outbound p) (policy_actions p) (policy_hosts p) url m (lower (strip (hostname u))) \<and>
        r = Some p \<and> audited p events None
    | (events, Inl e) \<Rightarrow> \<not> request_permitted env (private_hosts p) (outbound p) (policy_actions p) (policy_hosts p) url m (lower (strip (hostname u))) \<and>
        (\<exists>code detail. e = EgressPolicyDeniedError code detail \<and> audited p events (Some code))"
proof -
  have p: "p \<noteq> []" and tf: "token_field ''allowed_action_classes'' p" using ok by (simp_all add: policy_ok_def)
  have host: "lower (strip (lower (strip (hostname u)))) = lower (strip (hostname u))" by (simp add: strip_lower)
  note simps = enforce_outbound_request_def Let_def url p action_allowed_ok [OF tf] host_allowed_ok [OF ok host]
    request_permitted_def private_hosts_def [of p] outbound_def [of p] audit_audited
  show ?thesis
    by (cases "assert_safe_outbound_url env (strip url) (private_hosts p)"; cases "outbound p";
        cases "grants_action (policy_actions p) (request_action_class (method_token m))";
        cases "lower (strip (hostname u)) \<noteq> [] \<and> (\<exists>pattern\<in>policy_hosts p. covers env pattern (lower (strip (hostname u))))")
       (auto simp: simps split: bool.split)
qed

section \<open>Nesting\<close>

lemma nested_policy_ok:
  assumes "list_all (policy_ok env) ps" and "policy_ok env q"
  shows "\<exists>active. nested_policy uid ps (Some q) = Inr (Some active) \<and> policy_ok env active \<and>
    policy_hosts active = policy_hosts q \<union> (\<Union>p\<in>set ps. policy_hosts p) \<and>
    policy_actions active = policy_actions q \<union> (\<Union>p\<in>set ps. policy_actions p) \<and>
    (outbound active \<longleftrightarrow> outbound q \<and> list_all outbound ps) \<and> (private_hosts active \<longleftrightarrow> private_hosts q \<and> list_all private_hosts ps)"
  using assms
proof (induction ps arbitrary: q)
  case (Cons p ps)
  then have p: "policy_ok env p" and ps: "list_all (policy_ok env) ps" by simp_all
  obtain m where m: "merge_policy uid (Some q) p = Inr m" "policy_ok env m"
    "policy_hosts m = policy_hosts q \<union> policy_hosts p" "policy_actions m = policy_actions q \<union> policy_actions p"
    "outbound m \<longleftrightarrow> outbound q \<and> outbound p" "private_hosts m \<longleftrightarrow> private_hosts q \<and> private_hosts p"
    by (rule merge_policy_ok [OF Cons.prems(2) p])
  from Cons.IH [OF ps m(2)] m show ?case by (simp add: activate_egress_policy_def Un_assoc)
qed simp

lemma nested_from_none: "nested_policy uid (p # ps) None = nested_policy uid ps (Some p)"
  by (simp add: activate_egress_policy_def merge_policy_def)

section \<open>The default policy\<close>

definition default_hosts :: "string list" where
  "default_hosts = [''api.openai.com'', ''api.anthropic.com'', ''generativelanguage.googleapis.com'', ''aiplatform.googleapis.com'',
     ''*.aiplatform.googleapis.com'', ''api.groq.com'', ''openrouter.ai'', ''api.openrouter.ai'', ''api.x.ai'', ''*.openai.azure.com'',
     ''api.deepseek.com'', ''ollama.com'']"

lemma default_hosts_eval:
  "merge_lists [[], map PStr (allowed_hosts_for_providers (ordered_unique (map PStr DEFAULT_ALLOWED_PROVIDER_IDS))),
     map PStr (allowed_hosts_for_connector_scopes (ordered_unique []))] = default_hosts"
  "list_all plain_host default_hosts" "list_all plain_host DEFAULT_ALLOWED_PROVIDER_IDS"
  by code_simp+

text \<open>The domain a pattern stands for: without the leading wildcard.\<close>

definition domain_of :: "string \<Rightarrow> string" where
  "domain_of pattern = (if startswith pattern ''*.'' then drop 2 pattern else pattern)"

lemma covers_plain:
  assumes "plain_host pattern"
  shows "covers env pattern host \<longleftrightarrow> lower (strip host) \<noteq> [] \<and>
    (endswith (lower (strip host)) (''.'' @ domain_of pattern) \<or> lower (strip host) = pattern \<and> \<not> startswith pattern ''*.'')"
  using assms by (auto simp: covers_def host_matches_pattern_def normalize_host_pattern_def plain_host_def domain_of_def Let_def)

section \<open>Properties\<close>


text \<open>The default policy confines a run to the listed providers: without a network policy and without
  connectors, the allowed hosts are exactly the listed provider hosts and the hosts below their domains. A host
  that merely ends in or starts with the same letters is not allowed.\<close>

theorem default_policy_confines:
  assumes "build_egress_policy env uid a = Inr p" and "pa_runtime_scope a = PNone" and "pa_connector_scopes a = []"
  shows "host_allowed_by_policy env p host = Inr (let h = lower (strip host) in h \<noteq> [] \<and>
     (\<exists>d\<in>set default_hosts. endswith h (''.'' @ domain_of d) \<or> h = d \<and> \<not> startswith d ''*.''))"
proof -
  have p: "p = policy_fields uid a [] [] (map PStr DEFAULT_ALLOWED_PROVIDER_IDS)"
    using assms by (auto simp: build_egress_policy_def Let_def list_or_empty_def por_def str_list_def DEFAULT_ALLOWED_PROVIDER_IDS_def)
  have hosts: "dget p ''allowed_hosts'' = str_list default_hosts"
    unfolding p policy_fields_lists(2) using default_hosts_eval(1) by (simp add: assms(3) ordered_unique_def)
  have ok: "list_all (pattern_ok env) default_hosts"
    using default_hosts_eval(2) plain_pattern_ok unfolding list_all_iff plain_host_def by metis
  have "covers env d (lower (strip host)) \<longleftrightarrow> lower (strip host) \<noteq> [] \<and> (endswith (lower (strip host)) (''.'' @ domain_of d) \<or> lower (strip host) = d \<and> \<not> startswith d ''*.'')"
    if "d \<in> set default_hosts" for d
    using covers_plain [of d env "lower (strip host)"] default_hosts_eval(2) that by (simp add: list_all_iff strip_lower)
  then show ?thesis
    by (auto simp: host_allowed_by_policy_def Let_def hosts any_match_ok [OF ok])
qed

section \<open>Witnesses\<close>

definition demo_net :: net_env where
  "demo_net = \<lparr>valid_bracketed = \<lambda>_. True, ip_address = \<lambda>_. None, getaddrinfo = \<lambda>_. Some [''104.18.6.192''], allow_private_http_hosts = False\<rparr>"

definition demo_args :: policy_args where
  "demo_args = \<lparr>pa_tenant_id = ''acme'', pa_workspace_id = ''w1'', pa_runtime_mode = ''hosted_secure'', pa_runtime_scope = PNone, pa_agent_install_id = [],
     pa_run_id = ''run-1'', pa_tool_name = [], pa_provider_id = ''openai'', pa_connector_scopes = [], pa_allowed_action_classes = [''write''], pa_metadata = PNone\<rparr>"

definition demo_policy :: pydict where
  "demo_policy = policy_fields ''0'' demo_args [] [] (map PStr DEFAULT_ALLOWED_PROVIDER_IDS)"

definition demo_url :: string where
  "demo_url = ''https://api.openai.com/v1''"

lemma demo_built: "build_egress_policy demo_net ''0'' demo_args = Inr demo_policy"
  by (simp add: build_egress_policy_def demo_args_def demo_policy_def list_or_empty_def por_def str_list_def Let_def DEFAULT_ALLOWED_PROVIDER_IDS_def)


theorem default_policy_confines_witness:
  "host_allowed_by_policy demo_net demo_policy ''api.openai.com.evil.org'' = Inr False"
proof -
  have "\<not> (let h = lower (strip ''api.openai.com.evil.org'') in h \<noteq> [] \<and>
     (\<exists>d\<in>set default_hosts. endswith h (''.'' @ domain_of d) \<or> h = d \<and> \<not> startswith d ''*.''))" by code_simp
  then show ?thesis
    using default_policy_confines [OF demo_built, of "''api.openai.com.evil.org''"] by (simp add: demo_args_def)
qed

end
