(* ===== verification/Tool_Broker.thy ===== *)
theory Tool_Broker
  imports Broker_Guard Token_Codec Egress
begin

text \<open>
  The tool broker, \<^verbatim>\<open>server_modules/tool_broker.py\<close>: signed capability tokens, and the checks a skill or a connector action passes before
  it runs. The checks consult the safe-mode service and the rate guard, whose state is \<open>guard_world\<close>, and build the egress policy
  under which a skill runs.

  Arguments of the model: the environment variables, \<^verbatim>\<open>hmac\<close> with SHA-256, \<^verbatim>\<open>json.loads\<close> (fields of \<open>broker_env\<close>), the registered
  skills (\<open>skill_catalog\<close>), the lookup of an agent's installation, and the skill itself. Records written to the metering service and
  to the ledger are values of \<open>broker_effect\<close>.
\<close>

section \<open>Tables and tokens\<close>

definition BROKER_ACTION_CLASS_ORDER :: "(string \<times> int) list" where
  "BROKER_ACTION_CLASS_ORDER = [(''read'', 0), (''write'', 1), (''execute'', 2)]"

definition SUPPORTED_RUNTIME_MODES :: "string list" where
  "SUPPORTED_RUNTIME_MODES = [''hosted_secure'', ''local_secure'', ''privileged_device'']"

definition SUPPORTED_CONNECTOR_CLASSES :: "string list" where
  "SUPPORTED_CONNECTOR_CLASSES = [''api_connector'', ''browser_connector'', ''media_generation_connector'']"

definition CONNECTOR_CLASS_ALLOWED_ACTIONS :: "(string \<times> string list) list" where
  "CONNECTOR_CLASS_ALLOWED_ACTIONS =
     [(''api_connector'', [''read'', ''write'']), (''browser_connector'', [''read'', ''write'', ''execute'']),
      (''media_generation_connector'', [''write'', ''execute''])]"

definition TOKEN_VERSION :: string where "TOKEN_VERSION = ''empyralis.tool-grant.v1''"
definition DEFAULT_CAPABILITY_TOKEN_TTL_SECONDS :: int where "DEFAULT_CAPABILITY_TOKEN_TTL_SECONDS = 120"
definition MASTER_SCOPE_WILDCARD :: string where "MASTER_SCOPE_WILDCARD = ''*''"

definition INSECURE_BROKER_SECRETS :: "string list" where
  "INSECURE_BROKER_SECRETS = [''empyralis-dev-tool-broker-secret'', ''empyralis-dev-secrets-broker-secret'']"

definition FLEET_SKILL_IDS :: "string list" where
  "FLEET_SKILL_IDS =
     [''fleet-create-agent'', ''fleet-list-agents'', ''fleet-get-agent-activity'', ''fleet-configure-agent'', ''fleet-message-agent'']"

definition MEMORY_SKILL_IDS :: "string list" where
  "MEMORY_SKILL_IDS = [''memory-read'', ''memory-write'', ''memory-list'']"

text \<open>\<open>BrokerTypeError\<close> is raised by \<^verbatim>\<open>hmac.compare_digest\<close> on text that is not ASCII and by \<^verbatim>\<open>list\<close> on a value that cannot be iterated,
  \<open>BrokerIntError\<close> by \<^verbatim>\<open>int\<close>, \<open>SkillError\<close> by the skill.\<close>

datatype broker_error =
    ToolExecutionDenied string string
  | BrokerSecretError
  | BrokerTypeError
  | BrokerIntError
  | BrokerEgressError egress_error
  | SkillError string

definition denied :: "string \<Rightarrow> string \<Rightarrow> broker_error" where
  "denied code dtl =
     ToolExecutionDenied (sor (strip (sor code ''tool_execution_denied'')) ''tool_execution_denied'')
       (sor (strip (sor dtl ''Tool execution was denied.'')) ''Tool execution was denied.'')"

definition normalize_runtime_mode :: "string \<Rightarrow> string" where
  "normalize_runtime_mode mode = (if lower (strip mode) \<in> set SUPPORTED_RUNTIME_MODES then lower (strip mode) else ''hosted_secure'')"

definition normalize_action_class :: "string \<Rightarrow> broker_error + string" where
  "normalize_action_class action_class =
     (let token = lower (strip action_class) in
      if map_of BROKER_ACTION_CLASS_ORDER token = None
      then Inl (denied ''invalid_action_class'' (''Unsupported action class '' @ [CHR 39] @ action_class @ [CHR 39] @ ''.'')) else Inr token)"

definition normalize_connector_class :: "string \<Rightarrow> broker_error + string" where
  "normalize_connector_class connector_class =
     (let token = lower (strip connector_class) in
      if token \<notin> set SUPPORTED_CONNECTOR_CLASSES
      then Inl (denied ''invalid_connector_class'' (''Unsupported connector class '' @ [CHR 39] @ connector_class @ [CHR 39] @ ''.'')) else Inr token)"

text \<open>\<^verbatim>\<open>_ordered_unique\<close> is the function of the same name in \<^verbatim>\<open>egress_policy.py\<close>, on strings.\<close>

definition broker_unique :: "string list \<Rightarrow> string list" where
  "broker_unique values = unique_tokens [] (map PStr values)"

record broker_env =
  bk_getenv :: env_vars
  bk_hmac :: "bytes \<Rightarrow> bytes \<Rightarrow> bytes"
  bk_loads :: "bytes \<Rightarrow> pyval option"

definition env_text :: "env_vars \<Rightarrow> string \<Rightarrow> string" where
  "env_text getenv name = (case getenv name of None \<Rightarrow> [] | Some s \<Rightarrow> s)"

definition require_agent_id_flag :: "env_vars \<Rightarrow> bool" where
  "require_agent_id_flag getenv =
     (lower (strip (case getenv ''EMPYRALIS_REQUIRE_AGENT_ID'' of None \<Rightarrow> ''false'' | Some s \<Rightarrow> s)) \<in> set [''1'', ''true'', ''yes'', ''on''])"

definition signing_secret :: "env_vars \<Rightarrow> broker_error + bytes" where
  "signing_secret getenv =
     (let secret = strip (sor (env_text getenv ''EMPYRALIS_TOOL_BROKER_SECRET'') (env_text getenv ''EMPYRALIS_SECRETS_BROKER_SECRET'')) in
      if secret \<noteq> [] \<and> secret \<notin> set INSECURE_BROKER_SECRETS then Inr (utf8 secret) else Inl BrokerSecretError)"

definition sign :: "broker_env \<Rightarrow> bytes \<Rightarrow> string \<Rightarrow> string" where
  "sign env key payload = b64encode (bk_hmac env key (utf8 payload))"

section \<open>Issuing\<close>

record skill_definition =
  sd_id :: string
  sd_label :: string
  sd_action_class :: string
  sd_connector_scopes :: "string list"
  sd_allowed_runtime_modes :: "string list"
  sd_requires_approval :: bool
  sd_has_executor :: bool
  sd_enabled :: bool

text \<open>The registered skills of a workspace by id, with and without the disabled ones.\<close>

record skill_catalog =
  enabled_skills :: "(string \<times> skill_definition) list"
  all_skills :: "(string \<times> skill_definition) list"

definition get_skill_definition :: "(string \<times> skill_definition) list \<Rightarrow> string \<Rightarrow> skill_definition option" where
  "get_skill_definition skills skill_id = (if strip skill_id = [] then None else map_of skills (strip skill_id))"

record agent_manifest =
  am_manifest_id :: string
  am_name :: string
  am_archetype :: string
  am_scope :: string
  am_connectors_bound :: "string list"
  am_skills :: "(string \<times> bool) list"
  am_approval_mode :: string

definition is_master_manifest :: "agent_manifest \<Rightarrow> bool" where
  "is_master_manifest m = (am_scope m = ''global_master'' \<or> am_archetype m = ''master_os'')"

definition manifest_skill_ids :: "agent_manifest \<Rightarrow> string list" where
  "manifest_skill_ids m = map fst (filter snd (am_skills m))"

definition skill_definitions_for_ids :: "skill_catalog \<Rightarrow> string list \<Rightarrow> skill_definition list" where
  "skill_definitions_for_ids cat ids = List.map_filter (get_skill_definition (enabled_skills cat)) ids"

definition skill_connector_scopes :: "skill_catalog \<Rightarrow> string list \<Rightarrow> string list" where
  "skill_connector_scopes cat ids =
     fold (\<lambda>scope scopes. if scope \<in> set scopes then scopes else scopes @ [scope])
       (concat (map sd_connector_scopes (skill_definitions_for_ids cat ids))) []"

definition connector_scopes_for_manifest :: "skill_catalog \<Rightarrow> agent_manifest \<Rightarrow> string list \<Rightarrow> string list" where
  "connector_scopes_for_manifest cat m ids =
     (if is_master_manifest m then [MASTER_SCOPE_WILDCARD]
      else broker_unique (broker_unique (am_connectors_bound m) @ skill_connector_scopes cat ids))"

definition class_rank :: "int \<Rightarrow> string \<Rightarrow> int" where
  "class_rank dflt token = (case map_of BROKER_ACTION_CLASS_ORDER token of Some r \<Rightarrow> r | None \<Rightarrow> dflt)"

definition action_classes_for_manifest :: "agent_manifest \<Rightarrow> skill_definition list \<Rightarrow> string list" where
  "action_classes_for_manifest m defs =
     (if is_master_manifest m then [''read'', ''write'', ''execute'']
      else let classes = broker_unique (map sd_action_class defs) in
           sort_key (class_rank 99) (if classes = [] then [''read''] else classes))"

record grant_request =
  gr_manifest :: agent_manifest
  gr_tenant_id :: string
  gr_workspace_id :: string
  gr_agent_install_id :: string
  gr_agent_id :: string
  gr_runtime_mode :: string
  gr_runtime_scope :: pydict
  gr_privileged_runtime_approved :: bool
  gr_ttl_seconds :: int

definition grant_expiry :: "grant_request \<Rightarrow> int \<Rightarrow> int" where
  "grant_expiry q issued_at =
     issued_at + max (if gr_ttl_seconds q = 0 then DEFAULT_CAPABILITY_TOKEN_TTL_SECONDS else gr_ttl_seconds q) 1"

definition grant_skill_ids :: "skill_catalog \<Rightarrow> agent_manifest \<Rightarrow> string list" where
  "grant_skill_ids cat m = (if is_master_manifest m then map (sd_id \<circ> snd) (enabled_skills cat) else manifest_skill_ids m)"

definition grant_claims :: "skill_catalog \<Rightarrow> string \<Rightarrow> int \<Rightarrow> grant_request \<Rightarrow> pydict" where
  "grant_claims cat nonce issued_at q =
     (let m = gr_manifest q; mode = normalize_runtime_mode (gr_runtime_mode q); scp = gr_runtime_scope q;
          skill_ids = grant_skill_ids cat m; defs = skill_definitions_for_ids cat skill_ids
      in [(''version'', PStr TOKEN_VERSION),
          (''grant_id'', PStr (''grant_'' @ nonce)),
          (''manifest_id'', PStr (am_manifest_id m)),
          (''agent_name'', PStr (am_name m)),
          (''agent_scope'', PStr (am_scope m)),
          (''agent_install_id'', opt_str (snone (strip (gr_agent_install_id q)))),
          (''agent_id'', opt_str (snone (strip (gr_agent_id q)))),
          (''runtime_mode'', PStr mode),
          (''runtime_constraints'', PDict
             [(''mode'', PStr mode), (''driver'', opt_str (snone (text_of (dget scp ''driver'')))),
              (''workspace_kind'', opt_str (snone (text_of (dget scp ''workspace_kind'')))),
              (''state_layer_policy'', PDict (as_dict (dget scp ''state_layer_policy'')))]),
          (''tenant_id'', PStr (strip (gr_tenant_id q))),
          (''workspace_id'', PStr (strip (gr_workspace_id q))),
          (''allowed_skills'', str_list skill_ids),
          (''allowed_connector_scopes'', str_list (connector_scopes_for_manifest cat m skill_ids)),
          (''allowed_action_classes'', str_list (action_classes_for_manifest m defs)),
          (''approval_granted'', PBool (gr_privileged_runtime_approved q \<or> am_approval_mode m = ''system'')),
          (''policy_approval_mode'', PStr (am_approval_mode m)),
          (''issued_at'', PInt issued_at),
          (''expires_at'', PInt (grant_expiry q issued_at))])"

definition issue_capability_token :: "broker_env \<Rightarrow> skill_catalog \<Rightarrow> string \<Rightarrow> int \<Rightarrow> grant_request \<Rightarrow> broker_error + (string \<times> pydict)" where
  "issue_capability_token env cat nonce issued_at q =
     (let claims = grant_claims cat nonce issued_at q; payload = b64encode (utf8 (json_compact (PDict claims))) in
      rbind (signing_secret (bk_getenv env)) (\<lambda>key. Inr (payload @ ''.'' @ sign env key payload, claims)))"

section \<open>Verifying\<close>

record token_scope =
  ts_manifest_id :: string
  ts_tenant_id :: string
  ts_workspace_id :: string
  ts_runtime_mode :: string

definition token_claims :: "broker_env \<Rightarrow> string \<Rightarrow> broker_error + pydict" where
  "token_claims env payload =
     (let invalid = Inl (denied ''invalid_token'' ''Capability token payload is invalid.'') in
      (case b64decode payload of
         None \<Rightarrow> invalid
       | Some bs \<Rightarrow> (case bk_loads env bs of Some (PDict claims) \<Rightarrow> Inr claims | _ \<Rightarrow> invalid)))"

definition token_mismatch :: "string \<Rightarrow> pydict \<Rightarrow> string \<Rightarrow> bool" where
  "token_mismatch expected claims key = (expected \<noteq> [] \<and> text_of (dget claims key) \<noteq> strip expected)"

definition check_claims :: "token_scope \<Rightarrow> int \<Rightarrow> pydict \<Rightarrow> broker_error + pydict" where
  "check_claims ts now claims =
     (if text_of (dget claims ''version'') \<noteq> TOKEN_VERSION then Inl (denied ''invalid_token_version'' ''Capability token version is invalid.'')
      else (case py_int (por (dget claims ''expires_at'') (PInt 0)) of
              None \<Rightarrow> Inl BrokerIntError
            | Some expires_at \<Rightarrow>
                if expires_at \<le> now then Inl (denied ''token_expired'' ''Capability token expired before the tool call executed.'')
                else if token_mismatch (ts_manifest_id ts) claims ''manifest_id''
                then Inl (denied ''manifest_mismatch'' ''Capability token does not match the active manifest.'')
                else if token_mismatch (ts_tenant_id ts) claims ''tenant_id''
                then Inl (denied ''tenant_mismatch'' ''Capability token does not match the active tenant.'')
                else if token_mismatch (ts_workspace_id ts) claims ''workspace_id''
                then Inl (denied ''workspace_mismatch'' ''Capability token does not match the active workspace.'')
                else if ts_runtime_mode ts \<noteq> [] \<and>
                  normalize_runtime_mode (py_str (por (dget claims ''runtime_mode'') (PStr []))) \<noteq> normalize_runtime_mode (ts_runtime_mode ts)
                then Inl (denied ''runtime_mismatch'' ''Capability token does not authorize this runtime profile.'')
                else Inr claims))"

definition verify_capability_token :: "broker_env \<Rightarrow> string \<Rightarrow> token_scope \<Rightarrow> int \<Rightarrow> broker_error + pydict" where
  "verify_capability_token env token ts now =
     (let raw = strip token in
      if CHR ''.'' \<notin> set raw then Inl (denied ''invalid_token'' ''Capability token is malformed.'')
      else
        let payload = takeWhile (\<lambda>c. c \<noteq> CHR ''.'') raw; signature = tl (dropWhile (\<lambda>c. c \<noteq> CHR ''.'') raw) in
        rbind (signing_secret (bk_getenv env)) (\<lambda>key.
          if \<not> is_ascii signature then Inl BrokerTypeError
          else if signature \<noteq> sign env key payload then Inl (denied ''invalid_token'' ''Capability token signature is invalid.'')
          else rbind (token_claims env payload) (check_claims ts now)))"

section \<open>Checks\<close>

text \<open>One call: its clock in seconds, the reads of the control table it makes in order, and the guard's input.\<close>

record broker_io =
  bi_env :: broker_env
  bi_now :: int
  bi_jsonb :: "pydict \<Rightarrow> pyval"
  bi_reads :: "nat \<Rightarrow> read_io"
  bi_guard :: guard_io

text \<open>A check may raise; the state it left is kept.\<close>

definition run_check :: "('e + 'a) \<times> 's \<Rightarrow> ('a \<Rightarrow> 's \<Rightarrow> ('e + 'b) \<times> 's) \<Rightarrow> ('e + 'b) \<times> 's" where
  "run_check r k = (case r of (Inl e, s) \<Rightarrow> (Inl e, s) | (Inr a, s) \<Rightarrow> k a s)"

definition str_items :: "pydict \<Rightarrow> string \<Rightarrow> broker_error + string list" where
  "str_items claims key = map_sum (\<lambda>_. BrokerTypeError) (map py_str) (list_or_empty (dget claims key))"

definition require_action_class :: "pydict \<Rightarrow> string \<Rightarrow> broker_error + unit" where
  "require_action_class claims action_class =
     rbind (str_items claims ''allowed_action_classes'') (\<lambda>items.
       let granted_rank = fold max (map (class_rank (- 1)) (broker_unique items)) (- 1) in
       if granted_rank < class_rank 99 action_class
       then Inl (denied ''action_class_not_granted'' (''The current capability token does not allow '' @ action_class @ '' tool execution.''))
       else Inr ())"

definition require_runtime_security_controls :: "broker_io \<Rightarrow> pydict \<Rightarrow> guard_world \<Rightarrow> (broker_error + unit) \<times> guard_world" where
  "require_runtime_security_controls io claims w =
     (let tenant = text_of (dget claims ''tenant_id''); workspace = text_of (dget claims ''workspace_id'');
          agent = text_of (dget claims ''agent_install_id'');
          (machine_policy, cw1) = resolve_machine_policy (bi_jsonb io) (bi_reads io 0) (bi_reads io 1) tenant workspace [] [] (guard_controls w);
          w1 = w\<lparr>guard_controls := cw1\<rparr>
      in if truthy (dget (as_dict (dget machine_policy ''kill_switch'')) ''active'')
         then (Inl (denied ''workspace_disabled'' ''This workspace is under a security kill switch and cannot execute tools right now.''), w1)
         else if agent = [] then (Inr (), w1)
         else
           let state = resolve_agent_disable (bi_jsonb io) (bi_reads io 2) (bi_reads io 3) tenant workspace agent cw1;
               w2 = w\<lparr>guard_controls := snd state\<rparr>
           in if is_active_state state
              then (Inl (denied ''agent_disabled'' ''This agent is currently disabled by a security kill switch.''), w2)
              else (Inr (), w2))"

definition incident_denial :: "string \<Rightarrow> pydict \<Rightarrow> broker_error" where
  "incident_denial scp incident =
     (let mode = sor (lower (strip (py_str (por (dget incident ''mode'') (PStr ''pause''))))) ''pause'';
          matched = sor (lower (strip (py_str (por (dget incident ''scope'') (PStr ''connector''))))) ''connector'';
          whole = (matched = ''workspace'');
          dtl = (if whole \<and> mode = ''pause'' then ''This workspace is temporarily paused by an operator incident control.''
                 else if whole \<and> mode = ''drain'' then ''This workspace is temporarily draining new work while the operator clears backlog.''
                 else if whole \<and> mode = ''reject'' then ''This workspace is temporarily rejecting new work during an incident.''
                 else if mode = ''pause'' then ''The '' @ scp @ '' connector is temporarily paused by an operator incident control.''
                 else if mode = ''drain'' then ''The '' @ scp @ '' connector is temporarily draining backlog before it accepts new work.''
                 else ''The '' @ scp @ '' connector is temporarily rejecting new work during an incident.'');
          codes = (if whole then [(''pause'', ''workspace_paused''), (''drain'', ''workspace_draining''), (''reject'', ''workspace_rejected'')]
                   else [(''pause'', ''connector_paused''), (''drain'', ''connector_draining''), (''reject'', ''connector_rejected'')])
      in denied (case map_of codes mode of Some c \<Rightarrow> c | None \<Rightarrow> ''connector_paused'') dtl)"

fun connector_controls :: "broker_io \<Rightarrow> nat \<Rightarrow> string \<Rightarrow> string \<Rightarrow> string list \<Rightarrow> guard_world \<Rightarrow> (broker_error + unit) \<times> guard_world" where
  "connector_controls io n tenant workspace [] w = (Inr (), w)"
| "connector_controls io n tenant workspace (scp # scps) w =
     (let state = resolve_connector_disable_state (bi_jsonb io) (bi_reads io n) (bi_reads io (n + 1)) tenant workspace scp [] (guard_controls w);
          w1 = w\<lparr>guard_controls := snd state\<rparr>
      in if is_active_state state
         then (Inl (denied ''connector_disabled'' (''The '' @ scp @ '' connector is disabled by a security control.'')), w1)
         else
           let incident = resolve_connector_incident_state (bi_jsonb io) (bi_reads io (n + 2)) (bi_reads io (n + 3)) tenant workspace scp []
                 (guard_controls w1);
               w2 = w\<lparr>guard_controls := snd incident\<rparr>
           in if is_active_state incident then (Inl (incident_denial scp (fst incident)), w2)
              else connector_controls io (n + 4) tenant workspace scps w2)"

definition require_connector_scopes :: "broker_io \<Rightarrow> pydict \<Rightarrow> string list \<Rightarrow> guard_world \<Rightarrow> (broker_error + unit) \<times> guard_world" where
  "require_connector_scopes io claims required_scopes w =
     (let required = broker_unique required_scopes in
      if required = [] then (Inr (), w)
      else run_check (str_items claims ''allowed_connector_scopes'', w) (\<lambda>items w.
        let allowed = broker_unique items; missing = filter (\<lambda>scp. scp \<notin> set allowed) required in
        if MASTER_SCOPE_WILDCARD \<in> set allowed then (Inr (), w)
        else if missing \<noteq> []
        then (Inl (denied ''connector_scope_not_granted''
                (''The current capability token is missing connector scope(s): '' @ join '', '' missing @ ''.'')), w)
        else connector_controls io 4 (text_of (dget claims ''tenant_id'')) (text_of (dget claims ''workspace_id'')) required w))"

definition require_runtime_allowed :: "skill_definition \<Rightarrow> string \<Rightarrow> broker_error + unit" where
  "require_runtime_allowed sd mode =
     (if normalize_runtime_mode mode \<notin> set (sd_allowed_runtime_modes sd)
      then Inl (denied ''runtime_not_allowed'' (sd_label sd @ '' cannot run in '' @ normalize_runtime_mode mode @ ''.'')) else Inr ())"

definition SAFETY_MODE_HINT :: string where
  "SAFETY_MODE_HINT = ''not available in the current safety mode. Switch to a less restrictive mode or rephrase the request.''"

definition require_approval_if_needed :: "pydict \<Rightarrow> skill_definition \<Rightarrow> broker_error + unit" where
  "require_approval_if_needed claims sd =
     (if sd_requires_approval sd \<and> \<not> truthy (dget claims ''approval_granted'')
      then Inl (denied ''elevated_action_blocked'' (sd_label sd @ '' is '' @ SAFETY_MODE_HINT)) else Inr ())"

definition require_broker_guard :: "broker_io \<Rightarrow> tool_call \<Rightarrow> guard_world \<Rightarrow> (broker_error + unit) \<times> guard_world" where
  "require_broker_guard io c w =
     (let (d, w1) = evaluate_tool_call (bi_guard io) c w in
      (if gd_allowed d then Inr () else Inl (denied (gd_code d) (gd_detail d)), w1))"

section \<open>Connector actions\<close>

record connector_request =
  cr_token :: string
  cr_scope :: token_scope
  cr_connector_scope :: string
  cr_action_class :: string
  cr_connector_class :: "string option"
  cr_elevated :: "bool option"

definition connector_class_check :: "string option \<Rightarrow> string \<Rightarrow> broker_error + unit" where
  "connector_class_check connector_class action_class =
     (case connector_class of
        None \<Rightarrow> Inr ()
      | Some c \<Rightarrow> rbind (normalize_connector_class c) (\<lambda>token.
          if (case map_of CONNECTOR_CLASS_ALLOWED_ACTIONS token of None \<Rightarrow> False | Some actions \<Rightarrow> action_class \<in> set actions) then Inr ()
          else Inl (denied ''connector_action_not_supported_for_class'' (action_class @ '' actions are not allowed for '' @ token @ ''.''))))"

definition authorize_connector_action :: "broker_io \<Rightarrow> connector_request \<Rightarrow> guard_world \<Rightarrow> (broker_error + pydict) \<times> guard_world" where
  "authorize_connector_action io q w =
     (let connector = lower (strip (cr_connector_scope q)) in
      run_check (verify_capability_token (bi_env io) (cr_token q) (cr_scope q) (bi_now io), w) (\<lambda>claims w.
      run_check (require_runtime_security_controls io claims w) (\<lambda>_ w.
      run_check (normalize_action_class (cr_action_class q), w) (\<lambda>action_class w.
      run_check (connector_class_check (cr_connector_class q) action_class, w) (\<lambda>_ w.
      run_check (require_action_class claims action_class, w) (\<lambda>_ w.
      run_check (require_connector_scopes io claims [connector] w) (\<lambda>_ w.
      run_check (require_broker_guard io
        \<lparr>tc_claims = claims, tc_tool_key = connector, tc_action_class = action_class, tc_connector_scope = connector, tc_surface = ''connector''\<rparr> w) (\<lambda>_ w.
        if (case cr_elevated q of None \<Rightarrow> action_class \<noteq> ''read'' | Some b \<Rightarrow> b) \<and> \<not> truthy (dget claims ''approval_granted'')
        then (Inl (denied ''elevated_action_blocked'' (cr_connector_scope q @ '' connector actions are '' @ SAFETY_MODE_HINT)), w)
        else (Inr claims, w)))))))))"

section \<open>Skills\<close>

datatype meter_kind = RecordFailed | RecordBlocked | RecordStarted | RecordCompleted

datatype broker_effect =
    Metered meter_kind string string
  | Ledger string string
  | Escalated string

record broker_state =
  bs_guard :: guard_world
  missing_agent_id_count :: nat
  legacy_token_agent_id_count :: nat
  bs_effects :: "broker_effect list"

definition emit :: "broker_effect \<Rightarrow> broker_state \<Rightarrow> broker_state" where
  "emit f s = s\<lparr>bs_effects := bs_effects s @ [f]\<rparr>"

definition on_guard :: "(guard_world \<Rightarrow> (broker_error + 'a) \<times> guard_world) \<Rightarrow> broker_state \<Rightarrow> (broker_error + 'a) \<times> broker_state" where
  "on_guard f s = (let (r, w) = f (bs_guard s) in (r, s\<lparr>bs_guard := w\<rparr>))"

text \<open>The installation of an agent by agent id and workspace: \<open>None\<close> when the lookup raises.\<close>

type_synonym install_lookup = "string \<Rightarrow> string \<Rightarrow> pyval option"

text \<open>The body of the coroutine \<^verbatim>\<open>_enforce_agent_tool_policy\<close>: an empty or missing list enables everything, and an installation that
  cannot be read is let through.\<close>

definition policy_list :: "pydict \<Rightarrow> string \<Rightarrow> pyval list option" where
  "policy_list d key = (case dget d key of PList (x # xs) \<Rightarrow> Some (x # xs) | _ \<Rightarrow> None)"

definition tool_denial_reasons :: "pydict \<Rightarrow> string \<Rightarrow> string list \<Rightarrow> string list" where
  "tool_denial_reasons install_row tool_name connector_scopes =
     (case policy_list install_row ''enabled_tools'' of
        None \<Rightarrow> []
      | Some tools \<Rightarrow> (if PStr tool_name \<in> set tools then [] else [''tool_not_enabled:'' @ tool_name])) @
     (case policy_list install_row ''enabled_connectors'' of
        None \<Rightarrow> []
      | Some connectors \<Rightarrow> map (\<lambda>scp. ''connector_not_enabled:'' @ scp)
          (filter (\<lambda>scp. scp \<noteq> [] \<and> PStr scp \<notin> set connectors) connector_scopes))"

definition enforce_agent_tool_policy :: "install_lookup \<Rightarrow> string \<Rightarrow> string \<Rightarrow> string \<Rightarrow> string list \<Rightarrow> broker_state \<Rightarrow> (broker_error + unit) \<times> broker_state" where
  "enforce_agent_tool_policy installs agent workspace tool_name connector_scopes s =
     (case installs agent workspace of
        Some (PDict row) \<Rightarrow>
          (let reasons = tool_denial_reasons row tool_name connector_scopes in
           if row = [] \<or> reasons = [] then (Inr (), s)
           else (Inl (denied ''agent_tool_not_enabled'' (''Access not enabled for this agent. '' @ join ''; '' reasons)),
                 emit (Ledger ''tool_not_enabled'' agent) s))
      | _ \<Rightarrow> (Inr (), s))"

text \<open>\<^verbatim>\<open>fleet_tools.resolve_agent_role\<close>; \<open>None\<close> when the record or its metadata is not a dictionary, which raises.\<close>

definition resolve_agent_role :: "pyval \<Rightarrow> string option" where
  "resolve_agent_role install_row =
     (let role_of = (\<lambda>meta. let role = token_of (dget meta ''role'') in Some (if role \<in> set [''operator'', ''specialist''] then role else ''specialist'')) in
      if \<not> truthy install_row then role_of []
      else (case install_row of
              PDict row \<Rightarrow> (case por (dget row ''install_metadata'') (por (dget row ''metadata'') (PDict [])) of PDict meta \<Rightarrow> role_of meta | _ \<Rightarrow> None)
            | _ \<Rightarrow> None))"

definition enforce_fleet_tool_role :: "install_lookup \<Rightarrow> string \<Rightarrow> string \<Rightarrow> string \<Rightarrow> broker_state \<Rightarrow> (broker_error + unit) \<times> broker_state" where
  "enforce_fleet_tool_role installs agent workspace skill_id s =
     (if strip skill_id \<notin> set FLEET_SKILL_IDS then (Inr (), s)
      else (case Option.bind (installs agent workspace) resolve_agent_role of
              None \<Rightarrow> (Inl (denied ''fleet_tool_role_unresolvable'' (''Cannot resolve agent role for fleet tool '' @ [CHR 39] @ skill_id @ [CHR 39] @
                        ''. Fleet tools require a confirmed operator role.'')), s)
            | Some role \<Rightarrow>
                if role = ''operator'' then (Inr (), s)
                else (Inl (denied ''fleet_tool_requires_operator'' (''The '' @ skill_id @ '' tool is restricted to operator agents. Current role: '' @ role @
                        ''. Required role: operator.'')), emit (Escalated agent) (emit (Ledger ''policy_denial'' agent) s))))"

record skill_request =
  sq_token :: string
  sq_scope :: token_scope
  sq_skill_id :: string
  sq_agent_id :: string
  sq_agent_install_id :: string

text \<open>What the checks end in: the skill may run, or it is a memory tool, dispatched before the checks on runtime and approval.\<close>

datatype skill_grant = RunSkill pydict | MemoryTool pydict string

definition count_legacy_token :: "pydict \<Rightarrow> broker_state \<Rightarrow> broker_state" where
  "count_legacy_token claims s =
     (if text_of (dget claims ''agent_install_id'') \<noteq> [] \<and> text_of (dget claims ''agent_id'') = []
      then emit (Ledger ''legacy_token_no_agent_id'' ''unattributed_legacy_token'')
             (s\<lparr>legacy_token_agent_id_count := Suc (legacy_token_agent_id_count s)\<rparr>)
      else s)"

text \<open>The call of \<^verbatim>\<open>_enforce_agent_tool_policy\<close> is not awaited: it builds a coroutine and drops it, so it is no step here.\<close>

definition skill_gate :: "broker_io \<Rightarrow> install_lookup \<Rightarrow> skill_definition \<Rightarrow> skill_request \<Rightarrow> broker_state \<Rightarrow> (broker_error + skill_grant) \<times> broker_state" where
  "skill_gate io installs sd q s =
     run_check (verify_capability_token (bi_env io) (sq_token q) (sq_scope q) (bi_now io), s) (\<lambda>claims s.
     run_check (on_guard (require_runtime_security_controls io claims) s) (\<lambda>_ s.
     run_check (str_items claims ''allowed_skills'', s) (\<lambda>skills s.
     run_check (if sq_skill_id q \<in> set (broker_unique skills) then Inr ()
                else Inl (denied ''skill_not_granted'' (''The current capability token does not allow the '' @ sd_label sd @ '' skill.'')), s) (\<lambda>_ s.
     run_check (require_action_class claims (sd_action_class sd), s) (\<lambda>_ s.
     run_check (on_guard (require_connector_scopes io claims (sd_connector_scopes sd)) s) (\<lambda>_ s.
     run_check (on_guard (require_broker_guard io
       \<lparr>tc_claims = claims, tc_tool_key = sq_skill_id q, tc_action_class = sd_action_class sd,
        tc_connector_scope = join '','' (sd_connector_scopes sd), tc_surface = ''skill''\<rparr>) s) (\<lambda>_ s.
       let agent = strip (sor (sq_agent_id q) (sor (text_of (dget claims ''agent_id'')) (text_of (dget claims ''agent_install_id''))));
           s1 = count_legacy_token claims s
       in run_check (if agent = [] then (Inr (), s1) else enforce_fleet_tool_role installs agent (ts_workspace_id (sq_scope q)) (sq_skill_id q) s1) (\<lambda>_ s.
          if sq_skill_id q \<in> set MEMORY_SKILL_IDS then (Inr (MemoryTool claims agent), s)
          else if \<not> sd_has_executor sd then (Inr (RunSkill claims), s)
          else run_check (require_runtime_allowed sd (ts_runtime_mode (sq_scope q)), s) (\<lambda>_ s.
               run_check (require_approval_if_needed claims sd, s) (\<lambda>_ s. (Inr (RunSkill claims), s)))))))))))"

datatype skill_outcome = SkillReturned pyval | SkillEgressDenied string | SkillRaised string string

text \<open>The skill, and the memory tools, as they answer in this call.\<close>

record skill_backend =
  sb_run :: "pydict \<Rightarrow> skill_outcome"
  sb_memory :: "string \<Rightarrow> pyval"
  sb_current_policy :: "pydict option"
  sb_net :: net_env
  sb_uid :: string

definition skill_policy_args :: "skill_request \<Rightarrow> skill_definition \<Rightarrow> pydict \<Rightarrow> policy_args" where
  "skill_policy_args q sd claims =
     \<lparr>pa_tenant_id = ts_tenant_id (sq_scope q), pa_workspace_id = ts_workspace_id (sq_scope q), pa_runtime_mode = ts_runtime_mode (sq_scope q),
      pa_runtime_scope = PNone, pa_agent_install_id = text_of (dget claims ''agent_install_id''), pa_run_id = [], pa_tool_name = sq_skill_id q,
      pa_provider_id = [], pa_connector_scopes = sd_connector_scopes sd, pa_allowed_action_classes = [sd_action_class sd],
      pa_metadata = PDict [(''skill_id'', PStr (sq_skill_id q)), (''manifest_id'', PStr (ts_manifest_id (sq_scope q)))]\<rparr>"

definition run_skill :: "skill_backend \<Rightarrow> skill_definition \<Rightarrow> skill_request \<Rightarrow> pydict \<Rightarrow> broker_state \<Rightarrow> (broker_error + pyval) \<times> broker_state" where
  "run_skill b sd q claims s =
     (case rbind (build_egress_policy (sb_net b) (sb_uid b) (skill_policy_args q sd claims)) (\<lambda>p. activate_egress_policy (sb_uid b) p True (sb_current_policy b)) of
        Inl e \<Rightarrow> (Inl (BrokerEgressError e), s)
      | Inr active \<Rightarrow>
          let s1 = emit (Metered RecordStarted (sd_action_class sd) []) s in
          (case sb_run b active of
             SkillReturned v \<Rightarrow> (Inr v, emit (Metered RecordCompleted (sd_action_class sd) []) s1)
           | SkillEgressDenied dtl \<Rightarrow> (Inl (denied ''egress_denied'' dtl), emit (Metered RecordBlocked (sd_action_class sd) ''egress_denied'') s1)
           | SkillRaised name msg \<Rightarrow> (Inl (SkillError msg), emit (Metered RecordFailed (sd_action_class sd) name) s1)))"

definition missing_skill :: "string \<Rightarrow> pyval" where
  "missing_skill skill_id =
     PDict [(''status'', PStr ''missing''),
            (''reply'', PStr (''The requested skill '' @ skill_id @ '' is not registered in the universal harness.'')),
            (''artifact'', PNone),
            (''steps'', PList [PDict [(''label'', PStr ''Resolving skill registry''), (''detail'', PStr skill_id), (''status'', PStr ''error''),
                                     (''kind'', PStr ''connector'')]])]"

definition count_missing_agent :: "skill_request \<Rightarrow> broker_state \<Rightarrow> broker_state" where
  "count_missing_agent q s =
     (if strip (sor (sq_agent_id q) (sq_agent_install_id q)) = []
      then emit (Ledger ''tool_dispatch_missing_agent_id'' ''tool_broker'') (s\<lparr>missing_agent_id_count := Suc (missing_agent_id_count s)\<rparr>)
      else s)"

definition execute_skill ::
    "broker_io \<Rightarrow> skill_catalog \<Rightarrow> install_lookup \<Rightarrow> skill_backend \<Rightarrow> skill_request \<Rightarrow> broker_state \<Rightarrow> (broker_error + pyval) \<times> broker_state" where
  "execute_skill io cat installs b q s =
     (let s0 = count_missing_agent q s in
      if strip (sor (sq_agent_id q) (sq_agent_install_id q)) = [] \<and> require_agent_id_flag (bk_getenv (bi_env io))
      then (Inl (denied ''missing_agent_id'' ''agent_id is required for tool dispatch (EMPYRALIS_REQUIRE_AGENT_ID is set).''), s0)
      else (case get_skill_definition (all_skills cat) (sq_skill_id q) of
              None \<Rightarrow> (Inr (missing_skill (sq_skill_id q)), emit (Metered RecordFailed ''invoke'' ''skill_missing'') s0)
            | Some sd \<Rightarrow>
                if \<not> sd_enabled sd
                then (Inl (denied ''skill_disabled'' (''The '' @ sd_label sd @ '' skill is disabled for this workspace.'')),
                      emit (Metered RecordBlocked ''invoke'' ''skill_disabled'') s0)
                else (case skill_gate io installs sd q s0 of
                        (Inl (ToolExecutionDenied code dtl), s1) \<Rightarrow>
                          (Inl (ToolExecutionDenied code dtl), emit (Metered RecordBlocked (sd_action_class sd) code) s1)
                      | (Inl e, s1) \<Rightarrow> (Inl e, s1)
                      | (Inr (MemoryTool claims agent), s1) \<Rightarrow> (Inr (sb_memory b agent), s1)
                      | (Inr (RunSkill claims), s1) \<Rightarrow> run_skill b sd q claims s1)))"

definition joined_strings :: "string \<Rightarrow> pyval list \<Rightarrow> broker_error + string" where
  "joined_strings sep items =
     (if list_all (\<lambda>v. case v of PStr _ \<Rightarrow> True | _ \<Rightarrow> False) items then Inr (join sep (map py_str items)) else Inl BrokerTypeError)"

definition summarize_capability_grant :: "pydict \<Rightarrow> broker_error + string" where
  "summarize_capability_grant claims =
     (let items = (\<lambda>key. map_sum (\<lambda>_. BrokerTypeError) id (list_or_empty (dget claims key))); dot = '' '' @ [CHR 0xB7] @ '' '' in
      rbind (items ''allowed_skills'') (\<lambda>skills.
      rbind (items ''allowed_connector_scopes'') (\<lambda>scps.
      rbind (rbind (items ''allowed_action_classes'') (joined_strings '', '')) (\<lambda>actions.
      rbind (of_option BrokerIntError (py_int (por (dget claims ''issued_at'') (PInt 0)))) (\<lambda>issued_at.
      rbind (of_option BrokerIntError (py_int (por (dget claims ''expires_at'') (PInt issued_at)))) (\<lambda>expires_at.
        Inr (nat_str (length skills) @ '' skill(s)'' @ dot @ nat_str (length scps) @ '' connector scope(s)'' @ dot @ ''actions '' @ sor actions ''none'' @
             dot @ ''expires in '' @ int_str (max (expires_at - issued_at) 0) @ ''s'' @ dot @ ''runtime '' @
             py_str (por (dget claims ''runtime_mode'') (PStr ''hosted_secure'')))))))))"

section \<open>Lemmas\<close>

lemma run_check_Inr [res_simps]: "fst (run_check r k) = Inr b \<longleftrightarrow> (\<exists>a s. r = (Inr a, s) \<and> fst (k a s) = Inr b)"
  by (auto simp: run_check_def split: prod.split sum.split)

lemma run_check_simps [simp]: "run_check (Inr a, s) k = k a s" "run_check (Inl e, s) k = (Inl e, s)"
  by (simp_all add: run_check_def)

lemma strip_solid: "list_all (\<lambda>c. \<not> is_space c) s \<Longrightarrow> strip s = s"
  by (cases "s = []") (auto simp: list_all_iff intro: strip_id)

lemma claims_fields:
  "dget (grant_claims cat nonce t q) ''version'' = PStr TOKEN_VERSION"
  "dget (grant_claims cat nonce t q) ''manifest_id'' = PStr (am_manifest_id (gr_manifest q))"
  "dget (grant_claims cat nonce t q) ''runtime_mode'' = PStr (normalize_runtime_mode (gr_runtime_mode q))"
  "dget (grant_claims cat nonce t q) ''tenant_id'' = PStr (strip (gr_tenant_id q))"
  "dget (grant_claims cat nonce t q) ''workspace_id'' = PStr (strip (gr_workspace_id q))"
  "dget (grant_claims cat nonce t q) ''expires_at'' = PInt (grant_expiry q t)"
  "dget (grant_claims cat nonce t q) ''allowed_connector_scopes'' =
     str_list (connector_scopes_for_manifest cat (gr_manifest q) (grant_skill_ids cat (gr_manifest q)))"
  by (simp_all add: grant_claims_def Let_def dget_Cons)

lemma runtime_mode_again [simp]: "normalize_runtime_mode (normalize_runtime_mode m) = normalize_runtime_mode m"
proof -
  have "list_all (\<lambda>t. lower (strip t) = t) SUPPORTED_RUNTIME_MODES" by code_simp
  moreover have "lower (strip ''hosted_secure'') = ''hosted_secure''" by code_simp
  ultimately show ?thesis
    by (simp add: normalize_runtime_mode_def list_all_iff SUPPORTED_RUNTIME_MODES_def)
qed

lemma version_text: "strip TOKEN_VERSION = TOKEN_VERSION"
  by code_simp

text \<open>The scope a grant was asked for.\<close>

definition grant_scope :: "grant_request \<Rightarrow> token_scope" where
  "grant_scope q =
     \<lparr>ts_manifest_id = am_manifest_id (gr_manifest q), ts_tenant_id = gr_tenant_id q, ts_workspace_id = gr_workspace_id q,
      ts_runtime_mode = gr_runtime_mode q\<rparr>"

lemma check_issued:
  assumes "\<And>k. dget claims k = dget (grant_claims cat nonce t q) k"
  shows "check_claims (grant_scope q) now claims =
    (if now < grant_expiry q t then Inr claims
     else Inl (denied ''token_expired'' ''Capability token expired before the tool call executed.''))"
proof -
  have "py_int (por (PInt (grant_expiry q t)) (PInt 0)) = Some (grant_expiry q t)"
    by (simp add: por_def)
  moreover have "normalize_runtime_mode (py_str (por (PStr (normalize_runtime_mode m)) (PStr []))) = normalize_runtime_mode m" for m
    by (cases "normalize_runtime_mode m = []") (simp_all add: por_def, metis runtime_mode_again)
  ultimately show ?thesis
    by (simp add: check_claims_def assms claims_fields text_of_PStr version_text token_mismatch_def grant_scope_def)
qed

lemma signed_token_parts:
  assumes "token_chars payload" and "token_chars signature"
  shows "strip (payload @ ''.'' @ signature) = payload @ ''.'' @ signature"
    and "takeWhile (\<lambda>c. c \<noteq> CHR ''.'') (payload @ ''.'' @ signature) = payload"
    and "tl (dropWhile (\<lambda>c. c \<noteq> CHR ''.'') (payload @ ''.'' @ signature)) = signature"
proof -
  have no_dot: "\<forall>c\<in>set payload. c \<noteq> CHR ''.''" and solid: "list_all (\<lambda>c. \<not> is_space c) payload" "list_all (\<lambda>c. \<not> is_space c) signature"
    using assms by (auto simp: token_chars_def list_all_iff)
  have "\<not> is_space (CHR ''.'')" by code_simp
  with solid show "strip (payload @ ''.'' @ signature) = payload @ ''.'' @ signature"
    by (intro strip_solid) simp
  show "takeWhile (\<lambda>c. c \<noteq> CHR ''.'') (payload @ ''.'' @ signature) = payload"
    using no_dot by simp
  show "tl (dropWhile (\<lambda>c. c \<noteq> CHR ''.'') (payload @ ''.'' @ signature)) = signature"
    using no_dot by simp
qed

lemma encoded_chars: "is_bytes raw \<Longrightarrow> token_chars (b64encode raw)"
  by (erule b64encode_shape)

section \<open>Properties\<close>

text \<open>C17. A token that the broker issued is accepted for the manifest, tenant, workspace and runtime it was issued for, with the claims it
  was issued with, until the second it expires, and is refused as expired from then on.\<close>

theorem issued_token_verifies:
  assumes issued: "issue_capability_token env cat nonce t q = Inr (token, claims)"
    and digest: "\<And>key msg. is_bytes (bk_hmac env key msg)"
    and loads: "bk_loads env (utf8 (json_compact (PDict claims))) = Some (PDict parsed)" "\<And>k. dget parsed k = dget claims k"
  shows "verify_capability_token env token (grant_scope q) now =
    (if now < grant_expiry q t then Inr parsed
     else Inl (denied ''token_expired'' ''Capability token expired before the tool call executed.''))"
proof -
  let ?raw = "utf8 (json_compact (PDict claims))"
  let ?payload = "b64encode ?raw"
  obtain key where key: "signing_secret (bk_getenv env) = Inr key" and claims: "claims = grant_claims cat nonce t q"
    and token: "token = ?payload @ ''.'' @ sign env key ?payload"
    using issued by (auto simp: issue_capability_token_def Let_def rbind_Inr_iff)
  have chars: "token_chars ?payload" "token_chars (sign env key ?payload)"
    by (simp_all add: encoded_chars utf8_bytes sign_def digest)
  have "token_claims env ?payload = Inr parsed"
    by (simp add: token_claims_def Let_def b64_roundtrip utf8_bytes loads(1) del: json_compact.simps)
  moreover have "is_ascii (sign env key ?payload)"
    using chars(2) by (auto simp: token_chars_def is_ascii_def list_all_iff)
  ultimately have "verify_capability_token env token (grant_scope q) now = check_claims (grant_scope q) now parsed"
    using signed_token_parts [OF chars] by (simp add: verify_capability_token_def token key Let_def)
  then show ?thesis
    using check_issued [of parsed cat nonce t q now] loads(2) claims by simp
qed

end
