(* ===== verification/Kill_Switch.thy ===== *)
theory Kill_Switch
  imports Kernel_Client
begin

text \<open>
  The emergency stop, \<^verbatim>\<open>server_modules/kill_switch_gate.py\<close>: switches held in memory, mirrored to a
  JSON file that is read back at start-up, changed only with the Rust kernel's consent, and consulted
  before work is dispatched.

  State: the dictionary \<^verbatim>\<open>_KILL_STATE\<close> and the file. A read that raises is \<open>readable = False\<close>; a
  write that raises leaves the file in some other state, which is an argument. Resolvers other than
  the file resolver, which the module registers first, are the argument \<open>ext\<close>: the dictionary each
  would return, or \<open>None\<close> where it raises. The two calls into \<^verbatim>\<open>safe_mode_service\<close> are the record
  \<open>safe_mode_env\<close>.
\<close>

section \<open>State and file\<close>

definition GLOBAL_KILL_KEY :: string where "GLOBAL_KILL_KEY = ''global_pilot''"
definition WORKSPACE_KILL_PREFIX :: string where "WORKSPACE_KILL_PREFIX = ''workspace:''"
definition AGENT_KILL_PREFIX :: string where "AGENT_KILL_PREFIX = ''agent:''"
definition GATEWAY_KILL_PREFIX :: string where "GATEWAY_KILL_PREFIX = ''gateway:''"
definition CHANNEL_KILL_PREFIX :: string where "CHANNEL_KILL_PREFIX = ''channel:''"

datatype kill_file = Missing | Garbage | Json pyval

record kill_world =
  kill_state :: "(string \<times> bool) list"
  kill_switch_file :: kill_file

datatype write_io = WriteOk | WriteFailed kill_file

definition kill_switch_scope :: "string \<Rightarrow> string" where
  "kill_switch_scope key =
     (if key = GLOBAL_KILL_KEY then ''global''
      else if startswith key WORKSPACE_KILL_PREFIX then ''workspace''
      else if startswith key AGENT_KILL_PREFIX then ''agent''
      else if startswith key GATEWAY_KILL_PREFIX then ''gateway''
      else if startswith key CHANNEL_KILL_PREFIX then ''channel''
      else ''custom'')"

definition read_kill_switches_from_file :: "bool \<Rightarrow> kill_world \<Rightarrow> (string \<times> bool) list" where
  "read_kill_switches_from_file readable w =
     (if \<not> readable then []
      else case kill_switch_file w of
             Json (PDict raw) \<Rightarrow> map (\<lambda>(k, v). (k, truthy v)) raw
           | _ \<Rightarrow> [])"

definition kill_payload :: "(string \<times> bool) list \<Rightarrow> pydict" where
  "kill_payload state = foldr insert_key (map (\<lambda>(k, v). (k, PBool v)) (filter snd state)) []"

definition write_kill_switches_to_file :: "write_io \<Rightarrow> kill_world \<Rightarrow> kill_world" where
  "write_kill_switches_to_file wio w =
     (case wio of
        WriteOk \<Rightarrow> w\<lparr>kill_switch_file := Json (PDict (kill_payload (kill_state w)))\<rparr>
      | WriteFailed f \<Rightarrow> w\<lparr>kill_switch_file := f\<rparr>)"

definition reload_kill_switches :: "bool \<Rightarrow> kill_world \<Rightarrow> kill_world" where
  "reload_kill_switches readable w =
     (let persisted = read_kill_switches_from_file readable w in
      if persisted \<noteq> [] then w\<lparr>kill_state := dmerge (kill_state w) persisted\<rparr> else w)"

text \<open>A process restart: the dictionary starts empty and the module reloads it.\<close>

definition restart :: "bool \<Rightarrow> kill_world \<Rightarrow> kill_world" where
  "restart readable w = reload_kill_switches readable (w\<lparr>kill_state := []\<rparr>)"

section \<open>Changing a switch\<close>

datatype kill_error = GateError string

definition kill_request :: "string \<Rightarrow> string \<Rightarrow> bool \<Rightarrow> pydict" where
  "kill_request operation key active =
     (let normalized_key = strip key;
          payload = [(''key'', PStr normalized_key), (''active'', PBool active),
                     (''scope'', PStr (kill_switch_scope normalized_key))]
      in [(''operation'', PStr operation), (''state_class'', PStr ''kill_switches''), (''actor_id'', PStr ''system''),
          (''status'', PStr (if active then ''active'' else ''cleared'')), (''payload'', PDict payload),
          (''payload_bytes'', PInt (utf8_len (json_dumps True True (PDict payload)))),
          (''workspace_access'', PBool True), (''owner_access'', PBool True)])"

definition enforce_kill_switch_state_decision :: "kernel_env \<Rightarrow> string \<Rightarrow> string \<Rightarrow> bool \<Rightarrow> kill_error + pydict" where
  "enforce_kill_switch_state_decision env operation key active =
     (let decision = run_runtime_kernel env ''runtime-state-store-decision'' (kill_request operation key active) in
      case enforce_kernel_decision env ''runtime-state-store-decision'' decision False of
        Inl e \<Rightarrow> Inl (GateError (error_reason e))
      | Inr _ \<Rightarrow>
          if text_of (dget decision ''next_action'') \<noteq> operation then Inl (GateError ''unexpected_next_action'')
          else Inr decision)"

definition set_kill_switch :: "kernel_env \<Rightarrow> write_io \<Rightarrow> string \<Rightarrow> bool \<Rightarrow> kill_world \<Rightarrow> kill_error + kill_world" where
  "set_kill_switch env wio key active w =
     rbind (enforce_kill_switch_state_decision env ''set_kill_switch'' key active)
       (\<lambda>_. Inr (write_kill_switches_to_file wio (w\<lparr>kill_state := dset key active (kill_state w)\<rparr>)))"

definition clear_kill_switch :: "kernel_env \<Rightarrow> write_io \<Rightarrow> string \<Rightarrow> kill_world \<Rightarrow> kill_error + kill_world" where
  "clear_kill_switch env wio key w =
     rbind (enforce_kill_switch_state_decision env ''clear_kill_switch'' key False)
       (\<lambda>_. Inr (write_kill_switches_to_file wio (w\<lparr>kill_state := dpop key (kill_state w)\<rparr>)))"

section \<open>Reading a switch\<close>

fun first_resolved :: "string \<Rightarrow> (string \<times> bool) list option list \<Rightarrow> bool" where
  "first_resolved key [] = False"
| "first_resolved key (None # rs) = first_resolved key rs"
| "first_resolved key (Some external # rs) =
     (case map_of external key of Some b \<Rightarrow> b | None \<Rightarrow> first_resolved key rs)"

definition is_kill_active :: "bool \<Rightarrow> (string \<times> bool) list option list \<Rightarrow> kill_world \<Rightarrow> string \<Rightarrow> bool" where
  "is_kill_active readable ext w key =
     (case map_of (kill_state w) key of
        Some b \<Rightarrow> b
      | None \<Rightarrow> first_resolved key (Some (read_kill_switches_from_file readable w) # ext))"

definition restart_info_active_keys :: "kill_world \<Rightarrow> string list" where
  "restart_info_active_keys w = map fst (filter snd (kill_state w))"

section \<open>The gate\<close>

record kill_decision =
  blocked :: bool
  reason :: string
  scope :: string
  detail :: string
  trace_id :: string

record kill_subject =
  tenant_id :: string
  workspace_id :: string
  agent_id :: string
  gateway_id :: string
  channel_id :: string
  subject_trace_id :: string

definition not_killed :: "kill_subject \<Rightarrow> kill_decision" where
  "not_killed s = \<lparr>blocked = False, reason = [], scope = [], detail = [], trace_id = subject_trace_id s\<rparr>"

definition killed :: "kill_subject \<Rightarrow> string \<Rightarrow> string \<Rightarrow> string \<Rightarrow> kill_decision" where
  "killed s rsn scp dtl = \<lparr>blocked = True, reason = rsn, scope = scp, detail = dtl, trace_id = subject_trace_id s\<rparr>"

text \<open>\<open>None\<close> is an exception inside \<^verbatim>\<open>safe_mode_service\<close>.\<close>

record safe_mode_env =
  resolve_machine_policy_status :: "string option \<Rightarrow> string option \<Rightarrow> string option \<Rightarrow> pyval option"
  resolve_agent_disable_state :: "string option \<Rightarrow> string \<Rightarrow> string \<Rightarrow> pyval option"

definition safe_mode_target :: "kill_subject \<Rightarrow> string \<Rightarrow> string" where
  "safe_mode_target s scp =
     (if scp = ''global'' then ''The platform is in emergency stop mode.''
      else if scp = ''tenant'' then ''Tenant '' @ tenant_id s @ '' has been stopped.''
      else if scp = ''workspace'' then ''Workspace '' @ workspace_id s @ '' has been stopped.''
      else if scp = ''machine'' then ''Gateway '' @ gateway_id s @ '' has been stopped.''
      else if scp = ''capability'' then ''A required gateway capability has been stopped.''
      else ''This operation has been stopped.'')"

definition evaluate_safe_mode_emergency_kill :: "safe_mode_env option \<Rightarrow> kill_subject \<Rightarrow> kill_decision" where
  "evaluate_safe_mode_emergency_kill safe s =
     (case safe of
        None \<Rightarrow> not_killed s
      | Some sm \<Rightarrow>
          let machine_policy = (case resolve_machine_policy_status sm (snone (tenant_id s)) (snone (workspace_id s))
                                       (snone (gateway_id s)) of None \<Rightarrow> PDict [] | Some v \<Rightarrow> v);
              kill_state_dict = as_dict (dget (as_dict machine_policy) ''kill_switch'')
          in if truthy (dget kill_state_dict ''active'') then
               let scp = text_default (dget kill_state_dict ''scope'') ''workspace'';
                   rsn = text_of (dget kill_state_dict ''reason'')
               in killed s (''safe_mode_'' @ scp @ ''_kill_active'') scp (sor rsn (safe_mode_target s scp))
             else if workspace_id s \<noteq> [] \<and> agent_id s \<noteq> [] then
               let agent_state = as_dict (case resolve_agent_disable_state sm (snone (tenant_id s)) (workspace_id s)
                                            (agent_id s) of None \<Rightarrow> PDict [] | Some v \<Rightarrow> v)
               in if truthy (dget agent_state ''active'')
                  then killed s ''safe_mode_agent_kill_active'' ''agent''
                         (py_str (por (dget agent_state ''reason'') (PStr (''Agent '' @ agent_id s @ '' has been stopped.''))))
                  else not_killed s
             else not_killed s)"

definition evaluate_kill_switch ::
    "bool \<Rightarrow> (string \<times> bool) list option list \<Rightarrow> safe_mode_env option \<Rightarrow> kill_world \<Rightarrow> kill_subject \<Rightarrow> kill_decision" where
  "evaluate_kill_switch readable ext safe w s =
     (let active = is_kill_active readable ext w in
      if active GLOBAL_KILL_KEY then
        killed s ''global_kill_active'' ''global'' ''The platform is in emergency stop mode. All operations are blocked.''
      else if workspace_id s \<noteq> [] \<and> active (WORKSPACE_KILL_PREFIX @ workspace_id s) then
        killed s ''workspace_kill_active'' ''workspace'' (''Workspace '' @ workspace_id s @ '' has been stopped.'')
      else if agent_id s \<noteq> [] \<and> active (AGENT_KILL_PREFIX @ agent_id s) then
        killed s ''agent_kill_active'' ''agent'' (''Agent '' @ agent_id s @ '' has been stopped by its owner.'')
      else if gateway_id s \<noteq> [] \<and> active (GATEWAY_KILL_PREFIX @ gateway_id s) then
        killed s ''gateway_kill_active'' ''gateway'' (''Gateway '' @ gateway_id s @ '' has been stopped.'')
      else if channel_id s \<noteq> [] \<and> active (CHANNEL_KILL_PREFIX @ channel_id s) then
        killed s ''channel_kill_active'' ''channel'' (''Channel '' @ channel_id s @ '' has been stopped.'')
      else if blocked (evaluate_safe_mode_emergency_kill safe s) then evaluate_safe_mode_emergency_kill safe s
      else not_killed s)"

text \<open>The audit event is emitted before the exception, and a failure to emit it is swallowed.\<close>

definition assert_not_killed ::
    "bool \<Rightarrow> (string \<times> bool) list option list \<Rightarrow> safe_mode_env option \<Rightarrow> kill_world \<Rightarrow> kill_subject \<Rightarrow>
     pydict list \<times> (kill_decision + unit)" where
  "assert_not_killed readable ext safe w s =
     (let decision = evaluate_kill_switch readable ext safe w s in
      if blocked decision then
        ([[(''action'', PStr ''kill_switch.denied''), (''status'', PStr ''blocked''), (''tenant_id'', PStr []),
           (''workspace_id'', PStr (workspace_id s)), (''detail'', PStr (detail decision)),
           (''metadata'', PDict [(''reason'', PStr (reason decision)), (''scope'', PStr (scope decision)),
              (''agent_id'', opt_str (snone (agent_id s))), (''gateway_id'', opt_str (snone (gateway_id s)))])]],
         Inl decision)
      else ([], Inr ()))"

section \<open>Lemmas\<close>

lemma killed_blocked [simp]: "blocked (killed s rsn scp dtl)" "\<not> blocked (not_killed s)"
  by (simp_all add: killed_def not_killed_def)

lemma set_insert_key: "set (insert_key p d) = insert p (set d)"
  by (induction d) auto

lemma distinct_insert_key: "distinct (map fst d) \<Longrightarrow> fst p \<notin> fst ` set d \<Longrightarrow> distinct (map fst (insert_key p d))"
  by (induction d) (auto simp: set_insert_key)

lemma sort_keys_props:
  assumes "distinct (map fst d)"
  shows "set (foldr insert_key d []) = set d \<and> distinct (map fst (foldr insert_key d []))"
  using assms by (induction d) (auto simp: set_insert_key distinct_insert_key)

lemma map_of_sort_keys:
  assumes "distinct (map fst d)"
  shows "map_of (foldr insert_key d []) k = map_of d k"
  using sort_keys_props [OF assms] assms by (metis map_of_eqI map_of_inject_set set_map)

text \<open>Memory and file agree on what is stopped.\<close>

definition synced :: "kill_world \<Rightarrow> bool" where
  "synced w = (distinct (map fst (kill_state w)) \<and>
     distinct (map fst (read_kill_switches_from_file True w)) \<and>
     (\<forall>k. map_of (read_kill_switches_from_file True w) k =
        (if map_of (kill_state w) k = Some True then Some True else None)))"

lemma map_of_active:
  assumes "distinct (map fst d)"
  shows "map_of (map (\<lambda>(k, v). (k, PBool v)) (filter snd d)) k = (if map_of d k = Some True then Some (PBool True) else None)"
  using assms by (induction d) (auto dest: map_of_SomeD split: if_splits, force)

lemma write_synced:
  assumes "distinct (map fst (kill_state w))"
  shows "synced (write_kill_switches_to_file WriteOk w)"
proof -
  let ?d = "map (\<lambda>(k, v). (k, PBool v)) (filter snd (kill_state w))"
  have dd: "distinct (map fst ?d)"
    using assms by (simp add: comp_def case_prod_beta distinct_map_filter)
  have p: "set (kill_payload (kill_state w)) = set ?d" "distinct (map fst (kill_payload (kill_state w)))"
    unfolding kill_payload_def using sort_keys_props [OF dd] by simp_all
  have "map_of (map (\<lambda>(k, v). (k, truthy v)) (kill_payload (kill_state w))) k =
      (if map_of (kill_state w) k = Some True then Some True else None)" for k
  proof -
    have "map_of (map (\<lambda>(k, v). (k, truthy v)) (kill_payload (kill_state w))) k =
        map_option truthy (map_of (kill_payload (kill_state w)) k)"
      by (simp add: map_of_map)
    also have "map_of (kill_payload (kill_state w)) k = map_of ?d k"
      unfolding kill_payload_def by (rule map_of_sort_keys [OF dd])
    finally show ?thesis by (simp add: map_of_active [OF assms])
  qed
  moreover have "distinct (map fst (map (\<lambda>(k, v). (k, truthy v)) (kill_payload (kill_state w))))"
    using p(2) by (simp add: comp_def case_prod_beta)
  ultimately show ?thesis
    using assms by (simp add: synced_def write_kill_switches_to_file_def read_kill_switches_from_file_def)
qed

text \<open>An operation refused by the gate changes nothing.\<close>

datatype kill_op = SetSwitch string bool | ClearSwitch string

definition kill_step :: "kernel_env \<Rightarrow> kill_world \<Rightarrow> kill_op \<Rightarrow> kill_world" where
  "kill_step env w op =
     (case (case op of SetSwitch k a \<Rightarrow> set_kill_switch env WriteOk k a w | ClearSwitch k \<Rightarrow> clear_kill_switch env WriteOk k w) of
        Inl _ \<Rightarrow> w | Inr w' \<Rightarrow> w')"

lemma syncedD:
  assumes "synced w"
  shows "distinct (map fst (kill_state w))"
    and "map_of (read_kill_switches_from_file True w) k = (if map_of (kill_state w) k = Some True then Some True else None)"
  using assms unfolding synced_def by blast+

lemma synced_write:
  assumes "synced w"
  shows "synced (write_kill_switches_to_file WriteOk (w\<lparr>kill_state := dset k a (kill_state w)\<rparr>))"
    and "synced (write_kill_switches_to_file WriteOk (w\<lparr>kill_state := dpop k (kill_state w)\<rparr>))"
  using syncedD(1) [OF assms] by (intro write_synced; simp)+

lemma synced_step:
  assumes "synced w" shows "synced (kill_step env w op)"
proof (cases op)
  case (SetSwitch k a)
  then show ?thesis
    by (cases "enforce_kill_switch_state_decision env ''set_kill_switch'' k a")
      (simp_all add: kill_step_def set_kill_switch_def assms synced_write)
next
  case (ClearSwitch k)
  then show ?thesis
    by (cases "enforce_kill_switch_state_decision env ''clear_kill_switch'' k False")
      (simp_all add: kill_step_def clear_kill_switch_def assms synced_write)
qed

interpretation switches: invariant_system "kill_step env" synced for env
  by unfold_locales (rule synced_step)

lemma restart_state:
  assumes "synced w"
  shows "map_of (kill_state (restart True w)) k = (if map_of (kill_state w) k = Some True then Some True else None)"
proof -
  have "kill_state (restart True w) = dmerge [] (read_kill_switches_from_file True w)"
    by (simp add: restart_def reload_kill_switches_def Let_def read_kill_switches_from_file_def)
  then show ?thesis using assms by (simp add: synced_def map_of_dmerge split: option.split)
qed

lemma synced_active:
  assumes "synced w"
  shows "is_kill_active True [] w k \<longleftrightarrow> map_of (kill_state w) k = Some True"
  using syncedD(2) [OF assms, of k] by (cases "map_of (kill_state w) k") (simp_all add: is_kill_active_def)

lemma restart_file: "kill_switch_file (restart True w) = kill_switch_file w"
  by (simp add: restart_def reload_kill_switches_def Let_def)

lemma restart_active:
  assumes "synced w"
  shows "is_kill_active True [] (restart True w) k \<longleftrightarrow> map_of (kill_state w) k = Some True"
proof -
  have "read_kill_switches_from_file True (restart True w) = read_kill_switches_from_file True w"
    by (simp add: read_kill_switches_from_file_def restart_file)
  then show ?thesis
    using restart_state [OF assms, of k] syncedD(2) [OF assms, of k]
    by (simp add: is_kill_active_def split: if_splits)
qed

lemma gate_Inr:
  assumes "enforce_kill_switch_state_decision env operation key active = Inr d"
  obtains response where "kernel_permits env ''runtime-state-store-decision'' (kill_request operation key active) response"
    "\<not> needs_approval response" "text_of (dget response ''next_action'') = operation"
proof -
  let ?c = "''runtime-state-store-decision''" and ?q = "kill_request operation key active"
  let ?d = "run_runtime_kernel env ?c ?q"
  from assms have ok: "\<exists>n. enforce_kernel_decision env ?c ?d False = Inr n"
    and na: "text_of (dget ?d ''next_action'') = operation"
    by (auto simp: enforce_kill_switch_state_decision_def Let_def split: sum.splits if_splits)
  from ok have t: "truthy (dget ?d ''ok'')" and nn: "\<not> needs_approval ?d"
    unfolding enforce_Inr_iff by simp_all
  from t obtain response where p: "kernel_permits env ?c ?q response"
    unfolding run_kernel_permits(1) by blast
  have d: "?d = normalize_kernel_decision env ?c response" by (rule run_kernel_permits(2) [OF p])
  show thesis
    using that [OF p] nn na by (simp add: d needs_approval_normalized normalized_fields)
qed

section \<open>A concrete world\<close>

definition demo_response :: pydict where
  "demo_response = [(''ok'', PBool True), (''decision'', PStr ''allow''), (''next_action'', PStr ''set_kill_switch'')]"

definition demo_env :: kernel_env where
  "demo_env = \<lparr>has_binary = True, spawn = \<lambda>command payload. Completed ''R'' 0,
     json_loads = \<lambda>s. Some (PDict demo_response), digest16 = \<lambda>s. ''0''\<rparr>"

definition demo_world :: kill_world where
  "demo_world = \<lparr>kill_state = [], kill_switch_file = Missing\<rparr>"

section \<open>Properties\<close>

text \<open>The gate, completely: a subject is blocked exactly when the global switch, or the switch of
  its workspace, agent, gateway or channel (if it names one) is on, or the safe-mode bridge stops
  it; and then the assertion raises, after one audit event.\<close>

theorem kill_gate_formula:
  "(blocked (evaluate_kill_switch readable ext safe w s) \<longleftrightarrow>
     is_kill_active readable ext w ''global_pilot'' \<or>
     (workspace_id s \<noteq> [] \<and> is_kill_active readable ext w (''workspace:'' @ workspace_id s)) \<or>
     (agent_id s \<noteq> [] \<and> is_kill_active readable ext w (''agent:'' @ agent_id s)) \<or>
     (gateway_id s \<noteq> [] \<and> is_kill_active readable ext w (''gateway:'' @ gateway_id s)) \<or>
     (channel_id s \<noteq> [] \<and> is_kill_active readable ext w (''channel:'' @ channel_id s)) \<or>
     blocked (evaluate_safe_mode_emergency_kill safe s)) \<and>
   assert_not_killed readable ext safe w s =
     (if blocked (evaluate_kill_switch readable ext safe w s)
      then (fst (assert_not_killed readable ext safe w s), Inl (evaluate_kill_switch readable ext safe w s))
      else ([], Inr ()))"
proof
  show "blocked (evaluate_kill_switch readable ext safe w s) \<longleftrightarrow>
     is_kill_active readable ext w ''global_pilot'' \<or>
     (workspace_id s \<noteq> [] \<and> is_kill_active readable ext w (''workspace:'' @ workspace_id s)) \<or>
     (agent_id s \<noteq> [] \<and> is_kill_active readable ext w (''agent:'' @ agent_id s)) \<or>
     (gateway_id s \<noteq> [] \<and> is_kill_active readable ext w (''gateway:'' @ gateway_id s)) \<or>
     (channel_id s \<noteq> [] \<and> is_kill_active readable ext w (''channel:'' @ channel_id s)) \<or>
     blocked (evaluate_safe_mode_emergency_kill safe s)"
    unfolding evaluate_kill_switch_def Let_def GLOBAL_KILL_KEY_def WORKSPACE_KILL_PREFIX_def AGENT_KILL_PREFIX_def
      GATEWAY_KILL_PREFIX_def CHANNEL_KILL_PREFIX_def
    by (simp split: if_split)
qed (simp add: assert_not_killed_def Let_def)

text \<open>An emergency stop survives a restart: after any sequence of set and clear requests (granted
  or refused by the kernel) whose file writes succeed, a restart leaves every switch as it was.\<close>

theorem restart_keeps_switches:
  "let w = foldl (kill_step env) \<lparr>kill_state = [], kill_switch_file = Missing\<rparr> ops in
   is_kill_active True [] (restart True w) k = is_kill_active True [] w k"
proof -
  have "synced \<lparr>kill_state = [], kill_switch_file = Missing\<rparr>"
    by (simp add: synced_def read_kill_switches_from_file_def)
  then have "synced (foldl (kill_step env) \<lparr>kill_state = [], kill_switch_file = Missing\<rparr> ops)"
    by (rule switches.run_inv)
  then show ?thesis by (simp add: Let_def restart_active synced_active)
qed

text \<open>A switch changes only with the kernel's consent, and then as asked: a granted request was
  permitted by the kernel for this very request, without outstanding approval and with the
  expected next action; after it the key reads as it was set, whether or not the file could be
  written, and every other key of the dictionary is untouched.\<close>

theorem switch_change_needs_kernel:
  assumes "set_kill_switch env wio key active w = Inr w'"
  shows "(\<exists>response. kernel_permits env ''runtime-state-store-decision'' (kill_request ''set_kill_switch'' key active) response \<and>
      \<not> needs_approval response \<and> text_of (dget response ''next_action'') = ''set_kill_switch'') \<and>
    is_kill_active readable ext w' key = active \<and>
    (\<forall>k. k \<noteq> key \<longrightarrow> map_of (kill_state w') k = map_of (kill_state w) k)"
proof -
  obtain d where d: "enforce_kill_switch_state_decision env ''set_kill_switch'' key active = Inr d"
    and w': "w' = write_kill_switches_to_file wio (w\<lparr>kill_state := dset key active (kill_state w)\<rparr>)"
    using assms by (auto simp: set_kill_switch_def rbind_Inr_iff)
  have st: "kill_state w' = dset key active (kill_state w)"
    by (simp add: w' write_kill_switches_to_file_def split: write_io.split)
  from d show ?thesis
    by (rule gate_Inr) (auto simp: st is_kill_active_def map_of_dset)
qed

theorem switch_change_needs_kernel_witness:
  "\<exists>w'. set_kill_switch demo_env (WriteFailed Garbage) ''global_pilot'' True demo_world = Inr w' \<and>
     is_kill_active True [] w' ''global_pilot''"
proof -
  obtain w' where w': "set_kill_switch demo_env (WriteFailed Garbage) ''global_pilot'' True demo_world = Inr w'"
  proof -
    have "\<not> isl (set_kill_switch demo_env (WriteFailed Garbage) ''global_pilot'' True demo_world)" by code_simp
    then show thesis using that by (auto simp: isl_def) (metis sum.exhaust)
  qed
  with switch_change_needs_kernel [OF w', of True "[]"] show ?thesis by simp
qed

text \<open>Clearing needs the file: a granted clear removes the key from memory, but when the write
  fails and the file still lists the switch, the file resolver keeps it active; with a successful
  write and no other resolver it is off.\<close>

theorem clear_needs_file_write:
  assumes "clear_kill_switch env wio key w = Inr w'" and "synced w" and "map_of (kill_state w) key = Some True"
  shows "is_kill_active True [] w' key \<longleftrightarrow>
    (\<exists>f. wio = WriteFailed f \<and> map_of (read_kill_switches_from_file True (w\<lparr>kill_switch_file := f\<rparr>)) key = Some True)"
proof -
  let ?w = "w\<lparr>kill_state := dpop key (kill_state w)\<rparr>"
  have w': "w' = write_kill_switches_to_file wio ?w"
    using assms(1) by (auto simp: clear_kill_switch_def rbind_Inr_iff)
  show ?thesis
  proof (cases wio)
    case WriteOk
    have "synced w'" unfolding w' WriteOk using assms(2) by (intro write_synced) (simp add: synced_def)
    moreover have "map_of (kill_state w') key = None"
      by (simp add: w' WriteOk write_kill_switches_to_file_def map_of_dpop)
    ultimately show ?thesis using WriteOk by (simp add: synced_active)
  next
    case (WriteFailed f)
    have "read_kill_switches_from_file True w' = read_kill_switches_from_file True (w\<lparr>kill_switch_file := f\<rparr>)"
      by (simp add: w' WriteFailed write_kill_switches_to_file_def read_kill_switches_from_file_def)
    then show ?thesis
      using WriteFailed
      by (auto simp: is_kill_active_def w' write_kill_switches_to_file_def map_of_dpop split: option.split)
  qed
qed

definition demo_stopped :: kill_world where
  "demo_stopped = \<lparr>kill_state = [(''agent:a'', True)], kill_switch_file = Json (PDict [(''agent:a'', PBool True)])\<rparr>"

definition demo_clear_env :: kernel_env where
  "demo_clear_env = demo_env\<lparr>json_loads := \<lambda>s. Some (PDict [(''ok'', PBool True), (''decision'', PStr ''allow''),
     (''next_action'', PStr ''clear_kill_switch'')])\<rparr>"

theorem clear_needs_file_write_witness:
  "\<exists>w'. clear_kill_switch demo_clear_env (WriteFailed (kill_switch_file demo_stopped)) ''agent:a'' demo_stopped = Inr w' \<and>
     is_kill_active True [] w' ''agent:a''"
proof -
  obtain w' where w': "clear_kill_switch demo_clear_env (WriteFailed (kill_switch_file demo_stopped)) ''agent:a'' demo_stopped = Inr w'"
  proof -
    have "\<not> isl (clear_kill_switch demo_clear_env (WriteFailed (kill_switch_file demo_stopped)) ''agent:a'' demo_stopped)"
      by code_simp
    then show thesis using that by (auto simp: isl_def) (metis sum.exhaust)
  qed
  have "synced demo_stopped" by (auto simp: synced_def demo_stopped_def read_kill_switches_from_file_def)
  moreover have "map_of (kill_state demo_stopped) ''agent:a'' = Some True" by (simp add: demo_stopped_def)
  ultimately show ?thesis
    using clear_needs_file_write [OF w'] w'
    by (auto simp: demo_stopped_def read_kill_switches_from_file_def)
qed

end
