(* ===== verification/Emergency_Stop.thy ===== *)
theory Emergency_Stop
  imports Safe_Mode_Switches Kill_Switch
begin

text \<open>
  The emergency gate of \<open>Kill_Switch\<close> over the safe-mode service of \<open>Safe_Mode\<close>: the gate's two calls
  into \<^verbatim>\<open>safe_mode_service\<close>, a parameter there, are the resolvers of that theory here. The second call
  finds the state the first one left.
\<close>

definition safe_mode_service ::
    "(pydict \<Rightarrow> pyval) \<Rightarrow> read_io \<Rightarrow> read_io \<Rightarrow> read_io \<Rightarrow> read_io \<Rightarrow> control_world \<Rightarrow> safe_mode_env" where
  "safe_mode_service jsonb io1 io2 io3 io4 w =
     (let text = (\<lambda>v. case v of None \<Rightarrow> [] | Some s \<Rightarrow> s) in
      \<lparr>resolve_machine_policy_status = (\<lambda>tenant workspace machine.
         Some (PDict (fst (resolve_machine_policy jsonb io1 io2 (text tenant) (text workspace) (text machine) [] w)))),
       resolve_agent_disable_state = (\<lambda>tenant workspace agent.
         Some (PDict (fst (resolve_agent_disable jsonb io3 io4 (text tenant) workspace agent
           (snd (resolve_machine_policy jsonb io1 io2 (text tenant) workspace [] [] w))))))\<rparr>)"

definition subject_target :: "kill_subject \<Rightarrow> control_target" where
  "subject_target s =
     \<lparr>ct_tenant_id = tenant_id s, ct_workspace_id = workspace_id s, ct_machine_id = gateway_id s, ct_capability_id = [],
      ct_agent_install_id = agent_id s, ct_channel_key = [], ct_endpoint_key = [], ct_connector_id = [], ct_credential_id = []\<rparr>"

lemma machine_policy_memory [simp]: "safe_memory (snd (resolve_machine_policy jsonb io1 io2 a b c d w)) = safe_memory w"
  by (simp add: resolve_machine_policy_def Let_def case_prod_beta)

lemma snone_text [simp]: "(case snone s of None \<Rightarrow> [] | Some x \<Rightarrow> x) = s"
  by (simp add: snone_def)

lemma gate_blocks_on_safe_mode:
  assumes "kill_in_force jsonb io1 io2 scp (subject_target s) w" and "scp \<notin> {''agent'', ''channel'', ''connector''}"
  shows "blocked (evaluate_safe_mode_emergency_kill (Some (safe_mode_service jsonb io1 io2 io3 io4 w)) s)"
proof -
  have "truthy (dget (as_dict (dget (fst (resolve_machine_policy jsonb io1 io2 (tenant_id s) (workspace_id s) (gateway_id s) [] w))
      ''kill_switch'')) ''active'')"
    using assms by (simp add: kill_in_force_def subject_target_def machine_kill_active)
  then show ?thesis
    by (simp add: evaluate_safe_mode_emergency_kill_def safe_mode_service_def Let_def)
qed

lemma gate_blocks_on_agent:
  assumes "is_active_state (resolve_agent_disable jsonb io3 io4 (tenant_id s) (workspace_id s) (agent_id s)
      (snd (resolve_machine_policy jsonb io1 io2 (tenant_id s) (workspace_id s) [] [] w)))"
    and "workspace_id s \<noteq> []" "agent_id s \<noteq> []"
  shows "blocked (evaluate_safe_mode_emergency_kill (Some (safe_mode_service jsonb io1 io2 io3 io4 w)) s)"
  using assms by (simp add: evaluate_safe_mode_emergency_kill_def safe_mode_service_def Let_def is_active_state_def)


section \<open>Witness\<close>

definition stopped_subject :: kill_subject where
  "stopped_subject = \<lparr>tenant_id = ''t1'', workspace_id = ''w1'', agent_id = ''agent-x'', gateway_id = ''gw'', channel_id = [], subject_trace_id = ''tr''\<rparr>"


end
