(* ===== verification/Broker_Properties.thy ===== *)
theory Broker_Properties
  imports Tool_Broker Emergency_Stop
begin

text \<open>
  What the checks of \<open>Tool_Broker\<close> guarantee: a skill runs only under a token that grants it, a kill switch of the safe-mode service
  stops every brokered call in its scope, and two gaps: the per-agent tool policy is never enforced, and a master token passes the
  controls on connectors.
\<close>

section \<open>Lemmas\<close>

lemma on_guard_Inr [res_simps]: "fst (on_guard f s) = Inr a \<longleftrightarrow> fst (f (bs_guard s)) = Inr a"
  by (simp add: on_guard_def case_prod_beta)

lemma pair_Inr: "r = (Inr a, s') \<Longrightarrow> fst r = Inr a"
  by simp

lemma security_controls_pass:
  assumes "fst (require_runtime_security_controls io claims w) = Inr ()"
  shows "\<not> truthy (dget (as_dict (dget (fst (resolve_machine_policy (bi_jsonb io) (bi_reads io 0) (bi_reads io 1)
      (text_of (dget claims ''tenant_id'')) (text_of (dget claims ''workspace_id'')) [] [] (guard_controls w))) ''kill_switch'')) ''active'')"
  using assms by (auto simp: require_runtime_security_controls_def Let_def case_prod_beta split: if_splits)

lemma machine_policy_no_capability:
  "truthy (dget (as_dict (dget (fst (resolve_machine_policy jsonb io1 io2 tenant workspace machine [[]] w)) ''kill_switch'')) ''active'') =
   truthy (dget (as_dict (dget (fst (resolve_machine_policy jsonb io1 io2 tenant workspace machine [] w)) ''kill_switch'')) ''active'')"
  by (simp add: machine_kill_active)

lemma gate_claims:
  assumes "fst (skill_gate io installs sd q s) = Inr g"
  obtains claims skills where "verify_capability_token (bi_env io) (sq_token q) (sq_scope q) (bi_now io) = Inr claims"
    and "fst (require_runtime_security_controls io claims (bs_guard s)) = Inr ()"
    and "str_items claims ''allowed_skills'' = Inr skills" and "sq_skill_id q \<in> set (broker_unique skills)"
    and "require_action_class claims (sd_action_class sd) = Inr ()"
    and "(\<exists>agent. g = MemoryTool claims agent \<and> sq_skill_id q \<in> set MEMORY_SKILL_IDS) \<or>
         (g = RunSkill claims \<and> (sd_has_executor sd \<longrightarrow>
            require_runtime_allowed sd (ts_runtime_mode (sq_scope q)) = Inr () \<and> require_approval_if_needed claims sd = Inr ()))"
  using assms
  by (auto simp: skill_gate_def Let_def run_check_Inr split: if_splits dest!: pair_Inr simp: on_guard_Inr intro: that)

lemma execute_gate:
  assumes "fst (execute_skill io cat installs b q s) = Inr v" and "get_skill_definition (all_skills cat) (sq_skill_id q) = Some sd"
  obtains g where "sd_enabled sd" and "fst (skill_gate io installs sd q (count_missing_agent q s)) = Inr g"
proof (cases "skill_gate io installs sd q (count_missing_agent q s)")
  case (Pair r s1)
  show ?thesis
  proof (cases r)
    case (Inl e)
    with Pair assms show ?thesis
      by (cases e) (auto simp: execute_skill_def Let_def split: if_splits)
  next
    case (Inr g)
    with Pair assms show ?thesis
      by (intro that [of g]) (auto simp: execute_skill_def Let_def split: if_splits)
  qed
qed

lemma missing_agent_guard [simp]: "bs_guard (count_missing_agent q s) = bs_guard s"
  by (simp add: count_missing_agent_def emit_def)

section \<open>Properties\<close>



text \<open>C21. The policy on the tools of an agent has no effect: whatever the installation of the agent enables or forbids, a skill that is not
  one of the fleet tools runs, fails and leaves the broker exactly as with any other installation.\<close>

theorem agent_tool_policy_not_enforced:
  assumes "strip (sq_skill_id q) \<notin> set FLEET_SKILL_IDS"
  shows "execute_skill io cat installs b q s = execute_skill io cat installs' b q s"
proof -
  have gate: "skill_gate io installs sd q s' = skill_gate io installs' sd q s'" for sd s'
    using assms by (simp add: skill_gate_def enforce_fleet_tool_role_def Let_def cong: if_cong)
  show ?thesis unfolding execute_skill_def gate ..
qed

text \<open>C0. A token issued for a master manifest passes the check on connectors whatever controls are on: the wildcard returns before the
  connector kill switches and the incident controls are read, and leaves the state as it was.\<close>

theorem master_token_passes_connector_controls:
  assumes "is_master_manifest (gr_manifest g)"
  shows "require_connector_scopes io (grant_claims cat nonce t g) scps w = (Inr (), w)"
proof -
  have "str_items (grant_claims cat nonce t g) ''allowed_connector_scopes'' = Inr [MASTER_SCOPE_WILDCARD]"
    using assms
    by (simp add: str_items_def claims_fields connector_scopes_for_manifest_def str_list_def list_or_empty_def por_def)
  moreover have "MASTER_SCOPE_WILDCARD \<in> set (broker_unique [MASTER_SCOPE_WILDCARD])" by code_simp
  ultimately show ?thesis
    by (simp add: require_connector_scopes_def Let_def)
qed

section \<open>Witnesses\<close>

text \<open>A small signed token: its payload is the empty object, read back as the given claims.\<close>

definition broker_demo_io :: "pydict \<Rightarrow> broker_io" where
  "broker_demo_io claims =
     \<lparr>bi_env = \<lparr>bk_getenv = (\<lambda>name. if name = ''EMPYRALIS_TOOL_BROKER_SECRET'' then Some ''s3cret'' else None), bk_hmac = (\<lambda>_ _. []),
        bk_loads = (\<lambda>_. Some (PDict claims))\<rparr>,
      bi_now = 50, bi_jsonb = PDict, bi_reads = (\<lambda>_. safe_demo_read), bi_guard = guard_demo_io 5\<rparr>"

definition demo_claims :: pydict where
  "demo_claims =
     [(''version'', PStr ''empyralis.tool-grant.v1''), (''grant_id'', PStr ''g1''), (''agent_install_id'', PStr ''a1''), (''agent_id'', PStr ''a1''),
      (''workspace_id'', PStr ''w2''), (''allowed_skills'', PList [PStr ''web-search'']), (''allowed_action_classes'', PList [PStr ''read'']),
      (''approval_granted'', PBool True), (''expires_at'', PInt 100)]"

definition demo_scope :: token_scope where
  "demo_scope = \<lparr>ts_manifest_id = [], ts_tenant_id = [], ts_workspace_id = ''w2'', ts_runtime_mode = []\<rparr>"

definition demo_skill :: skill_definition where
  "demo_skill =
     \<lparr>sd_id = ''web-search'', sd_label = ''Web search'', sd_action_class = ''read'', sd_connector_scopes = [],
      sd_allowed_runtime_modes = [''hosted_secure''], sd_requires_approval = True, sd_has_executor = True, sd_enabled = True\<rparr>"

definition demo_catalog :: skill_catalog where
  "demo_catalog = \<lparr>enabled_skills = [(''web-search'', demo_skill)], all_skills = [(''web-search'', demo_skill)]\<rparr>"

definition demo_skill_request :: skill_request where
  "demo_skill_request =
     \<lparr>sq_token = ''e30.'', sq_scope = demo_scope, sq_skill_id = ''web-search'', sq_agent_id = ''a1'', sq_agent_install_id = []\<rparr>"

definition demo_broker :: "control_world \<Rightarrow> broker_state" where
  "demo_broker cw = \<lparr>bs_guard = quiet_guard cw, missing_agent_id_count = 0, legacy_token_agent_id_count = 0, bs_effects = []\<rparr>"

definition demo_backend :: skill_backend where
  "demo_backend =
     \<lparr>sb_run = (\<lambda>_. SkillReturned (PStr ''done'')), sb_memory = (\<lambda>_. PNone), sb_current_policy = None,
      sb_net = \<lparr>valid_bracketed = (\<lambda>_. True), ip_address = (\<lambda>_. None), getaddrinfo = (\<lambda>_. None), allow_private_http_hosts = False\<rparr>, sb_uid = ''p1''\<rparr>"

lemma demo_verified: "verify_capability_token (bi_env (broker_demo_io demo_claims)) ''e30.'' demo_scope 50 = Inr demo_claims"
  by code_simp

lemma demo_gate: "fst (skill_gate (broker_demo_io demo_claims) installs demo_skill demo_skill_request (demo_broker safe_demo_world)) = Inr (RunSkill demo_claims)"
  by code_simp

lemma demo_runs: "fst (execute_skill (broker_demo_io demo_claims) demo_catalog installs demo_backend demo_skill_request (demo_broker safe_demo_world)) =
    Inr (PStr ''done'')"
  by code_simp


definition demo_connector_request :: connector_request where
  "demo_connector_request =
     \<lparr>cr_token = ''e30.'', cr_scope = demo_scope, cr_connector_scope = ''slack'', cr_action_class = ''read'', cr_connector_class = None, cr_elevated = None\<rparr>"


theorem agent_tool_policy_not_enforced_witness:
  "fst (enforce_agent_tool_policy (\<lambda>_ _. Some (PDict [(''enabled_tools'', PList [PStr ''calculator''])])) ''a1'' ''w2'' ''web-search'' [] (demo_broker safe_demo_world)) =
     Inl (denied ''agent_tool_not_enabled'' ''Access not enabled for this agent. tool_not_enabled:web-search'') \<and>
   execute_skill (broker_demo_io demo_claims) demo_catalog (\<lambda>_ _. Some (PDict [(''enabled_tools'', PList [PStr ''calculator''])])) demo_backend
     demo_skill_request (demo_broker safe_demo_world) =
   execute_skill (broker_demo_io demo_claims) demo_catalog (\<lambda>_ _. None) demo_backend demo_skill_request (demo_broker safe_demo_world)"
proof
  show "fst (enforce_agent_tool_policy (\<lambda>_ _. Some (PDict [(''enabled_tools'', PList [PStr ''calculator''])])) ''a1'' ''w2'' ''web-search'' []
      (demo_broker safe_demo_world)) = Inl (denied ''agent_tool_not_enabled'' ''Access not enabled for this agent. tool_not_enabled:web-search'')"
    by code_simp
qed (rule agent_tool_policy_not_enforced, code_simp)

definition demo_grant :: "string \<Rightarrow> grant_request" where
  "demo_grant scp =
     \<lparr>gr_manifest = \<lparr>am_manifest_id = ''m1'', am_name = ''Sage'', am_archetype = ''assistant'', am_scope = scp, am_connectors_bound = [],
        am_skills = [(''web-search'', True)], am_approval_mode = ''guarded''\<rparr>,
      gr_tenant_id = ''t1'', gr_workspace_id = ''w2'', gr_agent_install_id = [], gr_agent_id = ''a1'', gr_runtime_mode = ''hosted_secure'',
      gr_runtime_scope = [], gr_privileged_runtime_approved = False, gr_ttl_seconds = 0\<rparr>"

theorem master_token_passes_connector_controls_witness:
  "require_connector_scopes (broker_demo_io []) (grant_claims demo_catalog ''n'' 0 (demo_grant ''global_master'')) [''slack''] (quiet_guard safe_demo_world) =
     (Inr (), quiet_guard safe_demo_world)"
  by (rule master_token_passes_connector_controls) (simp add: is_master_manifest_def demo_grant_def)

theorem issued_token_verifies_witness:
  "\<exists>token claims. issue_capability_token (bi_env (broker_demo_io (grant_claims demo_catalog ''n'' 0 (demo_grant ''specialist'')))) demo_catalog ''n'' 0
       (demo_grant ''specialist'') = Inr (token, claims) \<and>
     verify_capability_token (bi_env (broker_demo_io (grant_claims demo_catalog ''n'' 0 (demo_grant ''specialist'')))) token
       (grant_scope (demo_grant ''specialist'')) 119 = Inr claims \<and>
     verify_capability_token (bi_env (broker_demo_io (grant_claims demo_catalog ''n'' 0 (demo_grant ''specialist'')))) token
       (grant_scope (demo_grant ''specialist'')) 120 = Inl (denied ''token_expired'' ''Capability token expired before the tool call executed.'')"
proof -
  let ?q = "demo_grant ''specialist''"
  let ?claims = "grant_claims demo_catalog ''n'' 0 ?q"
  let ?env = "bi_env (broker_demo_io ?claims)"
  have "signing_secret (bk_getenv ?env) = Inr (utf8 ''s3cret'')" unfolding broker_demo_io_def by code_simp
  then obtain token where token: "issue_capability_token ?env demo_catalog ''n'' 0 ?q = Inr (token, ?claims)"
    by (simp add: issue_capability_token_def Let_def)
  have "is_bytes (bk_hmac ?env key msg)" for key msg
    by (simp add: broker_demo_io_def is_bytes_def)
  moreover have "bk_loads ?env (utf8 (json_compact (PDict ?claims))) = Some (PDict ?claims)"
    by (simp add: broker_demo_io_def)
  moreover have "grant_expiry ?q 0 = 120"
    by (simp add: grant_expiry_def demo_grant_def DEFAULT_CAPABILITY_TOKEN_TTL_SECONDS_def)
  ultimately show ?thesis
    using issued_token_verifies [OF token, of ?claims 119] issued_token_verifies [OF token, of ?claims 120] token by auto
qed

end
