(* ===== verification/Secret_Redaction.thy ===== *)
theory Secret_Redaction
  imports Py_Prelude
begin

text \<open>
  The structural part of \<^verbatim>\<open>server_modules/secret_redaction_service.py\<close>: which keys are sensitive, and how a
  nested value is cleaned before it leaves for an audit log. \<^verbatim>\<open>redact_text\<close>, a cascade of regular
  expressions over one string, is the argument \<open>redact\<close>. The key of a nested value is a string,
  empty for \<^verbatim>\<open>None\<close>.
\<close>

section \<open>Operations\<close>

definition SENSITIVE_KEY_PARTS :: "string list" where
  "SENSITIVE_KEY_PARTS =
     [''api_key'', ''apikey'', ''access_token'', ''refresh_token'', ''auth_token'', ''token'', ''authorization'', ''password'',
      ''secret'', ''credential'', ''credentials'', ''private_key'', ''pairing_token'', ''pairing_code'', ''session_cookie'', ''cookie'',
      ''set_cookie'', ''gateway_token'', ''session_token'', ''phone'', ''mobile'']"

definition MAX_RECURSION_DEPTH :: nat where "MAX_RECURSION_DEPTH = 10"
definition MAX_LIST_ITEMS :: nat where "MAX_LIST_ITEMS = 100"

text \<open>\<^verbatim>\<open>re.sub(r"[^a-z0-9_]+", "_", s)\<close>: a run of other characters becomes one underscore.\<close>

definition word_char :: "char \<Rightarrow> bool" where
  "word_char c = (let n = (of_char c :: nat) in (97 \<le> n \<and> n \<le> 122) \<or> (48 \<le> n \<and> n \<le> 57) \<or> n = 95)"

fun underscore_runs :: "bool \<Rightarrow> string \<Rightarrow> string" where
  "underscore_runs in_run [] = []"
| "underscore_runs in_run (c # cs) =
     (if word_char c then c # underscore_runs False cs
      else if in_run then underscore_runs True cs
      else CHR ''_'' # underscore_runs True cs)"

fun has_part :: "string \<Rightarrow> string \<Rightarrow> bool" where
  "has_part part [] = (part = [])"
| "has_part part (c # cs) = (startswith (c # cs) part \<or> has_part part cs)"

definition is_sensitive_key :: "string \<Rightarrow> bool" where
  "is_sensitive_key key =
     (let normalized = underscore_runs False (lower (strip key)) in
      normalized \<noteq> [] \<and> list_ex (\<lambda>part. has_part part normalized) SENSITIVE_KEY_PARTS)"

fun sanitize_value :: "(string \<Rightarrow> string) \<Rightarrow> string \<Rightarrow> nat \<Rightarrow> pyval \<Rightarrow> pyval"
  and sanitize_list :: "(string \<Rightarrow> string) \<Rightarrow> string \<Rightarrow> nat \<Rightarrow> pyval list \<Rightarrow> pyval list"
  and sanitize_items :: "(string \<Rightarrow> string) \<Rightarrow> nat \<Rightarrow> pydict \<Rightarrow> pydict" where
  "sanitize_value redact key depth v =
     (if MAX_RECURSION_DEPTH < depth then PStr ''[redacted-depth]''
      else if is_sensitive_key key then PStr ''[redacted]''
      else (case v of
              PDict d \<Rightarrow> PDict (sanitize_items redact (Suc depth) d)
            | PList xs \<Rightarrow> PList (take MAX_LIST_ITEMS (sanitize_list redact key (Suc depth) xs))
            | PStr s \<Rightarrow> PStr (redact s)
            | _ \<Rightarrow> v))"
| "sanitize_list redact key depth [] = []"
| "sanitize_list redact key depth (x # xs) = sanitize_value redact key depth x # sanitize_list redact key depth xs"
| "sanitize_items redact depth [] = []"
| "sanitize_items redact depth ((k, v) # d) = (k, sanitize_value redact k depth v) # sanitize_items redact depth d"

declare sanitize_value.simps [simp del]

definition sanitize_mapping :: "(string \<Rightarrow> string) \<Rightarrow> pyval \<Rightarrow> pyval" where
  "sanitize_mapping redact mapping = (case mapping of PDict d \<Rightarrow> sanitize_value redact [] 0 (PDict d) | _ \<Rightarrow> PDict [])"

text \<open>\<^verbatim>\<open>_UUID_PATTERN\<close> on a stripped string.\<close>

definition hex_char :: "char \<Rightarrow> bool" where
  "hex_char c = (let n = (of_char c :: nat) in (48 \<le> n \<and> n \<le> 57) \<or> (97 \<le> n \<and> n \<le> 102) \<or> (65 \<le> n \<and> n \<le> 70))"

definition is_uuid :: "string \<Rightarrow> bool" where
  "is_uuid s = (length s = 36 \<and> list_all (\<lambda>(i, c). if i \<in> {8, 13, 18, 23} then c = CHR ''-'' else hex_char c) (enumerate 0 s))"

text \<open>The membership test \<^verbatim>\<open>value not in {None, "", ...}\<close> hashes the value: on a dict or a list it raises \<^verbatim>\<open>TypeError\<close>.\<close>

datatype secret_error = UnhashableTypeError | SecretValueError string

fun unmarked :: "pyval \<Rightarrow> secret_error + bool" where
  "unmarked PNone = Inr False"
| "unmarked (PStr s) = Inr (s \<notin> set [[], ''[redacted]'', ''[redacted-secret]'', ''[redacted-token]''])"
| "unmarked (PList xs) = Inl UnhashableTypeError"
| "unmarked (PDict d) = Inl UnhashableTypeError"
| "unmarked v = Inr True"

definition key_findings :: "string \<Rightarrow> string \<Rightarrow> pyval \<Rightarrow> secret_error + string list" where
  "key_findings key path v =
     (if is_sensitive_key key then rbind (unmarked v) (\<lambda>u. Inr (if u then [path] else [])) else Inr [])"

fun secret_findings :: "(string \<Rightarrow> string) \<Rightarrow> string \<Rightarrow> string \<Rightarrow> nat \<Rightarrow> pyval \<Rightarrow> secret_error + string list"
  and list_findings :: "(string \<Rightarrow> string) \<Rightarrow> string \<Rightarrow> string \<Rightarrow> nat \<Rightarrow> nat \<Rightarrow> pyval list \<Rightarrow> secret_error + string list"
  and item_findings :: "(string \<Rightarrow> string) \<Rightarrow> string \<Rightarrow> nat \<Rightarrow> pydict \<Rightarrow> secret_error + string list" where
  "secret_findings redact key path depth v =
     (if MAX_RECURSION_DEPTH < depth then Inr []
      else rbind (key_findings key path v) (\<lambda>found.
        (case v of
           PDict d \<Rightarrow> rbind (item_findings redact path (Suc depth) d) (\<lambda>more. Inr (found @ more))
         | PList xs \<Rightarrow> rbind (list_findings redact key path (Suc depth) 0 xs) (\<lambda>more. Inr (found @ more))
         | PStr s \<Rightarrow> Inr (found @ (if \<not> is_uuid (strip s) \<and> redact s \<noteq> s then [path] else []))
         | _ \<Rightarrow> Inr found)))"
| "list_findings redact key path depth index [] = Inr []"
| "list_findings redact key path depth index (x # xs) =
     (if MAX_LIST_ITEMS \<le> index then Inr []
      else rbind (secret_findings redact key (path @ ''['' @ nat_str index @ '']'') depth x) (\<lambda>found.
           rbind (list_findings redact key path depth (Suc index) xs) (\<lambda>more. Inr (found @ more))))"
| "item_findings redact path depth [] = Inr []"
| "item_findings redact path depth ((k, v) # d) =
     rbind (secret_findings redact k (path @ ''.'' @ k) depth v) (\<lambda>found.
     rbind (item_findings redact path depth d) (\<lambda>more. Inr (found @ more)))"

declare secret_findings.simps [simp del]

definition assert_secrets_free :: "(string \<Rightarrow> string) \<Rightarrow> string \<Rightarrow> pyval \<Rightarrow> secret_error + unit" where
  "assert_secrets_free redact ctx v =
     rbind (secret_findings redact [] ''$'' 0 v) (\<lambda>findings.
       if findings \<noteq> [] then Inl (SecretValueError (''Secret-like value detected in '' @ ctx @ '': '' @ join '', '' (take 5 findings)))
       else Inr ())"

section \<open>What is left\<close>

text \<open>A value is clean up to a depth: below a sensitive key stands only the marker, every other string went
  through \<open>redact\<close>, lists are short, and nothing is nested deeper.\<close>

fun clean_value :: "(string \<Rightarrow> string) \<Rightarrow> string \<Rightarrow> nat \<Rightarrow> pyval \<Rightarrow> bool"
  and clean_list :: "(string \<Rightarrow> string) \<Rightarrow> string \<Rightarrow> nat \<Rightarrow> pyval list \<Rightarrow> bool"
  and clean_items :: "(string \<Rightarrow> string) \<Rightarrow> nat \<Rightarrow> pydict \<Rightarrow> bool" where
  "clean_value redact key room PNone = (\<not> is_sensitive_key key)"
| "clean_value redact key room (PBool b) = (\<not> is_sensitive_key key)"
| "clean_value redact key room (PInt i) = (\<not> is_sensitive_key key)"
| "clean_value redact key room (PStr s) =
     (s = ''[redacted-depth]'' \<or> (if is_sensitive_key key then s = ''[redacted]'' else s \<in> range redact))"
| "clean_value redact key room (PList xs) =
     (\<not> is_sensitive_key key \<and> length xs \<le> MAX_LIST_ITEMS \<and> 0 < room \<and> clean_list redact key (room - 1) xs)"
| "clean_value redact key room (PDict d) = (\<not> is_sensitive_key key \<and> 0 < room \<and> clean_items redact (room - 1) d)"
| "clean_list redact key room [] = True"
| "clean_list redact key room (x # xs) = (clean_value redact key room x \<and> clean_list redact key room xs)"
| "clean_items redact room [] = True"
| "clean_items redact room ((k, v) # d) = (clean_value redact k room v \<and> clean_items redact room d)"

lemma clean_list_iff: "clean_list redact key room xs \<longleftrightarrow> list_all (clean_value redact key room) xs"
  by (induction xs) auto

lemma take_clean: "clean_list redact key room xs \<Longrightarrow> clean_list redact key room (take n xs)"
  by (auto simp: clean_list_iff list_all_iff dest: in_set_takeD)

lemma sanitize_clean:
  "clean_value redact key (Suc MAX_RECURSION_DEPTH - depth) (sanitize_value redact key depth v)"
  "clean_list redact key (Suc MAX_RECURSION_DEPTH - depth) (sanitize_list redact key depth xs)"
  "clean_items redact (Suc MAX_RECURSION_DEPTH - depth) (sanitize_items redact depth d)"
proof (induction redact key depth v and redact key depth xs and redact depth d rule: sanitize_value_sanitize_list_sanitize_items.induct)
  case (1 redact key depth v)
  show ?case
  proof (cases "MAX_RECURSION_DEPTH < depth \<or> is_sensitive_key key")
    case True
    then show ?thesis by (auto simp: sanitize_value.simps)
  next
    case False
    then have room: "Suc MAX_RECURSION_DEPTH - depth - 1 = Suc MAX_RECURSION_DEPTH - Suc depth" "0 < Suc MAX_RECURSION_DEPTH - depth" by simp_all
    show ?thesis
      using False 1 room by (cases v) (auto simp: sanitize_value.simps [of redact key depth] intro: take_clean)
  qed
qed simp_all

text \<open>C23. Whatever a value holds, its cleaned form has nothing but the marker below a key that names a secret, no text
  that did not go through the redactor, no list of more than 100 items and no nesting beyond eleven levels.\<close>

theorem sanitized_value_clean:
  "clean_value redact [] 11 (sanitize_value redact [] 0 v)"
  using sanitize_clean(1) [of redact "[]" 0 v] by (simp add: MAX_RECURSION_DEPTH_def)

section \<open>What the check accepts\<close>

text \<open>The values the check lets pass: down to the depth and up to the index it looks at, a sensitive key holds nothing or a
  marker, and any text is an identifier or one the redactor leaves alone.\<close>

fun passes_value :: "(string \<Rightarrow> string) \<Rightarrow> string \<Rightarrow> nat \<Rightarrow> pyval \<Rightarrow> bool"
  and passes_list :: "(string \<Rightarrow> string) \<Rightarrow> string \<Rightarrow> nat \<Rightarrow> nat \<Rightarrow> pyval list \<Rightarrow> bool"
  and passes_items :: "(string \<Rightarrow> string) \<Rightarrow> nat \<Rightarrow> pydict \<Rightarrow> bool" where
  "passes_value redact key 0 v = True"
| "passes_value redact key (Suc room) PNone = True"
| "passes_value redact key (Suc room) (PBool b) = (\<not> is_sensitive_key key)"
| "passes_value redact key (Suc room) (PInt i) = (\<not> is_sensitive_key key)"
| "passes_value redact key (Suc room) (PStr s) =
     ((is_sensitive_key key \<longrightarrow> s \<in> set [[], ''[redacted]'', ''[redacted-secret]'', ''[redacted-token]'']) \<and> (is_uuid (strip s) \<or> redact s = s))"
| "passes_value redact key (Suc room) (PList xs) = (\<not> is_sensitive_key key \<and> passes_list redact key room MAX_LIST_ITEMS xs)"
| "passes_value redact key (Suc room) (PDict d) = (\<not> is_sensitive_key key \<and> passes_items redact room d)"
| "passes_list redact key room left [] = True"
| "passes_list redact key room left (x # xs) = (left = 0 \<or> (passes_value redact key room x \<and> passes_list redact key room (left - 1) xs))"
| "passes_items redact room [] = True"
| "passes_items redact room ((k, v) # d) = (passes_value redact k room v \<and> passes_items redact room d)"

lemma key_findings_none: "key_findings key path v = Inr [] \<longleftrightarrow> (is_sensitive_key key \<longrightarrow> unmarked v = Inr False)"
  by (cases "unmarked v") (auto simp: key_findings_def)

lemma rbind_append_none:
  "rbind m (\<lambda>a. rbind n (\<lambda>b. Inr (a @ b))) = Inr [] \<longleftrightarrow> m = Inr [] \<and> n = Inr []"
  by (cases m; cases n) auto

lemma no_findings_here:
  "\<not> MAX_RECURSION_DEPTH < depth \<Longrightarrow> secret_findings redact key path depth v = Inr [] \<longleftrightarrow>
     key_findings key path v = Inr [] \<and>
     (case v of
        PDict d \<Rightarrow> item_findings redact path (Suc depth) d = Inr []
      | PList xs \<Rightarrow> list_findings redact key path (Suc depth) 0 xs = Inr []
      | PStr s \<Rightarrow> is_uuid (strip s) \<or> redact s = s
      | _ \<Rightarrow> True)"
  by (cases v; cases "key_findings key path v")
    (simp_all add: secret_findings.simps [of redact key path depth] rbind_Inr_iff conj_commute)

lemma no_findings_iff:
  "secret_findings redact key path depth v = Inr [] \<longleftrightarrow> passes_value redact key (Suc MAX_RECURSION_DEPTH - depth) v"
  "list_findings redact key path depth index xs = Inr [] \<longleftrightarrow>
     passes_list redact key (Suc MAX_RECURSION_DEPTH - depth) (MAX_LIST_ITEMS - index) xs"
  "item_findings redact path depth d = Inr [] \<longleftrightarrow> passes_items redact (Suc MAX_RECURSION_DEPTH - depth) d"
proof (induction redact key path depth v and redact key path depth index xs and redact path depth d
    rule: secret_findings_list_findings_item_findings.induct)
  case (1 redact key path depth v)
  show ?case
  proof (cases "MAX_RECURSION_DEPTH < depth")
    case True
    then show ?thesis by (simp add: secret_findings.simps)
  next
    case False
    then obtain room where room: "Suc MAX_RECURSION_DEPTH - depth = Suc room" "Suc MAX_RECURSION_DEPTH - Suc depth = room"
      by (metis Suc_diff_le diff_Suc_Suc not_less)
    have "item_findings redact path (Suc depth) d = Inr [] \<longleftrightarrow> passes_items redact room d" if "v = PDict d" for d
      using 1(2) False that room by simp
    moreover have "list_findings redact key path (Suc depth) 0 xs = Inr [] \<longleftrightarrow> passes_list redact key room MAX_LIST_ITEMS xs" if "v = PList xs" for xs
      using 1(1) False that room by simp
    ultimately show ?thesis
      using room by (cases v) (simp_all add: no_findings_here False key_findings_none)
  qed
next
  case (3 redact key path depth index x xs)
  then show ?case by (auto simp: rbind_append_none)
qed (simp_all add: rbind_append_none)

text \<open>The last check before an audit record is written accepts exactly the values that hold no secret where it looks: it raises
  on every other value, and never on one of these.\<close>

theorem secrets_check_exact:
  "assert_secrets_free redact ctx v = Inr () \<longleftrightarrow> passes_value redact [] 11 v"
  using no_findings_iff(1) [of redact "[]" "''$''" 0 v]
  by (cases "secret_findings redact [] ''$'' 0 v") (auto simp: assert_secrets_free_def MAX_RECURSION_DEPTH_def)

text \<open>A structured value under a sensitive key is refused with the wrong exception: the check hashes it and raises
  \<^verbatim>\<open>TypeError\<close>, where its callers expect the \<^verbatim>\<open>ValueError\<close> that names the path.\<close>

theorem structured_secret_type_error:
  assumes "is_sensitive_key k"
  shows "assert_secrets_free redact ctx (PDict [(k, PDict d)]) = Inl UnhashableTypeError"
    and "assert_secrets_free redact ctx (PDict [(k, PList xs)]) = Inl UnhashableTypeError"
  using assms by (simp_all add: assert_secrets_free_def secret_findings.simps key_findings_def MAX_RECURSION_DEPTH_def is_sensitive_key_def)

end
