(* ===== verification/Governance_Gate.thy ===== *)
theory Governance_Gate
  imports Emergency_Stop Capability_Registry Secret_Redaction
begin

text \<open>
  The gate in front of every action of an agent, \<^verbatim>\<open>server_modules/unified_governance_gate.py\<close>: first the
  emergency stop of \<open>Kill_Switch\<close>, then the capability check of \<open>Safe_Mode\<close>, then the contract of
  \<open>Capability_Registry\<close>. The step between, a risk classifier, is imported from a module that is no longer
  in the repository: the import raises and the handler, modelled here, is the only path.

  The state the checks read is a \<open>gate_env\<close>: switch file and memory, the safe-mode service's state with
  one \<open>read_io\<close> per read of its table, and the kernel.
\<close>

section \<open>Operations\<close>

definition DECISION_ALLOW :: string where "DECISION_ALLOW = ''allow''"
definition DECISION_BLOCK :: string where "DECISION_BLOCK = ''block''"
definition DECISION_APPROVAL_REQUIRED :: string where "DECISION_APPROVAL_REQUIRED = ''approval_required''"

definition INTERACTIVE_WRITE_CAPABILITIES :: "string list" where
  "INTERACTIVE_WRITE_CAPABILITIES = [''browser_automation.interactive'']"

text \<open>What a caller passes as the capability: nothing, a string, or an object with attributes.\<close>

datatype capability_ref = NoCapability | CapabilityText string | CapabilityObject pydict

fun first_attribute :: "pydict \<Rightarrow> string list \<Rightarrow> string" where
  "first_attribute attrs [] = []"
| "first_attribute attrs (a # as) =
     (case dget attrs a of
        PStr s \<Rightarrow> (if strip s \<noteq> [] then lower (strip s) else first_attribute attrs as)
      | _ \<Rightarrow> first_attribute attrs as)"

definition normalize_capability :: "capability_ref \<Rightarrow> string" where
  "normalize_capability c =
     (case c of
        NoCapability \<Rightarrow> []
      | CapabilityText s \<Rightarrow> lower (strip s)
      | CapabilityObject attrs \<Rightarrow> first_attribute attrs [''id'', ''capability_id'', ''name'', ''label''])"

record action_decision =
  ad_decision :: string
  ad_reason :: string
  ad_workspace_id :: string
  ad_actor_user_id :: string
  ad_agent_id :: string
  ad_kill_decision :: pydict
  ad_audit_payload :: pyval

definition kill_summary :: "kill_decision \<Rightarrow> pydict" where
  "kill_summary k = [(''blocked'', PBool (blocked k)), (''reason'', PStr (reason k)), (''scope'', PStr (scope k)), (''detail'', PStr (detail k))]"

definition build_audit :: "(string \<Rightarrow> string) \<Rightarrow> string \<Rightarrow> string \<Rightarrow> kill_decision \<Rightarrow> pydict \<Rightarrow> pyval" where
  "build_audit redact dec why k extra =
     sanitize_value redact [] 0 (PDict (dmerge
       [(''decision'', PStr dec), (''reason'', PStr why),
        (''kill_switch'', PDict [(''blocked'', PBool (blocked k)), (''scope'', PStr (scope k)), (''reason'', PStr (reason k))])] extra))"

record action_request =
  rq_subject :: kill_subject
  rq_actor_user_id :: string
  rq_capability :: capability_ref

definition action_decision_of :: "(string \<Rightarrow> string) \<Rightarrow> action_request \<Rightarrow> kill_decision \<Rightarrow> string \<Rightarrow> string \<Rightarrow> pydict \<Rightarrow> action_decision" where
  "action_decision_of redact q k dec why extra =
     \<lparr>ad_decision = dec, ad_reason = why, ad_workspace_id = workspace_id (rq_subject q), ad_actor_user_id = rq_actor_user_id q,
      ad_agent_id = agent_id (rq_subject q), ad_kill_decision = kill_summary k, ad_audit_payload = build_audit redact dec why k extra\<rparr>"

definition contract_is_risky :: "capability_contract \<Rightarrow> bool" where
  "contract_is_risky c = (requires_approval c \<or> lower (strip (risk_level c)) \<in> set [''high'', ''critical''])"

definition evaluate_from_registry_contract :: "(string \<Rightarrow> string) \<Rightarrow> action_request \<Rightarrow> kill_decision \<Rightarrow> action_decision option" where
  "evaluate_from_registry_contract redact q k =
     (let cap = normalize_capability (rq_capability q) in
      if cap = [] then None
      else if cap \<in> set INTERACTIVE_WRITE_CAPABILITIES then
        Some (action_decision_of redact q k DECISION_APPROVAL_REQUIRED (''interactive_write_requires_approval:'' @ cap)
          [(''capability'', PStr cap), (''override'', PStr ''interactive_write'')])
      else (case resolve_capability (\<lambda>_. False) (PStr cap) False of
              None \<Rightarrow> None
            | Some c \<Rightarrow>
                if contract_is_risky c
                then Some (action_decision_of redact q k DECISION_APPROVAL_REQUIRED (''registry_contract_requires_approval:'' @ cap)
                       [(''capability'', PStr cap), (''risk_level'', PStr (lower (strip (risk_level c))))])
                else Some (action_decision_of redact q k DECISION_ALLOW (''registry_contract_allows:'' @ cap)
                       [(''capability'', PStr cap), (''risk_level'', PStr (lower (strip (risk_level c))))])))"

record gate_env =
  ge_kernel :: kernel_env
  ge_redact :: "string \<Rightarrow> string"
  ge_readable :: bool
  ge_resolvers :: "(string \<times> bool) list option list"
  ge_switches :: kill_world
  ge_jsonb :: "pydict \<Rightarrow> pyval"
  ge_reads :: "nat \<Rightarrow> read_io"
  ge_controls :: control_world

definition gate_kill_decision :: "gate_env \<Rightarrow> kill_subject \<Rightarrow> kill_decision" where
  "gate_kill_decision e s =
     evaluate_kill_switch (ge_readable e) (ge_resolvers e)
       (Some (safe_mode_service (ge_jsonb e) (ge_reads e 0) (ge_reads e 1) (ge_reads e 2) (ge_reads e 3) (ge_controls e)))
       (ge_switches e) s"

text \<open>The safe-mode service after the two calls of the emergency gate.\<close>

definition controls_after_kill_gate :: "gate_env \<Rightarrow> kill_subject \<Rightarrow> control_world" where
  "controls_after_kill_gate e s =
     (let w1 = snd (resolve_machine_policy (ge_jsonb e) (ge_reads e 0) (ge_reads e 1) (tenant_id s) (workspace_id s) (gateway_id s) [] (ge_controls e)) in
      if workspace_id s \<noteq> [] \<and> agent_id s \<noteq> []
      then snd (resolve_agent_disable (ge_jsonb e) (ge_reads e 2) (ge_reads e 3) (tenant_id s) (workspace_id s) (agent_id s) w1)
      else w1)"

definition gate_disable_state :: "gate_env \<Rightarrow> kill_subject \<Rightarrow> string \<Rightarrow> pydict" where
  "gate_disable_state e s cap =
     fst (resolve_capability_disable_state (ge_kernel e) (ge_jsonb e) (ge_reads e 4) (ge_reads e 5) cap (tenant_id s) (workspace_id s)
       (gateway_id s) (controls_after_kill_gate e s))"

definition evaluate_action_policy :: "gate_env \<Rightarrow> action_request \<Rightarrow> action_decision" where
  "evaluate_action_policy e q =
     (let s = (rq_subject q)\<lparr>channel_id := [], subject_trace_id := []\<rparr>; k = gate_kill_decision e s; cap = normalize_capability (rq_capability q);
          disable_state = gate_disable_state e s cap
      in if blocked k then action_decision_of (ge_redact e) q k DECISION_BLOCK (reason k) []
         else if cap \<noteq> [] \<and> truthy (dget disable_state ''disabled'') then
           action_decision_of (ge_redact e) q k DECISION_BLOCK
             (py_str (por (dget disable_state ''reason'') (PStr (''capability_disabled:'' @ cap)))) [(''disable_state'', PDict disable_state)]
         else (case evaluate_from_registry_contract (ge_redact e) q k of
                 Some d \<Rightarrow> d
               | None \<Rightarrow> action_decision_of (ge_redact e) q k DECISION_ALLOW ''unknown_capability_passed_kill_and_safe_mode'' []))"

text \<open>The check kept for the classifier's verdicts, and the form a decision is serialized in. No decision the gate now returns carries a
  classifier verdict, an approval card or a remembered rule.\<close>

definition registry_requires_stricter :: "capability_ref \<Rightarrow> bool" where
  "registry_requires_stricter c =
     (let cap = normalize_capability c in
      if cap = [] then False
      else if cap \<in> set INTERACTIVE_WRITE_CAPABILITIES then True
      else (case resolve_capability (\<lambda>_. False) (PStr cap) False of None \<Rightarrow> False | Some ct \<Rightarrow> contract_is_risky ct))"

definition action_decision_dict :: "(string \<Rightarrow> string) \<Rightarrow> action_decision \<Rightarrow> pyval" where
  "action_decision_dict redact d =
     sanitize_value redact [] 0 (PDict
       [(''decision'', PStr (ad_decision d)),
        (''allowed'', PBool (ad_decision d = DECISION_ALLOW)),
        (''approval_required'', PBool (ad_decision d = DECISION_APPROVAL_REQUIRED)),
        (''blocked'', PBool (ad_decision d = DECISION_BLOCK)),
        (''reason'', PStr (ad_reason d)),
        (''workspace_id'', PStr (ad_workspace_id d)),
        (''actor_user_id'', PStr (ad_actor_user_id d)),
        (''agent_id'', PStr (ad_agent_id d)),
        (''kill_decision'', PDict (ad_kill_decision d)),
        (''risk_decision'', PNone), (''approval_card'', PNone), (''remembered_rule'', PNone),
        (''audit_payload'', ad_audit_payload d)])"

section \<open>Lemmas\<close>

lemma decision_of [simp]: "ad_decision (action_decision_of redact q k dec why extra) = dec"
  by (simp add: action_decision_of_def)

lemma decisions_distinct [simp]:
  "DECISION_ALLOW \<noteq> DECISION_BLOCK" "DECISION_APPROVAL_REQUIRED \<noteq> DECISION_BLOCK" "DECISION_ALLOW \<noteq> DECISION_APPROVAL_REQUIRED"
  "DECISION_BLOCK \<noteq> DECISION_ALLOW" "DECISION_BLOCK \<noteq> DECISION_APPROVAL_REQUIRED" "DECISION_APPROVAL_REQUIRED \<noteq> DECISION_ALLOW"
  by (simp_all add: DECISION_ALLOW_def DECISION_BLOCK_def DECISION_APPROVAL_REQUIRED_def)

text \<open>The condition of each step, in terms of the components.\<close>

definition gate_subject :: "action_request \<Rightarrow> kill_subject" where
  "gate_subject q = (rq_subject q)\<lparr>channel_id := [], subject_trace_id := []\<rparr>"

definition action_stopped :: "gate_env \<Rightarrow> action_request \<Rightarrow> bool" where
  "action_stopped e q =
     (blocked (gate_kill_decision e (gate_subject q)) \<or>
      (normalize_capability (rq_capability q) \<noteq> [] \<and>
       is_capability_disabled (ge_kernel e) (ge_jsonb e) (ge_reads e 4) (ge_reads e 5) (normalize_capability (rq_capability q))
         (tenant_id (rq_subject q)) (workspace_id (rq_subject q)) (gateway_id (rq_subject q)) (controls_after_kill_gate e (gate_subject q))))"

definition action_risky :: "action_request \<Rightarrow> bool" where
  "action_risky q =
     (let cap = normalize_capability (rq_capability q) in
      cap \<noteq> [] \<and> (cap \<in> set INTERACTIVE_WRITE_CAPABILITIES \<or>
        (case map_of CAPABILITY_REGISTRY (canonical_capability_id (PStr cap)) of None \<Rightarrow> False | Some c \<Rightarrow> contract_is_risky c)))"

lemma first_attribute_token [simp]: "lower (strip (first_attribute attrs names)) = first_attribute attrs names"
  by (induction names) (simp_all add: strip_lower split: pyval.split)

lemma normalize_capability_token [simp]: "lower (strip (normalize_capability c)) = normalize_capability c"
  by (cases c) (simp_all add: normalize_capability_def strip_lower del: first_attribute.simps)

lemma canonical_named: "token_of cid \<noteq> [] \<Longrightarrow> canonical_capability_id cid \<noteq> []"
  by (auto simp: canonical_capability_id_def Let_def capability_aliases_def split: option.split if_splits)

lemma registry_decision:
  "(case evaluate_from_registry_contract redact q k of Some d \<Rightarrow> ad_decision d | None \<Rightarrow> DECISION_ALLOW) =
     (if action_risky q then DECISION_APPROVAL_REQUIRED else DECISION_ALLOW)"
proof -
  let ?cap = "normalize_capability (rq_capability q)"
  have "token_of (PStr ?cap) = ?cap" by (simp add: token_of_PStr)
  then have "?cap \<noteq> [] \<Longrightarrow> canonical_capability_id (PStr ?cap) \<noteq> []"
    by (simp add: canonical_named)
  then show ?thesis
    by (simp add: evaluate_from_registry_contract_def action_risky_def Let_def resolve_capability_def split: option.split)
qed

lemma stricter_iff_risky: "registry_requires_stricter (rq_capability q) \<longleftrightarrow> action_risky q"
  using normalize_capability_token [of "rq_capability q"] canonical_named [of "PStr (normalize_capability (rq_capability q))"]
  by (simp add: registry_requires_stricter_def action_risky_def Let_def resolve_capability_def token_of_PStr split: option.split)

lemma audit_payload_clean: "clean_value redact [] 11 (ad_audit_payload (action_decision_of redact q k dec why extra))"
  using sanitize_clean(1) [where key = "[]" and depth = 0]
  by (simp add: action_decision_of_def build_audit_def MAX_RECURSION_DEPTH_def)

lemma registry_audit_clean:
  "evaluate_from_registry_contract redact q k = Some d \<Longrightarrow> clean_value redact [] 11 (ad_audit_payload d)"
  by (auto simp: evaluate_from_registry_contract_def Let_def audit_payload_clean split: if_splits option.splits)

lemma gate_verdict:
  "ad_decision (evaluate_action_policy e q) =
     (if action_stopped e q then DECISION_BLOCK else if action_risky q then DECISION_APPROVAL_REQUIRED else DECISION_ALLOW)"
  using registry_decision [of "ge_redact e" q "gate_kill_decision e (gate_subject q)"]
  by (auto simp: evaluate_action_policy_def Let_def action_stopped_def gate_disable_state_def is_capability_disabled_def
      gate_subject_def split: option.splits)

section \<open>Properties\<close>

text \<open>C22. The gate's verdict on every action: it blocks exactly what the emergency stop or the capability check stops,
  holds for approval exactly the rest of what is interactive or what the registry's contract calls risky, and lets the
  remaining actions through, unregistered capabilities included. The audit payload of every verdict is free of secrets in
  the sense of the redaction service.\<close>

theorem governance_gate_exact:
  "ad_decision (evaluate_action_policy e q) =
     (if action_stopped e q then DECISION_BLOCK else if action_risky q then DECISION_APPROVAL_REQUIRED else DECISION_ALLOW) \<and>
   clean_value (ge_redact e) [] 11 (ad_audit_payload (evaluate_action_policy e q))"
proof
  show "clean_value (ge_redact e) [] 11 (ad_audit_payload (evaluate_action_policy e q))"
    by (auto simp: evaluate_action_policy_def Let_def audit_payload_clean registry_audit_clean split: option.split)
qed (rule gate_verdict)

section \<open>Aliases\<close>

definition demo_gate :: gate_env where
  "demo_gate =
     \<lparr>ge_kernel = safe_no_kernel, ge_redact = (\<lambda>s. s), ge_readable = True, ge_resolvers = [],
      ge_switches = \<lparr>kill_state = [], kill_switch_file = Missing\<rparr>, ge_jsonb = PDict, ge_reads = (\<lambda>_. safe_demo_read),
      ge_controls = safe_demo_world\<rparr>"

text \<open>The subject of an action asked for in the chat, which names neither tenant nor machine.\<close>

definition sage_subject :: kill_subject where
  "sage_subject = \<lparr>tenant_id = [], workspace_id = ''w1'', agent_id = ''sage'', gateway_id = [], channel_id = [], subject_trace_id = []\<rparr>"

definition demo_action :: "string \<Rightarrow> action_request" where
  "demo_action cap = \<lparr>rq_subject = sage_subject, rq_actor_user_id = ''owner'', rq_capability = CapabilityText cap\<rparr>"

lemma chat_not_stopped: "\<not> action_stopped demo_gate (demo_action ''browser.interactive'')"
  by code_simp

lemma chat_stopped: "action_stopped demo_gate (demo_action ''browser_automation.interactive'')"
  by code_simp

lemma chat_not_risky: "\<not> action_risky (demo_action ''browser.interactive'')"
  by code_simp

text \<open>C24. A capability is screened under the name the caller gives it, not under the name the registry resolves it to. Under its
  own name the interactive browser is never simply allowed, whatever the state of the gate; under its registered alias it is
  allowed even in a workspace whose safe mode blocks it under its own name.\<close>

theorem alias_escapes_gate:
  "ad_decision (evaluate_action_policy e (q\<lparr>rq_capability := CapabilityText ''browser_automation.interactive''\<rparr>)) \<noteq> DECISION_ALLOW \<and>
   ad_decision (evaluate_action_policy demo_gate (demo_action ''browser_automation.interactive'')) = DECISION_BLOCK \<and>
   ad_decision (evaluate_action_policy demo_gate (demo_action ''browser.interactive'')) = DECISION_ALLOW \<and>
   canonical_capability_id (PStr ''browser.interactive'') = ''browser_automation.interactive''"
proof (intro conjI)
  have "normalize_capability (CapabilityText ''browser_automation.interactive'') = ''browser_automation.interactive''" by code_simp
  then show "ad_decision (evaluate_action_policy e (q\<lparr>rq_capability := CapabilityText ''browser_automation.interactive''\<rparr>)) \<noteq> DECISION_ALLOW"
    by (simp add: gate_verdict action_risky_def Let_def INTERACTIVE_WRITE_CAPABILITIES_def)
  show "ad_decision (evaluate_action_policy demo_gate (demo_action ''browser_automation.interactive'')) = DECISION_BLOCK"
    by (simp add: gate_verdict chat_stopped)
  show "ad_decision (evaluate_action_policy demo_gate (demo_action ''browser.interactive'')) = DECISION_ALLOW"
    by (simp add: gate_verdict chat_not_stopped chat_not_risky)
  show "canonical_capability_id (PStr ''browser.interactive'') = ''browser_automation.interactive''" by code_simp
qed

end
