(* ===== verification/Spec2Isabelle.thy ===== *)
theory Spec2Isabelle
  imports Authority Capability_Registry Access_Policy Resilience Lane_Queue Kernel_Client Quota
    Channel_Leases Recovery_Properties Compaction Credential_Lock_Race
    Broker_Properties Governance_Gate
begin

text \<open>
  A verification library for the Python backend of Empyralis (\<^verbatim>\<open>server_modules/\<close>), a service that runs
  AI agents for workspaces: it queues their work, hands runs to machines that customers
  enrol, rations their requests, and puts gates between an agent and the outside world.
  The definitions translate the code; the theorems say what it guarantees.

  The parts and how they interact.

  A turn of an agent arrives over a channel. \<^verbatim>\<open>channel_concurrency_service\<close> admits it (a lease per
  thread, limits per agent and workspace, a rate), with limits from the workspace's metadata and refusals
  rendered by \<^verbatim>\<open>quota_policy_service\<close>. Its calls are rationed by \<^verbatim>\<open>request_window_quota_adapter\<close>, over memory or
  over \<^verbatim>\<open>durable_quota_store\<close>. Work is started through \<^verbatim>\<open>runtime_lane_queue\<close>, four lanes with a dispatcher and worker
  threads, checkpointed into the table of \<^verbatim>\<open>runtime_state_store\<close>. Runs meant for a customer's machine wait in the
  pending list (\<^verbatim>\<open>outbox_service.enqueue_local_companion_run\<close>) until a worker claims them under a lease
  (\<^verbatim>\<open>machine_lease_service\<close>); claims of silent workers are cleaned up and their runs recovered. Which tools a
  turn may call is decided by its mandate (\<^verbatim>\<open>authority_mandate_service\<close>), which capability a step needs by
  \<^verbatim>\<open>capability_registry\<close>, which hardware actions need approval by \<^verbatim>\<open>hardware_access_policy_service\<close> under the access modes of
  \<^verbatim>\<open>execution_mode_policy\<close>. Outbound HTTP requests pass \<^verbatim>\<open>egress_policy\<close>, downstream services are called through
  \<^verbatim>\<open>downstream_resilience_service\<close>, everything can be stopped by \<^verbatim>\<open>kill_switch_gate\<close>, which asks
  \<^verbatim>\<open>safe_mode_service\<close>, the owner of scoped kill switches, safe modes and incident controls, kept in memory and in a table of
  \<^verbatim>\<open>control_plane_repository\<close>. Skills and connector actions pass \<^verbatim>\<open>tool_broker\<close>, which issues and verifies signed capability tokens and
  rations calls with \<^verbatim>\<open>tool_broker_guard_service\<close>. \<^verbatim>\<open>unified_governance_gate\<close> puts the three checks on an action together. Long conversations are compacted by
  \<^verbatim>\<open>compaction_service\<close>. State-changing decisions go through \<^verbatim>\<open>rust_runtime_kernel_client\<close> to the runtime kernel, a Rust
  program whose lease, queue and safe-mode decisions are modelled too.

  Theories, in the order of the imports.

  \<open>Py_Prelude\<close>: Python values (\<open>pyval\<close>), strings, \<^verbatim>\<open>str\<close>/\<^verbatim>\<open>int\<close>/\<^verbatim>\<open>bool\<close> coercions, dictionaries as
  insertion-ordered association lists, results as sums (\<open>rbind\<close>), the simp collections \<open>str_simps\<close>, \<open>dict_simps\<close> and
  \<open>res_simps\<close>, traces of step relations (\<open>trace\<close>, \<open>trace_invariant\<close>) and the locales \<open>token_normalizer\<close> and
  \<open>invariant_system\<close>.

  \<open>Authority\<close> (\<^verbatim>\<open>authority_mandate_service.py\<close>, \<^verbatim>\<open>mention_gating_service.py\<close>): tiers, owner-only tools, inheritance of mandates, the mention
  gate. Shown: a tool call is refused exactly when it is owner-only and the tier is neither owner nor system.

  \<open>Capability_Registry\<close> (\<^verbatim>\<open>capability_registry.py\<close>): the table of capability contracts, its aliases and the resolution of
  workflow nodes. Shown: every node resolves to a contract filed under its canonical id.

  \<open>Access_Policy\<close> (\<^verbatim>\<open>execution_mode_policy.py\<close>, \<^verbatim>\<open>hardware_access_policy_service.py\<close>): access modes, contracts per target, approval of
  hardware actions. Shown: when a shell action needs approval, and a spelling of a recursive delete that escapes.

  \<open>Resilience\<close> (\<^verbatim>\<open>downstream_resilience_service.py\<close>): retries with backoff and the circuit breaker per service; the clock readings and
  the outcomes of the calls are inputs. Shown: the contract of a call, the breaker's threshold, that an open
  circuit calls nothing, that every sleep is bounded.

  \<open>Lane_Queue\<close> (\<^verbatim>\<open>runtime_lane_queue.py\<close>): the state of the queue as a record over a heap of items, one operation per method, the
  dispatcher and the worker threads as the step relation \<open>lane_step\<close>, shutdown, checkpoint and restore. Shown: the
  queue refines a contract of FIFO lanes, starts at most three items of other lanes before a ready one,
  never exceeds its concurrency, and recovers its lanes after a restart.

  \<open>Kernel_Client\<close> (\<^verbatim>\<open>rust_runtime_kernel_client.py\<close>): the tables of commands, the subprocess call with every way to fail, the
  normalisation of answers. Shown: the gate fails closed, and every answer is well typed.

  \<open>Kill_Switch\<close> (\<^verbatim>\<open>kill_switch_gate.py\<close>): the switches, their file, the changes gated by the kernel, the evaluation for a
  subject. Shown: the formula of the gate, that switches survive a restart, what a failed write does.

  \<open>Quota\<close> (\<^verbatim>\<open>request_window_quota_adapter.py\<close>, \<^verbatim>\<open>durable_quota_store.py\<close>, \<^verbatim>\<open>quota_policy_service.py\<close>): sliding and fixed windows and the decisions built
  on them. Shown: the in-memory window is an exact sliding window, the durable one is not.

  \<open>Channel_Leases\<close> (\<^verbatim>\<open>channel_concurrency_service.py\<close>): the tables, the acquire transaction, the release. Shown: a granted lease
  respects every limit, no thread has two leases, refusals state a true reason.

  \<open>Rust_Kernel\<close> (\<^verbatim>\<open>empyralis-runtime-kernel/src/lease.rs\<close>, \<^verbatim>\<open>queue.rs\<close>): the decisions on leases and queue transitions, with 64-bit
  integers as they are read from JSON. Shown: the retry budget and its delays.

  \<open>Machine_Session\<close>, \<open>Machine_Lease\<close>, \<open>Lease_Recovery\<close>, \<open>Recovery_Properties\<close> (\<^verbatim>\<open>machine_lease_service.py\<close>): enrollment scopes, machine records,
  sessions; claiming, binding and releasing runs; the clean-up after lost workers. The shared state is the record
  \<open>lease_world\<close> (pending list, claims, worker registry, runs); callbacks are fields of \<open>claim_env\<close> and \<open>recovery_env\<close>; writes to the
  database and log lines are values of \<open>effect\<close>. The kernel is a parameter of type \<open>kernel\<close>; the locale \<open>machine_gate\<close>
  states what the service relies on and is interpreted by the client with the modelled kernel behind it. Shown: a claimed run
  suits its worker, fairness of the choice, the capacity of a worker and how a machine id defeats
  it, sessions bound to their scope, exactly stale claims are released, no run is both pending and claimed, and a run
  is retried a bounded number of times.

  \<open>Compaction\<close> (\<^verbatim>\<open>compaction_service.py\<close> with its callers in \<^verbatim>\<open>direct_chat_generation_service.py\<close>): token estimates, thresholds, cut points,
  the summarising loop (a terminating \<open>function\<close>: each call drops a turn). Shown: the loop ends after
  at most one call per turn, the cut point is the reference one, the threshold scales with the window, compaction
  is all or nothing, summaries are carried forward on threads of fewer than 200 turns.

  \<open>Egress\<close> (\<^verbatim>\<open>egress_policy.py\<close>, \<^verbatim>\<open>url_security.py\<close>): building, nesting and enforcing outbound policies. Shown: the exact condition
  under which a request goes through a nest of policies, with an audit event for every decision, and the hosts
  the default policy allows.

  \<open>Control_Plane\<close> (\<^verbatim>\<open>control_plane_repository.py\<close>): the kernel gates in front of control-plane writes, the guard on scope tokens, the
  tables of security controls with their statements and constraints.

  \<open>Safe_Mode\<close> (\<^verbatim>\<open>safe_mode_service.py\<close>, \<^verbatim>\<open>empyralis-runtime-kernel/src/safe_mode.rs\<close>): the module's dictionaries (\<open>safe_globals\<close>), the cache of
  two seconds, setting and persisting controls, the resolvers for capabilities, machines, agents, channels and
  connectors, and the kernel's decision on a capability. \<open>Safe_Mode_Capability\<close> shows that the kernel's list of unsafe
  capabilities covers the service's, that no failure of the kernel re-enables a stopped capability, and the exact
  condition for a capability to be disabled. \<open>Safe_Mode_Switches\<close> shows that a kill switch takes effect at once, that
  a durable one survives a restart, that workspaces are isolated from each other, and two defects: safe modes are never
  stored, and the switch of an agent with capital letters in its identifier is lost at a restart.
  \<open>Emergency_Stop\<close> composes the service with the gate of \<open>Kill_Switch\<close>: a switch that is set reaches the gate.

  \<open>Secret_Redaction\<close> (\<^verbatim>\<open>secret_redaction_service.py\<close>): sensitive keys, the cleaning of nested values and the final check of a value;
  the regular expressions of \<^verbatim>\<open>redact_text\<close> are an argument. Shown: what a cleaned value can still hold, which values the
  check accepts, and that it raises the wrong exception on a structured value under a sensitive key.

  \<open>Governance_Gate\<close> (\<^verbatim>\<open>unified_governance_gate.py\<close>): the decision on an action, composed of \<open>Kill_Switch\<close>, \<open>Safe_Mode\<close> and
  \<open>Capability_Registry\<close>, with its audit payload cleaned by \<open>Secret_Redaction\<close>. Shown: the exact verdict for every action, and that
  an alias of a capability escapes the checks made under its own name.

  \<open>Broker_Guard\<close> (\<^verbatim>\<open>tool_broker_guard_service.py\<close>): the deque of recent calls, the limits of a session, the denial and its side effects
  on \<open>Safe_Mode\<close>. Shown: the guard decides as a log of all calls would, and its breaker pauses the connector.

  \<open>Token_Codec\<close>, \<open>Tool_Broker\<close>, \<open>Broker_Properties\<close> (\<^verbatim>\<open>tool_broker.py\<close>, parts of \<^verbatim>\<open>skill_registry.py\<close>, \<^verbatim>\<open>agent_manifest.py\<close> and \<^verbatim>\<open>fleet_tools.py\<close>): UTF-8,
  URL-safe Base64 and compact JSON; issuing and verifying capability tokens; the checks on a skill or a connector action over the state
  \<open>guard_world\<close> of the guard and the safe-mode service, sequenced by \<open>run_check\<close>; the run of a skill under the policy of \<open>Egress\<close>.
  Shown: the round trip of tokens, what has to hold when a skill runs, that a kill switch stops brokered calls,
  that the per-agent tool policy is never enforced (the coroutine is not awaited), and that a master token passes the connector controls.

  \<open>Credential_Lock\<close>, \<open>Credential_Lock_Race\<close> (\<^verbatim>\<open>gateway_credential_lock.py\<close>, \<^verbatim>\<open>state_paths.empyralis_state_home\<close>): the lock file that keeps two
  processes of a host from using one bot credential, on a file system of names and inodes (\<open>lock_disk\<close>); the process
  table and the outcome of every system call are fields of \<open>lock_host\<close> and \<open>lock_io\<close>. The calls are functions, and again
  sequences of file accesses (\<open>acquire_step\<close>) that several processes interleave (\<open>sys_step\<close>). Shown: when a call is granted,
  that calls one at a time exclude each other through crashes and reused process ids, that the
  accesses run alone are the call, that interleaved they let two processes hold a fresh credential, and that only
  the unlinking of files taken for stale does so. A read of an open file that was just unlinked is taken as a read of the absent file.

  Bounds and conventions. No model uses fuel: every loop of the code is structural recursion or has a
  termination proof. Clock readings and delays are exact rationals where the code uses floats. Strings are lists
  of code points below 256. Code that is not in the repository (the file system, subprocesses, name resolution,
  language models, hash functions) is an argument of the definitions that use it, and what a theorem assumes of it
  is a hypothesis with a witness.

  Not modelled: HTTP routes and rendering, authentication (password hashing, token signing), SQL
  repositories beyond the statements that carry a limit, a lease or a security control, prompt assembly and streaming, provisioning of
  cloud machines, connectors to third-party services, billing reports, the gateway, web, desktop and mobile clients.
  They are input/output around the logic above, or programs of their own. Of the modelled files, log lines and
  metrics are left out. The bounded scheduler and the run lifecycle are the parts of the
  backend with logic of their own that a later extension would take next.
\<close>

end
